(* ===== verification/PL_Prelude.thy ===== *)
theory PL_Prelude
  imports Main "HOL-Library.Word"
begin

section \<open>Prelude: machine types, results, byte buffers\<close>

text \<open>
  What every component shares: the widths of the Rust integers, the error type of the stack
  (\<^verbatim>\<open>hal.rs\<close>), fallible results as sums, little- and big-endian conversions, and the two
  operations by which the source touches a byte buffer.

  \<^item> \<open>sub_slice a b buf\<close> is \<^verbatim>\<open>&buf[a..b]\<close>; the source indexes only after a length check, and
    \<open>usize\<close> values are natural numbers here (a length never comes near \<open>2 ^ 64\<close>).
  \<^item> \<open>put off xs buf\<close> is \<^verbatim>\<open>buf[off..off + xs.len()].copy_from_slice(xs)\<close>. The Rust code
    panics when the range leaves the buffer; \<open>put\<close> would then make the buffer longer.
    So a lemma that a serializer keeps the length of its buffer says that no write of it
    is out of range.
\<close>

unbundle bit_operations_syntax

named_theorems buf_simps \<open>reading and slicing a buffer that has been written to\<close>
named_theorems le_simps \<open>little-endian conversions\<close>

type_synonym u8 = "8 word"
type_synonym u16 = "16 word"
type_synonym u32 = "32 word"
type_synonym u64 = "64 word"
type_synonym bytes = "8 word list"

subsection \<open>Errors and results\<close>

text \<open>The error type of the stack, \<^verbatim>\<open>PowerlinkError\<close> of \<^verbatim>\<open>hal.rs\<close>.\<close>

datatype PowerlinkError =
    BufferTooShort
  | IoError
  | InvalidEthernetFrame
  | InvalidPlFrame
  | InvalidMessageType u8
  | InvalidNmtState u8
  | InvalidServiceId u8
  | InvalidRequestedServiceId u8
  | InvalidNodeId u8
  | InvalidPayloadSize u16
  | InvalidEnumValue
  | SliceConversion
  | FrameTooLarge
  | NotReady
  | ObjectNotFound
  | SubObjectNotFound
  | TypeMismatch
  | StorageError string
  | ValidationError string
  | SdoSequenceError string
  | SdoAborted u32
  | SdoInvalidCommandPayload
  | PdoMapOverrun
  | InternalError string

type_synonym 'a result = "PowerlinkError + 'a"

text \<open>The \<^verbatim>\<open>?\<close> operator: the first error ends the computation.\<close>

definition rbind :: "'e + 'a \<Rightarrow> ('a \<Rightarrow> 'e + 'b) \<Rightarrow> 'e + 'b" where
  "rbind r k = (case r of Inl e \<Rightarrow> Inl e | Inr x \<Rightarrow> k x)"

lemma rbind_simps [simp]:
  "rbind (Inl e) k = Inl e"
  "rbind (Inr x) k = k x"
  by (simp_all add: rbind_def)

lemma rbind_eq_Inr: "rbind r k = Inr y \<longleftrightarrow> (\<exists>x. r = Inr x \<and> k x = Inr y)"
  by (cases r) simp_all

lemma rbind_split:
  "P (rbind r k) \<longleftrightarrow> (\<forall>e. r = Inl e \<longrightarrow> P (Inl e)) \<and> (\<forall>x. r = Inr x \<longrightarrow> P (k x))"
  by (cases r) simp_all

text \<open>\<^verbatim>\<open>Option::ok_or\<close>.\<close>

definition ok_or :: "'a option \<Rightarrow> 'e \<Rightarrow> 'e + 'a" where
  "ok_or x e = (case x of None \<Rightarrow> Inl e | Some y \<Rightarrow> Inr y)"

lemma ok_or_simps [simp]:
  "ok_or None e = Inl e"
  "ok_or (Some y) e = Inr y"
  by (simp_all add: ok_or_def)

text \<open>\<^verbatim>\<open>Option::unwrap_or\<close>.\<close>

definition unwrap_or :: "'a option \<Rightarrow> 'a \<Rightarrow> 'a" where
  "unwrap_or x d = (case x of None \<Rightarrow> d | Some y \<Rightarrow> y)"

lemma unwrap_or_simps [simp]:
  "unwrap_or None d = d"
  "unwrap_or (Some y) d = y"
  by (simp_all add: unwrap_or_def)

subsection \<open>Saturating and narrowing arithmetic\<close>

definition sat_add :: "'a::len word \<Rightarrow> 'a word \<Rightarrow> 'a word" where
  "sat_add a b = (if unat a + unat b < 2 ^ LENGTH('a) then a + b else - 1)"

definition sat_sub :: "'a::len word \<Rightarrow> 'a word \<Rightarrow> 'a word" where
  "sat_sub a b = (if a < b then 0 else a - b)"

lemma unat_lt_2p: "unat (w :: 'a::len word) < 2 ^ LENGTH('a)"
  by (rule unsigned_less)

lemma unat_ucast_up:
  fixes w :: "'a::len word"
  assumes "LENGTH('a) \<le> LENGTH('b)"
  shows "unat (ucast w :: 'b::len word) = unat w"
proof -
  have "unat w < 2 ^ LENGTH('b)"
    using unat_lt_2p [of w] assms by (meson less_le_trans one_le_numeral power_increasing)
  then show ?thesis by (simp add: unsigned_ucast_eq take_bit_nat_eq_self)
qed

lemma unat_sat_add:
  fixes a b :: "'a::len word"
  shows "unat (sat_add a b) = min (unat a + unat b) (2 ^ LENGTH('a) - 1)"
proof (cases "unat a + unat b < 2 ^ LENGTH('a)")
  case True
  then show ?thesis by (simp add: sat_add_def unat_word_ariths)
next
  case False
  then show ?thesis by (simp add: sat_add_def unsigned_minus_1_eq_mask mask_eq_exp_minus_1)
qed

lemma unat_sat_sub: "unat (sat_sub a b) = unat a - unat b"
  by (auto simp: sat_sub_def word_less_nat_alt unat_sub_if_size word_size)

subsection \<open>Little-endian and big-endian bytes\<close>

text \<open>\<open>to_le n w\<close> is \<^verbatim>\<open>to_le_bytes\<close> of a word of \<open>8 * n\<close> bits.\<close>

fun to_le :: "nat \<Rightarrow> 'a::len word \<Rightarrow> bytes" where
  "to_le 0 w = []"
| "to_le (Suc n) w = ucast w # to_le n (drop_bit 8 w)"

fun from_le :: "bytes \<Rightarrow> 'a::len word" where
  "from_le [] = 0"
| "from_le (b # bs) = ucast b OR push_bit 8 (from_le bs)"

abbreviation le16 :: "u16 \<Rightarrow> bytes" where "le16 \<equiv> to_le 2"
abbreviation le32 :: "u32 \<Rightarrow> bytes" where "le32 \<equiv> to_le 4"
abbreviation le64 :: "u64 \<Rightarrow> bytes" where "le64 \<equiv> to_le 8"

definition be16 :: "u16 \<Rightarrow> bytes" where
  "be16 w = rev (le16 w)"

definition from_be16 :: "bytes \<Rightarrow> u16" where
  "from_be16 bs = from_le (rev bs)"

lemma length_to_le [simp]: "length (to_le n w) = n"
  by (induction n w rule: to_le.induct) simp_all

lemma bit_from_le_to_le:
  fixes w :: "'a::len word"
  shows "bit (from_le (to_le n w) :: 'a word) i \<longleftrightarrow> i < 8 * n \<and> bit w i"
proof (induction n w arbitrary: i rule: to_le.induct)
  case (1 w)
  then show ?case by simp
next
  case (2 n w)
  show ?case
    by (auto simp: bit_or_iff bit_push_bit_iff bit_ucast_iff 2 bit_drop_bit_eq
        dest: bit_imp_le_length)
qed

lemma from_le_to_le [simp, le_simps]:
  fixes w :: "'a::len word"
  assumes "LENGTH('a) \<le> 8 * n"
  shows "from_le (to_le n w) = w"
proof (rule bit_word_eqI)
  fix i assume "i < LENGTH('a)"
  with assms show "bit (from_le (to_le n w) :: 'a word) i \<longleftrightarrow> bit w i"
    by (simp add: bit_from_le_to_le)
qed

lemma drop_bit_from_le_Cons:
  fixes b :: u8
  assumes "8 \<le> LENGTH('a)" "8 * length bs + 8 \<le> LENGTH('a)"
  shows "drop_bit 8 (from_le (b # bs) :: 'a::len word) = from_le bs"
    and "ucast (from_le (b # bs) :: 'a::len word) = b"
proof -
  have small: "bit (from_le bs :: 'a word) i \<Longrightarrow> i < 8 * length bs" for i
  proof (induction bs arbitrary: i)
    case Nil
    then show ?case by simp
  next
    case (Cons c cs)
    then consider "bit c i" | "8 \<le> i" "bit (from_le cs :: 'a word) (i - 8)"
      by (auto simp: bit_or_iff bit_push_bit_iff bit_ucast_iff)
    then show ?case
      by cases (auto dest: Cons.IH bit_imp_le_length)
  qed
  show "drop_bit 8 (from_le (b # bs) :: 'a word) = from_le bs"
    using assms
    by (intro bit_word_eqI)
      (auto simp: bit_drop_bit_eq bit_or_iff bit_push_bit_iff bit_ucast_iff
        dest: small bit_imp_le_length)
  show "ucast (from_le (b # bs) :: 'a word) = b"
    using assms
    by (intro bit_word_eqI)
      (auto simp: bit_or_iff bit_push_bit_iff bit_ucast_iff)
qed

lemma to_le_from_le [le_simps]:
  assumes "8 * length bs = LENGTH('a)"
  shows "to_le (length bs) (from_le bs :: 'a::len word) = bs"
proof -
  have "8 * length bs \<le> LENGTH('a) \<Longrightarrow> to_le (length bs) (from_le bs :: 'a word) = bs" for bs
    by (induction bs) (simp_all add: drop_bit_from_le_Cons del: from_le.simps(2))
  with assms show ?thesis by simp
qed

lemma length_be16 [simp]: "length (be16 w) = 2"
  by (simp add: be16_def)

lemma from_be16_be16 [simp]: "from_be16 (be16 w) = w"
  by (simp add: from_be16_def be16_def)

subsection \<open>Buffers\<close>

definition sub_slice :: "nat \<Rightarrow> nat \<Rightarrow> 'a list \<Rightarrow> 'a list" where
  "sub_slice a b xs = take (b - a) (drop a xs)"

definition put :: "nat \<Rightarrow> 'a list \<Rightarrow> 'a list \<Rightarrow> 'a list" where
  "put off xs buf = take off buf @ xs @ drop (off + length xs) buf"

lemma length_slice: "length (sub_slice a b xs) = min b (length xs) - a"
  by (simp add: sub_slice_def)

lemma length_slice_in [simp]: "b \<le> length xs \<Longrightarrow> length (sub_slice a b xs) = b - a"
  by (simp add: length_slice)

lemma length_put [simp]: "off + length xs \<le> length buf \<Longrightarrow> length (put off xs buf) = length buf"
  by (simp add: put_def)

lemma nth_put_out [simp, buf_simps]:
  assumes "off + length xs \<le> length buf" "i < off \<or> off + length xs \<le> i"
  shows "put off xs buf ! i = buf ! i"
  using assms by (auto simp: put_def nth_append)

lemma nth_put_in [simp, buf_simps]:
  assumes "off + length xs \<le> length buf" "off \<le> i" "i < off + length xs"
  shows "put off xs buf ! i = xs ! (i - off)"
  using assms by (auto simp: put_def nth_append)

lemma slice_eqI:
  assumes "b \<le> length xs" "b \<le> length ys" "\<And>i. a \<le> i \<Longrightarrow> i < b \<Longrightarrow> xs ! i = ys ! i"
  shows "sub_slice a b xs = sub_slice a b ys"
  by (rule nth_equalityI) (use assms in \<open>auto simp: sub_slice_def\<close>)

lemma slice_put_out [simp, buf_simps]:
  assumes "off + length xs \<le> length buf" "b \<le> length buf" "b \<le> off \<or> off + length xs \<le> a"
  shows "sub_slice a b (put off xs buf) = sub_slice a b buf"
  using assms by (intro slice_eqI) auto

lemma slice_put_in [simp, buf_simps]:
  assumes "off + length xs \<le> length buf" "a = off" "b = off + length xs"
  shows "sub_slice a b (put off xs buf) = xs"
  using assms by (simp add: sub_slice_def put_def)

lemma slice_upd_out [simp, buf_simps]:
  assumes "i < a \<or> b \<le> i"
  shows "sub_slice a b (buf[i := v]) = sub_slice a b buf"
  using assms by (auto simp: sub_slice_def list_eq_iff_nth_eq nth_list_update)

lemma slice_append_in:
  "length xs = b \<Longrightarrow> sub_slice 0 b (xs @ ys) = xs"
  by (simp add: sub_slice_def)

lemma take_put_end: "off + length xs \<le> length buf \<Longrightarrow>
    take (off + length xs) (put off xs buf) = take off buf @ xs"
  by (simp add: put_def)

text \<open>Zero padding, \<^verbatim>\<open>buf[a..b].fill(0)\<close>.\<close>

definition fill0 :: "nat \<Rightarrow> nat \<Rightarrow> bytes \<Rightarrow> bytes" where
  "fill0 a b buf = put a (replicate (b - a) 0) buf"

lemma length_fill0 [simp]: "a \<le> b \<Longrightarrow> b \<le> length buf \<Longrightarrow> length (fill0 a b buf) = length buf"
  by (simp add: fill0_def)

lemma nth_fill0_out [simp, buf_simps]:
  "a \<le> b \<Longrightarrow> b \<le> length buf \<Longrightarrow> i < a \<or> b \<le> i \<Longrightarrow> fill0 a b buf ! i = buf ! i"
  by (simp add: fill0_def)

lemma nth_fill0_in [simp, buf_simps]:
  "a \<le> b \<Longrightarrow> b \<le> length buf \<Longrightarrow> a \<le> i \<Longrightarrow> i < b \<Longrightarrow> fill0 a b buf ! i = 0"
  by (simp add: fill0_def)

lemma slice_fill0_out [simp, buf_simps]:
  "a \<le> b \<Longrightarrow> b \<le> length buf \<Longrightarrow> d \<le> length buf \<Longrightarrow> d \<le> a \<or> b \<le> c \<Longrightarrow>
    sub_slice c d (fill0 a b buf) = sub_slice c d buf"
  by (simp add: fill0_def)

text \<open>Reading a prefix only depends on the prefix.\<close>

lemma slice_take [simp, buf_simps]: "b \<le> n \<Longrightarrow> sub_slice a b (take n xs) = sub_slice a b xs"
  by (simp add: sub_slice_def drop_take min_def)

lemma slice_drop [buf_simps]: "sub_slice a b (drop n xs) = sub_slice (a + n) (b + n) xs"
  by (simp add: sub_slice_def add.commute)

end
