(* ===== verification/PL_Types.thy ===== *)
theory PL_Types
  imports PL_Prelude
begin

section \<open>Basic protocol types\<close>

text \<open>
  \<^verbatim>\<open>types.rs\<close>, \<^verbatim>\<open>common.rs\<close> and \<^verbatim>\<open>frame/basic.rs\<close>: node and MAC addresses, the constants
  of the protocol, the message types, the time structures and the Ethernet header. The
  newtypes \<^verbatim>\<open>NodeId(u8)\<close>, \<^verbatim>\<open>EPLVersion(u8)\<close> and \<^verbatim>\<open>MacAddress([u8; 6])\<close> are type synonyms
  here; that a MAC address has six bytes is \<open>wf_mac\<close>.

  The locale \<open>u8_enum\<close> is the contract of every C-like enum of the crate that is cast to a
  byte (\<^verbatim>\<open>as u8\<close>) and parsed back (\<^verbatim>\<open>TryFrom<u8>\<close>). Each enum interprets it.
\<close>

subsection \<open>Enums over bytes\<close>

locale u8_enum =
  fixes disc :: "'a \<Rightarrow> u8"
    and try_from :: "u8 \<Rightarrow> 'e + 'a"
  assumes try_from_disc: "try_from (disc x) = Inr x"
    and disc_try_from: "try_from v = Inr x \<Longrightarrow> disc x = v"
begin

lemma try_from_iff: "try_from v = Inr x \<longleftrightarrow> v = disc x"
  using try_from_disc disc_try_from by blast

lemma disc_inj: "disc x = disc y \<longleftrightarrow> x = y"
  using try_from_disc by (metis Inr_inject)

lemma try_from_err_iff: "(\<exists>e. try_from v = Inl e) \<longleftrightarrow> (\<forall>x. disc x \<noteq> v)"
  using try_from_iff by (cases "try_from v") (metis Inl_Inr_False, metis Inl_Inr_False)

end

subsection \<open>Node identifiers\<close>

type_synonym NodeId = u8
type_synonym EPLVersion = u8
type_synonym IpAddress = bytes

definition C_DLL_ETHERTYPE_EPL :: u16 where "C_DLL_ETHERTYPE_EPL = 0x88AB"
definition C_DLL_ISOCHR_MAX_PAYL :: u16 where "C_DLL_ISOCHR_MAX_PAYL = 1490"
definition C_DLL_MAX_ASYNC_MTU :: nat where "C_DLL_MAX_ASYNC_MTU = 1500"
definition C_ADR_MN_DEF_NODE_ID :: u8 where "C_ADR_MN_DEF_NODE_ID = 240"
definition C_ADR_MAX_CN_NODE_ID :: u8 where "C_ADR_MAX_CN_NODE_ID = 239"
definition C_ADR_DIAG_DEF_NODE_ID :: u8 where "C_ADR_DIAG_DEF_NODE_ID = 253"
definition C_ADR_RT1_DEF_NODE_ID :: u8 where "C_ADR_RT1_DEF_NODE_ID = 254"
definition C_ADR_BROADCAST_NODE_ID :: u8 where "C_ADR_BROADCAST_NODE_ID = 255"

lemmas adr_defs = C_ADR_MN_DEF_NODE_ID_def C_ADR_MAX_CN_NODE_ID_def C_ADR_DIAG_DEF_NODE_ID_def
  C_ADR_RT1_DEF_NODE_ID_def C_ADR_BROADCAST_NODE_ID_def

datatype NodeIdError = InvalidRange u8

definition NodeId_try_from :: "u8 \<Rightarrow> NodeIdError + NodeId" where
  "NodeId_try_from value =
     (if 1 \<le> value \<and> value \<le> C_ADR_MN_DEF_NODE_ID then Inr value
      else if value = C_ADR_DIAG_DEF_NODE_ID \<or> value = C_ADR_RT1_DEF_NODE_ID
              \<or> value = C_ADR_BROADCAST_NODE_ID then Inr value
      else Inl (InvalidRange value))"

text \<open>\<^verbatim>\<open>impl From<NodeIdError> for PowerlinkError\<close> in \<^verbatim>\<open>hal.rs\<close>, and its use by the \<^verbatim>\<open>?\<close> operator on
  \<^verbatim>\<open>NodeId::try_from(b)\<close>.\<close>

fun from_NodeIdError :: "NodeIdError \<Rightarrow> PowerlinkError" where
  "from_NodeIdError (InvalidRange val) = InvalidNodeId val"

definition node_id_of :: "u8 \<Rightarrow> NodeId result" where
  "node_id_of b = map_sum from_NodeIdError id (NodeId_try_from b)"

definition valid_node_id :: "u8 \<Rightarrow> bool" where
  "valid_node_id n \<longleftrightarrow> (1 \<le> unat n \<and> unat n \<le> 240) \<or> unat n \<in> {253, 254, 255}"

lemma node_id_of_cases:
  "node_id_of b = (if valid_node_id b then Inr b else Inl (InvalidNodeId b))"
proof -
  have "1 \<le> b \<longleftrightarrow> 1 \<le> unat b" "b \<le> 240 \<longleftrightarrow> unat b \<le> 240"
    "b = 253 \<longleftrightarrow> unat b = 253" "b = 254 \<longleftrightarrow> unat b = 254" "b = 255 \<longleftrightarrow> unat b = 255"
    by (simp_all add: word_le_nat_alt word_unat_eq_iff)
  then show ?thesis
    unfolding node_id_of_def NodeId_try_from_def adr_defs valid_node_id_def by auto
qed

lemma node_id_of_valid [simp]: "valid_node_id b \<Longrightarrow> node_id_of b = Inr b"
  by (simp add: node_id_of_cases)

lemma node_id_of_Inr: "node_id_of b = Inr n \<longleftrightarrow> valid_node_id b \<and> n = b"
  by (auto simp: node_id_of_cases)

subsection \<open>Message types\<close>

datatype MessageType = SoC | PReq | PRes | SoA | ASnd

datatype InvalidMessageTypeError = InvalidMessageTypeError

primrec MessageType_u8 :: "MessageType \<Rightarrow> u8" where
  "MessageType_u8 SoC = 0x01"
| "MessageType_u8 PReq = 0x03"
| "MessageType_u8 PRes = 0x04"
| "MessageType_u8 SoA = 0x05"
| "MessageType_u8 ASnd = 0x06"

definition MessageType_try_from :: "u8 \<Rightarrow> InvalidMessageTypeError + MessageType" where
  "MessageType_try_from value =
     (if value = 0x01 then Inr SoC
      else if value = 0x03 then Inr PReq
      else if value = 0x04 then Inr PRes
      else if value = 0x05 then Inr SoA
      else if value = 0x06 then Inr ASnd
      else Inl InvalidMessageTypeError)"

interpretation msg: u8_enum MessageType_u8 MessageType_try_from
proof
  show "MessageType_try_from (MessageType_u8 x) = Inr x" for x
    by (cases x) (simp_all add: MessageType_try_from_def)
  show "MessageType_try_from v = Inr x \<Longrightarrow> MessageType_u8 x = v" for v x
    by (auto simp: MessageType_try_from_def split: if_splits)
qed

lemma MessageType_u8_lt: "MessageType_u8 m < 0x80"
  by (cases m) simp_all

subsection \<open>Times\<close>

record NetTime =
  nt_seconds :: u32
  nt_nanoseconds :: u32

record RelativeTime =
  rt_seconds :: u32
  rt_nanoseconds :: u32

record TimeOfDay =
  tod_ms :: u32
  tod_days :: u16

record TimeDifference =
  td_ms :: u32
  td_days :: u16

subsection \<open>MAC addresses and the Ethernet header\<close>

type_synonym MacAddress = bytes

definition MAC_ADDRESS_SIZE :: nat where "MAC_ADDRESS_SIZE = 6"
definition ETHERNET_HEADER_SIZE :: nat where "ETHERNET_HEADER_SIZE = 14"

definition wf_mac :: "MacAddress \<Rightarrow> bool" where
  "wf_mac m \<longleftrightarrow> length m = MAC_ADDRESS_SIZE"

definition C_DLL_MULTICAST_PRES :: MacAddress where
  "C_DLL_MULTICAST_PRES = [0x01, 0x11, 0x1E, 0x00, 0x00, 0x02]"
definition C_DLL_MULTICAST_SOA :: MacAddress where
  "C_DLL_MULTICAST_SOA = [0x01, 0x11, 0x1E, 0x00, 0x00, 0x03]"
definition C_DLL_MULTICAST_SOC :: MacAddress where
  "C_DLL_MULTICAST_SOC = [0x01, 0x11, 0x1E, 0x00, 0x00, 0x01]"
definition C_DLL_MULTICAST_ASND :: MacAddress where
  "C_DLL_MULTICAST_ASND = [0x01, 0x11, 0x1E, 0x00, 0x00, 0x04]"

definition is_multicast :: "MacAddress \<Rightarrow> bool" where
  "is_multicast m \<longleftrightarrow> (m ! 0) AND 0x01 \<noteq> 0"

definition is_broadcast :: "MacAddress \<Rightarrow> bool" where
  "is_broadcast m \<longleftrightarrow> m = replicate 6 0xFF"

record EthernetHeader =
  destination_mac :: MacAddress
  source_mac :: MacAddress
  ether_type :: u16

definition is_powerlink :: "EthernetHeader \<Rightarrow> bool" where
  "is_powerlink h \<longleftrightarrow> ether_type h = C_DLL_ETHERTYPE_EPL"

definition EthernetHeader_new :: "MacAddress \<Rightarrow> MacAddress \<Rightarrow> EthernetHeader" where
  "EthernetHeader_new dest src =
     \<lparr> destination_mac = dest, source_mac = src, ether_type = C_DLL_ETHERTYPE_EPL \<rparr>"

definition wf_eth :: "EthernetHeader \<Rightarrow> bool" where
  "wf_eth h \<longleftrightarrow> wf_mac (destination_mac h) \<and> wf_mac (source_mac h)"

lemma multicast_macs_wf [simp]:
  "wf_mac C_DLL_MULTICAST_PRES" "wf_mac C_DLL_MULTICAST_SOA"
  "wf_mac C_DLL_MULTICAST_SOC" "wf_mac C_DLL_MULTICAST_ASND"
  by (simp_all add: wf_mac_def MAC_ADDRESS_SIZE_def C_DLL_MULTICAST_PRES_def
      C_DLL_MULTICAST_SOA_def C_DLL_MULTICAST_SOC_def C_DLL_MULTICAST_ASND_def)

lemma is_powerlink_new [simp]: "is_powerlink (EthernetHeader_new d s)"
  by (simp add: is_powerlink_def EthernetHeader_new_def)

end
