(* ===== verification/Nmt_States.thy ===== *)
theory Nmt_States
  imports PL_Types
begin

section \<open>NMT states, events and feature flags\<close>

text \<open>
  \<^verbatim>\<open>nmt/states.rs\<close>, \<^verbatim>\<open>nmt/events.rs\<close> and \<^verbatim>\<open>nmt/flags.rs\<close>. An enum with explicit discriminants
  is a datatype with a function to the discriminant; the derived \<^verbatim>\<open>PartialOrd\<close> of \<^verbatim>\<open>NmtState\<close>
  compares discriminants and is the \<open>linorder\<close> instance below. Every enum that crosses the
  wire interprets \<open>u8_enum\<close>.
\<close>

datatype NodeType = ControlledNode | ManagingNode

datatype NmtState =
    NmtGsOff
  | NmtGsInitialising
  | NmtGsResetApplication
  | NmtGsResetCommunication
  | NmtGsResetConfiguration
  | NmtNotActive
  | NmtPreOperational1
  | NmtPreOperational2
  | NmtReadyToOperate
  | NmtOperational
  | NmtCsStopped
  | NmtBasicEthernet

primrec NmtState_u8 :: "NmtState \<Rightarrow> u8" where
  "NmtState_u8 NmtGsOff = 0x00"
| "NmtState_u8 NmtGsInitialising = 0x19"
| "NmtState_u8 NmtGsResetApplication = 0x29"
| "NmtState_u8 NmtGsResetCommunication = 0x39"
| "NmtState_u8 NmtGsResetConfiguration = 0x79"
| "NmtState_u8 NmtNotActive = 0x1C"
| "NmtState_u8 NmtPreOperational1 = 0x1D"
| "NmtState_u8 NmtPreOperational2 = 0x5D"
| "NmtState_u8 NmtReadyToOperate = 0x6D"
| "NmtState_u8 NmtOperational = 0xFD"
| "NmtState_u8 NmtCsStopped = 0x4D"
| "NmtState_u8 NmtBasicEthernet = 0x1E"

definition NmtState_try_from :: "u8 \<Rightarrow> NmtState result" where
  "NmtState_try_from value =
     (if value = 0x00 then Inr NmtGsOff
      else if value = 0x19 then Inr NmtGsInitialising
      else if value = 0x29 then Inr NmtGsResetApplication
      else if value = 0x39 then Inr NmtGsResetCommunication
      else if value = 0x79 then Inr NmtGsResetConfiguration
      else if value = 0x1C then Inr NmtNotActive
      else if value = 0x1D then Inr NmtPreOperational1
      else if value = 0x5D then Inr NmtPreOperational2
      else if value = 0x6D then Inr NmtReadyToOperate
      else if value = 0xFD then Inr NmtOperational
      else if value = 0x4D then Inr NmtCsStopped
      else if value = 0x1E then Inr NmtBasicEthernet
      else Inl (InvalidNmtState value))"

definition NmtState_from_u8_with_context :: "u8 \<Rightarrow> NodeType \<Rightarrow> NmtState result" where
  "NmtState_from_u8_with_context value node_type =
     (if value = 0x1C then Inr NmtNotActive
      else if value = 0x1D then Inr NmtPreOperational1
      else if value = 0x5D then Inr NmtPreOperational2
      else if value = 0x6D then Inr NmtReadyToOperate
      else if value = 0xFD then Inr NmtOperational
      else if value = 0x1E then Inr NmtBasicEthernet
      else NmtState_try_from value)"

interpretation nmt: u8_enum NmtState_u8 NmtState_try_from
proof
  show "NmtState_try_from (NmtState_u8 x) = Inr x" for x
    by (cases x) (simp_all add: NmtState_try_from_def)
  show "NmtState_try_from v = Inr x \<Longrightarrow> NmtState_u8 x = v" for v x
    by (auto simp: NmtState_try_from_def split: if_splits)
qed

declare nmt.try_from_disc [simp]

lemma from_u8_with_context_eq [simp]:
  "NmtState_from_u8_with_context v t = NmtState_try_from v"
  by (simp add: NmtState_from_u8_with_context_def NmtState_try_from_def)

instantiation NmtState :: linorder
begin

definition less_eq_NmtState :: "NmtState \<Rightarrow> NmtState \<Rightarrow> bool" where
  "less_eq_NmtState a b \<longleftrightarrow> NmtState_u8 a \<le> NmtState_u8 b"

definition less_NmtState :: "NmtState \<Rightarrow> NmtState \<Rightarrow> bool" where
  "less_NmtState a b \<longleftrightarrow> NmtState_u8 a < NmtState_u8 b"

instance
  by standard (auto simp: less_eq_NmtState_def less_NmtState_def nmt.disc_inj
      order.strict_iff_order)

end

lemmas nmt_order = less_eq_NmtState_def less_NmtState_def

subsection \<open>Commands and events\<close>

datatype NmtStateCommand =
    StartNode | StopNode | EnterPreOperational2 | EnableReadyToOperate
  | ResetNode | ResetCommunication | ResetConfiguration | SwReset

primrec NmtStateCommand_u8 :: "NmtStateCommand \<Rightarrow> u8" where
  "NmtStateCommand_u8 StartNode = 0x21"
| "NmtStateCommand_u8 StopNode = 0x22"
| "NmtStateCommand_u8 EnterPreOperational2 = 0x23"
| "NmtStateCommand_u8 EnableReadyToOperate = 0x24"
| "NmtStateCommand_u8 ResetNode = 0x28"
| "NmtStateCommand_u8 ResetCommunication = 0x29"
| "NmtStateCommand_u8 ResetConfiguration = 0x2A"
| "NmtStateCommand_u8 SwReset = 0x2B"

definition NmtStateCommand_try_from :: "u8 \<Rightarrow> NmtStateCommand result" where
  "NmtStateCommand_try_from value =
     (if value = 0x21 then Inr StartNode
      else if value = 0x22 then Inr StopNode
      else if value = 0x23 then Inr EnterPreOperational2
      else if value = 0x24 then Inr EnableReadyToOperate
      else if value = 0x28 then Inr ResetNode
      else if value = 0x29 then Inr ResetCommunication
      else if value = 0x2A then Inr ResetConfiguration
      else if value = 0x2B then Inr SwReset
      else Inl InvalidEnumValue)"

interpretation nmt_cmd: u8_enum NmtStateCommand_u8 NmtStateCommand_try_from
proof
  show "NmtStateCommand_try_from (NmtStateCommand_u8 x) = Inr x" for x
    by (cases x) (simp_all add: NmtStateCommand_try_from_def)
  show "NmtStateCommand_try_from v = Inr x \<Longrightarrow> NmtStateCommand_u8 x = v" for v x
    by (auto simp: NmtStateCommand_try_from_def split: if_splits)
qed

datatype NmtManagingCommand = NmtNetHostNameSet | NmtFlushArpEntry

primrec NmtManagingCommand_u8 :: "NmtManagingCommand \<Rightarrow> u8" where
  "NmtManagingCommand_u8 NmtNetHostNameSet = 0x62"
| "NmtManagingCommand_u8 NmtFlushArpEntry = 0x63"

definition NmtManagingCommand_try_from :: "u8 \<Rightarrow> NmtManagingCommand result" where
  "NmtManagingCommand_try_from value =
     (if value = 0x62 then Inr NmtNetHostNameSet
      else if value = 0x63 then Inr NmtFlushArpEntry
      else Inl InvalidEnumValue)"

interpretation nmt_mgmt: u8_enum NmtManagingCommand_u8 NmtManagingCommand_try_from
proof
  show "NmtManagingCommand_try_from (NmtManagingCommand_u8 x) = Inr x" for x
    by (cases x) (simp_all add: NmtManagingCommand_try_from_def)
  show "NmtManagingCommand_try_from v = Inr x \<Longrightarrow> NmtManagingCommand_u8 x = v" for v x
    by (auto simp: NmtManagingCommand_try_from_def split: if_splits)
qed

datatype NmtServiceRequest = IdentRequest | StatusRequest

primrec NmtServiceRequest_u8 :: "NmtServiceRequest \<Rightarrow> u8" where
  "NmtServiceRequest_u8 IdentRequest = 0x01"
| "NmtServiceRequest_u8 StatusRequest = 0x02"

definition NmtServiceRequest_try_from :: "u8 \<Rightarrow> NmtServiceRequest result" where
  "NmtServiceRequest_try_from value =
     (if value = 0x01 then Inr IdentRequest
      else if value = 0x02 then Inr StatusRequest
      else Inl InvalidEnumValue)"

interpretation nmt_srv: u8_enum NmtServiceRequest_u8 NmtServiceRequest_try_from
proof
  show "NmtServiceRequest_try_from (NmtServiceRequest_u8 x) = Inr x" for x
    by (cases x) (simp_all add: NmtServiceRequest_try_from_def)
  show "NmtServiceRequest_try_from v = Inr x \<Longrightarrow> NmtServiceRequest_u8 x = v" for v x
    by (auto simp: NmtServiceRequest_try_from_def split: if_splits)
qed

datatype CnNmtRequest = Command NmtStateCommand | Service NmtServiceRequest

primrec CnNmtRequest_as_u8 :: "CnNmtRequest \<Rightarrow> u8" where
  "CnNmtRequest_as_u8 (Command cmd) = NmtStateCommand_u8 cmd"
| "CnNmtRequest_as_u8 (Service srv) = NmtServiceRequest_u8 srv"

datatype MnNmtCommandRequest = State NmtStateCommand | Managing NmtManagingCommand

primrec MnNmtCommandRequest_as_u8 :: "MnNmtCommandRequest \<Rightarrow> u8" where
  "MnNmtCommandRequest_as_u8 (State cmd) = NmtStateCommand_u8 cmd"
| "MnNmtCommandRequest_as_u8 (Managing cmd) = NmtManagingCommand_u8 cmd"

datatype NmtEvent =
    StartNode | StopNode | EnterPreOperational2 | EnableReadyToOperate
  | Reset | SwReset | ResetNode | ResetCommunication | ResetConfiguration
  | EnterEplMode | Timeout | Error
  | SocSoAReceived | SocReceived | PowerlinkFrameReceived
  | CnConfigurationComplete
  | AllCnsIdentified | ConfigurationCompleteCnsReady | AllMandatoryCnsOperational

subsection \<open>Feature flags\<close>

type_synonym FeatureFlags = u32

definition FeatureFlags_contains :: "FeatureFlags \<Rightarrow> FeatureFlags \<Rightarrow> bool" where
  "FeatureFlags_contains self other \<longleftrightarrow> self AND other = other"

definition FeatureFlags_insert :: "FeatureFlags \<Rightarrow> FeatureFlags \<Rightarrow> FeatureFlags" where
  "FeatureFlags_insert self other = self OR other"

definition FeatureFlags_remove :: "FeatureFlags \<Rightarrow> FeatureFlags \<Rightarrow> FeatureFlags" where
  "FeatureFlags_remove self other = self AND NOT other"

definition ISOCHRONOUS :: FeatureFlags where "ISOCHRONOUS = push_bit 0 1"
definition SDO_UDP :: FeatureFlags where "SDO_UDP = push_bit 1 1"
definition SDO_ASND :: FeatureFlags where "SDO_ASND = push_bit 2 1"
definition SDO_PDO :: FeatureFlags where "SDO_PDO = push_bit 3 1"
definition NMT_INFO_SERVICES :: FeatureFlags where "NMT_INFO_SERVICES = push_bit 4 1"
definition EXTENDED_NMT_CMDS :: FeatureFlags where "EXTENDED_NMT_CMDS = push_bit 5 1"
definition DYNAMIC_PDO_MAPPING :: FeatureFlags where "DYNAMIC_PDO_MAPPING = push_bit 6 1"

lemma FeatureFlags_insert_contains: "FeatureFlags_contains (FeatureFlags_insert f g) g"
  unfolding FeatureFlags_contains_def FeatureFlags_insert_def
  by (rule bit_word_eqI) (auto simp: bit_and_iff bit_or_iff)

lemma FeatureFlags_remove_contains:
  "FeatureFlags_contains (FeatureFlags_remove f g) g \<longleftrightarrow> g = 0"
proof -
  have "f AND NOT g AND g = 0"
    by (rule bit_word_eqI) (auto simp: bit_and_iff bit_not_iff)
  then show ?thesis
    by (auto simp: FeatureFlags_contains_def FeatureFlags_remove_def and.assoc)
qed

end
