(* ===== verification/Frame_Codec.thy ===== *)
theory Frame_Codec
  imports Nmt_States
begin

section \<open>Frames and their codec\<close>

text \<open>
  \<^verbatim>\<open>frame/codec.rs\<close>, \<^verbatim>\<open>frame/control/{soc,soa,asnd}.rs\<close>, \<^verbatim>\<open>frame/poll/{preq,pres}.rs\<close> and
  \<^verbatim>\<open>frame/mod.rs\<close>. A serializer takes the caller's buffer and returns its result with the
  buffer as it leaves it, also when it fails half way; the writes are in the order of the
  source. A deserializer takes the parsed Ethernet header and the bytes after it.
\<close>

type_synonym serializer = "bytes \<Rightarrow> nat result \<times> bytes"

subsection \<open>The contract of a codec\<close>

text \<open>
  The trait \<^verbatim>\<open>Codec\<close> as an interface. \<open>size\<close> is the number of octets a frame takes on the wire,
  padding included. A serializer never changes the length of the buffer, that is, it never
  writes out of its range; it succeeds exactly when the frame fits; it leaves what lies behind
  the frame alone; and what it has written decodes to the frame.
\<close>

locale frame_codec =
  fixes ser :: "'f \<Rightarrow> serializer"
    and deser :: "EthernetHeader \<Rightarrow> bytes \<Rightarrow> 'f result"
    and eth :: "'f \<Rightarrow> EthernetHeader"
    and wf :: "'f \<Rightarrow> bool"
    and fsize :: "'f \<Rightarrow> nat"
  assumes ser_length: "length (snd (ser f buf)) = length buf"
    and ser_result: "fst (ser f buf) =
      (if fsize f \<le> length buf then Inr (fsize f) else Inl BufferTooShort)"
    and ser_behind: "fsize f \<le> length buf \<Longrightarrow>
      drop (fsize f) (snd (ser f buf)) = drop (fsize f) buf"
    and roundtrip: "wf f \<Longrightarrow> fsize f \<le> length buf \<Longrightarrow>
      deser (eth f) (take (fsize f) (snd (ser f buf))) = Inr f"
    and deser_wf: "deser e bs = Inr f \<Longrightarrow> 46 \<le> length bs \<Longrightarrow> wf f \<and> eth f = e"
    and min_size: "46 \<le> fsize f"
begin

text \<open>The wire image of a frame does not depend on what the buffer held before, and it
  determines the frame.\<close>

definition image :: "'f \<Rightarrow> bytes" where
  "image f = take (fsize f) (snd (ser f (replicate (fsize f) 0)))"

lemma image_length [simp]: "length (image f) = fsize f"
  by (simp add: image_def ser_length)

lemma image_roundtrip: "wf f \<Longrightarrow> deser (eth f) (image f) = Inr f"
  by (simp add: image_def roundtrip)

lemma image_inj: "wf f \<Longrightarrow> wf g \<Longrightarrow> eth f = eth g \<Longrightarrow> image f = image g \<Longrightarrow> f = g"
  using image_roundtrip by (metis Inr_inject)

text \<open>Whatever was accepted from the wire survives another trip.\<close>

lemma deser_stable:
  "deser e bs = Inr f \<Longrightarrow> 46 \<le> length bs \<Longrightarrow> deser e (image f) = Inr f"
  using deser_wf image_roundtrip by metis

end

subsection \<open>Headers\<close>

definition serialize_eth_header :: "EthernetHeader \<Rightarrow> bytes \<Rightarrow> bytes" where
  "serialize_eth_header header buffer =
     (if length buffer \<ge> 14 then
        (let buffer = put 0 (destination_mac header) buffer;
             buffer = put 6 (source_mac header) buffer
         in put 12 (be16 (ether_type header)) buffer)
      else buffer)"

definition serialize_pl_header :: "MessageType \<Rightarrow> NodeId \<Rightarrow> NodeId \<Rightarrow> bytes \<Rightarrow> bytes" where
  "serialize_pl_header message_type destination source buffer =
     (if length buffer \<ge> 3 then
        (let buffer = buffer[0 := MessageType_u8 message_type];
             buffer = buffer[1 := destination]
         in buffer[2 := source])
      else buffer)"

definition deserialize_eth_header :: "bytes \<Rightarrow> EthernetHeader result" where
  "deserialize_eth_header buffer =
     (if length buffer < 14 then Inl BufferTooShort
      else Inr \<lparr> destination_mac = sub_slice 0 6 buffer,
                 source_mac = sub_slice 6 12 buffer,
                 ether_type = from_be16 (sub_slice 12 14 buffer) \<rparr>)"

text \<open>\<^verbatim>\<open>impl From<InvalidMessageTypeError> for PowerlinkError\<close> gives \<^verbatim>\<open>InvalidEnumValue\<close>.\<close>

definition deserialize_pl_header :: "bytes \<Rightarrow> (MessageType \<times> NodeId \<times> NodeId) result" where
  "deserialize_pl_header buffer =
     (if length buffer < 3 then Inl BufferTooShort
      else case MessageType_try_from (buffer ! 0 AND 0x7F) of
             Inl _ \<Rightarrow> Inl InvalidEnumValue
           | Inr message_type \<Rightarrow> Inr (message_type, buffer ! 1, buffer ! 2))"

lemma length_serialize_pl_header [simp]: "length (serialize_pl_header m d s buf) = length buf"
  by (simp add: serialize_pl_header_def)

lemma nth_serialize_pl_header [simp]:
  assumes "3 \<le> length buf"
  shows "serialize_pl_header m d s buf ! i =
     (if i = 0 then MessageType_u8 m else if i = 1 then d else if i = 2 then s else buf ! i)"
proof -
  from assms have "buf \<noteq> []" by auto
  with assms show ?thesis by (auto simp: serialize_pl_header_def nth_list_update)
qed

lemma drop_serialize_pl_header [simp]:
  "3 \<le> n \<Longrightarrow> drop n (serialize_pl_header m d s buf) = drop n buf"
  by (simp add: serialize_pl_header_def)

lemma slice_serialize_pl_header [simp]:
  "3 \<le> a \<Longrightarrow> sub_slice a b (serialize_pl_header m d s buf) = sub_slice a b buf"
  by (simp add: serialize_pl_header_def)

lemma MessageType_masked [simp]:
  "MessageType_try_from (MessageType_u8 m AND 0x7F) = Inr m"
  by (cases m) (simp_all add: MessageType_try_from_def)

lemma deserialize_pl_header_written:
  "3 \<le> length buf \<Longrightarrow> buf ! 0 = MessageType_u8 m \<Longrightarrow>
    deserialize_pl_header buf = Inr (m, buf ! 1, buf ! 2)"
  by (simp add: deserialize_pl_header_def)

lemma deserialize_pl_header_Inr:
  "deserialize_pl_header buf = Inr (m, d, s) \<Longrightarrow> d = buf ! 1 \<and> s = buf ! 2 \<and> 3 \<le> length buf"
  by (auto simp: deserialize_pl_header_def split: if_splits sum.splits)

lemma eth_header_roundtrip:
  assumes "wf_eth h" "14 \<le> length buf"
  shows "deserialize_eth_header (serialize_eth_header h buf) = Inr h"
    and "length (serialize_eth_header h buf) = length buf"
    and "drop 14 (serialize_eth_header h buf) = drop 14 buf"
  using assms
  by (simp_all add: wf_eth_def wf_mac_def MAC_ADDRESS_SIZE_def serialize_eth_header_def Let_def
      deserialize_eth_header_def, simp_all add: put_def)

subsection \<open>Start of cycle\<close>

record SocFlags =
  soc_mc :: bool
  soc_ps :: bool

record SocFrame =
  soc_eth_header :: EthernetHeader
  soc_message_type :: MessageType
  soc_destination :: NodeId
  soc_source :: NodeId
  soc_flags :: SocFlags
  soc_net_time :: NetTime
  soc_relative_time :: RelativeTime

definition SocFrame_new :: "MacAddress \<Rightarrow> SocFlags \<Rightarrow> NetTime \<Rightarrow> RelativeTime \<Rightarrow> SocFrame" where
  "SocFrame_new src_mac flags net_time relative_time =
     \<lparr> soc_eth_header = EthernetHeader_new C_DLL_MULTICAST_SOC src_mac,
       soc_message_type = SoC,
       soc_destination = C_ADR_BROADCAST_NODE_ID,
       soc_source = C_ADR_MN_DEF_NODE_ID,
       soc_flags = flags,
       soc_net_time = net_time,
       soc_relative_time = relative_time \<rparr>"

definition SocFrame_serialize :: "SocFrame \<Rightarrow> serializer" where
  "SocFrame_serialize f buffer =
     (if length buffer < 22 then (Inl BufferTooShort, buffer)
      else
        let buffer = serialize_pl_header (soc_message_type f) (soc_destination f) (soc_source f) buffer;
            buffer = buffer[3 := 0];
            octet4 = (0 :: u8);
            octet4 = (if soc_mc (soc_flags f) then octet4 OR 0x80 else octet4);
            octet4 = (if soc_ps (soc_flags f) then octet4 OR 0x40 else octet4);
            buffer = buffer[4 := octet4];
            buffer = buffer[5 := 0];
            buffer = put 6 (le32 (nt_seconds (soc_net_time f))) buffer;
            buffer = put 10 (le32 (nt_nanoseconds (soc_net_time f))) buffer;
            buffer = put 14 (le32 (rt_seconds (soc_relative_time f))) buffer;
            buffer = put 18 (le32 (rt_nanoseconds (soc_relative_time f))) buffer;
            pl_frame_len = max 22 46
        in if length buffer < pl_frame_len then (Inl BufferTooShort, buffer)
           else (Inr pl_frame_len, fill0 22 pl_frame_len buffer))"

definition SocFrame_deserialize :: "EthernetHeader \<Rightarrow> bytes \<Rightarrow> SocFrame result" where
  "SocFrame_deserialize eth_header buffer =
     (if length buffer < 22 then Inl BufferTooShort
      else rbind (deserialize_pl_header buffer) (\<lambda>(message_type, destination, source).
        if message_type \<noteq> SoC then Inl InvalidPlFrame
        else
          let octet4 = buffer ! 4;
              flags = \<lparr> soc_mc = octet4 AND 0x80 \<noteq> 0, soc_ps = octet4 AND 0x40 \<noteq> 0 \<rparr>;
              net_time = \<lparr> nt_seconds = from_le (sub_slice 6 10 buffer),
                           nt_nanoseconds = from_le (sub_slice 10 14 buffer) \<rparr>;
              relative_time = \<lparr> rt_seconds = from_le (sub_slice 14 18 buffer),
                                rt_nanoseconds = from_le (sub_slice 18 22 buffer) \<rparr>
          in Inr \<lparr> soc_eth_header = eth_header,
                   soc_message_type = message_type,
                   soc_destination = destination,
                   soc_source = source,
                   soc_flags = flags,
                   soc_net_time = net_time,
                   soc_relative_time = relative_time \<rparr>))"

definition wf_soc :: "SocFrame \<Rightarrow> bool" where
  "wf_soc f \<longleftrightarrow> soc_message_type f = SoC"

lemma drop_put_before [simp]: "off + length xs \<le> n \<Longrightarrow> off \<le> length buf \<Longrightarrow>
    drop n (put off xs buf) = drop n buf"
  by (simp add: put_def)

lemma drop_fill0_before [simp]: "a \<le> b \<Longrightarrow> b \<le> n \<Longrightarrow> a \<le> length buf \<Longrightarrow>
    drop n (fill0 a b buf) = drop n buf"
  by (simp add: fill0_def)

lemma length_fill0_le: "a \<le> b \<Longrightarrow> b \<le> length buf \<Longrightarrow> length (fill0 a b buf) = length buf"
  by simp

lemma SocFrame_written:
  assumes "46 \<le> length buf" "b = snd (SocFrame_serialize f buf)"
  shows "length b = length buf"
    "b ! 0 = MessageType_u8 (soc_message_type f)" "b ! Suc 0 = soc_destination f" "b ! 2 = soc_source f"
    "b ! 4 AND 0x80 \<noteq> 0 \<longleftrightarrow> soc_mc (soc_flags f)" "b ! 4 AND 0x40 \<noteq> 0 \<longleftrightarrow> soc_ps (soc_flags f)"
    "sub_slice 6 10 b = le32 (nt_seconds (soc_net_time f))"
    "sub_slice 10 14 b = le32 (nt_nanoseconds (soc_net_time f))"
    "sub_slice 14 18 b = le32 (rt_seconds (soc_relative_time f))"
    "sub_slice 18 22 b = le32 (rt_nanoseconds (soc_relative_time f))"
  using assms by (simp_all add: SocFrame_serialize_def)

interpretation soc: frame_codec SocFrame_serialize SocFrame_deserialize soc_eth_header wf_soc "\<lambda>_. 46"
proof
  fix f :: SocFrame and buf bs :: bytes and e :: EthernetHeader
  show "length (snd (SocFrame_serialize f buf)) = length buf"
    by (simp add: SocFrame_serialize_def Let_def)
  show "fst (SocFrame_serialize f buf) = (if 46 \<le> length buf then Inr 46 else Inl BufferTooShort)"
    by (simp add: SocFrame_serialize_def Let_def)
  show "46 \<le> length buf \<Longrightarrow> drop 46 (snd (SocFrame_serialize f buf)) = drop 46 buf"
    by (simp add: SocFrame_serialize_def Let_def)
  show "SocFrame_deserialize e bs = Inr f \<Longrightarrow> 46 \<le> length bs \<Longrightarrow> wf_soc f \<and> soc_eth_header f = e"
    by (auto simp: SocFrame_deserialize_def wf_soc_def rbind_eq_Inr Let_def split: if_splits)
  show "wf_soc f \<Longrightarrow> 46 \<le> length buf \<Longrightarrow>
      SocFrame_deserialize (soc_eth_header f) (take 46 (snd (SocFrame_serialize f buf))) = Inr f"
    by (simp add: SocFrame_deserialize_def SocFrame_written deserialize_pl_header_def wf_soc_def
        MessageType_try_from_def)
qed simp

subsection \<open>Start of asynchronous phase\<close>

datatype RequestedServiceId =
  NoService | IdentRequest | StatusRequest | NmtRequestInvite | UnspecifiedInvite

primrec RequestedServiceId_u8 :: "RequestedServiceId \<Rightarrow> u8" where
  "RequestedServiceId_u8 NoService = 0x00"
| "RequestedServiceId_u8 IdentRequest = 0x01"
| "RequestedServiceId_u8 StatusRequest = 0x02"
| "RequestedServiceId_u8 NmtRequestInvite = 0x03"
| "RequestedServiceId_u8 UnspecifiedInvite = 0xFF"

definition RequestedServiceId_try_from :: "u8 \<Rightarrow> RequestedServiceId result" where
  "RequestedServiceId_try_from value =
     (if value = 0x00 then Inr NoService
      else if value = 0x01 then Inr IdentRequest
      else if value = 0x02 then Inr StatusRequest
      else if value = 0x03 then Inr NmtRequestInvite
      else if value = 0xFF then Inr UnspecifiedInvite
      else Inl (InvalidRequestedServiceId value))"

interpretation rsid: u8_enum RequestedServiceId_u8 RequestedServiceId_try_from
proof
  show "RequestedServiceId_try_from (RequestedServiceId_u8 x) = Inr x" for x
    by (cases x) (simp_all add: RequestedServiceId_try_from_def)
  show "RequestedServiceId_try_from v = Inr x \<Longrightarrow> RequestedServiceId_u8 x = v" for v x
    by (auto simp: RequestedServiceId_try_from_def split: if_splits)
qed

record SoAFlags =
  soa_ea :: bool
  soa_er :: bool

record SoAFrame =
  soa_eth_header :: EthernetHeader
  soa_message_type :: MessageType
  soa_destination :: NodeId
  soa_source :: NodeId
  soa_nmt_state :: NmtState
  soa_flags :: SoAFlags
  soa_req_service_id :: RequestedServiceId
  soa_target_node_id :: NodeId
  soa_epl_version :: EPLVersion

definition SoAFrame_new ::
  "MacAddress \<Rightarrow> NmtState \<Rightarrow> SoAFlags \<Rightarrow> RequestedServiceId \<Rightarrow> NodeId \<Rightarrow> EPLVersion \<Rightarrow> SoAFrame" where
  "SoAFrame_new src_mac nmt_state flags requested_service target_node_id epl_version =
     \<lparr> soa_eth_header = EthernetHeader_new C_DLL_MULTICAST_SOA src_mac,
       soa_message_type = SoA,
       soa_destination = C_ADR_BROADCAST_NODE_ID,
       soa_source = C_ADR_MN_DEF_NODE_ID,
       soa_nmt_state = nmt_state,
       soa_flags = flags,
       soa_req_service_id = requested_service,
       soa_target_node_id = target_node_id,
       soa_epl_version = epl_version \<rparr>"

definition SoAFrame_serialize :: "SoAFrame \<Rightarrow> serializer" where
  "SoAFrame_serialize f buffer =
     (if length buffer < 9 then (Inl BufferTooShort, buffer)
      else
        let buffer = serialize_pl_header (soa_message_type f) (soa_destination f) (soa_source f) buffer;
            buffer = buffer[3 := NmtState_u8 (soa_nmt_state f)];
            octet4 = (0 :: u8);
            octet4 = (if soa_ea (soa_flags f) then octet4 OR 0x04 else octet4);
            octet4 = (if soa_er (soa_flags f) then octet4 OR 0x02 else octet4);
            buffer = buffer[4 := octet4];
            buffer = buffer[5 := 0];
            buffer = buffer[6 := RequestedServiceId_u8 (soa_req_service_id f)];
            buffer = buffer[7 := soa_target_node_id f];
            buffer = buffer[8 := soa_epl_version f];
            pl_frame_len = max 9 46
        in if length buffer < pl_frame_len then (Inl BufferTooShort, buffer)
           else (Inr pl_frame_len, fill0 9 pl_frame_len buffer))"

definition SoAFrame_deserialize :: "EthernetHeader \<Rightarrow> bytes \<Rightarrow> SoAFrame result" where
  "SoAFrame_deserialize eth_header buffer =
     (if length buffer < 9 then Inl BufferTooShort
      else rbind (deserialize_pl_header buffer) (\<lambda>(message_type, destination, source).
        if message_type \<noteq> SoA then Inl InvalidPlFrame
        else rbind (NmtState_try_from (buffer ! 3)) (\<lambda>nmt_state.
          let octet4 = buffer ! 4;
              flags = \<lparr> soa_ea = octet4 AND 0x04 \<noteq> 0, soa_er = octet4 AND 0x02 \<noteq> 0 \<rparr>
          in rbind (RequestedServiceId_try_from (buffer ! 6)) (\<lambda>req_service_id.
               Inr \<lparr> soa_eth_header = eth_header,
                     soa_message_type = message_type,
                     soa_destination = destination,
                     soa_source = source,
                     soa_nmt_state = nmt_state,
                     soa_flags = flags,
                     soa_req_service_id = req_service_id,
                     soa_target_node_id = buffer ! 7,
                     soa_epl_version = buffer ! 8 \<rparr>))))"

definition wf_soa :: "SoAFrame \<Rightarrow> bool" where
  "wf_soa f \<longleftrightarrow> soa_message_type f = SoA"

lemma SoAFrame_written:
  assumes "46 \<le> length buf" "b = snd (SoAFrame_serialize f buf)"
  shows "length b = length buf"
    "b ! 0 = MessageType_u8 (soa_message_type f)" "b ! Suc 0 = soa_destination f" "b ! 2 = soa_source f"
    "b ! 3 = NmtState_u8 (soa_nmt_state f)"
    "b ! 4 AND 0x04 \<noteq> 0 \<longleftrightarrow> soa_ea (soa_flags f)" "b ! 4 AND 0x02 \<noteq> 0 \<longleftrightarrow> soa_er (soa_flags f)"
    "b ! 6 = RequestedServiceId_u8 (soa_req_service_id f)"
    "b ! 7 = soa_target_node_id f" "b ! 8 = soa_epl_version f"
  using assms by (simp_all add: SoAFrame_serialize_def nth_list_update)

interpretation soa: frame_codec SoAFrame_serialize SoAFrame_deserialize soa_eth_header wf_soa "\<lambda>_. 46"
proof
  fix f :: SoAFrame and buf bs :: bytes and e :: EthernetHeader
  show "length (snd (SoAFrame_serialize f buf)) = length buf"
    by (simp add: SoAFrame_serialize_def Let_def)
  show "fst (SoAFrame_serialize f buf) = (if 46 \<le> length buf then Inr 46 else Inl BufferTooShort)"
    by (simp add: SoAFrame_serialize_def Let_def)
  show "46 \<le> length buf \<Longrightarrow> drop 46 (snd (SoAFrame_serialize f buf)) = drop 46 buf"
    by (simp add: SoAFrame_serialize_def Let_def)
  show "SoAFrame_deserialize e bs = Inr f \<Longrightarrow> 46 \<le> length bs \<Longrightarrow> wf_soa f \<and> soa_eth_header f = e"
    by (auto simp: SoAFrame_deserialize_def wf_soa_def rbind_eq_Inr Let_def split: if_splits)
  show "wf_soa f \<Longrightarrow> 46 \<le> length buf \<Longrightarrow>
      SoAFrame_deserialize (soa_eth_header f) (take 46 (snd (SoAFrame_serialize f buf))) = Inr f"
    by (simp add: SoAFrame_deserialize_def SoAFrame_written deserialize_pl_header_def wf_soa_def
        MessageType_try_from_def rsid.try_from_disc)
qed simp

subsection \<open>Asynchronous send\<close>

datatype ServiceId =
    IdentResponse | StatusResponse | NmtRequest | NmtCommand | Sdo
  | NMTPublishTime | NMTPublishNMTState | NMTPublishNodeState | NMTPublishNodeList
  | NMTPublishEmergNew | NMTPublishHeartbeat | NMTPublishActiveNodes

primrec ServiceId_u8 :: "ServiceId \<Rightarrow> u8" where
  "ServiceId_u8 IdentResponse = 0x01"
| "ServiceId_u8 StatusResponse = 0x02"
| "ServiceId_u8 NmtRequest = 0x03"
| "ServiceId_u8 NmtCommand = 0x04"
| "ServiceId_u8 Sdo = 0x05"
| "ServiceId_u8 NMTPublishTime = 0x0B"
| "ServiceId_u8 NMTPublishNMTState = 0x0D"
| "ServiceId_u8 NMTPublishNodeState = 0x0E"
| "ServiceId_u8 NMTPublishNodeList = 0x0F"
| "ServiceId_u8 NMTPublishEmergNew = 0x10"
| "ServiceId_u8 NMTPublishHeartbeat = 0x11"
| "ServiceId_u8 NMTPublishActiveNodes = 0x12"

definition ServiceId_try_from :: "u8 \<Rightarrow> ServiceId result" where
  "ServiceId_try_from value =
     (if value = 0x01 then Inr IdentResponse
      else if value = 0x02 then Inr StatusResponse
      else if value = 0x03 then Inr NmtRequest
      else if value = 0x04 then Inr NmtCommand
      else if value = 0x05 then Inr Sdo
      else if value = 0x0B then Inr NMTPublishTime
      else if value = 0x0D then Inr NMTPublishNMTState
      else if value = 0x0E then Inr NMTPublishNodeState
      else if value = 0x0F then Inr NMTPublishNodeList
      else if value = 0x10 then Inr NMTPublishEmergNew
      else if value = 0x11 then Inr NMTPublishHeartbeat
      else if value = 0x12 then Inr NMTPublishActiveNodes
      else Inl (InvalidServiceId value))"

interpretation sid: u8_enum ServiceId_u8 ServiceId_try_from
proof
  show "ServiceId_try_from (ServiceId_u8 x) = Inr x" for x
    by (cases x) (simp_all add: ServiceId_try_from_def)
  show "ServiceId_try_from v = Inr x \<Longrightarrow> ServiceId_u8 x = v" for v x
    by (auto simp: ServiceId_try_from_def split: if_splits)
qed

record ASndFrame =
  asnd_eth_header :: EthernetHeader
  asnd_message_type :: MessageType
  asnd_destination :: NodeId
  asnd_source :: NodeId
  asnd_service_id :: ServiceId
  asnd_payload :: bytes

definition ASndFrame_new ::
  "MacAddress \<Rightarrow> MacAddress \<Rightarrow> NodeId \<Rightarrow> NodeId \<Rightarrow> ServiceId \<Rightarrow> bytes \<Rightarrow> ASndFrame" where
  "ASndFrame_new src_mac dest_mac target_node_id source_node_id service_id payload =
     \<lparr> asnd_eth_header = EthernetHeader_new dest_mac src_mac,
       asnd_message_type = ASnd,
       asnd_destination = target_node_id,
       asnd_source = source_node_id,
       asnd_service_id = service_id,
       asnd_payload = payload \<rparr>"

text \<open>The tail shared by the three frames with a payload of variable length: pad to the
  minimum Ethernet payload when the frame is shorter.\<close>

definition pad_frame :: "nat \<Rightarrow> serializer" where
  "pad_frame pl_frame_len buffer =
     (let padded_pl_len = max pl_frame_len 46
      in if padded_pl_len > pl_frame_len then
           (if length buffer < padded_pl_len then (Inl BufferTooShort, buffer)
            else (Inr padded_pl_len, fill0 pl_frame_len padded_pl_len buffer))
         else (Inr padded_pl_len, buffer))"

definition ASndFrame_serialize :: "ASndFrame \<Rightarrow> serializer" where
  "ASndFrame_serialize f buffer =
     (let total_pl_frame_size = 4 + length (asnd_payload f)
      in if length buffer < total_pl_frame_size then (Inl BufferTooShort, buffer)
         else
           let buffer = serialize_pl_header (asnd_message_type f) (asnd_destination f) (asnd_source f) buffer;
               buffer = buffer[3 := ServiceId_u8 (asnd_service_id f)];
               buffer = put 4 (asnd_payload f) buffer
           in pad_frame total_pl_frame_size buffer)"

text \<open>\<^verbatim>\<open>iter().rposition(|x| x != 0).map_or(0, |i| i + 1)\<close> and the cut at that length.\<close>

definition trim_zeros :: "bytes \<Rightarrow> bytes" where
  "trim_zeros xs = rev (dropWhile (\<lambda>x. x = 0) (rev xs))"

definition ASndFrame_deserialize :: "EthernetHeader \<Rightarrow> bytes \<Rightarrow> ASndFrame result" where
  "ASndFrame_deserialize eth_header buffer =
     (if length buffer < 4 then Inl BufferTooShort
      else rbind (deserialize_pl_header buffer) (\<lambda>(message_type, destination, source).
        if message_type \<noteq> ASnd then Inl InvalidPlFrame
        else rbind (ServiceId_try_from (buffer ! 3)) (\<lambda>service_id.
          let potential_payload = drop 4 buffer;
              payload = (if length buffer = 46 then trim_zeros potential_payload
                         else potential_payload)
          in Inr \<lparr> asnd_eth_header = eth_header,
                   asnd_message_type = message_type,
                   asnd_destination = destination,
                   asnd_source = source,
                   asnd_service_id = service_id,
                   asnd_payload = payload \<rparr>)))"

text \<open>A payload that needs padding must not end in a zero octet, or it comes back shorter.\<close>

definition wf_asnd :: "ASndFrame \<Rightarrow> bool" where
  "wf_asnd f \<longleftrightarrow> asnd_message_type f = ASnd
     \<and> (length (asnd_payload f) \<le> 42 \<longrightarrow> asnd_payload f = [] \<or> last (asnd_payload f) \<noteq> 0)"

definition asnd_size :: "ASndFrame \<Rightarrow> nat" where
  "asnd_size f = max (4 + length (asnd_payload f)) 46"

lemma trim_zeros_append: "trim_zeros (xs @ replicate n 0) = trim_zeros xs"
  unfolding trim_zeros_def rev_append rev_replicate by (subst dropWhile_append2) auto

lemma trim_zeros_id: "xs = [] \<or> last xs \<noteq> 0 \<Longrightarrow> trim_zeros xs = xs"
  by (cases xs rule: rev_cases) (auto simp: trim_zeros_def)

lemma trim_zeros_last: "trim_zeros xs = [] \<or> last (trim_zeros xs) \<noteq> 0"
  by (induction xs rule: rev_induct) (auto simp: trim_zeros_def)

lemma length_trim_zeros: "length (trim_zeros xs) \<le> length xs"
  by (simp add: trim_zeros_def length_dropWhile_le [of _ "rev xs", simplified])

text \<open>Padding: what it returns and what it leaves in the buffer.\<close>

lemma pad_frame_simps [simp]:
  assumes "n \<le> length buf"
  shows "length (snd (pad_frame n buf)) = length buf"
    and "fst (pad_frame n buf) = (if max n 46 \<le> length buf then Inr (max n 46) else Inl BufferTooShort)"
    and "drop (max n 46) (snd (pad_frame n buf)) = drop (max n 46) buf"
    and "i < n \<Longrightarrow> snd (pad_frame n buf) ! i = buf ! i"
    and "b \<le> n \<Longrightarrow> sub_slice a b (snd (pad_frame n buf)) = sub_slice a b buf"
proof -
  show "length (snd (pad_frame n buf)) = length buf"
    "fst (pad_frame n buf) = (if max n 46 \<le> length buf then Inr (max n 46) else Inl BufferTooShort)"
    "drop (max n 46) (snd (pad_frame n buf)) = drop (max n 46) buf"
    "i < n \<Longrightarrow> snd (pad_frame n buf) ! i = buf ! i"
    "b \<le> n \<Longrightarrow> sub_slice a b (snd (pad_frame n buf)) = sub_slice a b buf"
    using assms by (auto simp: pad_frame_def Let_def max_def)
qed

lemma pad_frame_tail:
  assumes "max n 46 \<le> length buf"
  shows "drop n (take (max n 46) (snd (pad_frame n buf))) = replicate (46 - n) 0"
  using assms by (auto simp: pad_frame_def Let_def max_def fill0_def put_def)

lemma split_at_slice: "a \<le> b \<Longrightarrow> drop a (take n xs) = sub_slice a b (take n xs) @ drop b (take n xs)"
proof -
  assume "a \<le> b"
  then have "drop b (take n xs) = drop (b - a) (drop a (take n xs))" by simp
  then show ?thesis unfolding sub_slice_def by (metis append_take_drop_id)
qed

lemma ASndFrame_written:
  assumes "asnd_size f \<le> length buf" "b = snd (ASndFrame_serialize f buf)"
  shows "length b = length buf"
    "b ! 0 = MessageType_u8 (asnd_message_type f)" "b ! Suc 0 = asnd_destination f" "b ! 2 = asnd_source f"
    "b ! 3 = ServiceId_u8 (asnd_service_id f)"
    "drop 4 (take (asnd_size f) b) = asnd_payload f @ replicate (42 - length (asnd_payload f)) 0"
proof -
  show "length b = length buf"
    "b ! 0 = MessageType_u8 (asnd_message_type f)" "b ! Suc 0 = asnd_destination f" "b ! 2 = asnd_source f"
    "b ! 3 = ServiceId_u8 (asnd_service_id f)"
    using assms by (simp_all add: ASndFrame_serialize_def asnd_size_def)
  have "sub_slice 4 (4 + length (asnd_payload f)) b = asnd_payload f"
    using assms by (simp add: ASndFrame_serialize_def asnd_size_def)
  moreover have "drop (4 + length (asnd_payload f)) (take (asnd_size f) b)
      = replicate (46 - (4 + length (asnd_payload f))) 0"
    using assms unfolding ASndFrame_serialize_def asnd_size_def Let_def
    by (simp add: pad_frame_tail)
  ultimately show "drop 4 (take (asnd_size f) b)
      = asnd_payload f @ replicate (42 - length (asnd_payload f)) 0"
    using split_at_slice [of 4 "4 + length (asnd_payload f)" "asnd_size f" b]
    by (simp add: asnd_size_def)
qed

interpretation asnd: frame_codec ASndFrame_serialize ASndFrame_deserialize asnd_eth_header wf_asnd asnd_size
proof
  fix f :: ASndFrame and buf bs :: bytes and e :: EthernetHeader
  show "length (snd (ASndFrame_serialize f buf)) = length buf"
    by (simp add: ASndFrame_serialize_def Let_def)
  show "fst (ASndFrame_serialize f buf) =
      (if asnd_size f \<le> length buf then Inr (asnd_size f) else Inl BufferTooShort)"
    by (auto simp: ASndFrame_serialize_def Let_def asnd_size_def)
  show "asnd_size f \<le> length buf \<Longrightarrow>
      drop (asnd_size f) (snd (ASndFrame_serialize f buf)) = drop (asnd_size f) buf"
    by (simp add: ASndFrame_serialize_def Let_def asnd_size_def)
  show "ASndFrame_deserialize e bs = Inr f \<Longrightarrow> 46 \<le> length bs \<Longrightarrow> wf_asnd f \<and> asnd_eth_header f = e"
    using trim_zeros_last [of "drop 4 bs"]
    by (auto simp: ASndFrame_deserialize_def wf_asnd_def rbind_eq_Inr Let_def split: if_splits)
  assume wf: "wf_asnd f" and len: "asnd_size f \<le> length buf"
  define b where "b = take (asnd_size f) (snd (ASndFrame_serialize f buf))"
  have b: "length b = asnd_size f" "b ! 0 = MessageType_u8 ASnd" "b ! Suc 0 = asnd_destination f"
    "b ! 2 = asnd_source f" "b ! 3 = ServiceId_u8 (asnd_service_id f)"
    "drop 4 b = asnd_payload f @ replicate (42 - length (asnd_payload f)) 0"
    using ASndFrame_written [OF len refl] wf len
    by (simp_all add: b_def wf_asnd_def, simp_all add: asnd_size_def)
  have "(if asnd_size f = 46 then trim_zeros (drop 4 b) else drop 4 b) = asnd_payload f"
    using wf unfolding b(6) by (auto simp: asnd_size_def wf_asnd_def trim_zeros_append max_def
        split: if_splits intro!: trim_zeros_id)
  moreover have "\<not> asnd_size f < 4" "\<not> asnd_size f < 3" by (simp_all add: asnd_size_def)
  ultimately show "ASndFrame_deserialize (asnd_eth_header f) b = Inr f"
    using b(1-5) wf
    by (simp add: ASndFrame_deserialize_def deserialize_pl_header_def wf_asnd_def
        MessageType_try_from_def sid.try_from_disc Let_def)
qed (simp add: asnd_size_def)

subsection \<open>Poll request\<close>

type_synonym PDOVersion = u8

record PReqFlags =
  preq_ms :: bool
  preq_ea :: bool
  preq_rd :: bool

record PReqFrame =
  preq_eth_header :: EthernetHeader
  preq_message_type :: MessageType
  preq_destination :: NodeId
  preq_source :: NodeId
  preq_flags :: PReqFlags
  preq_pdo_version :: PDOVersion
  preq_payload_size :: u16
  preq_payload :: bytes

definition PReqFrame_new ::
  "MacAddress \<Rightarrow> MacAddress \<Rightarrow> NodeId \<Rightarrow> PReqFlags \<Rightarrow> PDOVersion \<Rightarrow> bytes \<Rightarrow> PReqFrame" where
  "PReqFrame_new src_mac dest_mac target_node_id flags pdo_version payload =
     \<lparr> preq_eth_header = EthernetHeader_new dest_mac src_mac,
       preq_message_type = PReq,
       preq_destination = target_node_id,
       preq_source = C_ADR_MN_DEF_NODE_ID,
       preq_flags = flags,
       preq_pdo_version = pdo_version,
       preq_payload_size = of_nat (length payload),
       preq_payload = payload \<rparr>"

definition PReqFrame_serialize :: "PReqFrame \<Rightarrow> serializer" where
  "PReqFrame_serialize f buffer =
     (let total_pl_frame_size = 10 + length (preq_payload f)
      in if length buffer < total_pl_frame_size then (Inl BufferTooShort, buffer)
         else
           let buffer = serialize_pl_header (preq_message_type f) (preq_destination f) (preq_source f) buffer;
               buffer = buffer[3 := 0];
               octet4_flags = (0 :: u8);
               octet4_flags = (if preq_ms (preq_flags f) then octet4_flags OR 0x20 else octet4_flags);
               octet4_flags = (if preq_ea (preq_flags f) then octet4_flags OR 0x04 else octet4_flags);
               octet4_flags = (if preq_rd (preq_flags f) then octet4_flags OR 0x01 else octet4_flags);
               buffer = buffer[4 := octet4_flags];
               buffer = buffer[5 := 0];
               buffer = buffer[6 := preq_pdo_version f];
               buffer = buffer[7 := 0];
               buffer = put 8 (le16 (preq_payload_size f)) buffer;
               buffer = put 10 (preq_payload f) buffer
           in pad_frame total_pl_frame_size buffer)"

definition PReqFrame_deserialize :: "EthernetHeader \<Rightarrow> bytes \<Rightarrow> PReqFrame result" where
  "PReqFrame_deserialize eth_header buffer =
     (if length buffer < 10 then Inl BufferTooShort
      else rbind (deserialize_pl_header buffer) (\<lambda>(message_type, destination, source).
        if message_type \<noteq> PReq then Inl InvalidPlFrame
        else
          let octet4_flags = buffer ! 4;
              flags = \<lparr> preq_ms = octet4_flags AND 0x20 \<noteq> 0,
                        preq_ea = octet4_flags AND 0x04 \<noteq> 0,
                        preq_rd = octet4_flags AND 0x01 \<noteq> 0 \<rparr>;
              pdo_version = buffer ! 6;
              payload_size = from_le (sub_slice 8 10 buffer);
              payload_end = 10 + unat payload_size
          in if length buffer < payload_end then Inl BufferTooShort
             else Inr \<lparr> preq_eth_header = eth_header,
                        preq_message_type = message_type,
                        preq_destination = destination,
                        preq_source = source,
                        preq_flags = flags,
                        preq_pdo_version = pdo_version,
                        preq_payload_size = payload_size,
                        preq_payload = sub_slice 10 payload_end buffer \<rparr>))"

definition wf_preq :: "PReqFrame \<Rightarrow> bool" where
  "wf_preq f \<longleftrightarrow> preq_message_type f = PReq \<and> unat (preq_payload_size f) = length (preq_payload f)"

definition preq_size :: "PReqFrame \<Rightarrow> nat" where
  "preq_size f = max (10 + length (preq_payload f)) 46"

lemma PReqFrame_written:
  assumes "preq_size f \<le> length buf" "b = snd (PReqFrame_serialize f buf)"
  shows "length b = length buf"
    "b ! 0 = MessageType_u8 (preq_message_type f)" "b ! Suc 0 = preq_destination f" "b ! 2 = preq_source f"
    "b ! 4 AND 0x20 \<noteq> 0 \<longleftrightarrow> preq_ms (preq_flags f)" "b ! 4 AND 0x04 \<noteq> 0 \<longleftrightarrow> preq_ea (preq_flags f)"
    "b ! 4 AND 1 \<noteq> 0 \<longleftrightarrow> preq_rd (preq_flags f)"
    "b ! 6 = preq_pdo_version f" "sub_slice 8 10 b = le16 (preq_payload_size f)"
    "sub_slice 10 (10 + length (preq_payload f)) b = preq_payload f"
  using assms by (simp_all add: PReqFrame_serialize_def preq_size_def)

interpretation preq: frame_codec PReqFrame_serialize PReqFrame_deserialize preq_eth_header wf_preq preq_size
proof
  fix f :: PReqFrame and buf bs :: bytes and e :: EthernetHeader
  show "length (snd (PReqFrame_serialize f buf)) = length buf"
    by (simp add: PReqFrame_serialize_def Let_def)
  show "fst (PReqFrame_serialize f buf) =
      (if preq_size f \<le> length buf then Inr (preq_size f) else Inl BufferTooShort)"
    by (auto simp: PReqFrame_serialize_def Let_def preq_size_def)
  show "preq_size f \<le> length buf \<Longrightarrow>
      drop (preq_size f) (snd (PReqFrame_serialize f buf)) = drop (preq_size f) buf"
    by (simp add: PReqFrame_serialize_def Let_def preq_size_def)
  show "PReqFrame_deserialize e bs = Inr f \<Longrightarrow> 46 \<le> length bs \<Longrightarrow> wf_preq f \<and> preq_eth_header f = e"
    by (auto simp: PReqFrame_deserialize_def wf_preq_def rbind_eq_Inr Let_def split: if_splits)
  assume wf: "wf_preq f" and len: "preq_size f \<le> length buf"
  have "10 + length (preq_payload f) \<le> preq_size f" "46 \<le> preq_size f" by (simp_all add: preq_size_def)
  with wf len show "PReqFrame_deserialize (preq_eth_header f)
      (take (preq_size f) (snd (PReqFrame_serialize f buf))) = Inr f"
    by (simp add: PReqFrame_deserialize_def deserialize_pl_header_def wf_preq_def
        MessageType_try_from_def PReqFrame_written Let_def)
qed (simp add: preq_size_def)

subsection \<open>Poll response\<close>

type_synonym RSFlag = u8

definition RSFlag_new :: "u8 \<Rightarrow> RSFlag" where
  "RSFlag_new value = min value 7"

datatype PRFlag =
  PrioNmtRequest | High3 | High2 | High1 | PrioGenericRequest | Low3 | Low2 | Low1

primrec PRFlag_u8 :: "PRFlag \<Rightarrow> u8" where
  "PRFlag_u8 PrioNmtRequest = 7"
| "PRFlag_u8 High3 = 6"
| "PRFlag_u8 High2 = 5"
| "PRFlag_u8 High1 = 4"
| "PRFlag_u8 PrioGenericRequest = 3"
| "PRFlag_u8 Low3 = 2"
| "PRFlag_u8 Low2 = 1"
| "PRFlag_u8 Low1 = 0"

definition PRFlag_try_from :: "u8 \<Rightarrow> PRFlag result" where
  "PRFlag_try_from value =
     (let v = value AND 7
      in if v = 7 then Inr PrioNmtRequest
         else if v = 6 then Inr High3
         else if v = 5 then Inr High2
         else if v = 4 then Inr High1
         else if v = 3 then Inr PrioGenericRequest
         else if v = 2 then Inr Low3
         else if v = 1 then Inr Low2
         else if v = 0 then Inr Low1
         else Inl InvalidEnumValue)"

record PResFlags =
  pres_ms :: bool
  pres_en :: bool
  pres_rd :: bool
  pres_pr :: PRFlag
  pres_rs :: RSFlag

record PResFrame =
  pres_eth_header :: EthernetHeader
  pres_message_type :: MessageType
  pres_destination :: NodeId
  pres_source :: NodeId
  pres_nmt_state :: NmtState
  pres_flags :: PResFlags
  pres_pdo_version :: PDOVersion
  pres_payload_size :: u16
  pres_payload :: bytes

definition PResFrame_new ::
  "MacAddress \<Rightarrow> NodeId \<Rightarrow> NmtState \<Rightarrow> PResFlags \<Rightarrow> PDOVersion \<Rightarrow> bytes \<Rightarrow> PResFrame" where
  "PResFrame_new src_mac source_node_id nmt_state flags pdo_version payload =
     \<lparr> pres_eth_header = EthernetHeader_new C_DLL_MULTICAST_PRES src_mac,
       pres_message_type = PRes,
       pres_destination = C_ADR_BROADCAST_NODE_ID,
       pres_source = source_node_id,
       pres_nmt_state = nmt_state,
       pres_flags = flags,
       pres_pdo_version = pdo_version,
       pres_payload_size = of_nat (length payload),
       pres_payload = payload \<rparr>"

definition PResFrame_serialize :: "PResFrame \<Rightarrow> serializer" where
  "PResFrame_serialize f buffer =
     (let total_pl_frame_size = 10 + length (pres_payload f)
      in if length buffer < total_pl_frame_size then (Inl BufferTooShort, buffer)
         else
           let buffer = serialize_pl_header (pres_message_type f) (pres_destination f) (pres_source f) buffer;
               buffer = buffer[3 := NmtState_u8 (pres_nmt_state f)];
               octet4_flags1 = (0 :: u8);
               octet4_flags1 = (if pres_ms (pres_flags f) then octet4_flags1 OR 0x20 else octet4_flags1);
               octet4_flags1 = (if pres_en (pres_flags f) then octet4_flags1 OR 0x10 else octet4_flags1);
               octet4_flags1 = (if pres_rd (pres_flags f) then octet4_flags1 OR 0x01 else octet4_flags1);
               buffer = buffer[4 := octet4_flags1];
               octet5_flags2 = push_bit 3 (PRFlag_u8 (pres_pr (pres_flags f))) OR pres_rs (pres_flags f);
               buffer = buffer[5 := octet5_flags2];
               buffer = buffer[6 := pres_pdo_version f];
               buffer = buffer[7 := 0];
               buffer = put 8 (le16 (pres_payload_size f)) buffer;
               buffer = put 10 (pres_payload f) buffer
           in pad_frame total_pl_frame_size buffer)"

definition PResFrame_deserialize :: "EthernetHeader \<Rightarrow> bytes \<Rightarrow> PResFrame result" where
  "PResFrame_deserialize eth_header buffer =
     (if length buffer < 10 then Inl BufferTooShort
      else rbind (deserialize_pl_header buffer) (\<lambda>(message_type, destination, source).
        if message_type \<noteq> PRes then Inl InvalidPlFrame
        else if destination \<noteq> C_ADR_BROADCAST_NODE_ID then Inl InvalidPlFrame
        else rbind (NmtState_try_from (buffer ! 3)) (\<lambda>nmt_state.
          let octet4_flags1 = buffer ! 4;
              octet5_flags2 = buffer ! 5
          in rbind (PRFlag_try_from (drop_bit 3 octet5_flags2)) (\<lambda>pr.
            let flags = \<lparr> pres_ms = octet4_flags1 AND 0x20 \<noteq> 0,
                          pres_en = octet4_flags1 AND 0x10 \<noteq> 0,
                          pres_rd = octet4_flags1 AND 0x01 \<noteq> 0,
                          pres_pr = pr,
                          pres_rs = RSFlag_new (octet5_flags2 AND 7) \<rparr>;
                pdo_version = buffer ! 6;
                payload_size = from_le (sub_slice 8 10 buffer);
                payload_end = 10 + unat payload_size
            in if length buffer < payload_end then Inl BufferTooShort
               else Inr \<lparr> pres_eth_header = eth_header,
                          pres_message_type = message_type,
                          pres_destination = destination,
                          pres_source = source,
                          pres_nmt_state = nmt_state,
                          pres_flags = flags,
                          pres_pdo_version = pdo_version,
                          pres_payload_size = payload_size,
                          pres_payload = sub_slice 10 payload_end buffer \<rparr>))))"

definition wf_pres :: "PResFrame \<Rightarrow> bool" where
  "wf_pres f \<longleftrightarrow> pres_message_type f = PRes \<and> pres_destination f = C_ADR_BROADCAST_NODE_ID
     \<and> pres_rs (pres_flags f) \<le> 7
     \<and> unat (pres_payload_size f) = length (pres_payload f)"

definition pres_size :: "PResFrame \<Rightarrow> nat" where
  "pres_size f = max (10 + length (pres_payload f)) 46"

lemma RSFlag_new_le: "RSFlag_new v \<le> 7"
  by (simp add: RSFlag_new_def)

lemma u8_le7_cases:
  assumes "(r :: u8) \<le> 7"
  shows "r = 0 \<or> r = 1 \<or> r = 2 \<or> r = 3 \<or> r = 4 \<or> r = 5 \<or> r = 6 \<or> r = 7"
proof -
  from assms have "unat r \<le> 7" by (simp add: word_le_nat_alt)
  then have "unat r = 0 \<or> unat r = 1 \<or> unat r = 2 \<or> unat r = 3 \<or> unat r = 4 \<or> unat r = 5
      \<or> unat r = 6 \<or> unat r = 7"
    by linarith
  then show ?thesis by (simp add: word_unat_eq_iff)
qed

lemma flags2_roundtrip:
  assumes "r \<le> 7"
  shows "PRFlag_try_from (drop_bit 3 (push_bit 3 (PRFlag_u8 p) OR r)) = Inr p"
    and "RSFlag_new ((push_bit 3 (PRFlag_u8 p) OR r) AND 7) = r"
  using u8_le7_cases [OF assms]
  by (cases p; auto simp: PRFlag_try_from_def RSFlag_new_def)+

lemma PResFrame_written:
  assumes "pres_size f \<le> length buf" "b = snd (PResFrame_serialize f buf)"
  shows "length b = length buf"
    "b ! 0 = MessageType_u8 (pres_message_type f)" "b ! Suc 0 = pres_destination f" "b ! 2 = pres_source f"
    "b ! 3 = NmtState_u8 (pres_nmt_state f)"
    "b ! 4 AND 0x20 \<noteq> 0 \<longleftrightarrow> pres_ms (pres_flags f)" "b ! 4 AND 0x10 \<noteq> 0 \<longleftrightarrow> pres_en (pres_flags f)"
    "b ! 4 AND 1 \<noteq> 0 \<longleftrightarrow> pres_rd (pres_flags f)"
    "b ! 5 = push_bit 3 (PRFlag_u8 (pres_pr (pres_flags f))) OR pres_rs (pres_flags f)"
    "b ! 6 = pres_pdo_version f" "sub_slice 8 10 b = le16 (pres_payload_size f)"
    "sub_slice 10 (10 + length (pres_payload f)) b = pres_payload f"
  using assms by (simp_all add: PResFrame_serialize_def pres_size_def)

interpretation pres: frame_codec PResFrame_serialize PResFrame_deserialize pres_eth_header wf_pres pres_size
proof
  fix f :: PResFrame and buf bs :: bytes and e :: EthernetHeader
  show "length (snd (PResFrame_serialize f buf)) = length buf"
    by (simp add: PResFrame_serialize_def Let_def)
  show "fst (PResFrame_serialize f buf) =
      (if pres_size f \<le> length buf then Inr (pres_size f) else Inl BufferTooShort)"
    by (auto simp: PResFrame_serialize_def Let_def pres_size_def)
  show "pres_size f \<le> length buf \<Longrightarrow>
      drop (pres_size f) (snd (PResFrame_serialize f buf)) = drop (pres_size f) buf"
    by (simp add: PResFrame_serialize_def Let_def pres_size_def)
  show "PResFrame_deserialize e bs = Inr f \<Longrightarrow> 46 \<le> length bs \<Longrightarrow> wf_pres f \<and> pres_eth_header f = e"
    by (auto simp: PResFrame_deserialize_def wf_pres_def rbind_eq_Inr Let_def RSFlag_new_le
        split: if_splits)
  assume wf: "wf_pres f" and len: "pres_size f \<le> length buf"
  have "10 + length (pres_payload f) \<le> pres_size f" "46 \<le> pres_size f" by (simp_all add: pres_size_def)
  with wf len show "PResFrame_deserialize (pres_eth_header f)
      (take (pres_size f) (snd (PResFrame_serialize f buf))) = Inr f"
    by (simp add: PResFrame_deserialize_def deserialize_pl_header_def wf_pres_def
        MessageType_try_from_def PResFrame_written Let_def flags2_roundtrip
        del: drop_bit_or)
qed (simp add: pres_size_def)

end
