(* ===== verification/BTree_Map.thy ===== *)
theory BTree_Map
  imports PL_Prelude
begin

section \<open>Ordered maps\<close>

text \<open>
  The crate keeps its tables in \<^verbatim>\<open>alloc::collections::BTreeMap\<close>: the object dictionary, the
  per-node counters and states of the managing node, the SDO connections. What the source
  relies on is the finite map and the iteration in key order, so the model is the sorted list
  of the entries. The locale \<open>ordered_map\<close> states the contract of the operations that the
  clients use; it is interpreted on the list operations below.
\<close>

locale ordered_map =
  fixes empty :: 'm
    and get :: "'m \<Rightarrow> 'k::linorder \<Rightarrow> 'v option"
    and insert :: "'k \<Rightarrow> 'v \<Rightarrow> 'm \<Rightarrow> 'm"
    and remove :: "'k \<Rightarrow> 'm \<Rightarrow> 'm"
    and keys :: "'m \<Rightarrow> 'k list"
    and inv :: "'m \<Rightarrow> bool"
  assumes inv_empty: "inv empty"
    and inv_insert: "inv m \<Longrightarrow> inv (insert k v m)"
    and inv_remove: "inv m \<Longrightarrow> inv (remove k m)"
    and get_empty: "get empty k = None"
    and get_insert: "inv m \<Longrightarrow> get (insert k v m) j = (if j = k then Some v else get m j)"
    and get_remove: "inv m \<Longrightarrow> get (remove k m) j = (if j = k then None else get m j)"
    and keys_sorted: "inv m \<Longrightarrow> sorted (keys m) \<and> distinct (keys m)"
    and keys_get: "inv m \<Longrightarrow> k \<in> set (keys m) \<longleftrightarrow> get m k \<noteq> None"
begin

lemma keys_insert: "inv m \<Longrightarrow> set (keys (insert k v m)) = set (keys m) \<union> {k}"
  by (auto simp: keys_get inv_insert get_insert split: if_splits)

lemma keys_remove: "inv m \<Longrightarrow> set (keys (remove k m)) = set (keys m) - {k}"
  by (auto simp: keys_get inv_remove get_remove split: if_splits)

lemma keys_ext:
  assumes "inv m" "inv m'" "\<And>k. get m k = None \<longleftrightarrow> get m' k = None"
  shows "keys m = keys m'"
  by (intro sorted_distinct_set_unique) (use assms keys_sorted in \<open>auto simp: keys_get\<close>)

lemma keys_insert_present: "inv m \<Longrightarrow> get m k \<noteq> None \<Longrightarrow> keys (insert k v m) = keys m"
  by (rule keys_ext) (auto simp: inv_insert get_insert)

end

type_synonym ('k, 'v) btree = "('k \<times> 'v) list"

definition bt_inv :: "('k::linorder, 'v) btree \<Rightarrow> bool" where
  "bt_inv m \<longleftrightarrow> sorted_wrt (<) (map fst m)"

definition bt_get :: "('k::linorder, 'v) btree \<Rightarrow> 'k \<Rightarrow> 'v option" where
  "bt_get = map_of"

fun bt_insert :: "'k::linorder \<Rightarrow> 'v \<Rightarrow> ('k, 'v) btree \<Rightarrow> ('k, 'v) btree" where
  "bt_insert k v [] = [(k, v)]"
| "bt_insert k v ((j, w) # m) =
     (if k < j then (k, v) # (j, w) # m
      else if k = j then (k, v) # m
      else (j, w) # bt_insert k v m)"

fun bt_remove :: "'k::linorder \<Rightarrow> ('k, 'v) btree \<Rightarrow> ('k, 'v) btree" where
  "bt_remove k [] = []"
| "bt_remove k ((j, w) # m) =
     (if k < j then (j, w) # m
      else if k = j then m
      else (j, w) # bt_remove k m)"

definition bt_keys :: "('k::linorder, 'v) btree \<Rightarrow> 'k list" where
  "bt_keys m = map fst m"

definition bt_contains :: "('k::linorder, 'v) btree \<Rightarrow> 'k \<Rightarrow> bool" where
  "bt_contains m k \<longleftrightarrow> bt_get m k \<noteq> None"

text \<open>\<^verbatim>\<open>values_mut().for_each(f)\<close> and \<^verbatim>\<open>iter_mut()\<close>.\<close>

definition bt_map_values :: "('v \<Rightarrow> 'w) \<Rightarrow> ('k, 'v) btree \<Rightarrow> ('k, 'w) btree" where
  "bt_map_values f m = map (\<lambda>(k, v). (k, f v)) m"

text \<open>\<^verbatim>\<open>get_mut(k)\<close> followed by an in-place update: absent keys are left absent.\<close>

definition bt_update :: "'k::linorder \<Rightarrow> ('v \<Rightarrow> 'v) \<Rightarrow> ('k, 'v) btree \<Rightarrow> ('k, 'v) btree" where
  "bt_update k f m = (case bt_get m k of None \<Rightarrow> m | Some v \<Rightarrow> bt_insert k (f v) m)"

lemma set_bt_insert: "fst ` set (bt_insert k v m) = Set.insert k (fst ` set m)"
  by (induction k v m rule: bt_insert.induct) auto

lemma set_bt_remove: "fst ` set (bt_remove k m) \<subseteq> fst ` set m"
  by (induction k m rule: bt_remove.induct) auto

lemma bt_inv_Cons:
  "bt_inv ((j, w) # m) \<longleftrightarrow> (\<forall>x \<in> fst ` set m. j < x) \<and> bt_inv m"
  by (auto simp: bt_inv_def)

lemma map_of_above: "(\<forall>x \<in> fst ` set m. j < x) \<Longrightarrow> k \<le> (j::'k::linorder) \<Longrightarrow> map_of m k = None"
  by (force simp: map_of_eq_None_iff)

lemma bt_insert_props:
  assumes "bt_inv m"
  shows "bt_inv (bt_insert k v m)"
    and "map_of (bt_insert k v m) j = (if j = k then Some v else map_of m j)"
  using assms
  by (induction k v m rule: bt_insert.induct)
    (auto simp: bt_inv_Cons set_bt_insert bt_inv_def [of "[]"])

lemma bt_remove_inv: "bt_inv m \<Longrightarrow> bt_inv (bt_remove k m)"
proof (induction k m rule: bt_remove.induct)
  case (2 k j w m)
  then show ?case
    using set_bt_remove [of k m] by (simp add: bt_inv_Cons del: ball_simps(9)) blast
qed simp

lemma bt_remove_get:
  "bt_inv m \<Longrightarrow> map_of (bt_remove k m) i = (if i = k then None else map_of m i)"
  by (induction k m rule: bt_remove.induct) (auto simp: bt_inv_Cons map_of_above)

interpretation bt: ordered_map "[]" bt_get bt_insert bt_remove bt_keys bt_inv
proof
  show "bt_inv ([] :: ('k::linorder, 'v) btree)" by (simp add: bt_inv_def)
next
  fix m :: "('k::linorder, 'v) btree" assume "bt_inv m"
  then show "sorted (bt_keys m) \<and> distinct (bt_keys m)"
    by (simp add: bt_inv_def bt_keys_def strict_sorted_iff)
qed (simp_all add: bt_insert_props bt_remove_inv bt_remove_get bt_get_def bt_keys_def
    map_of_eq_None_iff)

lemmas bt_get_simps [simp] = bt.get_empty bt.get_insert bt.get_remove
lemmas bt_inv_intros [simp, intro] = bt.inv_empty bt.inv_insert bt.inv_remove

lemma bt_get_Nil [simp]: "bt_get [] k = None"
  by (simp add: bt_get_def)

lemma bt_get_map_values [simp]: "bt_get (bt_map_values f m) k = map_option f (bt_get m k)"
  by (simp add: bt_get_def bt_map_values_def map_of_map)

lemma bt_inv_map_values [simp]: "bt_inv (bt_map_values f m) \<longleftrightarrow> bt_inv m"
  by (simp add: bt_inv_def bt_map_values_def comp_def case_prod_unfold)

lemma bt_inv_update [simp]: "bt_inv m \<Longrightarrow> bt_inv (bt_update k f m)"
  by (simp add: bt_update_def split: option.split)

lemma bt_get_update [simp]:
  "bt_inv m \<Longrightarrow> bt_get (bt_update k f m) j = (if j = k then map_option f (bt_get m k) else bt_get m j)"
  by (auto simp: bt_update_def split: option.split)

lemma bt_keys_update [simp]: "bt_inv m \<Longrightarrow> bt_keys (bt_update k f m) = bt_keys m"
  by (auto simp: bt_update_def bt.keys_insert_present split: option.split)

text \<open>Predicates on all entries, and pruning.\<close>

lemma fold_remove_ok:
  assumes "bt_inv (cs :: ('k::linorder, 'v) btree)" "\<forall>k h. bt_get cs k = Some h \<longrightarrow> P k h"
  shows "bt_inv (fold bt_remove ks cs) \<and> (\<forall>k h. bt_get (fold bt_remove ks cs) k = Some h \<longrightarrow> P k h)"
  using assms
proof (induction ks arbitrary: cs)
  case (Cons k ks)
  have "bt_get (bt_remove k cs) j = Some h \<Longrightarrow> P j h" for j h
    using Cons.prems by (cases "j = k") simp_all
  then have "\<forall>j h. bt_get (bt_remove k cs) j = Some h \<longrightarrow> P j h" by blast
  from Cons.IH [OF bt.inv_remove [OF Cons.prems(1)] this] show ?case unfolding fold_simps .
qed simp

lemma bt_all_iff:
  "(\<forall>k h. bt_get cs k = Some h \<longrightarrow> P k h) \<longleftrightarrow> (\<forall>(k, h) \<in> set cs. P k h)"
  if "bt_inv cs"
proof -
  have "distinct (map fst cs)" using that by (simp add: bt_inv_def strict_sorted_iff)
  then have "bt_get cs k = Some h \<longleftrightarrow> (k, h) \<in> set cs" for k h by (simp add: bt_get_def)
  then show ?thesis by auto
qed

end
