(* ===== verification/Dll_Errors.thy ===== *)
theory Dll_Errors
  imports PL_Types BTree_Map
begin

section \<open>DLL errors and their counters\<close>

text \<open>
  \<^verbatim>\<open>frame/error/{types,counters,manager,traits}.rs\<close>: the error symptoms of the data link layer,
  the 8:1 threshold counters, and the counter sets of a controlled and of a managing node. The
  trait \<^verbatim>\<open>ErrorHandler\<close> is a parameter: \<open>log_error\<close> is the implementation's method on its own
  state \<open>'h\<close>, so a handler sees exactly the errors the code hands to it, in that order.
\<close>

datatype NmtAction = None' | ResetCommunication | ResetNode NodeId

datatype DllError =
    LossOfLink | BadPhysicalMode | MacBuffer | Crc | Collision | InvalidFormat
  | LossOfSoc | LossOfSoa | LossOfPreq
  | LossOfPres NodeId | LossOfStatusRes NodeId
  | CycleTimeExceeded | LatePres NodeId | SoCJitter | MsWaitSoc | MultipleMn
  | AddressConflict | MevAsndTimeout
  | UnexpectedEventInState u8 u8
  | PdoMapVersion NodeId | PdoPayloadShort NodeId | HeartbeatTimeout NodeId

fun to_error_code :: "DllError \<Rightarrow> u16" where
  "to_error_code LossOfLink = 0x8165"
| "to_error_code BadPhysicalMode = 0x8161"
| "to_error_code MacBuffer = 0x8166"
| "to_error_code Crc = 0x8164"
| "to_error_code Collision = 0x8163"
| "to_error_code InvalidFormat = 0x8241"
| "to_error_code LossOfSoc = 0x8245"
| "to_error_code LossOfSoa = 0x8244"
| "to_error_code LossOfPreq = 0x8242"
| "to_error_code (LossOfPres _) = 0x8243"
| "to_error_code (LossOfStatusRes _) = 0x8246"
| "to_error_code CycleTimeExceeded = 0x8233"
| "to_error_code (LatePres _) = 0x8236"
| "to_error_code SoCJitter = 0x8235"
| "to_error_code (PdoMapVersion _) = 0x8211"
| "to_error_code (PdoPayloadShort _) = 0x8210"
| "to_error_code (HeartbeatTimeout _) = 0x8250"
| "to_error_code _ = 0x8000"

subsection \<open>The threshold counter\<close>

record ThresholdCounter =
  cumulative_cnt :: u32
  threshold_cnt :: u32
  threshold :: u32

definition ThresholdCounter_default :: ThresholdCounter where
  "ThresholdCounter_default = \<lparr> cumulative_cnt = 0, threshold_cnt = 0, threshold = 0 \<rparr>"

definition ThresholdCounter_new :: "u32 \<Rightarrow> ThresholdCounter" where
  "ThresholdCounter_new th = \<lparr> cumulative_cnt = 0, threshold_cnt = 0, threshold = th \<rparr>"

definition increment :: "ThresholdCounter \<Rightarrow> ThresholdCounter" where
  "increment c = c\<lparr> threshold_cnt := sat_add (threshold_cnt c) 8 \<rparr>"

definition decrement :: "ThresholdCounter \<Rightarrow> ThresholdCounter" where
  "decrement c = c\<lparr> threshold_cnt := sat_sub (threshold_cnt c) 1 \<rparr>"

definition check_and_reset :: "ThresholdCounter \<Rightarrow> bool \<times> ThresholdCounter" where
  "check_and_reset c =
     (if threshold c > 0 \<and> threshold_cnt c \<ge> threshold c
      then (True, c\<lparr> threshold_cnt := 0, cumulative_cnt := sat_add (cumulative_cnt c) 1 \<rparr>)
      else (False, c))"

definition is_active :: "ThresholdCounter \<Rightarrow> bool" where
  "is_active c \<longleftrightarrow> threshold_cnt c > 0"

definition cumulative_count :: "ThresholdCounter \<Rightarrow> u32" where
  "cumulative_count c = cumulative_cnt c"

text \<open>Every error of the source goes through an increment followed by a check.\<close>

definition count_error :: "ThresholdCounter \<Rightarrow> bool \<times> ThresholdCounter" where
  "count_error c = check_and_reset (increment c)"

lemma is_active_iff: "is_active c \<longleftrightarrow> 0 < unat (threshold_cnt c)"
  by (simp add: is_active_def unat_gt_0 word_neq_0_conv)

lemma unat_decrement: "unat (threshold_cnt (decrement c)) = unat (threshold_cnt c) - 1"
  by (simp add: decrement_def unat_sat_sub)

lemma decrement_funpow:
  "unat (threshold_cnt ((decrement ^^ n) c)) = unat (threshold_cnt c) - n"
  "threshold ((decrement ^^ n) c) = threshold c"
  by (induction n) (simp_all add: unat_decrement, simp_all add: decrement_def)

lemma unat_increment:
  "unat (threshold_cnt (increment c)) = min (unat (threshold_cnt c) + 8) (2 ^ 32 - 1)"
  by (simp add: increment_def unat_sat_add)

lemma threshold_increment [simp]: "threshold (increment c) = threshold c"
  by (simp add: increment_def)

lemma threshold_decrement [simp]: "threshold (decrement c) = threshold c"
  by (simp add: decrement_def)

lemma count_error_reached:
  assumes "0 < unat (threshold c)"
  shows "fst (count_error c) \<longleftrightarrow> unat (threshold c) \<le> unat (threshold_cnt c) + 8"
proof -
  have "unat (threshold c) < 2 ^ 32" using unat_lt_2p [of "threshold c"] by simp
  with assms show ?thesis
    by (auto simp: count_error_def check_and_reset_def word_le_nat_alt word_less_nat_alt
        unat_increment)
qed

lemma count_error_snd:
  "threshold_cnt (snd (count_error c)) =
     (if fst (count_error c) then 0 else sat_add (threshold_cnt c) 8)"
  "threshold (snd (count_error c)) = threshold c"
  by (simp_all add: count_error_def check_and_reset_def increment_def)

text \<open>A counter whose threshold is set stays below it once it has been checked.\<close>

definition counter_ok :: "ThresholdCounter \<Rightarrow> bool" where
  "counter_ok c \<longleftrightarrow> (0 < threshold c \<longrightarrow> threshold_cnt c < threshold c)"

lemma counter_ok_new [simp]: "counter_ok (ThresholdCounter_new th)"
  by (simp add: counter_ok_def ThresholdCounter_new_def)

lemma counter_ok_default [simp]: "counter_ok ThresholdCounter_default"
  by (simp add: counter_ok_def ThresholdCounter_default_def)

lemma counter_ok_decrement [simp]: "counter_ok c \<Longrightarrow> counter_ok (decrement c)"
  by (auto simp: counter_ok_def word_less_nat_alt unat_decrement)

lemma counter_ok_count_error [simp]: "counter_ok (snd (count_error c))"
  by (auto simp: counter_ok_def count_error_def check_and_reset_def)

text \<open>A counter that has no threshold never reports, however many errors it counts.\<close>

lemma count_error_disabled [simp]: "threshold c = 0 \<Longrightarrow> \<not> fst (count_error c)"
  by (simp add: count_error_def check_and_reset_def)

subsection \<open>Controlled node\<close>

record CnErrorCounters =
  cnc_collision :: ThresholdCounter
  cnc_loss_of_soc :: ThresholdCounter
  cnc_loss_of_soa :: ThresholdCounter
  cnc_loss_of_preq :: ThresholdCounter
  cnc_soc_jitter :: ThresholdCounter
  cnc_crc_errors :: ThresholdCounter
  cnc_heartbeat_timeout :: ThresholdCounter
  cnc_loss_of_link_cumulative :: u32

definition CnErrorCounters_new :: CnErrorCounters where
  "CnErrorCounters_new =
     \<lparr> cnc_collision = ThresholdCounter_new 15,
       cnc_loss_of_soc = ThresholdCounter_new 15,
       cnc_loss_of_soa = ThresholdCounter_new 15,
       cnc_loss_of_preq = ThresholdCounter_new 15,
       cnc_soc_jitter = ThresholdCounter_new 15,
       cnc_crc_errors = ThresholdCounter_new 15,
       cnc_heartbeat_timeout = ThresholdCounter_new 15,
       cnc_loss_of_link_cumulative = 0 \<rparr>"

definition is_any_active :: "CnErrorCounters \<Rightarrow> bool" where
  "is_any_active c \<longleftrightarrow>
     is_active (cnc_loss_of_soc c) \<or> is_active (cnc_loss_of_soa c)
     \<or> is_active (cnc_loss_of_preq c) \<or> is_active (cnc_crc_errors c)
     \<or> is_active (cnc_collision c) \<or> is_active (cnc_soc_jitter c)
     \<or> is_active (cnc_heartbeat_timeout c)"

definition cn_decrement_all :: "CnErrorCounters \<Rightarrow> CnErrorCounters" where
  "cn_decrement_all c =
     c\<lparr> cnc_loss_of_soc := decrement (cnc_loss_of_soc c),
        cnc_loss_of_soa := decrement (cnc_loss_of_soa c),
        cnc_loss_of_preq := decrement (cnc_loss_of_preq c),
        cnc_crc_errors := decrement (cnc_crc_errors c),
        cnc_collision := decrement (cnc_collision c),
        cnc_soc_jitter := decrement (cnc_soc_jitter c),
        cnc_heartbeat_timeout := decrement (cnc_heartbeat_timeout c) \<rparr>"

definition cn_on_cycle_complete :: "CnErrorCounters \<Rightarrow> bool \<times> CnErrorCounters" where
  "cn_on_cycle_complete c =
     (let was_active = is_any_active c;
          c' = cn_decrement_all c;
          is_still_active = is_any_active c'
      in (was_active \<and> \<not> is_still_active, c'))"

text \<open>The \<^verbatim>\<open>match error\<close> of \<^verbatim>\<open>handle_error\<close>: the updated counters, whether a threshold was
  reached, and whether the branch itself has logged the error and set \<^verbatim>\<open>status_changed\<close>.\<close>

fun cn_count :: "DllError \<Rightarrow> CnErrorCounters \<Rightarrow> CnErrorCounters \<times> bool \<times> bool" where
  "cn_count LossOfSoc c =
     (let (r, k) = count_error (cnc_loss_of_soc c) in (c\<lparr> cnc_loss_of_soc := k \<rparr>, r, False))"
| "cn_count LossOfSoa c =
     (let (r, k) = count_error (cnc_loss_of_soa c) in (c\<lparr> cnc_loss_of_soa := k \<rparr>, r, False))"
| "cn_count LossOfPreq c =
     (let (r, k) = count_error (cnc_loss_of_preq c) in (c\<lparr> cnc_loss_of_preq := k \<rparr>, r, False))"
| "cn_count Crc c =
     (let (r, k) = count_error (cnc_crc_errors c) in (c\<lparr> cnc_crc_errors := k \<rparr>, r, False))"
| "cn_count Collision c =
     (let (r, k) = count_error (cnc_collision c) in (c\<lparr> cnc_collision := k \<rparr>, r, False))"
| "cn_count SoCJitter c =
     (let (r, k) = count_error (cnc_soc_jitter c) in (c\<lparr> cnc_soc_jitter := k \<rparr>, r, False))"
| "cn_count (HeartbeatTimeout _) c =
     (let (r, k) = count_error (cnc_heartbeat_timeout c)
      in (c\<lparr> cnc_heartbeat_timeout := k \<rparr>, r, False))"
| "cn_count LossOfLink c =
     (c\<lparr> cnc_loss_of_link_cumulative := sat_add (cnc_loss_of_link_cumulative c) 1 \<rparr>, False, True)"
| "cn_count (PdoMapVersion _) c = (c, False, True)"
| "cn_count (PdoPayloadShort _) c = (c, False, True)"
| "cn_count _ c = (c, False, False)"

definition cn_handle_error ::
  "('h \<Rightarrow> DllError \<Rightarrow> 'h) \<Rightarrow> CnErrorCounters \<Rightarrow> DllError \<Rightarrow> 'h \<Rightarrow>
     (NmtAction \<times> bool) \<times> CnErrorCounters \<times> 'h" where
  "cn_handle_error log_error c error h =
     (let (c', threshold_reached, status_changed) = cn_count error c;
          h1 = (if status_changed then log_error h error else h)
      in if threshold_reached
         then ((ResetCommunication, True), c', log_error h1 error)
         else ((None', status_changed), c', h1))"

subsection \<open>Managing node\<close>

record MnErrorCounters =
  mnc_crc_errors :: ThresholdCounter
  mnc_collision :: ThresholdCounter
  mnc_cycle_time_exceeded :: ThresholdCounter
  mnc_loss_of_link_cumulative :: u32
  mnc_cn_late_pres :: "(NodeId, ThresholdCounter) btree"
  mnc_cn_loss_of_pres :: "(NodeId, ThresholdCounter) btree"
  mnc_cn_loss_of_status_response :: "(NodeId, ThresholdCounter) btree"

definition MnErrorCounters_new :: MnErrorCounters where
  "MnErrorCounters_new =
     \<lparr> mnc_crc_errors = ThresholdCounter_default,
       mnc_collision = ThresholdCounter_default,
       mnc_cycle_time_exceeded = ThresholdCounter_default,
       mnc_loss_of_link_cumulative = 0,
       mnc_cn_late_pres = [], mnc_cn_loss_of_pres = [], mnc_cn_loss_of_status_response = [] \<rparr>"

text \<open>\<^verbatim>\<open>entry(node_id).or_insert_with(|| ThresholdCounter::new(15))\<close>.\<close>

definition counter_for :: "(NodeId, ThresholdCounter) btree \<Rightarrow> NodeId \<Rightarrow> ThresholdCounter" where
  "counter_for m n = unwrap_or (bt_get m n) (ThresholdCounter_new 15)"

definition mn_on_cycle_complete :: "MnErrorCounters \<Rightarrow> bool \<times> MnErrorCounters" where
  "mn_on_cycle_complete c =
     (False,
      c\<lparr> mnc_crc_errors := decrement (mnc_crc_errors c),
         mnc_collision := decrement (mnc_collision c),
         mnc_cycle_time_exceeded := decrement (mnc_cycle_time_exceeded c),
         mnc_cn_loss_of_pres := bt_map_values decrement (mnc_cn_loss_of_pres c),
         mnc_cn_late_pres := bt_map_values decrement (mnc_cn_late_pres c),
         mnc_cn_loss_of_status_response :=
           bt_map_values decrement (mnc_cn_loss_of_status_response c) \<rparr>)"

fun mn_count :: "DllError \<Rightarrow> MnErrorCounters \<Rightarrow> MnErrorCounters \<times> (bool \<times> NodeId option) \<times> bool" where
  "mn_count Crc c =
     (let (r, k) = count_error (mnc_crc_errors c)
      in (c\<lparr> mnc_crc_errors := k \<rparr>, (r, None), False))"
| "mn_count Collision c =
     (let (r, k) = count_error (mnc_collision c)
      in (c\<lparr> mnc_collision := k \<rparr>, (r, None), False))"
| "mn_count CycleTimeExceeded c =
     (let (r, k) = count_error (mnc_cycle_time_exceeded c)
      in (c\<lparr> mnc_cycle_time_exceeded := k \<rparr>, (r, None), False))"
| "mn_count (LossOfPres n) c =
     (let (r, k) = count_error (counter_for (mnc_cn_loss_of_pres c) n)
      in (c\<lparr> mnc_cn_loss_of_pres := bt_insert n k (mnc_cn_loss_of_pres c) \<rparr>, (r, Some n), False))"
| "mn_count (LatePres n) c =
     (let (r, k) = count_error (counter_for (mnc_cn_late_pres c) n)
      in (c\<lparr> mnc_cn_late_pres := bt_insert n k (mnc_cn_late_pres c) \<rparr>, (r, Some n), False))"
| "mn_count (LossOfStatusRes n) c =
     (let (r, k) = count_error (counter_for (mnc_cn_loss_of_status_response c) n)
      in (c\<lparr> mnc_cn_loss_of_status_response :=
               bt_insert n k (mnc_cn_loss_of_status_response c) \<rparr>, (r, Some n), False))"
| "mn_count (PdoMapVersion _) c = (c, (False, None), True)"
| "mn_count (PdoPayloadShort _) c = (c, (False, None), True)"
| "mn_count _ c = (c, (False, None), False)"

definition mn_handle_error ::
  "('h \<Rightarrow> DllError \<Rightarrow> 'h) \<Rightarrow> MnErrorCounters \<Rightarrow> DllError \<Rightarrow> 'h \<Rightarrow>
     (NmtAction \<times> bool) \<times> MnErrorCounters \<times> 'h" where
  "mn_handle_error log_error c error h =
     (let (c', (threshold_reached, node_id), status_changed) = mn_count error c;
          h1 = (if status_changed then log_error h error else h)
      in if threshold_reached
         then (case node_id of
                 Some n \<Rightarrow> ((ResetNode n, True), c', log_error h1 error)
               | None \<Rightarrow> ((ResetCommunication, True), c', log_error h1 error))
         else ((None', status_changed), c', h1))"

subsection \<open>The error manager\<close>

text \<open>\<^verbatim>\<open>DllErrorManager<C, H>\<close>, generic over the counter set and the handler.\<close>

record ('c, 'h) DllErrorManager =
  counters :: 'c
  handler :: 'h

definition manager_handle_error ::
  "('c \<Rightarrow> DllError \<Rightarrow> 'h \<Rightarrow> (NmtAction \<times> bool) \<times> 'c \<times> 'h) \<Rightarrow> ('c, 'h) DllErrorManager \<Rightarrow>
     DllError \<Rightarrow> (NmtAction \<times> bool) \<times> ('c, 'h) DllErrorManager" where
  "manager_handle_error handle m error =
     (let (r, c', h') = handle (counters m) error (handler m)
      in (r, m\<lparr> counters := c', handler := h' \<rparr>))"

definition manager_on_cycle_complete ::
  "('c \<Rightarrow> bool \<times> 'c) \<Rightarrow> ('c, 'h) DllErrorManager \<Rightarrow> bool \<times> ('c, 'h) DllErrorManager" where
  "manager_on_cycle_complete cycle m =
     (let (r, c') = cycle (counters m) in (r, m\<lparr> counters := c' \<rparr>))"

subsection \<open>The contract of a counter set\<close>

text \<open>
  The trait \<^verbatim>\<open>ErrorCounters\<close> as an interface: an NMT action is always signalled, an error is
  handed to the handler once when it is signalled and not at all when it is not, and both
  operations keep the invariant of the counters. The manager is a client of it.
\<close>

datatype dll_step = OnError DllError | OnCycle

fun manager_run ::
  "('c \<Rightarrow> DllError \<Rightarrow> 'h \<Rightarrow> (NmtAction \<times> bool) \<times> 'c \<times> 'h) \<Rightarrow> ('c \<Rightarrow> bool \<times> 'c) \<Rightarrow>
     dll_step list \<Rightarrow> ('c, 'h) DllErrorManager \<Rightarrow>
     DllError list \<times> ('c, 'h) DllErrorManager" where
  "manager_run handle cycle [] m = ([], m)"
| "manager_run handle cycle (OnError e # es) m =
     (let ((a, changed), m1) = manager_handle_error handle m e;
          (signalled, m2) = manager_run handle cycle es m1
      in (if changed then e # signalled else signalled, m2))"
| "manager_run handle cycle (OnCycle # es) m =
     manager_run handle cycle es (snd (manager_on_cycle_complete cycle m))"

locale error_counters =
  fixes handle_error :: "('h \<Rightarrow> DllError \<Rightarrow> 'h) \<Rightarrow> 'c \<Rightarrow> DllError \<Rightarrow> 'h \<Rightarrow>
      (NmtAction \<times> bool) \<times> 'c \<times> 'h"
    and on_cycle_complete :: "'c \<Rightarrow> bool \<times> 'c"
    and inv :: "'c \<Rightarrow> bool"
  assumes inv_handle: "inv c \<Longrightarrow> inv (fst (snd (handle_error log c e h)))"
    and inv_cycle: "inv c \<Longrightarrow> inv (snd (on_cycle_complete c))"
    and logged: "handle_error log c e h = ((a, changed), c', h') \<Longrightarrow>
      h' = (if changed then log h e else h)"
    and action_signalled: "handle_error log c e h = ((a, changed), c', h') \<Longrightarrow>
      a \<noteq> None' \<Longrightarrow> changed"
begin

lemma manager_run_correct:
  assumes "manager_run (handle_error log) on_cycle_complete es m = (signalled, m')" "inv (counters m)"
  shows "inv (counters m') \<and> handler m' = fold (\<lambda>e h. log h e) signalled (handler m)"
  using assms
proof (induction es arbitrary: m signalled m')
  case Nil
  then show ?case by simp
next
  case (Cons s es)
  show ?case
  proof (cases s)
    case (OnError e)
    obtain a ch c' h' where h: "handle_error log (counters m) e (handler m) = ((a, ch), c', h')"
      by (metis prod.exhaust)
    define m1 where "m1 = m\<lparr>counters := c', handler := h'\<rparr>"
    obtain sg m2 where r: "manager_run (handle_error log) on_cycle_complete es m1 = (sg, m2)"
      by fastforce
    from Cons.prems(1) OnError h r have eq: "signalled = (if ch then e # sg else sg)" "m' = m2"
      by (auto simp: manager_handle_error_def m1_def)
    have "inv (counters m1)"
      using inv_handle [OF Cons.prems(2), of log e "handler m"] h by (simp add: m1_def)
    from Cons.IH [OF r this] logged [OF h] eq show ?thesis by (simp add: m1_def)
  next
    case OnCycle
    with Cons show ?thesis
      using inv_cycle [OF Cons.prems(2)]
      by (force simp: manager_on_cycle_complete_def split: prod.splits)
  qed
qed

end

definition cn_counters_inv :: "CnErrorCounters \<Rightarrow> bool" where
  "cn_counters_inv c \<longleftrightarrow>
     counter_ok (cnc_collision c) \<and> counter_ok (cnc_loss_of_soc c)
     \<and> counter_ok (cnc_loss_of_soa c) \<and> counter_ok (cnc_loss_of_preq c)
     \<and> counter_ok (cnc_soc_jitter c) \<and> counter_ok (cnc_crc_errors c)
     \<and> counter_ok (cnc_heartbeat_timeout c)"

definition counter_map_inv :: "(NodeId, ThresholdCounter) btree \<Rightarrow> bool" where
  "counter_map_inv m \<longleftrightarrow> bt_inv m \<and>
     (\<forall>n c. bt_get m n = Some c \<longrightarrow> counter_ok c \<and> threshold c = 15)"

definition mn_counters_inv :: "MnErrorCounters \<Rightarrow> bool" where
  "mn_counters_inv c \<longleftrightarrow>
     counter_ok (mnc_crc_errors c) \<and> counter_ok (mnc_collision c)
     \<and> counter_ok (mnc_cycle_time_exceeded c)
     \<and> counter_map_inv (mnc_cn_late_pres c) \<and> counter_map_inv (mnc_cn_loss_of_pres c)
     \<and> counter_map_inv (mnc_cn_loss_of_status_response c)"

lemma counter_ok_of_count: "count_error c = (r, k) \<Longrightarrow> counter_ok k \<and> threshold k = threshold c"
  using counter_ok_count_error [of c] count_error_snd(2) [of c] by simp

lemma counter_map_inv_Nil [simp]: "counter_map_inv []"
  by (simp add: counter_map_inv_def)

lemma counter_map_inv_decrement [simp]:
  "counter_map_inv m \<Longrightarrow> counter_map_inv (bt_map_values decrement m)"
  by (auto simp: counter_map_inv_def)

lemma threshold_counter_for [simp]: "counter_map_inv m \<Longrightarrow> threshold (counter_for m n) = 15"
  by (cases "bt_get m n") (auto simp: counter_for_def counter_map_inv_def ThresholdCounter_new_def)

lemma counter_map_inv_insert:
  "counter_map_inv m \<Longrightarrow> count_error (counter_for m n) = (r, k) \<Longrightarrow>
    counter_map_inv (bt_insert n k m)"
  using threshold_counter_for [of m n]
  by (auto simp: counter_map_inv_def dest: counter_ok_of_count split: if_splits)

lemma cn_count_inv: "cn_counters_inv c \<Longrightarrow> cn_counters_inv (fst (cn_count e c))"
  by (cases "(e, c)" rule: cn_count.cases)
    (auto simp: cn_counters_inv_def split: prod.split dest: counter_ok_of_count)

lemma mn_count_inv: "mn_counters_inv c \<Longrightarrow> mn_counters_inv (fst (mn_count e c))"
  by (cases "(e, c)" rule: mn_count.cases)
    (auto simp: mn_counters_inv_def split: prod.split
      dest: counter_ok_of_count counter_map_inv_insert)

lemma cn_count_exclusive: "cn_count e c = (c', True, s) \<Longrightarrow> \<not> s"
  by (cases "(e, c)" rule: cn_count.cases) (auto split: prod.splits)

lemma mn_count_exclusive: "mn_count e c = (c', (True, n), s) \<Longrightarrow> \<not> s"
  by (cases "(e, c)" rule: mn_count.cases) (auto split: prod.splits)

interpretation cn_ec: error_counters cn_handle_error cn_on_cycle_complete cn_counters_inv
proof
  fix c :: CnErrorCounters and log and e :: DllError and h :: 'h
  show "cn_counters_inv c \<Longrightarrow> cn_counters_inv (fst (snd (cn_handle_error log c e h)))"
    using cn_count_inv [of c e] by (auto simp: cn_handle_error_def split: prod.split)
  show "cn_counters_inv c \<Longrightarrow> cn_counters_inv (snd (cn_on_cycle_complete c))"
    by (simp add: cn_on_cycle_complete_def cn_decrement_all_def cn_counters_inv_def Let_def)
qed (auto simp: cn_handle_error_def Let_def dest: cn_count_exclusive split: prod.splits if_splits)

interpretation mn_ec: error_counters mn_handle_error mn_on_cycle_complete mn_counters_inv
proof
  fix c :: MnErrorCounters and log and e :: DllError and h :: 'h
  show "mn_counters_inv c \<Longrightarrow> mn_counters_inv (fst (snd (mn_handle_error log c e h)))"
    using mn_count_inv [of c e]
    by (auto simp: mn_handle_error_def split: prod.split option.split)
  show "mn_counters_inv c \<Longrightarrow> mn_counters_inv (snd (mn_on_cycle_complete c))"
    by (simp add: mn_on_cycle_complete_def mn_counters_inv_def)
qed (auto simp: mn_handle_error_def Let_def dest: mn_count_exclusive
    split: prod.splits if_splits option.splits)

subsection \<open>Properties\<close>

text \<open>The abstract counter: a bucket over the natural numbers that fills by 8 with every
  error, leaks 1 with every cycle, and reports and empties at the threshold.\<close>

fun bucket_run :: "nat \<Rightarrow> bool list \<Rightarrow> nat \<Rightarrow> bool list \<times> nat" where
  "bucket_run th [] n = ([], n)"
| "bucket_run th (True # es) n =
     (let reached = th \<le> n + 8;
          (rs, k) = bucket_run th es (if reached then 0 else n + 8)
      in (reached # rs, k))"
| "bucket_run th (False # es) n = bucket_run th es (n - 1)"

text \<open>The counter of the code over the same events, \<open>True\<close> for an error.\<close>

fun counter_run :: "bool list \<Rightarrow> ThresholdCounter \<Rightarrow> bool list \<times> ThresholdCounter" where
  "counter_run [] c = ([], c)"
| "counter_run (True # es) c =
     (let (r, c1) = count_error c; (rs, c2) = counter_run es c1 in (r # rs, c2))"
| "counter_run (False # es) c = counter_run es (decrement c)"

lemmas counter_eval = count_error_def check_and_reset_def increment_def decrement_def
  ThresholdCounter_new_def sat_add_def sat_sub_def

text \<open>
  C24: the saturating 32-bit threshold counter implements the leaky bucket over the natural
  numbers for every sequence of errors and cycles: it reports at the same errors and holds the
  same count, so the saturation is never visible.\<close>

theorem threshold_counter_refines:
  assumes "0 < threshold c" "counter_ok c"
  shows "bucket_run (unat (threshold c)) es (unat (threshold_cnt c))
    = (fst (counter_run es c), unat (threshold_cnt (snd (counter_run es c))))"
  using assms
proof (induction es c rule: counter_run.induct)
  case (2 es c)
  obtain r c1 where ce: "count_error c = (r, c1)" by fastforce
  have th: "threshold c1 = threshold c" "counter_ok c1"
    using counter_ok_of_count [OF ce] by simp_all
  have r: "r \<longleftrightarrow> unat (threshold c) \<le> unat (threshold_cnt c) + 8"
    using count_error_reached [of c] 2(2) ce by (simp add: word_less_nat_alt)
  have "unat (threshold_cnt c1) = (if r then 0 else unat (threshold_cnt c) + 8)"
    using count_error_snd(1) [of c] ce r unat_lt_2p [of "threshold c"]
    by (auto simp: unat_sat_add)
  with 2(1) [OF ce [symmetric] refl] 2(2) th r ce show ?case
    by (simp add: Let_def case_prod_unfold)
qed (simp_all add: unat_decrement counter_ok_decrement [unfolded counter_ok_def])

theorem threshold_counter_refines_witness:
  "bucket_run 15 [True, False, False, True, True] 0 = ([False, False, True], 0)
   \<and> fst (counter_run [True, False, False, True, True] (ThresholdCounter_new 15)) = [False, False, True]"
  using threshold_counter_refines
    [of "ThresholdCounter_new 15" "[True, False, False, True, True]"]
  by (simp add: ThresholdCounter_new_def counter_ok_def)

text \<open>The largest of the seven counts decides when the error state of a node ends.\<close>

definition cn_max :: "CnErrorCounters \<Rightarrow> nat" where
  "cn_max c =
     (let n = (\<lambda>k. unat (threshold_cnt k))
      in max (n (cnc_loss_of_soc c)) (max (n (cnc_loss_of_soa c)) (max (n (cnc_loss_of_preq c))
           (max (n (cnc_crc_errors c)) (max (n (cnc_collision c))
             (max (n (cnc_soc_jitter c)) (n (cnc_heartbeat_timeout c))))))))"

definition cn_cycle :: "CnErrorCounters \<Rightarrow> CnErrorCounters" where
  "cn_cycle c = snd (cn_on_cycle_complete c)"

lemma is_any_active_max: "is_any_active c \<longleftrightarrow> 0 < cn_max c"
  by (auto simp: is_any_active_def is_active_iff cn_max_def Let_def less_max_iff_disj)

lemma max_minus_1: "max (a - Suc 0) (b - Suc 0) = max a b - Suc 0"
  by arith

lemma cn_max_cycle: "cn_max (cn_decrement_all c) = cn_max c - 1"
  by (simp add: cn_max_def cn_decrement_all_def unat_decrement max_minus_1)

lemma cn_max_cycles: "cn_max ((cn_cycle ^^ n) c) = cn_max c - n"
  by (induction n) (simp_all add: cn_cycle_def cn_on_cycle_complete_def Let_def cn_max_cycle)

lemma cn_clear_iff: "fst (cn_on_cycle_complete c) \<longleftrightarrow> cn_max c = 1"
  by (auto simp: cn_on_cycle_complete_def Let_def is_any_active_max cn_max_cycle)



text \<open>
  Over any sequence of errors and cycles, the error manager of a controlled node hands to
  its handler exactly the errors whose status change it reports, in order, and every counter
  stays below its threshold.\<close>

lemma cn_manager_logs_signalled:
  assumes "manager_run (cn_handle_error log) cn_on_cycle_complete es m = (signalled, m')"
    and "cn_counters_inv (counters m)"
  shows "cn_counters_inv (counters m') \<and>
    handler m' = fold (\<lambda>e h. log h e) signalled (handler m)"
  using assms by (rule cn_ec.manager_run_correct)

definition mn_disabled :: "MnErrorCounters \<Rightarrow> bool" where
  "mn_disabled c \<longleftrightarrow> threshold (mnc_crc_errors c) = 0 \<and> threshold (mnc_collision c) = 0
     \<and> threshold (mnc_cycle_time_exceeded c) = 0"

lemma mn_disabled_count:
  assumes "mn_disabled c"
  shows "mn_disabled (fst (mn_count e c))"
    and "e \<in> {Crc, Collision, CycleTimeExceeded} \<Longrightarrow> snd (mn_count e c) = ((False, None), False)"
  using assms
  by (cases "(e, c)" rule: mn_count.cases;
      auto simp: mn_disabled_def case_prod_unfold Let_def count_error_snd(2))+

lemma mn_disabled_handle:
  assumes "mn_disabled c"
  shows "mn_disabled (fst (snd (mn_handle_error log c e h)))"
    and "e \<in> {Crc, Collision, CycleTimeExceeded} \<Longrightarrow>
      fst (mn_handle_error log c e h) = (None', False)"
  using mn_disabled_count [OF assms, of e]
  by (auto simp: mn_handle_error_def Let_def split: prod.splits option.split)

lemma mn_disabled_run:
  assumes "manager_run (mn_handle_error log) mn_on_cycle_complete es m = (signalled, m')"
    and "mn_disabled (counters m)"
  shows "mn_disabled (counters m') \<and> set signalled \<inter> {Crc, Collision, CycleTimeExceeded} = {}"
  using assms
proof (induction es arbitrary: m signalled m')
  case Nil
  then show ?case by simp
next
  case (Cons s es)
  show ?case
  proof (cases s)
    case (OnError e)
    obtain a ch c' h' where h: "mn_handle_error log (counters m) e (handler m) = ((a, ch), c', h')"
      by (metis prod.exhaust)
    obtain sg m2 where r: "manager_run (mn_handle_error log) mn_on_cycle_complete es
        (m\<lparr>counters := c', handler := h'\<rparr>) = (sg, m2)"
      by fastforce
    have "mn_disabled c'" "e \<in> {Crc, Collision, CycleTimeExceeded} \<Longrightarrow> \<not> ch"
      using mn_disabled_handle [OF Cons.prems(2), where log = log and e = e and h = "handler m"] h
      by simp_all
    moreover have "signalled = (if ch then e # sg else sg)" "m' = m2"
      using Cons.prems(1) OnError h r by (auto simp: manager_handle_error_def)
    ultimately show ?thesis using Cons.IH [OF r] by auto
  next
    case OnCycle
    with Cons.prems(1) have r: "manager_run (mn_handle_error log) mn_on_cycle_complete es
        (m\<lparr>counters := snd (mn_on_cycle_complete (counters m))\<rparr>) = (signalled, m')"
      by (simp add: manager_on_cycle_complete_def case_prod_unfold Let_def)
    show ?thesis
      using Cons.IH [OF r] Cons.prems(2) by (simp add: mn_on_cycle_complete_def mn_disabled_def)
  qed
qed

text \<open>
  On a managing node that keeps the counters it was created with, CRC errors, collisions and
  exceeded cycles never lead to an NMT action and are never signalled, whatever errors and
  cycles came before: their thresholds are zero, which disables them.\<close>

lemma mn_general_errors_never_act:
  assumes "manager_run (mn_handle_error log) mn_on_cycle_complete es
      \<lparr> counters = MnErrorCounters_new, handler = h \<rparr> = (signalled, m)"
    and "e \<in> {Crc, Collision, CycleTimeExceeded}"
  shows "fst (mn_handle_error log (counters m) e h') = (None', False) \<and> e \<notin> set signalled"
proof -
  have "mn_disabled (counters \<lparr> counters = MnErrorCounters_new, handler = h \<rparr>)"
    by (simp add: mn_disabled_def MnErrorCounters_new_def ThresholdCounter_default_def)
  from mn_disabled_run [OF assms(1) this] assms(2) show ?thesis
    using mn_disabled_handle(2) [of "counters m" e log h'] by auto
qed

end
