(* ===== verification/Dll_Machines.thy ===== *)
theory Dll_Machines
  imports Dll_Errors Nmt_States
begin

section \<open>The DLL cycle state machines\<close>

text \<open>
  \<^verbatim>\<open>frame/cs_state_machine.rs\<close> (controlled node) and \<^verbatim>\<open>frame/ms_state_machine.rs\<close> (managing
  node). \<open>cs_next\<close> and \<open>ms_next_*\<close> are the \<^verbatim>\<open>match (self.state, event)\<close> of \<^verbatim>\<open>process_event\<close>: the
  next state and the errors pushed, the arms in the order of the source. The state is kept in
  a record as in the source; \<^verbatim>\<open>process_event\<close> returns it with the optional list of errors.
\<close>

subsection \<open>Controlled node\<close>

datatype DllCsState = NonCyclic | WaitSoc | WaitPreq | WaitSoa

datatype DllCsEvent = Soc | Preq | Pres | Soa | Asnd | SocTimeout

primrec DllCsState_u8 :: "DllCsState \<Rightarrow> u8" where
  "DllCsState_u8 NonCyclic = 0"
| "DllCsState_u8 WaitSoc = 1"
| "DllCsState_u8 WaitPreq = 2"
| "DllCsState_u8 WaitSoa = 3"

primrec DllCsEvent_u8 :: "DllCsEvent \<Rightarrow> u8" where
  "DllCsEvent_u8 Soc = 0"
| "DllCsEvent_u8 Preq = 1"
| "DllCsEvent_u8 Pres = 2"
| "DllCsEvent_u8 Soa = 3"
| "DllCsEvent_u8 Asnd = 4"
| "DllCsEvent_u8 SocTimeout = 5"

record DllCsStateMachine =
  cs_state :: DllCsState

definition DllCsStateMachine_new :: DllCsStateMachine where
  "DllCsStateMachine_new = \<lparr> cs_state = NonCyclic \<rparr>"

fun cs_next :: "DllCsState \<Rightarrow> DllCsEvent \<Rightarrow> DllCsState \<times> DllError list" where
  "cs_next WaitPreq Preq = (WaitSoa, [])"
| "cs_next WaitSoa Soa = (WaitSoc, [])"
| "cs_next WaitSoa Preq = (WaitSoc, [LossOfSoc, LossOfSoa])"
| "cs_next WaitSoa SocTimeout = (WaitSoc, [LossOfSoc, LossOfSoa])"
| "cs_next WaitSoc Asnd = (WaitSoc, [])"
| "cs_next WaitSoc Preq = (WaitSoc, [LossOfSoc])"
| "cs_next WaitSoc Pres = (WaitSoc, [LossOfSoc])"
| "cs_next WaitSoc Soa = (WaitSoc, [LossOfSoc])"
| "cs_next WaitSoc SocTimeout = (WaitSoc, [LossOfSoc])"
| "cs_next WaitPreq Pres = (WaitPreq, [])"
| "cs_next WaitPreq Asnd = (WaitPreq, [LossOfSoa])"
| "cs_next WaitPreq Soc = (WaitPreq, [LossOfSoa])"
| "cs_next WaitPreq Soa = (WaitSoc, [LossOfPreq])"
| "cs_next WaitPreq SocTimeout = (WaitSoc, [LossOfSoc, LossOfSoa])"
| "cs_next WaitSoa Soc = (WaitPreq, [LossOfSoa])"
| "cs_next WaitSoa Pres = (WaitSoa, [])"
| "cs_next WaitSoa Asnd = (WaitSoa, [LossOfSoa])"
| "cs_next _ Soc = (WaitPreq, [])"
| "cs_next current event =
     (current, [UnexpectedEventInState (DllCsState_u8 current) (DllCsEvent_u8 event)])"

definition cs_active :: "NmtState \<Rightarrow> bool" where
  "cs_active s \<longleftrightarrow>
     s \<in> {NmtPreOperational2, NmtReadyToOperate, NmtOperational, NmtCsStopped}"

definition cs_process_event ::
  "DllCsStateMachine \<Rightarrow> DllCsEvent \<Rightarrow> NmtState \<Rightarrow> DllCsStateMachine \<times> DllError list option" where
  "cs_process_event m event nmt_state =
     (let (m', errors) =
            (if cs_active nmt_state
             then (let (next_state, errors) = cs_next (cs_state m) event
                   in (m\<lparr> cs_state := next_state \<rparr>, errors))
             else (m\<lparr> cs_state := NonCyclic \<rparr>, []))
      in (m', if errors = [] then None else Some errors))"

subsection \<open>Managing node\<close>

datatype DllMsState = NonCyclic | WaitSocTrig | WaitPres | WaitAsnd | WaitSoa

datatype DllMsEvent = Pres | PresTimeout | Asnd | AsndTimeout | SocTrig | SoaTrig

primrec DllMsState_u8 :: "DllMsState \<Rightarrow> u8" where
  "DllMsState_u8 NonCyclic = 0"
| "DllMsState_u8 WaitSocTrig = 1"
| "DllMsState_u8 WaitPres = 2"
| "DllMsState_u8 WaitAsnd = 3"
| "DllMsState_u8 WaitSoa = 4"

primrec DllMsEvent_u8 :: "DllMsEvent \<Rightarrow> u8" where
  "DllMsEvent_u8 Pres = 0"
| "DllMsEvent_u8 PresTimeout = 1"
| "DllMsEvent_u8 Asnd = 2"
| "DllMsEvent_u8 AsndTimeout = 3"
| "DllMsEvent_u8 SocTrig = 4"
| "DllMsEvent_u8 SoaTrig = 5"

record DllMsStateMachine =
  ms_state :: DllMsState

text \<open>The boolean arguments and the addressed node of \<^verbatim>\<open>process_event\<close>.\<close>

record ms_flags =
  response_expected :: bool
  async_in :: bool
  async_out :: bool
  isochr :: bool
  isochr_out :: bool
  dest_node_id :: NodeId

definition DllMsStateMachine_new :: DllMsStateMachine where
  "DllMsStateMachine_new = \<lparr> ms_state = NonCyclic \<rparr>"

definition ms_unexpected :: "DllMsState \<Rightarrow> DllMsEvent \<Rightarrow> DllMsState \<times> DllError list" where
  "ms_unexpected current event =
     (current, [UnexpectedEventInState (DllMsState_u8 current) (DllMsEvent_u8 event)])"

text \<open>The arm of \<^verbatim>\<open>NmtPreOperational1\<close> (reduced cycle, figure 31).\<close>

definition ms_next_preop1 :: "ms_flags \<Rightarrow> DllMsState \<Rightarrow> DllMsEvent \<Rightarrow> DllMsState \<times> DllError list" where
  "ms_next_preop1 f state event =
     (if state = WaitSoa \<and> event = SoaTrig then
        (case (async_in f, response_expected f, async_out f) of
           (True, False, _) \<Rightarrow> (WaitSoa, [])
         | (False, _, True) \<Rightarrow> (WaitSoa, [])
         | (False, _, False) \<Rightarrow> (WaitSoa, [])
         | (True, True, _) \<Rightarrow> (WaitAsnd, []))
      else if state = WaitAsnd \<and> (event = AsndTimeout \<or> event = SoaTrig) then
        (let errors = (if event = AsndTimeout then [MevAsndTimeout] else [])
         in case (async_in f, response_expected f) of
              (False, _) \<Rightarrow> (WaitSoa, errors)
            | (True, False) \<Rightarrow> (WaitSoa, errors)
            | (True, True) \<Rightarrow> (WaitAsnd, errors @ [MevAsndTimeout]))
      else ms_unexpected state event)"

text \<open>The arm of the three cyclic states (figure 32).\<close>

definition ms_next_cyclic :: "ms_flags \<Rightarrow> DllMsState \<Rightarrow> DllMsEvent \<Rightarrow> DllMsState \<times> DllError list" where
  "ms_next_cyclic f state event =
     (if state = WaitSocTrig \<and> event = SocTrig then
        (case (isochr f, async_in f, isochr_out f, async_out f) of
           (True, _, _, _) \<Rightarrow> (WaitPres, [])
         | (False, True, True, _) \<Rightarrow> (WaitAsnd, [])
         | (False, True, _, _) \<Rightarrow> (WaitAsnd, [])
         | (False, False, True, _) \<Rightarrow> (WaitSocTrig, [])
         | (False, False, _, True) \<Rightarrow> (WaitSocTrig, [])
         | (False, False, _, _) \<Rightarrow> (WaitSocTrig, []))
      else if state = WaitPres \<and> (event = Pres \<or> event = PresTimeout) then
        (let errors = (if event = PresTimeout then [LossOfPres (dest_node_id f)] else [])
         in case (isochr f, async_in f, isochr_out f, async_out f) of
              (True, _, _, _) \<Rightarrow> (WaitPres, errors)
            | (False, False, True, _) \<Rightarrow> (WaitSocTrig, errors)
            | (False, False, _, True) \<Rightarrow> (WaitSocTrig, errors)
            | (False, False, _, _) \<Rightarrow> (WaitSocTrig, errors)
            | (False, True, True, _) \<Rightarrow> (WaitAsnd, errors)
            | (False, True, _, _) \<Rightarrow> (WaitAsnd, errors))
      else if state = WaitAsnd \<and> event = SocTrig then
        (case (isochr f, async_in f, isochr_out f, async_out f) of
           (False, False, True, _) \<Rightarrow> (WaitSocTrig, [])
         | (False, False, _, True) \<Rightarrow> (WaitSocTrig, [])
         | (False, False, _, _) \<Rightarrow> (WaitSocTrig, [])
         | (False, True, _, _) \<Rightarrow> (WaitAsnd, [])
         | (True, _, _, _) \<Rightarrow> (WaitPres, []))
      else if state = WaitAsnd \<and> event = Asnd then (WaitAsnd, [])
      else if state = NonCyclic \<and> event = SocTrig then (WaitSocTrig, [])
      else ms_unexpected state event)"

definition ms_process_event ::
  "DllMsStateMachine \<Rightarrow> DllMsEvent \<Rightarrow> NmtState \<Rightarrow> ms_flags \<Rightarrow>
     DllMsStateMachine \<times> DllError list option" where
  "ms_process_event m event nmt_state f =
     (let (next_state, errors) =
            (if nmt_state = NmtPreOperational1 then ms_next_preop1 f (ms_state m) event
             else if nmt_state \<in> {NmtOperational, NmtReadyToOperate, NmtPreOperational2}
             then ms_next_cyclic f (ms_state m) event
             else (NonCyclic, []))
      in (m\<lparr> ms_state := next_state \<rparr>, if errors = [] then None else Some errors))"

subsection \<open>Runs of the controlled node's machine\<close>

text \<open>A run over a list of events at one NMT state, with the reported errors in order.\<close>

fun cs_run :: "NmtState \<Rightarrow> DllCsEvent list \<Rightarrow> DllCsStateMachine \<Rightarrow> DllCsStateMachine \<times> DllError list" where
  "cs_run s [] m = (m, [])"
| "cs_run s (e # es) m =
     (let (m1, errs) = cs_process_event m e s;
          (m2, rest) = cs_run s es m1
      in (m2, unwrap_or errs [] @ rest))"

text \<open>The reference for an undisturbed cycle: asynchronous frames, then the start of cycle,
  the poll request among the cross traffic of the other nodes, and the end of the isochronous
  phase.\<close>

inductive nominal :: "DllCsEvent list \<Rightarrow> bool" where
  nominal_Nil: "nominal []"
| nominal_Asnd: "nominal w \<Longrightarrow> nominal (DllCsEvent.Asnd # w)"
| nominal_Cycle: "nominal w \<Longrightarrow>
    nominal (Soc # replicate n DllCsEvent.Pres @ Preq # replicate k DllCsEvent.Pres @ Soa # w)"

lemma cs_process_event_active:
  "cs_active s \<Longrightarrow> cs_next (cs_state m) e = (st, errs) \<Longrightarrow>
    cs_process_event m e s = (m\<lparr>cs_state := st\<rparr>, if errs = [] then None else Some errs)"
  by (simp add: cs_process_event_def)

lemma cs_run_Cons_active:
  "cs_active s \<Longrightarrow> cs_next (cs_state m) e = (st, errs) \<Longrightarrow>
    cs_run s (e # es) m = (let (m2, rest) = cs_run s es (m\<lparr>cs_state := st\<rparr>) in (m2, errs @ rest))"
  by (auto simp: cs_process_event_active split: prod.split)

text \<open>\<open>rest_of_cycle st w\<close>: what is still to come of an undisturbed trace in state \<open>st\<close>.\<close>

definition after_preq :: "DllCsEvent list \<Rightarrow> bool" where
  "after_preq w \<longleftrightarrow> (\<exists>k v. w = replicate k DllCsEvent.Pres @ Soa # v \<and> nominal v)"

definition after_soc :: "DllCsEvent list \<Rightarrow> bool" where
  "after_soc w \<longleftrightarrow> (\<exists>n v. w = replicate n DllCsEvent.Pres @ Preq # v \<and> after_preq v)"

inductive_cases nominal_ConsE: "nominal (e # w)"

lemma nominal_Cons_iff:
  "nominal (e # w) \<longleftrightarrow> (e = DllCsEvent.Asnd \<and> nominal w) \<or> (e = Soc \<and> after_soc w)"
  by (auto simp: after_soc_def after_preq_def elim!: nominal_ConsE intro: nominal.intros)

lemma replicate_Cons_cases:
  assumes "x \<noteq> y"
  shows "(\<exists>k v. e # w = replicate k x @ y # v \<and> P v) \<longleftrightarrow>
    (e = x \<and> (\<exists>k v. w = replicate k x @ y # v \<and> P v)) \<or> (e = y \<and> P w)"
    (is "?L \<longleftrightarrow> ?R")
proof
  assume ?L
  then obtain k v where "e # w = replicate k x @ y # v" "P v" by blast
  then show ?R by (cases k) auto
next
  assume ?R
  then show ?L
  proof
    assume "e = x \<and> (\<exists>k v. w = replicate k x @ y # v \<and> P v)"
    then obtain k v where "e = x" "w = replicate k x @ y # v" "P v" by blast
    then have "e # w = replicate (Suc k) x @ y # v \<and> P v" by simp
    then show ?L by blast
  next
    assume "e = y \<and> P w"
    then have "e # w = replicate 0 x @ y # w \<and> P w" by simp
    then show ?L by blast
  qed
qed

lemma after_soc_Cons:
  "after_soc (e # w) \<longleftrightarrow> (e = DllCsEvent.Pres \<and> after_soc w) \<or> (e = Preq \<and> after_preq w)"
  unfolding after_soc_def by (rule replicate_Cons_cases) simp

lemma after_preq_Cons:
  "after_preq (e # w) \<longleftrightarrow> (e = DllCsEvent.Pres \<and> after_preq w) \<or> (e = Soa \<and> nominal w)"
  unfolding after_preq_def by (rule replicate_Cons_cases) simp

lemma after_Nil: "\<not> after_soc []" "\<not> after_preq []"
  by (simp_all add: after_soc_def after_preq_def)

primrec rest_of_cycle :: "DllCsState \<Rightarrow> DllCsEvent list \<Rightarrow> bool" where
  "rest_of_cycle DllCsState.NonCyclic w = False"
| "rest_of_cycle WaitSoc w = nominal w"
| "rest_of_cycle WaitPreq w = after_soc w"
| "rest_of_cycle DllCsState.WaitSoa w = after_preq w"

lemma cs_run_nominal_iff:
  assumes "cs_active s"
  shows "cs_state m \<noteq> DllCsState.NonCyclic \<Longrightarrow>
    (snd (cs_run s w m) = [] \<and> cs_state (fst (cs_run s w m)) = WaitSoc)
      \<longleftrightarrow> rest_of_cycle (cs_state m) w"
proof (induction w arbitrary: m)
  case Nil
  then show ?case by (cases "cs_state m") (auto simp: after_Nil nominal_Nil)
next
  case (Cons e w)
  obtain st errs where n: "cs_next (cs_state m) e = (st, errs)" by fastforce
  have "st \<noteq> DllCsState.NonCyclic"
    using n Cons.prems by (cases "(cs_state m, e)" rule: cs_next.cases) auto
  from Cons.IH [of "m\<lparr>cs_state := st\<rparr>"] this
  have IH: "(snd (cs_run s w (m\<lparr>cs_state := st\<rparr>)) = [] \<and>
      cs_state (fst (cs_run s w (m\<lparr>cs_state := st\<rparr>))) = WaitSoc) \<longleftrightarrow> rest_of_cycle st w"
    by simp
  have "(snd (cs_run s (e # w) m) = [] \<and> cs_state (fst (cs_run s (e # w) m)) = WaitSoc)
      \<longleftrightarrow> errs = [] \<and> rest_of_cycle st w"
    using IH by (auto simp: cs_run_Cons_active [OF assms n] simp del: cs_run.simps
        split: prod.splits)
  also have "\<dots> \<longleftrightarrow> rest_of_cycle (cs_state m) (e # w)"
    using n Cons.prems
    by (cases "(cs_state m, e)" rule: cs_next.cases)
      (auto simp: nominal_Cons_iff after_soc_Cons after_preq_Cons)
  finally show ?case .
qed

text \<open>Whatever happened before, a start of cycle resynchronises the machine: this is the
  remark beside \<^verbatim>\<open>DLL_CT01\<close>.\<close>

lemma cs_next_Soc: "fst (cs_next st Soc) = WaitPreq"
  by (cases st) simp_all

lemma cs_process_inactive:
  "\<not> cs_active s \<Longrightarrow> cs_process_event m e s = (m\<lparr>cs_state := DllCsState.NonCyclic\<rparr>, None)"
  by (simp add: cs_process_event_def)

lemma cs_next_known_errors:
  "cs_next st e = (st', errs) \<Longrightarrow> st \<noteq> DllCsState.NonCyclic \<Longrightarrow>
    set errs \<subseteq> {LossOfSoc, LossOfSoa, LossOfPreq} \<and> st' \<noteq> DllCsState.NonCyclic"
  by (cases "(st, e)" rule: cs_next.cases) auto

subsection \<open>Reachable states of the managing node's machine\<close>

inductive ms_step :: "NmtState \<Rightarrow> DllMsStateMachine \<Rightarrow> DllError list \<Rightarrow> DllMsStateMachine \<Rightarrow> bool" where
  ms_step: "ms_process_event m e s f = (m', errs) \<Longrightarrow> ms_step s m (unwrap_or errs []) m'"

inductive_simps ms_step_iff: "ms_step s m errs m'"

text \<open>\<open>ms_reach N m\<close>: reachable by events processed in NMT states of \<open>N\<close> only.\<close>

inductive ms_reach :: "NmtState set \<Rightarrow> DllMsStateMachine \<Rightarrow> bool" for N where
  ms_reach_new: "ms_reach N DllMsStateMachine_new"
| ms_reach_step: "ms_reach N m \<Longrightarrow> s \<in> N \<Longrightarrow> ms_step s m errs m' \<Longrightarrow> ms_reach N m'"

definition ms_cyclic_states :: "NmtState set" where
  "ms_cyclic_states = {NmtOperational, NmtReadyToOperate, NmtPreOperational2}"

lemmas ms_defs = ms_process_event_def ms_next_preop1_def ms_next_cyclic_def ms_unexpected_def

lemma ms_step_noncyclic_stays:
  assumes "ms_step s m errs m'" "s \<notin> ms_cyclic_states" "ms_state m = NonCyclic"
  shows "ms_state m' = NonCyclic"
  using assms by (auto simp: ms_step_iff ms_defs ms_cyclic_states_def split: if_splits prod.splits)

lemma ms_step_cyclic_no_soa:
  assumes "ms_step s m errs m'" "s \<noteq> NmtPreOperational1" "ms_state m \<noteq> WaitSoa"
  shows "ms_state m' \<noteq> WaitSoa"
  using assms
  by (auto simp: ms_step_iff ms_defs Let_def split: if_splits prod.splits bool.splits)

lemma ms_step_cyclic_soa_stuck:
  assumes "ms_step s m errs m'" "s \<in> ms_cyclic_states" "ms_state m = WaitSoa"
  shows "ms_state m' = WaitSoa \<and> errs \<noteq> []"
  using assms by (auto simp: ms_step_iff ms_defs ms_cyclic_states_def split: if_splits prod.splits)

subsection \<open>Properties\<close>



text \<open>
  A start of cycle brings the machine of a cyclic controlled node to waiting for its poll
  request from any state; and outside the cyclic NMT states every event takes it to the
  non-cyclic state without an error.\<close>

lemma cs_soc_resynchronises:
  "cs_state (fst (cs_process_event m e s)) =
     (if \<not> cs_active s then DllCsState.NonCyclic
      else if e = Soc then WaitPreq
      else fst (cs_next (cs_state m) e))
   \<and> (\<not> cs_active s \<longrightarrow> snd (cs_process_event m e s) = None)"
  by (cases "cs_next (cs_state m) e")
    (use cs_next_Soc [of "cs_state m"] in \<open>auto simp: cs_process_event_def Let_def split: prod.split\<close>)

text \<open>
  A managing node that has not yet been in a cyclic NMT state keeps its DLL machine in the
  non-cyclic state: in PreOperational1 no event of the reduced cycle moves it, and every one
  of them is reported as unexpected.\<close>

lemma ms_preop1_never_starts:
  assumes "ms_reach {s. s \<notin> ms_cyclic_states} m"
  shows "ms_state m = NonCyclic \<and>
    snd (ms_process_event m e NmtPreOperational1 f)
      = Some [UnexpectedEventInState 0 (DllMsEvent_u8 e)]"
proof -
  from assms have "ms_state m = NonCyclic"
    by induction (auto simp: DllMsStateMachine_new_def dest: ms_step_noncyclic_stays)
  then show ?thesis by (simp add: ms_defs)
qed

text \<open>
  In the cyclic NMT states the machine of the managing node never enters the state of the
  reduced cycle; but once it is there (it fell back to PreOperational1 from a cyclic state),
  no event of the cyclic states takes it out again, and each of them is reported as an error.\<close>

lemma ms_wait_soa_absorbing:
  assumes "ms_step s m errs m'" "s \<in> ms_cyclic_states"
  shows "(ms_state m' = WaitSoa \<longleftrightarrow> ms_state m = WaitSoa) \<and> (ms_state m = WaitSoa \<longrightarrow> errs \<noteq> [])"
  using ms_step_cyclic_soa_stuck [OF assms] ms_step_cyclic_no_soa [OF assms(1)] assms(2)
  by (auto simp: ms_cyclic_states_def)

end
