(* ===== verification/Frames.thy ===== *)
theory Frames
  imports Frame_Codec Dll_Machines
begin

section \<open>Frames as nodes send and receive them\<close>

text \<open>
  \<^verbatim>\<open>PowerlinkFrame\<close> of \<^verbatim>\<open>frame/mod.rs\<close>, \<^verbatim>\<open>deserialize_frame\<close> of \<^verbatim>\<open>frame/codec.rs\<close> and
  \<^verbatim>\<open>serialize_frame_action\<close> of \<^verbatim>\<open>node/mod.rs\<close>. The sum of the five codecs is again a codec; the
  receiving end decodes what the sending end has put on the wire.
\<close>

datatype PowerlinkFrame =
    FSoc SocFrame | FPReq PReqFrame | FPRes PResFrame | FSoA SoAFrame | FASnd ASndFrame

primrec ethernet_header :: "PowerlinkFrame \<Rightarrow> EthernetHeader" where
  "ethernet_header (FSoc f) = soc_eth_header f"
| "ethernet_header (FPReq f) = preq_eth_header f"
| "ethernet_header (FPRes f) = pres_eth_header f"
| "ethernet_header (FSoA f) = soa_eth_header f"
| "ethernet_header (FASnd f) = asnd_eth_header f"

primrec PowerlinkFrame_serialize :: "PowerlinkFrame \<Rightarrow> serializer" where
  "PowerlinkFrame_serialize (FSoc f) = SocFrame_serialize f"
| "PowerlinkFrame_serialize (FPReq f) = PReqFrame_serialize f"
| "PowerlinkFrame_serialize (FPRes f) = PResFrame_serialize f"
| "PowerlinkFrame_serialize (FSoA f) = SoAFrame_serialize f"
| "PowerlinkFrame_serialize (FASnd f) = ASndFrame_serialize f"

primrec nmt_event :: "PowerlinkFrame \<Rightarrow> NmtEvent option" where
  "nmt_event (FSoc _) = Some SocReceived"
| "nmt_event (FSoA _) = Some SocSoAReceived"
| "nmt_event (FPReq _) = None"
| "nmt_event (FPRes _) = None"
| "nmt_event (FASnd _) = None"

primrec dll_cn_event :: "PowerlinkFrame \<Rightarrow> DllCsEvent" where
  "dll_cn_event (FSoc _) = Soc"
| "dll_cn_event (FPReq _) = Preq"
| "dll_cn_event (FPRes _) = DllCsEvent.Pres"
| "dll_cn_event (FSoA _) = Soa"
| "dll_cn_event (FASnd _) = DllCsEvent.Asnd"

primrec dll_mn_event :: "PowerlinkFrame \<Rightarrow> DllMsEvent" where
  "dll_mn_event (FPRes _) = DllMsEvent.Pres"
| "dll_mn_event (FASnd _) = DllMsEvent.Asnd"
| "dll_mn_event (FSoc _) = DllMsEvent.Asnd"
| "dll_mn_event (FPReq _) = DllMsEvent.Asnd"
| "dll_mn_event (FSoA _) = DllMsEvent.Asnd"

text \<open>The dispatch on the message type, step 6 of \<^verbatim>\<open>deserialize_frame\<close>.\<close>

definition deserialize_pl :: "EthernetHeader \<Rightarrow> bytes \<Rightarrow> PowerlinkFrame result" where
  "deserialize_pl eth_header pl_buffer =
     (let message_type_byte = pl_buffer ! 0 AND 0x7F
      in case MessageType_try_from message_type_byte of
           Inr SoC \<Rightarrow> map_sum id FSoc (SocFrame_deserialize eth_header pl_buffer)
         | Inr PReq \<Rightarrow> map_sum id FPReq (PReqFrame_deserialize eth_header pl_buffer)
         | Inr PRes \<Rightarrow> map_sum id FPRes (PResFrame_deserialize eth_header pl_buffer)
         | Inr SoA \<Rightarrow> map_sum id FSoA (SoAFrame_deserialize eth_header pl_buffer)
         | Inr ASnd \<Rightarrow> map_sum id FASnd (ASndFrame_deserialize eth_header pl_buffer)
         | Inl _ \<Rightarrow> Inl (InvalidMessageType message_type_byte))"

definition deserialize_frame :: "bytes \<Rightarrow> PowerlinkFrame result" where
  "deserialize_frame buffer =
     rbind (deserialize_eth_header buffer) (\<lambda>eth_header.
       if \<not> is_powerlink eth_header then Inl InvalidEthernetFrame
       else
         let pl_buffer = drop 14 buffer
         in if pl_buffer = [] then Inl InvalidPlFrame
            else deserialize_pl eth_header pl_buffer)"

primrec wf_frame :: "PowerlinkFrame \<Rightarrow> bool" where
  "wf_frame (FSoc f) = wf_soc f"
| "wf_frame (FPReq f) = wf_preq f"
| "wf_frame (FPRes f) = wf_pres f"
| "wf_frame (FSoA f) = wf_soa f"
| "wf_frame (FASnd f) = wf_asnd f"

primrec frame_size :: "PowerlinkFrame \<Rightarrow> nat" where
  "frame_size (FSoc f) = 46"
| "frame_size (FPReq f) = preq_size f"
| "frame_size (FPRes f) = pres_size f"
| "frame_size (FSoA f) = 46"
| "frame_size (FASnd f) = asnd_size f"

primrec frame_type :: "PowerlinkFrame \<Rightarrow> MessageType" where
  "frame_type (FSoc f) = SoC"
| "frame_type (FPReq f) = PReq"
| "frame_type (FPRes f) = PRes"
| "frame_type (FSoA f) = SoA"
| "frame_type (FASnd f) = ASnd"

lemmas written_type = SocFrame_written(2) SoAFrame_written(2) ASndFrame_written(2)
  PReqFrame_written(2) PResFrame_written(2)

lemma frame_size_min: "46 \<le> frame_size f"
  by (cases f) (simp_all add: preq.min_size pres.min_size asnd.min_size)

lemma frame_first_octet:
  assumes "wf_frame f" "frame_size f \<le> length buf"
  shows "take (frame_size f) (snd (PowerlinkFrame_serialize f buf)) ! 0 = MessageType_u8 (frame_type f)"
proof -
  have "0 < frame_size f" using frame_size_min [of f] by simp
  with assms show ?thesis
    by (cases f) (simp_all add: written_type wf_soc_def wf_soa_def wf_asnd_def wf_preq_def wf_pres_def)
qed

interpretation frame: frame_codec PowerlinkFrame_serialize deserialize_pl ethernet_header
  wf_frame frame_size
proof
  fix f :: PowerlinkFrame and buf bs :: bytes and e :: EthernetHeader
  show "length (snd (PowerlinkFrame_serialize f buf)) = length buf"
    by (cases f)
      (simp_all add: soc.ser_length soa.ser_length asnd.ser_length preq.ser_length pres.ser_length)
  show "fst (PowerlinkFrame_serialize f buf) =
      (if frame_size f \<le> length buf then Inr (frame_size f) else Inl BufferTooShort)"
    by (cases f)
      (simp_all add: soc.ser_result soa.ser_result asnd.ser_result preq.ser_result pres.ser_result)
  show "frame_size f \<le> length buf \<Longrightarrow>
      drop (frame_size f) (snd (PowerlinkFrame_serialize f buf)) = drop (frame_size f) buf"
    by (cases f)
      (simp_all add: soc.ser_behind soa.ser_behind asnd.ser_behind preq.ser_behind pres.ser_behind)
  show "wf_frame f \<Longrightarrow> frame_size f \<le> length buf \<Longrightarrow>
      deserialize_pl (ethernet_header f) (take (frame_size f) (snd (PowerlinkFrame_serialize f buf))) = Inr f"
    using frame_first_octet [of f buf]
    by (cases f)
      (simp_all add: deserialize_pl_def Let_def soc.roundtrip soa.roundtrip asnd.roundtrip
        preq.roundtrip pres.roundtrip MessageType_try_from_def)
  show "deserialize_pl e bs = Inr f \<Longrightarrow> 46 \<le> length bs \<Longrightarrow> wf_frame f \<and> ethernet_header f = e"
    by (auto simp: deserialize_pl_def Let_def map_sum_def dest: soc.deser_wf soa.deser_wf
        asnd.deser_wf preq.deser_wf pres.deser_wf split: sum.splits MessageType.splits)
qed (rule frame_size_min)

subsection \<open>Sending\<close>


datatype NodeAction =
    SendFrame bytes
  | SendUdp IpAddress u16 bytes
  | NoAction

text \<open>\<^verbatim>\<open>matches!(frame, PRes(_) | ASnd(_))\<close> and its counterpart for the managing node.\<close>

definition frame_allowed :: "bool \<Rightarrow> PowerlinkFrame \<Rightarrow> bool" where
  "frame_allowed is_cn f =
     (if is_cn then (case f of FPRes _ \<Rightarrow> True | FASnd _ \<Rightarrow> True | _ \<Rightarrow> False)
      else (case f of FPRes _ \<Rightarrow> False | _ \<Rightarrow> True))"

definition serialize_frame_action :: "PowerlinkFrame \<Rightarrow> bool \<Rightarrow> NodeAction result" where
  "serialize_frame_action f is_cn =
     (let buf = replicate 1518 0;
          eth_header = ethernet_header f
      in if \<not> frame_allowed is_cn f then Inr NoAction
         else
           let buf = serialize_eth_header eth_header buf;
               (r, pl) = PowerlinkFrame_serialize f (drop 14 buf);
               buf = take 14 buf @ pl
           in case r of
                Inr pl_size \<Rightarrow>
                  let total_size = 14 + pl_size;
                      buf = take (max total_size 60) buf;
                      buf = (if total_size < 60 then fill0 total_size 60 buf else buf)
                  in Inr (SendFrame buf)
              | Inl e \<Rightarrow> Inl e)"

lemma serialize_frame_action_ok:
  assumes "wf_frame f" "wf_eth (ethernet_header f)" "is_powerlink (ethernet_header f)"
    and "frame_allowed is_cn f" "frame_size f \<le> 1504"
  shows "\<exists>bs. serialize_frame_action f is_cn = Inr (SendFrame bs) \<and>
    length bs = 14 + frame_size f \<and> deserialize_frame bs = Inr f"
proof -
  let ?h = "ethernet_header f"
  define b where "b = serialize_eth_header ?h (replicate 1518 0)"
  have b: "deserialize_eth_header b = Inr ?h" "length b = 1518"
    using eth_header_roundtrip [of ?h "replicate 1518 0"] assms(2) by (simp_all add: b_def)
  obtain r pl where s: "PowerlinkFrame_serialize f (drop 14 b) = (r, pl)" by fastforce
  have len: "length pl = 1504" and r: "r = Inr (frame_size f)"
    using frame.ser_length [of f "drop 14 b"] frame.ser_result [of f "drop 14 b"] s b assms(5)
    by simp_all
  have min: "46 \<le> frame_size f" by (rule frame_size_min)
  have eq: "serialize_frame_action f is_cn = Inr (SendFrame (take 14 b @ take (frame_size f) pl))"
    using assms(4) min b by (simp add: serialize_frame_action_def b_def [symmetric] s r)
  have "deserialize_pl ?h (take (frame_size f) pl) = Inr f"
    using frame.roundtrip [of f "drop 14 b"] assms b by (simp add: s)
  moreover have "deserialize_eth_header (take 14 b @ ys) = Inr ?h" for ys
    using b by (simp add: deserialize_eth_header_def sub_slice_def drop_take)
  moreover have "take (frame_size f) pl \<noteq> []" using len min by auto
  ultimately have "deserialize_frame (take 14 b @ take (frame_size f) pl) = Inr f"
    using b assms(3) by (simp add: deserialize_frame_def)
  with eq b len assms(5) show ?thesis by simp
qed

lemma serialize_frame_action_too_big:
  assumes "frame_allowed is_cn f" "1504 < frame_size f" "wf_eth (ethernet_header f)"
  shows "serialize_frame_action f is_cn = Inl BufferTooShort"
proof -
  let ?b = "serialize_eth_header (ethernet_header f) (replicate 1518 0)"
  have "length ?b = 1518" using eth_header_roundtrip(2) [of _ "replicate 1518 0"] assms(3) by simp
  then have "fst (PowerlinkFrame_serialize f (drop 14 ?b)) = Inl BufferTooShort"
    using frame.ser_result [of f "drop 14 ?b"] assms(2) by simp
  then show ?thesis
    using assms(1) by (auto simp: serialize_frame_action_def Let_def split: prod.split)
qed

text \<open>Whatever is decoded from a full-size Ethernet frame is a well-formed frame.\<close>

lemma deserialize_frame_wf:
  assumes "deserialize_frame bs = Inr f" "60 \<le> length bs"
  shows "wf_frame f \<and> wf_eth (ethernet_header f) \<and> is_powerlink (ethernet_header f)"
  using assms
  by (auto simp: deserialize_frame_def rbind_eq_Inr Let_def deserialize_eth_header_def wf_eth_def
      wf_mac_def MAC_ADDRESS_SIZE_def dest!: frame.deser_wf split: if_splits)

subsection \<open>Properties\<close>

text \<open>
  C2: a well-formed frame that a node may send and that fits the buffer of 1518 octets is sent
  as one Ethernet frame of its exact size, and decoding that frame gives it back.\<close>

theorem frame_send_receive:
  assumes "wf_frame f" "wf_eth (ethernet_header f)" "is_powerlink (ethernet_header f)"
    and "frame_allowed is_cn f" "frame_size f \<le> 1504"
  shows "\<exists>bs. serialize_frame_action f is_cn = Inr (SendFrame bs) \<and>
    length bs = 14 + frame_size f \<and> deserialize_frame bs = Inr f"
  using assms by (rule serialize_frame_action_ok)

definition example_pres :: PowerlinkFrame where
  "example_pres = FPRes (PResFrame_new (replicate 6 2) 7 NmtOperational
     \<lparr> pres_ms = False, pres_en = True, pres_rd = True, pres_pr = High2, pres_rs = 3 \<rparr> 16 [1, 2, 0])"

theorem frame_send_receive_witness:
  "wf_frame example_pres \<and> frame_allowed True example_pres \<and>
   (\<exists>bs. serialize_frame_action example_pres True = Inr (SendFrame bs) \<and>
      length bs = 60 \<and> deserialize_frame bs = Inr example_pres)"
proof -
  have h: "wf_frame example_pres" "wf_eth (ethernet_header example_pres)"
    "is_powerlink (ethernet_header example_pres)" "frame_allowed True example_pres"
    "frame_size example_pres = 46"
    by (simp_all add: example_pres_def PResFrame_new_def wf_pres_def wf_eth_def EthernetHeader_new_def
        wf_mac_def MAC_ADDRESS_SIZE_def C_DLL_MULTICAST_PRES_def is_powerlink_def frame_allowed_def
        pres_size_def)
  then show ?thesis using frame_send_receive [of example_pres True] by simp
qed


text \<open>
  Whatever a node accepts from a full-size Ethernet frame is well-formed, and forwarding it
  (when the node may send such a frame and it fits) delivers the same frame again.\<close>

lemma frame_accept_resend:
  assumes "deserialize_frame bs = Inr f" "60 \<le> length bs"
    and "frame_allowed is_cn f" "frame_size f \<le> 1504"
  shows "wf_frame f \<and> (\<exists>bs'. serialize_frame_action f is_cn = Inr (SendFrame bs') \<and>
    deserialize_frame bs' = Inr f)"
proof -
  from deserialize_frame_wf [OF assms(1,2)]
  have "wf_frame f" "wf_eth (ethernet_header f)" "is_powerlink (ethernet_header f)" by simp_all
  with serialize_frame_action_ok [OF this assms(3,4)] show ?thesis by blast
qed

text \<open>
  An ASnd frame that has to be padded loses the zero octets at the end of its payload: the
  receiver gets the payload cut after its last non-zero octet. Higher layers must not depend on
  trailing zeros of payloads of up to 42 octets.\<close>

lemma asnd_padding_trims:
  assumes "asnd_message_type f = ASnd" "length (asnd_payload f) \<le> 42" "46 \<le> length buf"
  shows "ASndFrame_deserialize (asnd_eth_header f) (take 46 (snd (ASndFrame_serialize f buf)))
    = Inr (f\<lparr> asnd_payload := trim_zeros (asnd_payload f) \<rparr>)"
proof -
  have size: "asnd_size f = 46" using assms(2) by (simp add: asnd_size_def)
  define b where "b = take 46 (snd (ASndFrame_serialize f buf))"
  have b: "length b = 46" "b ! 0 = MessageType_u8 ASnd" "b ! Suc 0 = asnd_destination f"
    "b ! 2 = asnd_source f" "b ! 3 = ServiceId_u8 (asnd_service_id f)"
    "drop 4 b = asnd_payload f @ replicate (42 - length (asnd_payload f)) 0"
    using ASndFrame_written [of f buf, OF _ refl] assms size by (simp_all add: b_def)
  then show ?thesis
    using assms(1) unfolding b_def [symmetric]
    by (simp add: ASndFrame_deserialize_def deserialize_pl_header_def MessageType_try_from_def
        sid.try_from_disc trim_zeros_append)
qed

end
