(* ===== verification/Utf8.thy ===== *)
theory Utf8
  imports PL_Prelude
begin

section \<open>UTF-8\<close>

text \<open>
  Rust strings are UTF-8 byte sequences; the model keeps a \<^verbatim>\<open>String\<close> as its bytes. This theory
  models the two conversions of the standard library the crate uses on received octets:
  \<^verbatim>\<open>String::from_utf8\<close>, which accepts exactly the well-formed sequences, and
  \<^verbatim>\<open>String::from_utf8_lossy\<close>, which replaces each maximal ill-formed part by U+FFFD.
\<close>

type_synonym rust_string = bytes

definition str :: "string \<Rightarrow> rust_string" where
  "str s = map of_char s"

definition utf8_width :: "u8 \<Rightarrow> nat" where
  "utf8_width b =
     (if b < 0x80 then 1
      else if 0xC2 \<le> b \<and> b \<le> 0xDF then 2
      else if 0xE0 \<le> b \<and> b \<le> 0xEF then 3
      else if 0xF0 \<le> b \<and> b \<le> 0xF4 then 4
      else 0)"

definition utf8_cont :: "u8 \<Rightarrow> bool" where
  "utf8_cont c \<longleftrightarrow> 0x80 \<le> c \<and> c \<le> 0xBF"

text \<open>The second byte is restricted further after some leading bytes (no overlong forms, no
  surrogates, nothing beyond U+10FFFF).\<close>

definition utf8_second :: "u8 \<Rightarrow> u8 \<Rightarrow> bool" where
  "utf8_second b c =
     (if b = 0xE0 then 0xA0 \<le> c \<and> c \<le> 0xBF
      else if b = 0xED then 0x80 \<le> c \<and> c \<le> 0x9F
      else if b = 0xF0 then 0x90 \<le> c \<and> c \<le> 0xBF
      else if b = 0xF4 then 0x80 \<le> c \<and> c \<le> 0x8F
      else utf8_cont c)"

text \<open>The next character of a sequence, or the number of bytes of the ill-formed part.\<close>

definition utf8_next :: "bytes \<Rightarrow> bool \<times> nat" where
  "utf8_next bs =
     (case bs of
        [] \<Rightarrow> (False, 0)
      | b # cs \<Rightarrow>
          let w = utf8_width b
          in if w = 0 then (False, 1)
             else if w = 1 then (True, 1)
             else if cs = [] \<or> \<not> utf8_second b (cs ! 0) then (False, 1)
             else if w = 2 then (True, 2)
             else if length cs < 2 \<or> \<not> utf8_cont (cs ! 1) then (False, 2)
             else if w = 3 then (True, 3)
             else if length cs < 3 \<or> \<not> utf8_cont (cs ! 2) then (False, 3)
             else (True, 4))"

lemma utf8_next_pos: "0 < snd (utf8_next (b # bs))"
  by (simp add: utf8_next_def Let_def)

fun utf8_valid :: "bytes \<Rightarrow> bool" where
  "utf8_valid [] = True"
| "utf8_valid (b # bs) =
     (let (ok, n) = utf8_next (b # bs) in ok \<and> utf8_valid (drop (n - 1) bs))"

fun utf8_lossy :: "bytes \<Rightarrow> bytes" where
  "utf8_lossy [] = []"
| "utf8_lossy (b # bs) =
     (let (ok, n) = utf8_next (b # bs)
      in (if ok then take n (b # bs) else [0xEF, 0xBF, 0xBD]) @ utf8_lossy (drop (n - 1) bs))"

definition from_utf8 :: "bytes \<Rightarrow> rust_string option" where
  "from_utf8 bs = (if utf8_valid bs then Some bs else None)"

lemma utf8_lossy_valid [simp]: "utf8_valid bs \<Longrightarrow> utf8_lossy bs = bs"
proof (induction bs rule: utf8_valid.induct)
  case (2 b bs)
  obtain ok n where n: "utf8_next (b # bs) = (ok, n)" by fastforce
  with 2(2) have "ok" "utf8_valid (drop (n - 1) bs)" by simp_all
  moreover have "0 < n" using utf8_next_pos [of b bs] n by simp
  ultimately show ?case
    using 2(1) [OF n [symmetric] refl] n by (cases n) simp_all
qed simp

lemma utf8_valid_ascii: "\<forall>b \<in> set bs. b < 0x80 \<Longrightarrow> utf8_valid bs"
proof (induction bs)
  case (Cons b bs)
  then have "utf8_next (b # bs) = (True, 1)" by (simp add: utf8_next_def utf8_width_def)
  with Cons show ?case by simp
qed simp

end
