(* ===== verification/Object_Value.thy ===== *)
theory Object_Value
  imports PL_Types Utf8
begin

section \<open>Values of the object dictionary\<close>

text \<open>
  \<^verbatim>\<open>od/value.rs\<close>. Signed integers and floating-point numbers are kept as their bit patterns
  (\<^verbatim>\<open>to_le_bytes\<close> and \<^verbatim>\<open>from_le_bytes\<close> move bits only). \<open>discriminant\<close> is
  \<^verbatim>\<open>core::mem::discriminant\<close>: the variant without its contents.
\<close>


datatype ObjectValue =
    Boolean u8
  | Integer8 u8
  | Integer16 u16
  | Integer32 u32
  | Integer64 u64
  | Unsigned8 u8
  | Unsigned16 u16
  | Unsigned32 u32
  | Unsigned64 u64
  | Real32 u32
  | Real64 u64
  | VisibleString rust_string
  | OctetString bytes
  | UnicodeString "u16 list"
  | Domain bytes
  | TimeOfDayV TimeOfDay
  | TimeDifferenceV TimeDifference
  | NetTimeV NetTime
  | MacAddressV MacAddress
  | IpAddressV IpAddress

primrec discriminant :: "ObjectValue \<Rightarrow> nat" where
  "discriminant (Boolean _) = 0"
| "discriminant (Integer8 _) = 1"
| "discriminant (Integer16 _) = 2"
| "discriminant (Integer32 _) = 3"
| "discriminant (Integer64 _) = 4"
| "discriminant (Unsigned8 _) = 5"
| "discriminant (Unsigned16 _) = 6"
| "discriminant (Unsigned32 _) = 7"
| "discriminant (Unsigned64 _) = 8"
| "discriminant (Real32 _) = 9"
| "discriminant (Real64 _) = 10"
| "discriminant (VisibleString _) = 11"
| "discriminant (OctetString _) = 12"
| "discriminant (UnicodeString _) = 13"
| "discriminant (Domain _) = 14"
| "discriminant (TimeOfDayV _) = 15"
| "discriminant (TimeDifferenceV _) = 16"
| "discriminant (NetTimeV _) = 17"
| "discriminant (MacAddressV _) = 18"
| "discriminant (IpAddressV _) = 19"

primrec value_serialize :: "ObjectValue \<Rightarrow> bytes" where
  "value_serialize (Boolean v) = to_le 1 v"
| "value_serialize (Integer8 v) = to_le 1 v"
| "value_serialize (Integer16 v) = le16 v"
| "value_serialize (Integer32 v) = le32 v"
| "value_serialize (Integer64 v) = le64 v"
| "value_serialize (Unsigned8 v) = to_le 1 v"
| "value_serialize (Unsigned16 v) = le16 v"
| "value_serialize (Unsigned32 v) = le32 v"
| "value_serialize (Unsigned64 v) = le64 v"
| "value_serialize (Real32 v) = le32 v"
| "value_serialize (Real64 v) = le64 v"
| "value_serialize (VisibleString v) = v"
| "value_serialize (OctetString v) = v"
| "value_serialize (Domain v) = v"
| "value_serialize (TimeOfDayV v) = le32 (tod_ms v) @ le16 (tod_days v)"
| "value_serialize (TimeDifferenceV v) = le32 (td_ms v) @ le16 (td_days v)"
| "value_serialize (NetTimeV v) = le32 (nt_seconds v) @ le32 (nt_nanoseconds v)"
| "value_serialize (MacAddressV v) = v"
| "value_serialize (IpAddressV v) = v"
| "value_serialize (UnicodeString v) = concat (map le16 v)"

text \<open>The macro \<^verbatim>\<open>deserialize_fixed!\<close>: the leading bytes of the data, if there are enough.\<close>

definition deserialize_fixed :: "nat \<Rightarrow> ('a::len word \<Rightarrow> ObjectValue) \<Rightarrow> bytes \<Rightarrow> ObjectValue result" where
  "deserialize_fixed n variant data =
     (if length data < n then Inl BufferTooShort else Inr (variant (from_le (take n data))))"

fun chunks2 :: "bytes \<Rightarrow> bytes list" where
  "chunks2 (a # b # r) = [a, b] # chunks2 r"
| "chunks2 _ = []"

primrec value_deserialize :: "bytes \<Rightarrow> ObjectValue \<Rightarrow> ObjectValue result" where
  "value_deserialize data (Boolean _) = deserialize_fixed 1 Boolean data"
| "value_deserialize data (Integer8 _) = deserialize_fixed 1 Integer8 data"
| "value_deserialize data (Integer16 _) = deserialize_fixed 2 Integer16 data"
| "value_deserialize data (Integer32 _) = deserialize_fixed 4 Integer32 data"
| "value_deserialize data (Integer64 _) = deserialize_fixed 8 Integer64 data"
| "value_deserialize data (Unsigned8 _) = deserialize_fixed 1 Unsigned8 data"
| "value_deserialize data (Unsigned16 _) = deserialize_fixed 2 Unsigned16 data"
| "value_deserialize data (Unsigned32 _) = deserialize_fixed 4 Unsigned32 data"
| "value_deserialize data (Unsigned64 _) = deserialize_fixed 8 Unsigned64 data"
| "value_deserialize data (Real32 _) = deserialize_fixed 4 Real32 data"
| "value_deserialize data (Real64 _) = deserialize_fixed 8 Real64 data"
| "value_deserialize data (VisibleString _) =
     map_sum id VisibleString (ok_or (from_utf8 data) TypeMismatch)"
| "value_deserialize data (OctetString _) = Inr (OctetString data)"
| "value_deserialize data (Domain _) = Inr (Domain data)"
| "value_deserialize data (TimeOfDayV _) =
     (if length data < 6 then Inl BufferTooShort
      else Inr (TimeOfDayV \<lparr> tod_ms = from_le (sub_slice 0 4 data),
                             tod_days = from_le (sub_slice 4 6 data) \<rparr>))"
| "value_deserialize data (TimeDifferenceV _) =
     (if length data < 6 then Inl BufferTooShort
      else Inr (TimeDifferenceV \<lparr> td_ms = from_le (sub_slice 0 4 data),
                                  td_days = from_le (sub_slice 4 6 data) \<rparr>))"
| "value_deserialize data (NetTimeV _) =
     (if length data < 8 then Inl BufferTooShort
      else Inr (NetTimeV \<lparr> nt_seconds = from_le (sub_slice 0 4 data),
                           nt_nanoseconds = from_le (sub_slice 4 8 data) \<rparr>))"
| "value_deserialize data (MacAddressV _) =
     (if length data < 6 then Inl BufferTooShort else Inr (MacAddressV (sub_slice 0 6 data)))"
| "value_deserialize data (IpAddressV _) =
     (if length data < 4 then Inl BufferTooShort else Inr (IpAddressV (sub_slice 0 4 data)))"
| "value_deserialize data (UnicodeString _) =
     (if length data mod 2 \<noteq> 0 then Inl TypeMismatch
      else Inr (UnicodeString (map from_le (chunks2 data))))"

text \<open>What the types of the source guarantee of every value.\<close>

primrec wf_value :: "ObjectValue \<Rightarrow> bool" where
  "wf_value (Boolean _) = True"
| "wf_value (Integer8 _) = True"
| "wf_value (Integer16 _) = True"
| "wf_value (Integer32 _) = True"
| "wf_value (Integer64 _) = True"
| "wf_value (Unsigned8 _) = True"
| "wf_value (Unsigned16 _) = True"
| "wf_value (Unsigned32 _) = True"
| "wf_value (Unsigned64 _) = True"
| "wf_value (Real32 _) = True"
| "wf_value (Real64 _) = True"
| "wf_value (VisibleString v) = utf8_valid v"
| "wf_value (OctetString _) = True"
| "wf_value (UnicodeString _) = True"
| "wf_value (Domain _) = True"
| "wf_value (TimeOfDayV _) = True"
| "wf_value (TimeDifferenceV _) = True"
| "wf_value (NetTimeV _) = True"
| "wf_value (MacAddressV v) = (length v = 6)"
| "wf_value (IpAddressV v) = (length v = 4)"

lemma chunks2_concat: "chunks2 (concat (map le16 v)) = map le16 v"
  by (induction v) (simp_all add: numeral_2_eq_2)

lemma length_concat_le16 [simp]: "length (concat (map le16 v)) = 2 * length v"
  by (induction v) simp_all

lemma sub_slice_append1 [simp]: "length xs = b \<Longrightarrow> sub_slice 0 b (xs @ ys) = xs"
  by (simp add: sub_slice_def)

lemma sub_slice_append2 [simp]:
  "length xs = a \<Longrightarrow> length ys = b - a \<Longrightarrow> sub_slice a b (xs @ ys) = ys"
  by (simp add: sub_slice_def)

lemma sub_slice_all [simp]: "length xs = b \<Longrightarrow> sub_slice 0 b xs = xs"
  by (simp add: sub_slice_def)

lemma take_to_le [simp]: "take n (to_le n w) = to_le n w"
  by simp

lemma deserialize_fixed_to_le [simp]:
  fixes w :: "'a::len word"
  shows "LENGTH('a) \<le> 8 * n \<Longrightarrow> deserialize_fixed n c (to_le n w) = Inr (c w)"
  by (simp add: deserialize_fixed_def)

lemma value_roundtrip_self: "wf_value v \<Longrightarrow> value_deserialize (value_serialize v) v = Inr v"
  by (cases v) (simp_all del: to_le.simps add: from_utf8_def chunks2_concat comp_def)

lemma value_deserialize_template:
  "discriminant t = discriminant u \<Longrightarrow> value_deserialize d t = value_deserialize d u"
  by (cases t; cases u) simp_all

lemma value_deserialize_typed:
  "value_deserialize d t = Inr v \<Longrightarrow> discriminant v = discriminant t \<and> wf_value v"
  by (cases t) (auto simp: deserialize_fixed_def ok_or_def from_utf8_def
      split: if_splits option.splits)

text \<open>
  C33: a value of the object dictionary written to the wire and read back with any template of
  the same type is the value; and whatever is read has the type of the template.\<close>

theorem value_roundtrip:
  assumes "wf_value v" "discriminant t = discriminant v"
  shows "value_deserialize (value_serialize v) t = Inr v \<and>
    (\<forall>d u. value_deserialize d t = Inr u \<longrightarrow> discriminant u = discriminant v \<and> wf_value u)"
  using value_roundtrip_self [OF assms(1)] value_deserialize_template [OF assms(2)]
    value_deserialize_typed assms(2) by metis

theorem value_roundtrip_witness:
  "value_deserialize (value_serialize (TimeOfDayV \<lparr> tod_ms = 70000, tod_days = 12 \<rparr>))
     (TimeOfDayV \<lparr> tod_ms = 0, tod_days = 0 \<rparr>) = Inr (TimeOfDayV \<lparr> tod_ms = 70000, tod_days = 12 \<rparr>)"
  using value_roundtrip [of "TimeOfDayV \<lparr> tod_ms = 70000, tod_days = 12 \<rparr>"
      "TimeOfDayV \<lparr> tod_ms = 0, tod_days = 0 \<rparr>"]
  by simp

end
