(* ===== verification/Pdo_Mapping.thy ===== *)
theory Pdo_Mapping
  imports PL_Types
begin

section \<open>PDO mapping entries\<close>

text \<open>\<^verbatim>\<open>pdo/mapping.rs\<close> and the error type of \<^verbatim>\<open>pdo/error.rs\<close>.\<close>

datatype PayloadSizeError = PayloadSizeInvalidRange u16

definition PayloadSize_try_from :: "u16 \<Rightarrow> PayloadSizeError + u16" where
  "PayloadSize_try_from value =
     (if value \<le> C_DLL_ISOCHR_MAX_PAYL then Inr value else Inl (PayloadSizeInvalidRange value))"

record PdoMappingEntry =
  pm_index :: u16
  pm_sub_index :: u8
  pm_offset_bits :: u16
  pm_length_bits :: u16

definition PdoMappingEntry_from_u64 :: "u64 \<Rightarrow> PdoMappingEntry" where
  "PdoMappingEntry_from_u64 value =
     \<lparr> pm_index = ucast (value AND 0xFFFF),
       pm_sub_index = ucast (drop_bit 16 value AND 0xFF),
       pm_offset_bits = ucast (drop_bit 32 value AND 0xFFFF),
       pm_length_bits = ucast (drop_bit 48 value AND 0xFFFF) \<rparr>"

definition PdoMappingEntry_to_u64 :: "PdoMappingEntry \<Rightarrow> u64" where
  "PdoMappingEntry_to_u64 e =
     ucast (pm_index e) OR push_bit 16 (ucast (pm_sub_index e))
     OR push_bit 32 (ucast (pm_offset_bits e)) OR push_bit 48 (ucast (pm_length_bits e))"

definition byte_offset :: "PdoMappingEntry \<Rightarrow> nat option" where
  "byte_offset e =
     (if unat (pm_offset_bits e) mod 8 = 0 then Some (unat (pm_offset_bits e) div 8) else None)"

definition byte_length :: "PdoMappingEntry \<Rightarrow> nat option" where
  "byte_length e =
     (if unat (pm_length_bits e) mod 8 = 0 then Some (unat (pm_length_bits e) div 8) else None)"

datatype PdoError =
    PdoObjectNotFound u16 u8
  | PdoTypeMismatch u16 u8 u16 u16
  | PayloadTooSmall u16 nat
  | ConfigurationError string

fun from_PdoError :: "PdoError \<Rightarrow> PowerlinkError" where
  "from_PdoError (PdoObjectNotFound _ _) = ObjectNotFound"
| "from_PdoError (PdoTypeMismatch _ _ _ _) = TypeMismatch"
| "from_PdoError (PayloadTooSmall _ _) = BufferTooShort"
| "from_PdoError (ConfigurationError _) = ValidationError ''PDO Configuration Error''"

lemma mask_bits:
  "(0xFFFF :: u64) = mask 16" "(0xFF :: u64) = mask 8"
  by (simp_all add: mask_eq_exp_minus_1)

lemmas map_bit_simps = bit_and_iff bit_or_iff bit_push_bit_iff bit_drop_bit_eq bit_ucast_iff
  bit_mask_iff

lemma pdo_mapping_decode_encode:
  "PdoMappingEntry_from_u64 (PdoMappingEntry_to_u64 e) = e"
proof -
  have "ucast (PdoMappingEntry_to_u64 e AND 0xFFFF) = pm_index e"
    "ucast (drop_bit 16 (PdoMappingEntry_to_u64 e) AND 0xFF) = pm_sub_index e"
    "ucast (drop_bit 32 (PdoMappingEntry_to_u64 e) AND 0xFFFF) = pm_offset_bits e"
    "ucast (drop_bit 48 (PdoMappingEntry_to_u64 e) AND 0xFFFF) = pm_length_bits e"
    unfolding PdoMappingEntry_to_u64_def mask_bits
    by (rule bit_word_eqI; auto simp: map_bit_simps dest: bit_imp_le_length)+
  then show ?thesis by (simp add: PdoMappingEntry_from_u64_def)
qed

text \<open>The eight reserved bits are the only ones that are lost the other way round.\<close>

lemma pdo_mapping_encode_decode:
  "PdoMappingEntry_to_u64 (PdoMappingEntry_from_u64 v) = v AND 0xFFFFFFFF00FFFFFF"
proof (rule bit_word_eqI)
  fix n assume "n < LENGTH(64)"
  then have n: "n < 64" by simp
  have m: "(0xFFFFFFFF00FFFFFF :: u64) = NOT (push_bit 24 (mask 8))"
    by (simp add: mask_eq_exp_minus_1)
  consider "n < 16" | "16 \<le> n" "n < 24" | "24 \<le> n" "n < 32" | "32 \<le> n" "n < 48" | "48 \<le> n"
    by linarith
  then show "bit (PdoMappingEntry_to_u64 (PdoMappingEntry_from_u64 v)) n \<longleftrightarrow>
      bit (v AND 0xFFFFFFFF00FFFFFF) n"
    unfolding m PdoMappingEntry_to_u64_def PdoMappingEntry_from_u64_def mask_bits
    using n by cases (simp_all add: map_bit_simps bit_not_iff, linarith+)
qed

text \<open>
  PDO mapping entries survive the encoding as 64-bit values, and a 64-bit value survives
  decoding except for its reserved bits 24 to 31.\<close>

lemma pdo_mapping_roundtrip:
  "PdoMappingEntry_from_u64 (PdoMappingEntry_to_u64 e) = e \<and>
   PdoMappingEntry_to_u64 (PdoMappingEntry_from_u64 v) = v AND 0xFFFFFFFF00FFFFFF"
  by (simp add: pdo_mapping_decode_encode pdo_mapping_encode_decode)

end
