(* ===== verification/Object_Dictionary.thy ===== *)
theory Object_Dictionary
  imports Object_Value Pdo_Mapping BTree_Map "HOL-Library.Product_Lexorder"
begin

section \<open>The object dictionary\<close>

text \<open>
  \<^verbatim>\<open>od/{mod,entry,commands,storage,predefined,pdo_validator}.rs\<close>. The dictionary is an ordered
  map from 16-bit indices to entries and an optional storage back end. The trait
  \<^verbatim>\<open>ObjectDictionaryStorage\<close> of \<^verbatim>\<open>hal.rs\<close> is a parameter: a record of its methods over a state
  \<open>'s\<close> of the implementation, carried in the dictionary beside that state like the trait object
  of the source. An operation returns its result with the dictionary it leaves.
\<close>

subsection \<open>Entries\<close>

datatype Object = Variable ObjectValue | Array "ObjectValue list" | Record "ObjectValue list"

datatype AccessType =
  ReadOnly | WriteOnly | WriteOnlyStore | ReadWrite | ReadWriteStore | Constant | Conditional

datatype Category = Mandatory | Optional | CatConditional

datatype PdoMapping = PmNo | PmOptional | PmDefault

record ValueRange =
  vr_min :: ObjectValue
  vr_max :: ObjectValue

record ObjectEntry =
  oe_object :: Object
  oe_name :: string
  oe_category :: Category
  oe_access :: "AccessType option"
  oe_default_value :: "ObjectValue option"
  oe_value_range :: "ValueRange option"
  oe_pdo_mapping :: "PdoMapping option"

type_synonym stored_params = "(u16 \<times> u8, ObjectValue) btree"

record 's StorageOps =
  so_load :: "'s \<Rightarrow> stored_params result \<times> 's"
  so_save :: "stored_params \<Rightarrow> 's \<Rightarrow> unit result \<times> 's"
  so_clear :: "'s \<Rightarrow> unit result \<times> 's"
  so_restore_defaults_requested :: "'s \<Rightarrow> bool"
  so_request_restore_defaults :: "'s \<Rightarrow> unit result \<times> 's"
  so_clear_restore_defaults_flag :: "'s \<Rightarrow> unit result \<times> 's"

record 's ObjectDictionary =
  entries :: "(u16, ObjectEntry) btree"
  storage :: "('s StorageOps \<times> 's) option"

definition od_new :: "('s StorageOps \<times> 's) option \<Rightarrow> 's ObjectDictionary" where
  "od_new st = \<lparr> entries = [], storage = st \<rparr>"

text \<open>\<^verbatim>\<open>slice::get\<close>.\<close>

definition vec_get :: "'a list \<Rightarrow> nat \<Rightarrow> 'a option" where
  "vec_get xs i = (if i < length xs then Some (xs ! i) else None)"

definition od_insert :: "u16 \<Rightarrow> ObjectEntry \<Rightarrow> 's ObjectDictionary \<Rightarrow> 's ObjectDictionary" where
  "od_insert index entry od = od\<lparr> entries := bt_insert index entry (entries od) \<rparr>"

subsection \<open>Reading\<close>

definition object_read :: "Object \<Rightarrow> u8 \<Rightarrow> ObjectValue option" where
  "object_read obj sub_index =
     (case obj of
        Variable v \<Rightarrow> if sub_index = 0 then Some v else None
      | Array values \<Rightarrow>
          if sub_index = 0 then Some (Unsigned8 (of_nat (min (length values) 254)))
          else vec_get values (unat sub_index - 1)
      | Record values \<Rightarrow>
          if sub_index = 0 then Some (Unsigned8 (of_nat (min (length values) 254)))
          else vec_get values (unat sub_index - 1))"

definition od_read :: "'s ObjectDictionary \<Rightarrow> u16 \<Rightarrow> u8 \<Rightarrow> ObjectValue option" where
  "od_read od index sub_index =
     Option.bind (bt_get (entries od) index) (\<lambda>entry. object_read (oe_object entry) sub_index)"

definition read_object :: "'s ObjectDictionary \<Rightarrow> u16 \<Rightarrow> Object option" where
  "read_object od index = map_option oe_object (bt_get (entries od) index)"

definition read_u8 :: "'s ObjectDictionary \<Rightarrow> u16 \<Rightarrow> u8 \<Rightarrow> u8 option" where
  "read_u8 od index sub_index =
     Option.bind (od_read od index sub_index) (\<lambda>v. case v of Unsigned8 val \<Rightarrow> Some val | _ \<Rightarrow> None)"

definition read_u16 :: "'s ObjectDictionary \<Rightarrow> u16 \<Rightarrow> u8 \<Rightarrow> u16 option" where
  "read_u16 od index sub_index =
     Option.bind (od_read od index sub_index) (\<lambda>v. case v of Unsigned16 val \<Rightarrow> Some val | _ \<Rightarrow> None)"

definition read_u32 :: "'s ObjectDictionary \<Rightarrow> u16 \<Rightarrow> u8 \<Rightarrow> u32 option" where
  "read_u32 od index sub_index =
     Option.bind (od_read od index sub_index) (\<lambda>v. case v of Unsigned32 val \<Rightarrow> Some val | _ \<Rightarrow> None)"

definition read_u64 :: "'s ObjectDictionary \<Rightarrow> u16 \<Rightarrow> u8 \<Rightarrow> u64 option" where
  "read_u64 od index sub_index =
     Option.bind (od_read od index sub_index) (\<lambda>v. case v of Unsigned64 val \<Rightarrow> Some val | _ \<Rightarrow> None)"

definition find_by_name :: "'s ObjectDictionary \<Rightarrow> rust_string \<Rightarrow> (u16 \<times> u8) option" where
  "find_by_name od nm =
     map_option (\<lambda>(index, entry). (index, 0)) (find (\<lambda>(index, entry). str (oe_name entry) = nm) (entries od))"

text \<open>\<^verbatim>\<open>get_configured_cns\<close>: index \<open>i\<close> of object 0x1F81 belongs to node \<open>i + 1\<close>.\<close>

definition get_configured_cns :: "'s ObjectDictionary \<Rightarrow> NodeId list" where
  "get_configured_cns od =
     (case bt_get (entries od) 0x1F81 of
        None \<Rightarrow> []
      | Some entry \<Rightarrow>
          (case oe_object entry of
             Array values \<Rightarrow>
               concat (map (\<lambda>(i, v).
                 case v of
                   Unsigned32 assignment \<Rightarrow>
                     if assignment AND 1 \<noteq> 0 \<and> assignment AND 0x100 = 0 then [of_nat (i + 1)] else []
                 | _ \<Rightarrow> []) (enumerate 0 values))
           | _ \<Rightarrow> []))"

subsection \<open>Writing\<close>

definition is_pdo_mapping_index0 :: "u16 \<Rightarrow> u8 \<Rightarrow> bool" where
  "is_pdo_mapping_index0 index sub_index \<longleftrightarrow>
     sub_index = 0 \<and> (0x1600 \<le> index \<and> index \<le> 0x16FF \<or> 0x1A00 \<le> index \<and> index \<le> 0x1AFF)"

text \<open>The \<^verbatim>\<open>match\<close> on the object in \<^verbatim>\<open>write_internal\<close>; an \<^verbatim>\<open>Array\<close> and a \<^verbatim>\<open>Record\<close> share their arm.\<close>

definition write_elems ::
  "(ObjectValue list \<Rightarrow> Object) \<Rightarrow> u16 \<Rightarrow> u8 \<Rightarrow> ObjectValue \<Rightarrow> ObjectValue list \<Rightarrow> Object result" where
  "write_elems mk index sub_index value values =
     (if sub_index = 0 then
        (if is_pdo_mapping_index0 index sub_index then
           (case value of Unsigned8 _ \<Rightarrow> Inr (mk values) | _ \<Rightarrow> Inl TypeMismatch)
         else Inl (StorageError ''Cannot write to sub-index 0 of standard Array/Record''))
      else
        (case vec_get values (unat sub_index - 1) of
           Some v \<Rightarrow>
             if discriminant v \<noteq> discriminant value then Inl TypeMismatch
             else Inr (mk (values[unat sub_index - 1 := value]))
         | None \<Rightarrow> Inl SubObjectNotFound))"

definition object_write :: "u16 \<Rightarrow> u8 \<Rightarrow> ObjectValue \<Rightarrow> Object \<Rightarrow> Object result" where
  "object_write index sub_index value obj =
     (case obj of
        Variable v \<Rightarrow>
          if sub_index = 0 then
            (if discriminant v \<noteq> discriminant value then Inl TypeMismatch else Inr (Variable value))
          else Inl SubObjectNotFound
      | Array values \<Rightarrow> write_elems Array index sub_index value values
      | Record values \<Rightarrow> write_elems Record index sub_index value values)"

definition write_internal ::
  "'s ObjectDictionary \<Rightarrow> u16 \<Rightarrow> u8 \<Rightarrow> ObjectValue \<Rightarrow> bool \<Rightarrow> unit result \<times> 's ObjectDictionary" where
  "write_internal od index sub_index value check_access =
     (case bt_get (entries od) index of
        None \<Rightarrow> (Inl ObjectNotFound, od)
      | Some entry \<Rightarrow>
          if check_access \<and> (oe_access entry = Some ReadOnly \<or> oe_access entry = Some Constant)
          then (Inl (StorageError ''Object is read-only''), od)
          else
            (case object_write index sub_index value (oe_object entry) of
               Inl e \<Rightarrow> (Inl e, od)
             | Inr obj \<Rightarrow>
                 (Inr (), od\<lparr> entries := bt_insert index (entry\<lparr> oe_object := obj \<rparr>) (entries od) \<rparr>)))"

definition increment_counter :: "'s ObjectDictionary \<Rightarrow> u16 \<Rightarrow> u8 \<Rightarrow> 's ObjectDictionary" where
  "increment_counter od index sub_index =
     (case bt_get (entries od) index of
        None \<Rightarrow> od
      | Some entry \<Rightarrow>
          (case oe_object entry of
             Variable (Unsigned32 val) \<Rightarrow>
               if sub_index = 0
               then od\<lparr> entries := bt_insert index (entry\<lparr> oe_object := Variable (Unsigned32 (val + 1)) \<rparr>) (entries od) \<rparr>
               else od
           | Record vals \<Rightarrow>
               if sub_index > 0 then
                 (case vec_get vals (unat sub_index - 1) of
                    Some (Unsigned32 val) \<Rightarrow>
                      od\<lparr> entries := bt_insert index
                            (entry\<lparr> oe_object := Record (vals[unat sub_index - 1 := Unsigned32 (val + 1)]) \<rparr>)
                            (entries od) \<rparr>
                  | _ \<Rightarrow> od)
               else od
           | _ \<Rightarrow> od))"

subsection \<open>Validation of PDO mappings\<close>

fun required_bits :: "ObjectValue list \<Rightarrow> nat list \<Rightarrow> u32 \<Rightarrow> u32 result" where
  "required_bits es [] max_bits = Inr max_bits"
| "required_bits es (i # is) max_bits =
     (case vec_get es i of
        Some (Unsigned64 raw_mapping) \<Rightarrow>
          let entry = PdoMappingEntry_from_u64 raw_mapping;
              end_pos_bits = ucast (pm_offset_bits entry) + ucast (pm_length_bits entry)
          in required_bits es is (max max_bits end_pos_bits)
      | _ \<Rightarrow> Inl (ValidationError ''Incomplete PDO mapping configuration: Missing entries''))"

definition validate_pdo_mapping :: "'s ObjectDictionary \<Rightarrow> u16 \<Rightarrow> u8 \<Rightarrow> unit result" where
  "validate_pdo_mapping od index new_num_entries =
     (if new_num_entries = 0 then Inr ()
      else
        let is_tpdo = (0x1A00 \<le> index \<and> index \<le> 0x1AFF);
            is_rpdo = (0x1600 \<le> index \<and> index \<le> 0x16FF)
        in if \<not> is_tpdo \<and> \<not> is_rpdo then Inr ()
           else
             let payload_limit_bytes =
                   (if is_tpdo then unat (unwrap_or (read_u16 od 0x1F98 1) 1490)
                    else unat (unwrap_or (read_u16 od 0x1F98 2) 1490))
             in case read_object od index of
                  Some (Array es) \<Rightarrow>
                    rbind (required_bits es [0..<unat new_num_entries] 0) (\<lambda>max_bits_required.
                      let required_bytes = (max_bits_required + 7) div 8
                      in if unat required_bytes > payload_limit_bytes then Inl PdoMapOverrun
                         else Inr ())
                | _ \<Rightarrow> Inl ObjectNotFound)"

subsection \<open>Store and restore commands\<close>

definition should_save :: "u8 \<Rightarrow> u16 \<Rightarrow> bool" where
  "should_save list_to_save index =
     (if list_to_save = 1 then True
      else if list_to_save = 2 then 0x1000 \<le> index \<and> index \<le> 0x1FFF
      else if list_to_save = 3 then 0x6000 \<le> index \<and> index \<le> 0x9FFF
      else False)"

text \<open>The insertions of one entry into the map of storable parameters.\<close>

definition store_entry :: "u8 \<Rightarrow> u16 \<times> ObjectEntry \<Rightarrow> stored_params \<Rightarrow> stored_params" where
  "store_entry list_to_save ie params =
     (case ie of (index, entry) \<Rightarrow>
        if should_save list_to_save index \<and>
           (oe_access entry = Some ReadWriteStore \<or> oe_access entry = Some WriteOnlyStore)
        then (case oe_object entry of
                Variable val \<Rightarrow> bt_insert (index, 0) val params
              | Record vals \<Rightarrow>
                  fold (\<lambda>(i, val). bt_insert (index, of_nat (i + 1)) val) (enumerate 0 vals) params
              | Array vals \<Rightarrow>
                  fold (\<lambda>(i, val). bt_insert (index, of_nat (i + 1)) val) (enumerate 0 vals) params)
        else params)"

definition store_parameters :: "'s ObjectDictionary \<Rightarrow> u8 \<Rightarrow> unit result \<times> 's ObjectDictionary" where
  "store_parameters od list_to_save =
     (if list_to_save = 0 then (Inl (StorageError ''Cannot save to sub-index 0''), od)
      else
        (case storage od of
           Some (ops, st) \<Rightarrow>
             let storable_params = fold (store_entry list_to_save) (entries od) [];
                 (r, st') = so_save ops storable_params st
             in (r, od\<lparr> storage := Some (ops, st') \<rparr>)
         | None \<Rightarrow> (Inl (StorageError ''No storage backend configured''), od)))"

definition restore_defaults :: "'s ObjectDictionary \<Rightarrow> u8 \<Rightarrow> unit result \<times> 's ObjectDictionary" where
  "restore_defaults od list_to_restore =
     (if list_to_restore = 0 then (Inl (StorageError ''Cannot restore from sub-index 0''), od)
      else
        (case storage od of
           Some (ops, st) \<Rightarrow>
             let (r, st') = so_request_restore_defaults ops st
             in (r, od\<lparr> storage := Some (ops, st') \<rparr>)
         | None \<Rightarrow> (Inl (StorageError ''No storage backend configured''), od)))"

definition od_write ::
  "'s ObjectDictionary \<Rightarrow> u16 \<Rightarrow> u8 \<Rightarrow> ObjectValue \<Rightarrow> unit result \<times> 's ObjectDictionary" where
  "od_write od index sub_index value =
     (if index = 0x1010 then
        (if value = VisibleString (str ''save'') \<and> sub_index > 0
         then store_parameters od sub_index
         else (Inl (StorageError ''Invalid signature or sub-index for Store Parameters''), od))
      else if index = 0x1011 then
        (if value = VisibleString (str ''load'') \<and> sub_index > 0
         then restore_defaults od sub_index
         else (Inl (StorageError ''Invalid signature or sub-index for Restore Defaults''), od))
      else if is_pdo_mapping_index0 index sub_index then
        (case value of
           Unsigned8 new_num_entries \<Rightarrow>
             (case validate_pdo_mapping od index new_num_entries of
                Inl e \<Rightarrow> (Inl e, od)
              | Inr _ \<Rightarrow> write_internal od index sub_index value True)
         | _ \<Rightarrow> (Inl TypeMismatch, od))
      else write_internal od index sub_index value True)"

subsection \<open>PowerOn values\<close>

definition power_on_elem ::
  "stored_params option \<Rightarrow> ObjectValue option \<Rightarrow> u16 \<Rightarrow> nat \<Rightarrow> ObjectValue \<Rightarrow> ObjectValue" where
  "power_on_elem stored dflt index i val =
     (let sub_index = of_nat (i + 1)
      in case Option.bind stored (\<lambda>p. bt_get p (index, sub_index)) of
           Some stored_val \<Rightarrow> stored_val
         | None \<Rightarrow>
             (case dflt of
                Some default_val \<Rightarrow>
                  if discriminant val = discriminant default_val then default_val else val
              | None \<Rightarrow> val))"

definition power_on_object :: "stored_params option \<Rightarrow> u16 \<Rightarrow> ObjectEntry \<Rightarrow> Object" where
  "power_on_object stored index entry =
     (case oe_object entry of
        Variable val \<Rightarrow>
          (case Option.bind stored (\<lambda>p. bt_get p (index, 0)) of
             Some stored_val \<Rightarrow> Variable stored_val
           | None \<Rightarrow>
               (case oe_default_value entry of
                  Some default_val \<Rightarrow> Variable default_val
                | None \<Rightarrow> Variable val))
      | Array values \<Rightarrow>
          Array (map (\<lambda>(i, val). power_on_elem stored (oe_default_value entry) index i val)
            (enumerate 0 values))
      | Record values \<Rightarrow>
          Record (map (\<lambda>(i, val). power_on_elem stored (oe_default_value entry) index i val)
            (enumerate 0 values)))"

definition restore_power_on_values :: "'s ObjectDictionary \<Rightarrow> u16 \<Rightarrow> u16 \<Rightarrow> 's ObjectDictionary" where
  "restore_power_on_values od start_index end_index =
     (let (stored_params, od1) =
            (case storage od of
               Some (ops, st) \<Rightarrow>
                 (case so_load ops st of
                    (Inr params, st') \<Rightarrow> (Some params, od\<lparr> storage := Some (ops, st') \<rparr>)
                  | (Inl e, st') \<Rightarrow> (None, od\<lparr> storage := Some (ops, st') \<rparr>))
             | None \<Rightarrow> (None, od))
      in od1\<lparr> entries := map (\<lambda>(index, entry).
               if index < start_index \<or> index > end_index then (index, entry)
               else if index = 0x1003 then (index, entry)
               else (index, entry\<lparr> oe_object := power_on_object stored_params index entry \<rparr>))
             (entries od1) \<rparr>)"

subsection \<open>Initialisation\<close>

definition insert_if_missing :: "u16 \<Rightarrow> ObjectEntry \<Rightarrow> 's ObjectDictionary \<Rightarrow> 's ObjectDictionary" where
  "insert_if_missing index entry od =
     (if bt_contains (entries od) index then od else od_insert index entry od)"

definition mk_entry ::
  "Object \<Rightarrow> string \<Rightarrow> Category \<Rightarrow> AccessType option \<Rightarrow> ObjectValue option \<Rightarrow> PdoMapping option \<Rightarrow>
     ObjectEntry" where
  "mk_entry obj nm cat acc dv pm =
     \<lparr> oe_object = obj, oe_name = nm, oe_category = cat, oe_access = acc, oe_default_value = dv,
       oe_value_range = None, oe_pdo_mapping = pm \<rparr>"

definition protocol_objects :: "(u16 \<times> ObjectEntry) list" where
  "protocol_objects =
     [(0x1010, mk_entry (Record [Unsigned32 1, Unsigned32 1, Unsigned32 1])
         ''NMT_StoreParam_REC'' Mandatory None None None),
      (0x1011, mk_entry (Record [Unsigned32 1, Unsigned32 1, Unsigned32 1])
         ''NMT_RestoreDefParam_REC'' Optional None None None),
      (0x1300, mk_entry (Variable (Unsigned32 15000))
         ''SDO_SequLayerTimeout_U32'' Mandatory (Some ReadWriteStore) (Some (Unsigned32 15000)) (Some PmNo)),
      (0x1302, mk_entry (Variable (Unsigned32 2))
         ''SDO_SequLayerNoAck_U32'' Optional (Some ReadWriteStore) (Some (Unsigned32 2)) (Some PmNo)),
      (0x0420, mk_entry (Record [Unsigned8 2, Unsigned8 0, Unsigned8 0])
         ''PDO_CommParamRecord_TYPE'' Mandatory (Some Constant) None (Some PmNo)),
      (0x1400, mk_entry (Record [Unsigned8 0, Unsigned8 0])
         ''PDO_RxCommParam_00h_REC'' Mandatory None None None),
      (0x1600, mk_entry (Array [])
         ''PDO_RxMappParam_00h_AU64'' Mandatory None None None),
      (0x1800, mk_entry (Record [Unsigned8 1, Unsigned8 0])
         ''PDO_TxCommParam_00h_REC'' Mandatory None None None),
      (0x1A00, mk_entry (Array [])
         ''PDO_TxMappParam_00h_AU64'' Mandatory None None None),
      (0x1C80, mk_entry (Variable (OctetString (replicate 32 0)))
         ''PDO_ErrMapVers_OSTR'' Optional (Some ReadWrite) (Some (OctetString (replicate 32 0))) (Some PmNo)),
      (0x1C81, mk_entry (Variable (OctetString (replicate 32 0)))
         ''PDO_ErrShort_RX_OSTR'' Optional (Some ReadWrite) (Some (OctetString (replicate 32 0))) (Some PmNo)),
      (0x1F8C, mk_entry (Variable (Unsigned8 0))
         ''NMT_CurrNMTState_U8'' Mandatory (Some ReadOnly) (Some (Unsigned8 0)) (Some PmNo))]"

definition populate_protocol_objects :: "'s ObjectDictionary \<Rightarrow> 's ObjectDictionary" where
  "populate_protocol_objects od =
     fold (\<lambda>(index, entry). insert_if_missing index entry) protocol_objects od"

definition validate_mandatory_objects :: "'s ObjectDictionary \<Rightarrow> bool \<Rightarrow> unit result" where
  "validate_mandatory_objects od is_mn =
     (if \<not> list_all (bt_contains (entries od)) [0x1000, 0x1018, 0x1F82]
      then Inl (ValidationError ''Missing common mandatory object'')
      else if is_mn then
        (if \<not> list_all (bt_contains (entries od)) [0x1006, 0x1F81, 0x1F89]
         then Inl (ValidationError ''Missing MN-specific mandatory object'') else Inr ())
      else
        (if \<not> list_all (bt_contains (entries od)) [0x1F93, 0x1F99]
         then Inl (ValidationError ''Missing CN-specific mandatory object'') else Inr ()))"

text \<open>The overlay of the stored parameters: a parameter that cannot be written is skipped.\<close>

definition overlay :: "stored_params \<Rightarrow> 's ObjectDictionary \<Rightarrow> 's ObjectDictionary" where
  "overlay params od =
     fold (\<lambda>((index, sub_index), value) od. snd (write_internal od index sub_index value False)) params od"

definition od_init :: "'s ObjectDictionary \<Rightarrow> unit result \<times> 's ObjectDictionary" where
  "od_init od =
     (let od = populate_protocol_objects od
      in case storage od of
           None \<Rightarrow> (Inr (), od)
         | Some (ops, st) \<Rightarrow>
             if so_restore_defaults_requested ops st then
               (case so_clear ops st of
                  (Inl e, st1) \<Rightarrow> (Inl e, od\<lparr> storage := Some (ops, st1) \<rparr>)
                | (Inr _, st1) \<Rightarrow>
                    (case so_clear_restore_defaults_flag ops st1 of
                       (Inl e, st2) \<Rightarrow> (Inl e, od\<lparr> storage := Some (ops, st2) \<rparr>)
                     | (Inr _, st2) \<Rightarrow> (Inr (), od\<lparr> storage := Some (ops, st2) \<rparr>)))
             else
               (case so_load ops st of
                  (Inl e, st1) \<Rightarrow> (Inl e, od\<lparr> storage := Some (ops, st1) \<rparr>)
                | (Inr params, st1) \<Rightarrow> (Inr (), overlay params (od\<lparr> storage := Some (ops, st1) \<rparr>))))"

end
