(* ===== verification/Od_Props.thy ===== *)
theory Od_Props
  imports Object_Dictionary
begin

section \<open>Correctness of the object dictionary\<close>

text \<open>
  The invariant of the dictionary (sorted entries, well-formed values), its typing (the shape of
  an object never changes under writes), the read-after-write laws as an interface, and what the
  store and restore commands do.
\<close>

subsection \<open>Shapes and the invariant\<close>

primrec obj_values :: "Object \<Rightarrow> ObjectValue list" where
  "obj_values (Variable v) = [v]"
| "obj_values (Array vs) = vs"
| "obj_values (Record vs) = vs"

primrec obj_kind :: "Object \<Rightarrow> nat" where
  "obj_kind (Variable _) = 0"
| "obj_kind (Array _) = 1"
| "obj_kind (Record _) = 2"

definition obj_shape :: "Object \<Rightarrow> nat \<times> nat list" where
  "obj_shape obj = (obj_kind obj, map discriminant (obj_values obj))"

definition entry_meta :: "ObjectEntry \<Rightarrow> (nat \<times> nat list) \<times> ObjectEntry" where
  "entry_meta e = (obj_shape (oe_object e), e\<lparr> oe_object := Variable (Boolean 0) \<rparr>)"

definition od_shape :: "'s ObjectDictionary \<Rightarrow> u16 \<Rightarrow> ((nat \<times> nat list) \<times> ObjectEntry) option" where
  "od_shape od i = map_option entry_meta (bt_get (entries od) i)"

definition od_inv :: "'s ObjectDictionary \<Rightarrow> bool" where
  "od_inv od \<longleftrightarrow> bt_inv (entries od) \<and>
     (\<forall>i e. bt_get (entries od) i = Some e \<longrightarrow> list_all wf_value (obj_values (oe_object e)))"

lemma vec_get_Some: "vec_get xs i = Some x \<longleftrightarrow> i < length xs \<and> xs ! i = x"
  by (auto simp: vec_get_def)

lemma map_update_same: "i < length xs \<Longrightarrow> f (xs ! i) = f v \<Longrightarrow> map f (xs[i := v]) = map f xs"
  by (simp add: list_eq_iff_nth_eq nth_list_update)

lemma list_all_update: "list_all P xs \<Longrightarrow> P v \<Longrightarrow> list_all P (xs[i := v])"
  by (metis Ball_set insertE set_update_subset_insert subsetD)

lemma object_write_shape: "object_write i s v obj = Inr obj' \<Longrightarrow> obj_shape obj' = obj_shape obj"
  by (cases obj) (auto simp: object_write_def write_elems_def obj_shape_def vec_get_Some
      map_update_same split: if_splits option.splits ObjectValue.splits)

lemma object_write_wf:
  "object_write i s v obj = Inr obj' \<Longrightarrow> wf_value v \<Longrightarrow> list_all wf_value (obj_values obj) \<Longrightarrow>
    list_all wf_value (obj_values obj')"
  by (cases obj) (auto simp: object_write_def write_elems_def list_all_update
      split: if_splits option.splits ObjectValue.splits)

text \<open>What a successful write of an object does to its sub-indices.\<close>

lemma sub_index_pos: "(s :: u8) \<noteq> 0 \<Longrightarrow> 0 < unat s"
  by (simp add: unat_gt_0)

lemma sub_index_eq: "(s :: u8) \<noteq> 0 \<Longrightarrow> t \<noteq> 0 \<Longrightarrow> unat s - Suc 0 = unat t - Suc 0 \<longleftrightarrow> s = t"
  using sub_index_pos [of s] sub_index_pos [of t] by (auto simp: word_unat_eq_iff)

lemma object_write_read:
  assumes "object_write i s v obj = Inr obj'"
  shows "object_read obj' t =
    (if t = s \<and> \<not> (s = 0 \<and> obj_kind obj \<noteq> 0) then Some v else object_read obj t)"
proof (cases obj)
  case (Variable w)
  with assms show ?thesis by (auto simp: object_write_def object_read_def split: if_splits)
next
  case (Array vs)
  with assms show ?thesis
    by (auto simp: object_write_def write_elems_def object_read_def vec_get_def nth_list_update
        sub_index_eq split: if_splits option.splits ObjectValue.splits)
next
  case (Record vs)
  with assms show ?thesis
    by (auto simp: object_write_def write_elems_def object_read_def vec_get_def nth_list_update
        sub_index_eq split: if_splits option.splits ObjectValue.splits)
qed

lemma write_internal_cases:
  assumes "write_internal od i s v c = (r, od')"
  obtains (err) e where "r = Inl e" "od' = od"
  | (ok) entry obj where "r = Inr ()" "bt_get (entries od) i = Some entry"
      "c \<longrightarrow> oe_access entry \<noteq> Some ReadOnly \<and> oe_access entry \<noteq> Some Constant"
      "object_write i s v (oe_object entry) = Inr obj"
      "od' = od\<lparr> entries := bt_insert i (entry\<lparr> oe_object := obj \<rparr>) (entries od) \<rparr>"
  using assms
  by (auto simp: write_internal_def split: option.splits if_splits sum.splits)

lemma write_internal_inv:
  assumes "write_internal od i s v c = (r, od')" "od_inv od" "wf_value v"
  shows "od_inv od'"
  using assms(1)
proof (cases rule: write_internal_cases)
  case (ok entry obj)
  with assms(2,3) object_write_wf [of i s v "oe_object entry" obj] show ?thesis
    by (auto simp: od_inv_def split: if_splits)
qed (use assms in simp)

lemma write_internal_shape:
  assumes "write_internal od i s v c = (r, od')" "bt_inv (entries od)"
  shows "od_shape od' = od_shape od"
  using assms(1)
proof (cases rule: write_internal_cases)
  case (ok entry obj)
  with object_write_shape [of i s v "oe_object entry" obj] assms(2) show ?thesis
    by (auto simp: od_shape_def entry_meta_def fun_eq_iff)
qed simp

lemma write_internal_storage [simp]: "storage (snd (write_internal od i s v c)) = storage od"
  by (auto simp: write_internal_def split: option.split sum.split)

lemma write_internal_bt_inv [simp]:
  "bt_inv (entries od) \<Longrightarrow> bt_inv (entries (snd (write_internal od i s v c)))"
  by (auto simp: write_internal_def split: option.split sum.split)

lemma write_internal_read:
  assumes "write_internal od i s v c = (Inr (), od')" "bt_inv (entries od)"
  shows "od_read od' j t =
    (if j = i \<and> t = s \<and> \<not> (s = 0 \<and> map_option obj_kind (read_object od i) \<noteq> Some 0)
     then Some v else od_read od j t)"
  using assms(1)
proof (cases rule: write_internal_cases)
  case (ok entry obj)
  with assms(2) object_write_read [OF ok(4), of t] show ?thesis
    by (auto simp: od_read_def read_object_def split: if_splits)
qed simp

subsection \<open>The read and write interface\<close>

text \<open>
  What a client of the dictionary (the SDO server, the PDO handler, the NMT machines) relies on:
  a value that was written is read back, no other sub-index changes, an error changes nothing,
  and the invariant is kept. Number-of-entries cells (\<open>stored = False\<close>) accept a write without
  storing it.
\<close>

locale object_store =
  fixes rd :: "'d \<Rightarrow> u16 \<Rightarrow> u8 \<Rightarrow> ObjectValue option"
    and wr :: "'d \<Rightarrow> u16 \<Rightarrow> u8 \<Rightarrow> ObjectValue \<Rightarrow> unit result \<times> 'd"
    and stored :: "'d \<Rightarrow> u16 \<Rightarrow> u8 \<Rightarrow> bool"
    and inv :: "'d \<Rightarrow> bool"
  assumes inv_wr: "inv d \<Longrightarrow> wf_value v \<Longrightarrow> inv (snd (wr d i s v))"
    and rd_wr: "inv d \<Longrightarrow> wr d i s v = (Inr (), d') \<Longrightarrow>
      rd d' j t = (if j = i \<and> t = s \<and> stored d i s then Some v else rd d j t)"
    and rd_err: "inv d \<Longrightarrow> wr d i s v = (Inl e, d') \<Longrightarrow> rd d' j t = rd d j t"
    and stored_wr: "inv d \<Longrightarrow> stored (snd (wr d i s v)) j t = stored d j t"
begin

text \<open>The last successful write to a cell determines it, whatever is written elsewhere.\<close>

fun write_all :: "(u16 \<times> u8 \<times> ObjectValue) list \<Rightarrow> 'd \<Rightarrow> 'd" where
  "write_all [] d = d"
| "write_all ((i, s, v) # ws) d = write_all ws (snd (wr d i s v))"

lemma write_all_inv:
  "inv d \<Longrightarrow> \<forall>(i, s, v) \<in> set ws. wf_value v \<Longrightarrow> inv (write_all ws d)"
  by (induction ws d rule: write_all.induct) (auto simp: inv_wr)

lemma rd_other:
  assumes "inv d" "(j, t) \<noteq> (i, s)"
  shows "rd (snd (wr d i s v)) j t = rd d j t"
proof -
  obtain r d' where w: "wr d i s v = (r, d')" by fastforce
  show ?thesis
  proof (cases r)
    case (Inl e)
    with w assms rd_err [of d i s v e d' j t] show ?thesis by simp
  next
    case (Inr u)
    with w assms rd_wr [of d i s v d' j t] show ?thesis by auto
  qed
qed

lemma write_all_other:
  "inv d \<Longrightarrow> \<forall>(i, s, v) \<in> set ws. wf_value v \<and> (i, s) \<noteq> (j, t) \<Longrightarrow>
    rd (write_all ws d) j t = rd d j t"
  by (induction ws d rule: write_all.induct) (auto simp: rd_other inv_wr)

lemma last_write_wins:
  assumes "inv d" "wr d i s v = (Inr (), d')" "stored d i s" "wf_value v"
    and "\<forall>(j, t, w) \<in> set ws. wf_value w \<and> (j, t) \<noteq> (i, s)"
  shows "rd (write_all ws d') i s = Some v"
proof -
  have "inv d'" using inv_wr [OF assms(1,4), of i s] assms(2) by simp
  from write_all_other [OF this assms(5)] rd_wr [OF assms(1,2)] assms(3) show ?thesis by simp
qed

end

text \<open>A sub-index is stored unless it is the entry count of an array or record.\<close>

definition od_stored :: "'s ObjectDictionary \<Rightarrow> u16 \<Rightarrow> u8 \<Rightarrow> bool" where
  "od_stored od i s \<longleftrightarrow> \<not> (s = 0 \<and> map_option obj_kind (read_object od i) \<noteq> Some 0)"

text \<open>The command objects have an effect of their own and are not stored.\<close>

definition is_command :: "u16 \<Rightarrow> bool" where
  "is_command i \<longleftrightarrow> i = 0x1010 \<or> i = 0x1011"

lemma read_object_shape:
  assumes "od_shape od' = od_shape od"
  shows "map_option obj_kind (read_object od' i) = map_option obj_kind (read_object od i)"
proof -
  have "od_shape od' i = od_shape od i" using assms by simp
  then show ?thesis
    by (cases "bt_get (entries od') i"; cases "bt_get (entries od) i")
      (auto simp: od_shape_def read_object_def entry_meta_def obj_shape_def)
qed

interpretation odi: object_store od_read
  "\<lambda>od i s v. write_internal od i s v False" od_stored od_inv
proof
  fix d d' :: "'s ObjectDictionary" and v :: ObjectValue and i j :: u16 and s t :: u8
    and e :: PowerlinkError
  show "od_inv d \<Longrightarrow> wf_value v \<Longrightarrow> od_inv (snd (write_internal d i s v False))"
    using write_internal_inv [of d i s v False] by (metis prod.collapse)
  show "od_inv d \<Longrightarrow> write_internal d i s v False = (Inr (), d') \<Longrightarrow>
      od_read d' j t = (if j = i \<and> t = s \<and> od_stored d i s then Some v else od_read d j t)"
    using write_internal_read [of d i s v False d' j t] by (simp add: od_inv_def od_stored_def)
  show "od_inv d \<Longrightarrow> write_internal d i s v False = (Inl e, d') \<Longrightarrow> od_read d' j t = od_read d j t"
    by (erule write_internal_cases) auto
  show "od_inv d \<Longrightarrow> od_stored (snd (write_internal d i s v False)) j t = od_stored d j t"
    using write_internal_shape [of d i s v False] read_object_shape
    by (metis od_inv_def od_stored_def prod.collapse)
qed

subsection \<open>The public write\<close>

lemma od_write_cases:
  assumes "od_write od i s v = (r, od')"
  obtains (err) e where "r = Inl e" "od' = od"
  | (command) st where "is_command i" "od' = od\<lparr> storage := st \<rparr>"
      "map_option fst st = map_option fst (storage od)"
  | (ok) "r = Inr ()" "write_internal od i s v True = (Inr (), od')" "\<not> is_command i"
      "is_pdo_mapping_index0 i s \<longrightarrow>
        (\<exists>n. v = Unsigned8 n \<and> validate_pdo_mapping od i n = Inr ())"
proof -
  have w: "write_internal od i s v True = (r, od') \<Longrightarrow> r \<noteq> Inr () \<Longrightarrow> \<exists>e. r = Inl e \<and> od' = od"
    by (erule write_internal_cases) auto
  show ?thesis
  proof (cases "is_command i")
    case True
    have "(\<exists>e. r = Inl e \<and> od' = od) \<or> (\<exists>st. od' = od\<lparr> storage := st \<rparr> \<and> map_option fst st = map_option fst (storage od))"
      using assms True
      by (auto simp: od_write_def is_command_def store_parameters_def restore_defaults_def Let_def
          split: if_splits option.splits prod.splits)
    then show ?thesis using err command True by blast
  next
    case False
    have "(\<exists>e. r = Inl e \<and> od' = od) \<or> (write_internal od i s v True = (r, od') \<and>
        (is_pdo_mapping_index0 i s \<longrightarrow> (\<exists>n. v = Unsigned8 n \<and> validate_pdo_mapping od i n = Inr ())))"
      using assms False
      by (auto simp: od_write_def is_command_def dest: sym [of "Inl _"]
          split: if_splits ObjectValue.splits sum.splits)
    with w False err ok show ?thesis by blast
  qed
qed

subsection \<open>What the PDO validation guarantees\<close>

definition end_bits :: "u64 \<Rightarrow> nat" where
  "end_bits raw = (let e = PdoMappingEntry_from_u64 raw in unat (pm_offset_bits e) + unat (pm_length_bits e))"

lemma unat_end_bits:
  "unat (ucast (pm_offset_bits e) + ucast (pm_length_bits e) :: u32)
    = unat (pm_offset_bits e) + unat (pm_length_bits e)"
  using unat_lt_2p [of "pm_offset_bits e"] unat_lt_2p [of "pm_length_bits e"]
  by (simp add: unat_word_ariths unat_ucast_up)

lemma end_bits_bound: "end_bits raw \<le> 131070"
  using unat_lt_2p [of "pm_offset_bits (PdoMappingEntry_from_u64 raw)"]
    unat_lt_2p [of "pm_length_bits (PdoMappingEntry_from_u64 raw)"]
  by (simp add: end_bits_def Let_def)

lemma required_bits_ok:
  assumes "required_bits es is m = Inr b"
  shows "unat m \<le> unat b \<and> (\<forall>i \<in> set is. \<exists>raw. vec_get es i = Some (Unsigned64 raw) \<and> end_bits raw \<le> unat b)
    \<and> (unat b \<le> 131070 \<or> b = m)"
  using assms
proof (induction es "is" m rule: required_bits.induct)
  case (2 es i "is" m)
  from 2(2) obtain raw where raw: "vec_get es i = Some (Unsigned64 raw)"
    and rest: "required_bits es is (max m (ucast (pm_offset_bits (PdoMappingEntry_from_u64 raw))
        + ucast (pm_length_bits (PdoMappingEntry_from_u64 raw)))) = Inr b"
    by (auto simp: Let_def split: option.splits ObjectValue.splits)
  let ?x = "ucast (pm_offset_bits (PdoMappingEntry_from_u64 raw))
        + ucast (pm_length_bits (PdoMappingEntry_from_u64 raw)) :: u32"
  have x: "unat ?x = end_bits raw" by (simp add: unat_end_bits end_bits_def Let_def)
  have mx: "unat (max m ?x) = max (unat m) (unat ?x)"
    by (simp add: max_def word_le_nat_alt)
  from 2(1) [OF raw refl refl refl rest] mx x end_bits_bound [of raw] raw show ?case
    by (auto simp: max_def split: if_splits)
qed simp

lemma validate_pdo_mapping_ok:
  assumes "validate_pdo_mapping od index n = Inr ()" "is_pdo_mapping_index0 index 0" "k < unat n"
  shows "\<exists>es raw. read_object od index = Some (Array es) \<and> k < length es \<and>
    es ! k = Unsigned64 raw \<and>
    end_bits raw \<le> 8 * unat (unwrap_or (read_u16 od 0x1F98 (if index \<ge> 0x1A00 then 1 else 2)) 1490)"
proof -
  from assms(3) have n: "n \<noteq> 0" by auto
  let ?lim = "unat (unwrap_or (read_u16 od 0x1F98 (if index \<ge> 0x1A00 then 1 else 2)) 1490)"
  have tp: "0x1A00 \<le> index \<and> index \<le> 0x1AFF \<longleftrightarrow> index \<ge> 0x1A00"
    using assms(2) by (auto simp: is_pdo_mapping_index0_def word_le_nat_alt)
  from assms(1,2) n obtain es b where es: "read_object od index = Some (Array es)"
    and b: "required_bits es [0..<unat n] 0 = Inr b" and lim: "unat ((b + 7) div 8) \<le> ?lim"
    unfolding validate_pdo_mapping_def tp
    by (auto simp: Let_def is_pdo_mapping_index0_def rbind_eq_Inr
        split: option.splits Object.splits if_splits)
  from required_bits_ok [OF b] assms(3) obtain raw where raw: "vec_get es k = Some (Unsigned64 raw)"
    and le: "end_bits raw \<le> unat b" and bb: "unat b \<le> 131070"
    by fastforce
  have "unat ((b + 7) div 8) = (unat b + 7) div 8"
    using bb by (simp add: unat_div unat_word_ariths)
  with lim le have "end_bits raw \<le> 8 * ?lim" by linarith
  with es raw show ?thesis by (auto simp: vec_get_Some)
qed

subsection \<open>Properties\<close>

text \<open>
  C12: a successful write to an object that is not a command object is read back unless it went
  to the entry count of an array or record, and every other sub-index of every object reads as
  before; the storage is untouched and the invariant holds again.\<close>

theorem od_write_then_read:
  assumes "od_write od i s v = (Inr (), od')" "\<not> is_command i" "od_inv od" "wf_value v"
  shows "od_inv od' \<and> storage od' = storage od \<and> od_shape od' = od_shape od \<and>
    (\<forall>j t. od_read od' j t = (if j = i \<and> t = s \<and> od_stored od i s then Some v else od_read od j t))"
  using assms(1)
proof (cases rule: od_write_cases)
  case ok
  have bt: "bt_inv (entries od)" using assms(3) by (simp add: od_inv_def)
  have "storage od' = storage od"
    using write_internal_storage [of od i s v True] ok(2) by simp
  with write_internal_inv [OF ok(2) assms(3,4)] write_internal_shape [OF ok(2) bt]
    write_internal_read [OF ok(2) bt] show ?thesis
    by (simp add: od_stored_def)
qed (use assms in \<open>auto simp: is_command_def\<close>)

definition example_od :: "unit ObjectDictionary" where
  "example_od = od_insert 0x6000 (mk_entry (Record [Unsigned8 1, Unsigned16 2]) ''Io'' Optional
     (Some ReadWrite) None None) (od_new None)"

theorem od_write_then_read_witness:
  "let od' = snd (od_write example_od 0x6000 2 (Unsigned16 77))
   in od_read od' 0x6000 2 = Some (Unsigned16 77) \<and> od_read od' 0x6000 1 = Some (Unsigned8 1)"
proof -
  let ?w = "od_write example_od 0x6000 2 (Unsigned16 77)"
  have ok: "fst ?w = Inr ()"
    by (simp add: od_write_def is_pdo_mapping_index0_def write_internal_def object_write_def
        write_elems_def vec_get_def bt_get_def example_od_def od_insert_def od_new_def mk_entry_def)
  have inv: "od_inv example_od"
    by (simp add: od_inv_def example_od_def od_insert_def od_new_def mk_entry_def bt_inv_def bt_get_def)
  have st: "od_stored example_od 0x6000 2" by (simp add: od_stored_def)
  have rd: "od_read example_od 0x6000 1 = Some (Unsigned8 1)"
    by (simp add: od_read_def object_read_def vec_get_def bt_get_def example_od_def od_insert_def
        od_new_def mk_entry_def)
  have "?w = (Inr (), snd ?w)" using ok by (metis prod.collapse)
  from od_write_then_read [OF this _ inv] st rd show ?thesis
    by (simp add: is_command_def Let_def)
qed

text \<open>
  C30: a write that fails leaves every entry as it was, and no write of any outcome changes the
  kind, the number or the types of the values of an object, its name, access rights or defaults.\<close>

theorem od_write_atomic_typed:
  assumes "od_write od i s v = (r, od')" "bt_inv (entries od)"
  shows "od_shape od' = od_shape od \<and> (r \<noteq> Inr () \<longrightarrow> entries od' = entries od)"
  using assms(1)
proof (cases rule: od_write_cases)
  case (command st)
  then show ?thesis by (simp add: od_shape_def fun_eq_iff)
next
  case ok
  with write_internal_shape [OF ok(2) assms(2)] show ?thesis by simp
qed simp

theorem od_write_atomic_typed_witness:
  "od_write example_od 0x6000 2 (Unsigned8 1) = (Inl TypeMismatch, example_od) \<and>
   od_shape (snd (od_write example_od 0x6000 2 (Unsigned8 1))) = od_shape example_od"
proof -
  have "od_write example_od 0x6000 2 (Unsigned8 1) = (Inl TypeMismatch, example_od)"
    by (simp add: od_write_def is_pdo_mapping_index0_def write_internal_def object_write_def
        write_elems_def vec_get_def bt_get_def example_od_def od_insert_def od_new_def mk_entry_def)
  with od_write_atomic_typed [OF this] show ?thesis
    by (simp add: example_od_def od_insert_def od_new_def bt_inv_def)
qed

text \<open>
  C34: an object with read-only or constant access is never changed by the public write: the
  write fails, or (for the command objects) only reaches the storage.\<close>

theorem od_write_respects_access:
  assumes "bt_get (entries od) i = Some entry" "oe_access entry \<in> {Some ReadOnly, Some Constant}"
  shows "entries (snd (od_write od i s v)) = entries od \<and>
    (\<not> is_command i \<longrightarrow> (\<exists>e. fst (od_write od i s v) = Inl e))"
proof -
  obtain r od' where w: "od_write od i s v = (r, od')" by fastforce
  from w show ?thesis
  proof (cases rule: od_write_cases)
    case ok
    from ok(2) show ?thesis by (rule write_internal_cases) (use assms in auto)
  qed (use w in auto)
qed

theorem od_write_respects_access_witness:
  "let od = populate_protocol_objects (od_new None :: unit ObjectDictionary)
   in \<exists>e. fst (od_write od 0x1F8C 0 (Unsigned8 1)) = Inl e"
proof -
  let ?od = "populate_protocol_objects (od_new None :: unit ObjectDictionary)"
  have "bt_get (entries ?od) 0x1F8C = Some (mk_entry (Variable (Unsigned8 0))
         ''NMT_CurrNMTState_U8'' Mandatory (Some ReadOnly) (Some (Unsigned8 0)) (Some PmNo))"
    by (simp add: populate_protocol_objects_def protocol_objects_def insert_if_missing_def
        bt_contains_def od_insert_def od_new_def bt_get_def)
  from od_write_respects_access [OF this] show ?thesis
    by (simp add: mk_entry_def is_command_def Let_def)
qed

text \<open>
  C32: when the public write accepts a new number of entries for a PDO mapping object, each of
  these entries exists, is a 64-bit mapping, and ends within the payload limit that object 0x1F98
  sets for the direction of the mapping (1490 octets when it is not set); no intermediate sum
  overflows.\<close>

theorem pdo_mapping_write_fits:
  assumes "od_write od i 0 (Unsigned8 n) = (Inr (), od')" "is_pdo_mapping_index0 i 0" "k < unat n"
  shows "\<exists>es raw. read_object od i = Some (Array es) \<and> k < length es \<and> es ! k = Unsigned64 raw \<and>
    end_bits raw \<le> 8 * unat (unwrap_or (read_u16 od 0x1F98 (if i \<ge> 0x1A00 then 1 else 2)) 1490)"
proof -
  have nc: "\<not> is_command i" using assms(2) by (auto simp: is_command_def is_pdo_mapping_index0_def)
  from assms(1) have "validate_pdo_mapping od i n = Inr ()"
    by (cases rule: od_write_cases) (use assms(2) nc in auto)
  from validate_pdo_mapping_ok [OF this assms(2,3)] show ?thesis .
qed

definition example_map_od :: "unit ObjectDictionary" where
  "example_map_od = od_insert 0x1A00 (mk_entry (Array [Unsigned64 0x0010000000006000]) ''Map'' Mandatory
     None None None) (od_new None)"

theorem pdo_mapping_write_fits_witness:
  "fst (od_write example_map_od 0x1A00 0 (Unsigned8 1)) = Inr () \<and> end_bits 0x0010000000006000 \<le> 8 * 1490"
proof -
  let ?w = "od_write example_map_od 0x1A00 0 (Unsigned8 1)"
  have lim: "read_u16 example_map_od 0x1F98 1 = None"
    by (simp add: read_u16_def od_read_def example_map_od_def od_insert_def od_new_def bt_get_def)
  have ro: "read_object example_map_od 0x1A00 = Some (Array [Unsigned64 0x0010000000006000])"
    by (simp add: read_object_def example_map_od_def od_insert_def od_new_def bt_get_def mk_entry_def)
  have "validate_pdo_mapping example_map_od 0x1A00 1 = Inr ()"
    by (simp add: validate_pdo_mapping_def ro lim vec_get_def PdoMappingEntry_from_u64_def)
  then have ok: "fst ?w = Inr ()"
    by (simp add: od_write_def is_pdo_mapping_index0_def write_internal_def object_write_def
        write_elems_def example_map_od_def od_insert_def od_new_def bt_get_def mk_entry_def)
  then have "?w = (Inr (), snd ?w)" by (metis prod.collapse)
  from pdo_mapping_write_fits [OF this, of 0] ok ro lim show ?thesis
    by (simp add: is_pdo_mapping_index0_def)
qed

end
