(* ===== verification/Od_Storage.thy ===== *)
theory Od_Storage
  imports Od_Props
begin

section \<open>Storing, restoring and resetting parameters\<close>

text \<open>
  What \<^verbatim>\<open>od/commands.rs\<close>, \<^verbatim>\<open>od/storage.rs\<close>, \<^verbatim>\<open>od/predefined.rs\<close> and
  \<^verbatim>\<open>restore_power_on_values\<close> achieve together: the parameters collected by a store command, loaded
  at the next boot over the firmware defaults, give back the stored values; the reset commands of
  the NMT layer change only the objects of their range.
\<close>

subsection \<open>The collected parameters\<close>

definition cells :: "u16 \<Rightarrow> Object \<Rightarrow> ((u16 \<times> u8) \<times> ObjectValue) list" where
  "cells index obj =
     (case obj of
        Variable v \<Rightarrow> [((index, 0), v)]
      | Array vs \<Rightarrow> map (\<lambda>(i, v). ((index, of_nat (i + 1)), v)) (enumerate 0 vs)
      | Record vs \<Rightarrow> map (\<lambda>(i, v). ((index, of_nat (i + 1)), v)) (enumerate 0 vs))"

definition storable :: "u8 \<Rightarrow> u16 \<times> ObjectEntry \<Rightarrow> bool" where
  "storable l ie \<longleftrightarrow> should_save l (fst ie) \<and>
     (oe_access (snd ie) = Some ReadWriteStore \<or> oe_access (snd ie) = Some WriteOnlyStore)"

definition storable_cells :: "u8 \<Rightarrow> (u16, ObjectEntry) btree \<Rightarrow> ((u16 \<times> u8) \<times> ObjectValue) list" where
  "storable_cells l es = concat (map (\<lambda>(i, e). cells i (oe_object e)) (filter (storable l) es))"

abbreviation bt_put :: "('k::linorder \<times> 'v) \<Rightarrow> ('k, 'v) btree \<Rightarrow> ('k, 'v) btree" where
  "bt_put \<equiv> \<lambda>(k, v). bt_insert k v"

lemma store_entry_cells:
  "store_entry l (i, e) m = (if storable l (i, e) then fold bt_put (cells i (oe_object e)) m else m)"
  by (auto simp: store_entry_def storable_def cells_def fold_map comp_def case_prod_unfold
      split: Object.split)

lemma fold_store_entries:
  "fold (store_entry l) es m = fold bt_put (storable_cells l es) m"
  by (induction es arbitrary: m)
    (auto simp: storable_cells_def store_entry_cells)

lemma fold_bt_put_inv: "bt_inv m \<Longrightarrow> bt_inv (fold bt_put xs m)"
  by (induction xs arbitrary: m) auto

lemma fold_bt_put_get:
  "bt_inv m \<Longrightarrow> distinct (map fst xs) \<Longrightarrow>
    bt_get (fold bt_put xs m) k = (case map_of xs k of Some v \<Rightarrow> Some v | None \<Rightarrow> bt_get m k)"
proof (induction xs arbitrary: m)
  case (Cons x xs)
  obtain a b where x: "x = (a, b)" by fastforce
  with Cons.prems have "map_of xs a = None" by (simp add: map_of_eq_None_iff)
  with Cons x show ?case by (auto split: option.split)
qed simp

text \<open>Sub-indices are octets: the collection is faithful for objects of up to 255 values.\<close>

definition small_object :: "Object \<Rightarrow> bool" where
  "small_object obj \<longleftrightarrow> length (obj_values obj) \<le> 255"

definition small_od :: "'s ObjectDictionary \<Rightarrow> bool" where
  "small_od od \<longleftrightarrow> (\<forall>i e. bt_get (entries od) i = Some e \<longrightarrow> small_object (oe_object e))"

lemma of_nat_u8_inj: "a < 256 \<Longrightarrow> b < 256 \<Longrightarrow> (of_nat a :: u8) = of_nat b \<longleftrightarrow> a = b"
  by (simp add: word_of_nat_eq_iff take_bit_nat_eq_self)

lemma unat_of_nat_u8: "a < 256 \<Longrightarrow> unat (of_nat a :: u8) = a"
  by (simp add: unat_of_nat)

definition elem_cells :: "u16 \<Rightarrow> ObjectValue list \<Rightarrow> ((u16 \<times> u8) \<times> ObjectValue) list" where
  "elem_cells index vs = map (\<lambda>(i, v). ((index, of_nat (i + 1)), v)) (enumerate 0 vs)"

lemma nth_elem_cells:
  "k < length vs \<Longrightarrow> elem_cells index vs ! k = ((index, of_nat (k + 1)), vs ! k)"
  by (simp add: elem_cells_def nth_enumerate_eq)

lemma length_elem_cells [simp]: "length (elem_cells index vs) = length vs"
  by (simp add: elem_cells_def)

lemma distinct_elem_cells:
  "length vs \<le> 255 \<Longrightarrow> distinct (map fst (elem_cells index vs))"
  by (auto simp: distinct_conv_nth nth_elem_cells of_nat_u8_inj simp del: of_nat_add of_nat_Suc)

lemma map_of_elem_cells:
  assumes "length vs \<le> 255"
  shows "map_of (elem_cells index vs) (i, s) =
    (if i = index \<and> s \<noteq> 0 then vec_get vs (unat s - 1) else None)"
proof (cases "i = index \<and> s \<noteq> 0 \<and> unat s - 1 < length vs")
  case True
  let ?k = "unat s - 1"
  have "elem_cells index vs ! ?k = ((i, s), vs ! ?k)"
    using True sub_index_pos [of s] by (simp add: nth_elem_cells)
  then have "((i, s), vs ! ?k) \<in> set (elem_cells index vs)"
    using True by (metis length_elem_cells nth_mem)
  with distinct_elem_cells [OF assms] True show ?thesis by (simp add: vec_get_def)
next
  case False
  have "(i, s) \<notin> fst ` set (elem_cells index vs)"
  proof
    assume "(i, s) \<in> fst ` set (elem_cells index vs)"
    then obtain k where k: "k < length vs" "(i, s) = (index, of_nat (k + 1))"
      by (auto simp: in_set_conv_nth nth_elem_cells)
    then have "unat s = k + 1" using assms unat_of_nat_u8 [of "k + 1"] by simp
    with k False show False by auto
  qed
  then have "map_of (elem_cells index vs) (i, s) = None" by (simp add: map_of_eq_None_iff)
  with False show ?thesis by (auto simp: vec_get_def)
qed

lemma cells_simps:
  "cells i (Variable v) = [((i, 0), v)]"
  "cells i (Array vs) = elem_cells i vs"
  "cells i (Record vs) = elem_cells i vs"
  by (simp_all add: cells_def elem_cells_def)

text \<open>The cells of an object are exactly its stored sub-indices with their values.\<close>

lemma map_of_cells:
  assumes "small_object obj"
  shows "map_of (cells index obj) (i, s) =
    (if i = index \<and> \<not> (s = 0 \<and> obj_kind obj \<noteq> 0) then object_read obj s else None)"
  using assms by (cases obj) (auto simp: cells_simps map_of_elem_cells small_object_def object_read_def)

lemma distinct_cells: "small_object obj \<Longrightarrow> distinct (map fst (cells index obj))"
  by (cases obj) (simp_all add: cells_simps distinct_elem_cells small_object_def)

lemma fst_cells: "k \<in> fst ` set (cells index obj) \<Longrightarrow> fst k = index"
  by (cases obj) (auto simp: cells_simps in_set_conv_nth nth_elem_cells)

lemma fst_storable_cells:
  assumes "k \<in> fst ` set (storable_cells l es)"
  shows "fst k \<in> fst ` set es"
proof -
  from assms obtain x where x: "x \<in> set es" "k \<in> fst ` set (cells (fst x) (oe_object (snd x)))"
    by (auto simp: storable_cells_def case_prod_unfold)
  from fst_cells [OF x(2)] x(1) show ?thesis by auto
qed

lemma distinct_storable_cells:
  assumes "bt_inv es" "\<forall>(i, e) \<in> set es. small_object (oe_object e)"
  shows "distinct (map fst (storable_cells l es))"
  using assms
proof (induction es)
  case (Cons x es)
  obtain i e where x: "x = (i, e)" by fastforce
  have "\<forall>j \<in> fst ` set es. i < j" "bt_inv es" using Cons.prems x by (simp_all add: bt_inv_Cons)
  then have "fst ` set (cells i (oe_object e)) \<inter> fst ` set (storable_cells l es) = {}"
    using fst_storable_cells [of _ l es] fst_cells [of _ i "oe_object e"]
    by (metis disjoint_iff less_irrefl)
  moreover have "distinct (map fst (storable_cells l es))"
    using Cons.IH Cons.prems \<open>bt_inv es\<close> by simp
  moreover have "distinct (map fst (cells i (oe_object e)))"
    using Cons.prems x by (simp add: distinct_cells)
  ultimately show ?case using x by (simp add: storable_cells_def)
qed (simp add: storable_cells_def)

lemma map_of_storable_cells:
  assumes "bt_inv es" "\<forall>(i, e) \<in> set es. small_object (oe_object e)"
  shows "map_of (storable_cells l es) (i, s) =
    (case map_of es i of
       None \<Rightarrow> None
     | Some e \<Rightarrow>
         if storable l (i, e) \<and> \<not> (s = 0 \<and> obj_kind (oe_object e) \<noteq> 0)
         then object_read (oe_object e) s else None)"
  using assms
proof (induction es)
  case (Cons x es)
  obtain j e where x: "x = (j, e)" by fastforce
  have lt: "\<forall>k \<in> fst ` set es. j < k" and inv: "bt_inv es"
    using Cons.prems x by (simp_all add: bt_inv_Cons)
  have c: "map_of (cells j (oe_object e)) (i, s) =
      (if i = j \<and> \<not> (s = 0 \<and> obj_kind (oe_object e) \<noteq> 0) then object_read (oe_object e) s else None)"
    using Cons.prems x by (simp add: map_of_cells)
  have none: "i = j \<Longrightarrow> map_of (storable_cells l es) (i, s) = None"
    using fst_storable_cells [of "(i, s)" l es] lt by (auto simp: map_of_eq_None_iff)
  have step: "storable_cells l ((j, e) # es) =
      (if storable l (j, e) then cells j (oe_object e) else []) @ storable_cells l es"
    by (simp add: storable_cells_def)
  show ?case
  proof (cases "i = j")
    case True
    with c none show ?thesis unfolding x by (auto simp: step map_add_def split: option.split if_splits)
  next
    case False
    with Cons.IH Cons.prems inv c show ?thesis unfolding x by (simp add: step map_add_def)
  qed
qed (simp add: storable_cells_def)

lemma small_od_set:
  "bt_inv (entries od) \<Longrightarrow> small_od od \<Longrightarrow> \<forall>(i, e) \<in> set (entries od). small_object (oe_object e)"
  by (auto simp: small_od_def bt_get_def bt_inv_def strict_sorted_iff dest!: map_of_is_SomeI [rotated])

lemma collected_get:
  assumes "bt_inv (entries od)" "small_od od"
  shows "bt_get (fold (store_entry l) (entries od) []) (i, s) =
    (case bt_get (entries od) i of
       None \<Rightarrow> None
     | Some e \<Rightarrow>
         if storable l (i, e) \<and> od_stored od i s then od_read od i s else None)"
proof -
  have es: "\<forall>(i, e) \<in> set (entries od). small_object (oe_object e)"
    using small_od_set [OF assms] .
  have "bt_get (fold bt_put (storable_cells l (entries od)) []) (i, s)
      = map_of (storable_cells l (entries od)) (i, s)"
    using distinct_storable_cells [OF assms(1) es, of l]
    by (simp add: fold_bt_put_get split: option.split)
  then show ?thesis
    unfolding fold_store_entries map_of_storable_cells [OF assms(1) es, of l i s]
    by (auto simp: od_stored_def od_read_def read_object_def bt_get_def split: option.splits)
qed

subsection \<open>Loading them back\<close>

lemma od_read_shape:
  assumes "od_shape od' = od_shape od"
  shows "map_option discriminant (od_read od' i s) = map_option discriminant (od_read od i s)"
proof -
  have "map_option discriminant (object_read a s) =
      (case obj_shape a of (k, ds) \<Rightarrow>
         if k = 0 then (if s = 0 then Some (hd ds) else None)
         else if s = 0 then Some 5 else vec_get ds (unat s - 1))" for a
    by (cases a) (simp_all add: obj_shape_def object_read_def vec_get_def)
  moreover have "od_shape od' i = od_shape od i" using assms by simp
  ultimately show ?thesis
    by (cases "bt_get (entries od') i"; cases "bt_get (entries od) i")
      (auto simp: od_shape_def od_read_def entry_meta_def)
qed

lemma write_internal_succeeds:
  assumes "od_read od i s = Some w" "discriminant w = discriminant v" "od_stored od i s"
  shows "fst (write_internal od i s v False) = Inr ()"
proof -
  from assms(1) obtain e where e: "bt_get (entries od) i = Some e" "object_read (oe_object e) s = Some w"
    by (auto simp: od_read_def bind_eq_Some_conv)
  have "\<exists>obj. object_write i s v (oe_object e) = Inr obj"
    using e assms
    by (cases "oe_object e")
      (auto simp: object_read_def object_write_def write_elems_def od_stored_def read_object_def
        split: if_splits)
  with e show ?thesis by (auto simp: write_internal_def)
qed

definition as_writes :: "stored_params \<Rightarrow> (u16 \<times> u8 \<times> ObjectValue) list" where
  "as_writes p = map (\<lambda>((i, s), v). (i, s, v)) p"

lemma overlay_write_all: "overlay p od = odi.write_all (as_writes p) od"
  unfolding overlay_def as_writes_def
  by (induction p arbitrary: od) (auto simp: case_prod_unfold)

lemma write_all_shape:
  "bt_inv (entries od) \<Longrightarrow> od_shape (odi.write_all ws od) = od_shape od"
proof (induction ws arbitrary: od)
  case (Cons w ws)
  obtain i s v where w: "w = (i, s, v)" by (metis prod.exhaust)
  have "od_shape (snd (write_internal od i s v False)) = od_shape od"
    using write_internal_shape [of od i s v False] Cons.prems by (metis prod.collapse)
  with Cons w show ?case by simp
qed simp

text \<open>A stored parameter that fits the dictionary is in place after the overlay.\<close>

lemma overlay_get:
  assumes "od_inv od" "bt_inv p" "\<forall>k v. bt_get p k = Some v \<longrightarrow> wf_value v"
    and "bt_get p (i, s) = Some v" "od_stored od i s"
    and "map_option discriminant (od_read od i s) = Some (discriminant v)"
  shows "od_read (overlay p od) i s = Some v"
proof -
  have dist: "distinct (map fst p)" using assms(2) by (simp add: bt_inv_def strict_sorted_iff)
  have "((i, s), v) \<in> set p" using assms(4) by (auto simp: bt_get_def dest: map_of_SomeD)
  then obtain xs ys where p: "p = xs @ ((i, s), v) # ys" by (meson split_list)
  have wf: "\<forall>(k, w) \<in> set p. wf_value w"
    using assms(3) dist by (auto simp: bt_get_def)
  have ys: "\<forall>(j, t, w) \<in> set (as_writes ys). wf_value w \<and> (j, t) \<noteq> (i, s)"
  proof -
    have "(i, s) \<notin> fst ` set ys" using dist p by simp
    with wf p show ?thesis by (auto simp: as_writes_def image_iff)
  qed
  let ?d = "odi.write_all (as_writes xs) od"
  have inv: "od_inv ?d"
    using assms(1) wf p by (intro odi.write_all_inv) (auto simp: as_writes_def)
  have shape: "od_shape ?d = od_shape od"
    using assms(1) by (intro write_all_shape) (simp add: od_inv_def)
  have st: "od_stored ?d i s"
    using assms(5) read_object_shape [OF shape, of i] by (simp add: od_stored_def)
  obtain w where w: "od_read ?d i s = Some w" "discriminant w = discriminant v"
    using assms(6) od_read_shape [OF shape, of i s] by auto
  obtain d' where d': "write_internal ?d i s v False = (Inr (), d')"
    using write_internal_succeeds [OF w st] by (metis prod.collapse)
  have app: "odi.write_all (as @ bs) d = odi.write_all bs (odi.write_all as d)" for as bs
    and d :: "'a ObjectDictionary"
    by (induction as arbitrary: d) auto
  have "overlay p od = odi.write_all (as_writes ys) d'"
    using d' by (simp add: overlay_write_all p as_writes_def app [unfolded as_writes_def])
  with odi.last_write_wins [OF inv d' st _ ys] wf p show ?thesis by simp
qed

lemma overlay_skip:
  assumes "od_inv od" "bt_inv p" "\<forall>k v. bt_get p k = Some v \<longrightarrow> wf_value v" "bt_get p (i, s) = None"
  shows "od_read (overlay p od) i s = od_read od i s"
proof -
  have "\<forall>(k, w) \<in> set p. wf_value w"
    using assms(2,3) by (auto simp: bt_get_def bt_inv_def strict_sorted_iff)
  then have "\<forall>(j, t, w) \<in> set (as_writes p). wf_value w \<and> (j, t) \<noteq> (i, s)"
    using assms(4) by (auto simp: as_writes_def bt_get_def map_of_eq_None_iff image_iff)
  from odi.write_all_other [OF assms(1) this] show ?thesis by (simp add: overlay_write_all)
qed

lemma object_read_wf:
  "list_all wf_value (obj_values obj) \<Longrightarrow> object_read obj s = Some v \<Longrightarrow> wf_value v"
  by (cases obj) (auto simp: object_read_def vec_get_def list_all_length split: if_splits)

lemma collected_wf:
  assumes "od_inv od" "small_od od" "bt_get (fold (store_entry l) (entries od) []) k = Some v"
  shows "wf_value v"
proof -
  obtain i s where k: "k = (i, s)" by fastforce
  from assms(3) obtain e where "bt_get (entries od) i = Some e" "object_read (oe_object e) s = Some v"
    using assms(1,2) unfolding k
    by (auto simp: collected_get od_inv_def od_read_def split: option.splits if_splits)
  with assms(1) show ?thesis by (auto simp: od_inv_def intro: object_read_wf)
qed

lemma od_shape_storage: "od_shape (od\<lparr> storage := st \<rparr>) = od_shape od"
  by (simp add: od_shape_def fun_eq_iff)

subsection \<open>The protocol objects\<close>

lemma insert_if_missing_get:
  "bt_inv (entries od) \<Longrightarrow> bt_get (entries (insert_if_missing i e od)) j =
     (if j = i \<and> bt_get (entries od) i = None then Some e else bt_get (entries od) j)"
  by (auto simp: insert_if_missing_def od_insert_def bt_contains_def)

lemma insert_if_missing_inv:
  "bt_inv (entries od) \<Longrightarrow> bt_inv (entries (insert_if_missing i e od))"
  by (simp add: insert_if_missing_def od_insert_def)

lemma fold_insert_missing:
  assumes "bt_inv (entries od)"
  shows "bt_inv (entries (fold (\<lambda>(i, e). insert_if_missing i e) xs od))"
    and "bt_get (entries (fold (\<lambda>(i, e). insert_if_missing i e) xs od)) j =
      (case bt_get (entries od) j of Some e \<Rightarrow> Some e | None \<Rightarrow> map_of xs j)"
proof -
  show "bt_inv (entries (fold (\<lambda>(i, e). insert_if_missing i e) xs od))"
    using assms by (induction xs arbitrary: od) (auto simp: insert_if_missing_inv)
  show "bt_get (entries (fold (\<lambda>(i, e). insert_if_missing i e) xs od)) j =
      (case bt_get (entries od) j of Some e \<Rightarrow> Some e | None \<Rightarrow> map_of xs j)"
    using assms
  proof (induction xs arbitrary: od)
    case (Cons x xs)
    obtain i e where x: "x = (i, e)" by fastforce
    have "bt_inv (entries (insert_if_missing i e od))" using Cons.prems by (rule insert_if_missing_inv)
    from Cons.IH [OF this] x Cons.prems show ?case
      by (auto simp: insert_if_missing_get split: option.split)
  qed (simp split: option.split)
qed

lemma protocol_objects_wf:
  "map_of protocol_objects i = Some e \<Longrightarrow>
    list_all wf_value (obj_values (oe_object e)) \<and> small_object (oe_object e)"
  by (auto simp: protocol_objects_def mk_entry_def small_object_def split: if_splits)

lemma populate_get:
  "bt_inv (entries od) \<Longrightarrow> bt_get (entries (populate_protocol_objects od)) j =
     (case bt_get (entries od) j of Some e \<Rightarrow> Some e | None \<Rightarrow> map_of protocol_objects j)"
  by (simp add: populate_protocol_objects_def fold_insert_missing)

lemma populate_storage [simp]: "storage (populate_protocol_objects od) = storage od"
proof -
  have "storage (fold (\<lambda>(i, e). insert_if_missing i e) xs od) = storage od" for xs
    by (induction xs arbitrary: od) (auto simp: insert_if_missing_def od_insert_def)
  then show ?thesis by (simp add: populate_protocol_objects_def)
qed

lemma populate_inv: "od_inv od \<Longrightarrow> od_inv (populate_protocol_objects od)"
  by (auto simp: od_inv_def populate_get populate_protocol_objects_def [of od] fold_insert_missing
      dest: protocol_objects_wf split: option.splits)

lemma populate_small: "bt_inv (entries od) \<Longrightarrow> small_od od \<Longrightarrow> small_od (populate_protocol_objects od)"
  by (auto simp: small_od_def populate_get dest: protocol_objects_wf split: option.splits)

lemma small_od_shape:
  assumes "od_shape od' = od_shape od" "small_od od"
  shows "small_od od'"
  unfolding small_od_def
proof (intro allI impI)
  fix i e assume e: "bt_get (entries od') i = Some e"
  have "od_shape od' i = od_shape od i" using assms(1) by simp
  with e obtain e' where e': "bt_get (entries od) i = Some e'" "entry_meta e = entry_meta e'"
    by (cases "bt_get (entries od) i") (auto simp: od_shape_def)
  then have "length (obj_values (oe_object e)) = length (obj_values (oe_object e'))"
    by (auto simp: entry_meta_def obj_shape_def dest: map_eq_imp_length_eq)
  with e' assms(2) show "small_object (oe_object e)" by (auto simp: small_od_def small_object_def)
qed

subsection \<open>Properties\<close>

text \<open>
  Adding the protocol objects never replaces an object the application has defined, adds
  exactly the missing ones of the twelve predefined objects, and keeps the invariant.\<close>

lemma populate_non_destructive:
  assumes "od_inv od"
  shows "od_inv (populate_protocol_objects od) \<and>
    (\<forall>i. bt_get (entries (populate_protocol_objects od)) i =
      (case bt_get (entries od) i of Some e \<Rightarrow> Some e | None \<Rightarrow> map_of protocol_objects i))"
  using assms populate_inv populate_get by (auto simp: od_inv_def)

text \<open>What \<^verbatim>\<open>ObjectDictionaryStorage\<close> documents of its \<^verbatim>\<open>save\<close> and \<^verbatim>\<open>load\<close>: parameters that were
  saved without an error are the ones loaded afterwards.\<close>

definition load_after_save :: "'s StorageOps \<Rightarrow> bool" where
  "load_after_save ops \<longleftrightarrow>
     (\<forall>p st st'. so_save ops p st = (Inr (), st') \<longrightarrow> (\<exists>st''. so_load ops st' = (Inr p, st'')))"

text \<open>
  C13: parameters survive a power cycle. If a store command on a dictionary succeeds, on a
  back end that loads what it saved and has no restore pending, then initialising a dictionary
  of the same structure at the next boot gives every stored sub-index of every selected
  storable object its value at the time of the store; all other sub-indices keep the defaults
  they had after the protocol objects were added.\<close>

theorem store_then_boot_restores:
  assumes od: "od_inv od" "small_od od" "storage od = Some (ops, st)"
    and store: "store_parameters od l = (Inr (), od_saved)" "storage od_saved = Some (ops, st1)"
    and load: "load_after_save ops" "\<not> so_restore_defaults_requested ops st1"
    and boot: "storage fresh = Some (ops, st1)" "od_inv (populate_protocol_objects fresh)"
      "od_shape (populate_protocol_objects fresh) = od_shape od"
  shows "\<exists>booted. od_init fresh = (Inr (), booted) \<and>
    (\<forall>i s e. bt_get (entries od) i = Some e \<longrightarrow> od_stored od i s \<longrightarrow>
       od_read booted i s =
         (if storable l (i, e) then od_read od i s
          else od_read (populate_protocol_objects fresh) i s))"
proof -
  let ?p = "fold (store_entry l) (entries od) []"
  let ?base = "populate_protocol_objects fresh"
  have "so_save ops ?p st = (Inr (), st1)"
    using store od(3) by (auto simp: store_parameters_def split: if_splits prod.splits)
  then obtain st2 where st2: "so_load ops st1 = (Inr ?p, st2)"
    using load(1) unfolding load_after_save_def by blast
  define d where "d = ?base\<lparr> storage := Some (ops, st2) \<rparr>"
  have "storage ?base = Some (ops, st1)" using boot(1) by simp
  then have init: "od_init fresh = (Inr (), overlay ?p d)"
    using load(2) st2 by (simp add: od_init_def d_def)
  have d: "od_inv d" "od_shape d = od_shape od"
    using boot(2,3) by (simp_all add: d_def od_inv_def od_shape_def fun_eq_iff)
  have bt: "bt_inv (entries od)" using od(1) by (simp add: od_inv_def)
  have p: "bt_inv ?p" "\<forall>k v. bt_get ?p k = Some v \<longrightarrow> wf_value v"
    using collected_wf [OF od(1,2)] by (auto simp: fold_store_entries fold_bt_put_inv)
  have rd: "od_read d i s = od_read ?base i s" for i s by (simp add: d_def od_read_def)
  have "od_read (overlay ?p d) i s =
      (if storable l (i, e) then od_read od i s else od_read ?base i s)"
    if e: "bt_get (entries od) i = Some e" and s: "od_stored od i s" for i s e
  proof (cases "storable l (i, e) \<and> od_read od i s \<noteq> None")
    case True
    then obtain v where v: "od_read od i s = Some v" by auto
    have "bt_get ?p (i, s) = Some v" using collected_get [OF bt od(2)] e s True v by simp
    moreover have "od_stored d i s"
      using s read_object_shape [OF d(2), of i] by (simp add: od_stored_def)
    moreover have "map_option discriminant (od_read d i s) = Some (discriminant v)"
      using od_read_shape [OF d(2), of i s] v by simp
    ultimately show ?thesis using overlay_get [OF d(1) p] True v by simp
  next
    case False
    then have "bt_get ?p (i, s) = None" using collected_get [OF bt od(2)] e s by auto
    from overlay_skip [OF d(1) p this] rd od_read_shape [OF d(2), of i s] False show ?thesis by auto
  qed
  with init show ?thesis by blast
qed

text \<open>A back end in memory: the saved parameters and the restore flag.\<close>

definition ram_ops :: "(stored_params \<times> bool) StorageOps" where
  "ram_ops =
     \<lparr> so_load = \<lambda>(p, f). (Inr p, (p, f)),
       so_save = \<lambda>q (p, f). (Inr (), (q, f)),
       so_clear = \<lambda>(p, f). (Inr (), ([], f)),
       so_restore_defaults_requested = snd,
       so_request_restore_defaults = \<lambda>(p, f). (Inr (), (p, True)),
       so_clear_restore_defaults_flag = \<lambda>(p, f). (Inr (), (p, False)) \<rparr>"

definition boot_od :: "stored_params \<Rightarrow> (stored_params \<times> bool) ObjectDictionary" where
  "boot_od p = od_insert 0x6000 (mk_entry (Variable (Unsigned16 0)) ''Setpoint'' Optional
     (Some ReadWriteStore) (Some (Unsigned16 0)) None) (od_new (Some (ram_ops, (p, False))))"

theorem store_then_boot_restores_witness:
  "let od = snd (write_internal (populate_protocol_objects (boot_od [])) 0x6000 0 (Unsigned16 5) False);
       p = fold (store_entry 1) (entries od) []
   in \<exists>booted. od_init (boot_od p) = (Inr (), booted) \<and> od_read booted 0x6000 0 = Some (Unsigned16 5)"
proof -
  let ?base = "populate_protocol_objects (boot_od [])"
  define od where "od = snd (write_internal ?base 0x6000 0 (Unsigned16 5) False)"
  define p where "p = fold (store_entry 1) (entries od) []"
  have e: "entries (boot_od q) = entries (boot_od [])" for q
    by (simp add: boot_od_def od_insert_def od_new_def)
  have inv: "od_inv (boot_od q)" and small: "small_od (boot_od q)" for q
    by (simp_all add: od_inv_def small_od_def small_object_def boot_od_def od_insert_def od_new_def
        mk_entry_def bt_inv_def bt_get_def)
  have bt: "bt_inv (entries (boot_od q))" for q using inv [of q] by (simp add: od_inv_def)
  have b6: "bt_get (entries ?base) 0x6000 = Some (mk_entry (Variable (Unsigned16 0)) ''Setpoint''
      Optional (Some ReadWriteStore) (Some (Unsigned16 0)) None)"
    using populate_get [OF bt [of "[]"], of "0x6000"]
    by (simp add: boot_od_def od_insert_def od_new_def bt_get_def)
  have w: "write_internal ?base 0x6000 0 (Unsigned16 5) False = (Inr (), od)"
    using b6 by (simp add: od_def write_internal_def object_write_def mk_entry_def)
  have od: "od_inv od" "od_shape od = od_shape ?base"
    using write_internal_inv [OF w populate_inv [OF inv]] write_internal_shape [OF w]
      populate_inv [OF inv [of "[]"]] by (simp_all add: od_inv_def)
  have sod: "small_od od" by (rule small_od_shape [OF od(2) populate_small [OF bt small]])
  have st: "storage od = Some (ram_ops, ([], False))"
    by (simp add: od_def boot_od_def od_insert_def od_new_def)
  have store: "store_parameters od 1 = (Inr (), od\<lparr> storage := Some (ram_ops, (p, False)) \<rparr>)"
    by (simp add: store_parameters_def st p_def ram_ops_def)
  have shape: "od_shape (populate_protocol_objects (boot_od p)) = od_shape od"
    unfolding od(2) by (simp add: fun_eq_iff od_shape_def populate_get [OF bt] e [of p])
  have rd: "od_read od 0x6000 0 = Some (Unsigned16 5)" "od_stored od 0x6000 0"
    using b6 by (simp_all add: od_def write_internal_def object_write_def od_read_def object_read_def
        od_stored_def read_object_def mk_entry_def populate_inv [OF inv, unfolded od_inv_def])
  obtain e6 where e6: "bt_get (entries od) 0x6000 = Some e6" "storable 1 (0x6000, e6)"
    using b6 by (simp add: od_def write_internal_def object_write_def storable_def should_save_def
        mk_entry_def populate_inv [OF inv, unfolded od_inv_def])
  have "\<exists>booted. od_init (boot_od p) = (Inr (), booted) \<and>
    (\<forall>i s e. bt_get (entries od) i = Some e \<longrightarrow> od_stored od i s \<longrightarrow>
       od_read booted i s =
         (if storable 1 (i, e) then od_read od i s
          else od_read (populate_protocol_objects (boot_od p)) i s))"
    by (rule store_then_boot_restores [OF od(1) sod st store, where ?st1.0 = "(p, False)"])
      (use shape populate_inv [OF inv] in
        \<open>simp_all add: ram_ops_def load_after_save_def p_def [symmetric] boot_od_def od_insert_def od_new_def\<close>)
  with e6 rd show ?thesis unfolding Let_def od_def [symmetric] p_def [symmetric] by auto
qed

subsection \<open>Resetting to the PowerOn values\<close>

text \<open>The parameters a reset finds in the back end, if any.\<close>

definition loaded :: "'s ObjectDictionary \<Rightarrow> stored_params option" where
  "loaded od = (case storage od of
     Some (ops, st) \<Rightarrow> (case fst (so_load ops st) of Inr p \<Rightarrow> Some p | Inl _ \<Rightarrow> None)
   | None \<Rightarrow> None)"

definition in_reset_range :: "u16 \<Rightarrow> u16 \<Rightarrow> u16 \<Rightarrow> bool" where
  "in_reset_range a b i \<longleftrightarrow> a \<le> i \<and> i \<le> b \<and> i \<noteq> 0x1003"

lemma restore_entries:
  "entries (restore_power_on_values od a b) = map (\<lambda>(i, e).
     (i, if in_reset_range a b i then e\<lparr> oe_object := power_on_object (loaded od) i e \<rparr> else e)) (entries od)"
  by (auto simp: restore_power_on_values_def loaded_def in_reset_range_def not_less
      split: option.splits prod.splits sum.splits)

lemma map_of_map_keyed: "map_of (map (\<lambda>(k, v). (k, f k v)) m) i = map_option (f i) (map_of m i)"
  by (induction m) auto

lemma restore_get:
  "bt_get (entries (restore_power_on_values od a b)) i =
     map_option (\<lambda>e. if in_reset_range a b i then e\<lparr> oe_object := power_on_object (loaded od) i e \<rparr> else e)
       (bt_get (entries od) i)"
  by (simp add: restore_entries bt_get_def map_of_map_keyed)

lemma restore_bt_inv [simp]:
  "bt_inv (entries (restore_power_on_values od a b)) \<longleftrightarrow> bt_inv (entries od)"
  by (simp add: restore_entries bt_inv_def comp_def case_prod_unfold)

text \<open>The PowerOn value of one sub-index of an entry.\<close>

definition power_on_value :: "stored_params option \<Rightarrow> u16 \<Rightarrow> ObjectEntry \<Rightarrow> u8 \<Rightarrow> ObjectValue \<Rightarrow> ObjectValue" where
  "power_on_value stored i e s old =
     (case Option.bind stored (\<lambda>p. bt_get p (i, s)) of
        Some v \<Rightarrow> v
      | None \<Rightarrow>
          (case oe_default_value e of
             Some d \<Rightarrow> if s = 0 \<or> discriminant old = discriminant d then d else old
           | None \<Rightarrow> old))"

lemma power_on_object_read:
  assumes "small_object (oe_object e)" "\<not> (s = 0 \<and> obj_kind (oe_object e) \<noteq> 0)"
  shows "object_read (power_on_object stored i e) s =
    map_option (power_on_value stored i e s) (object_read (oe_object e) s)"
proof (cases "oe_object e")
  case (Variable v)
  with assms show ?thesis
    by (auto simp: power_on_object_def object_read_def power_on_value_def split: option.split)
next
  case (Array vs)
  with assms sub_index_pos [of s] show ?thesis
    by (auto simp: power_on_object_def object_read_def power_on_value_def power_on_elem_def
        vec_get_def nth_enumerate_eq Let_def split: option.split)
next
  case (Record vs)
  with assms sub_index_pos [of s] show ?thesis
    by (auto simp: power_on_object_def object_read_def power_on_value_def power_on_elem_def
        vec_get_def nth_enumerate_eq Let_def split: option.split)
qed

text \<open>
  A reset over an index range gives every stored sub-index in the range its PowerOn value
  (the stored parameter if the back end delivers one, else the default of the entry, else the
  old value) and leaves every object outside the range, and the error history, exactly as it
  was.\<close>

lemma reset_restores_power_on:
  assumes "small_od od"
  shows "(\<forall>i. \<not> in_reset_range a b i \<longrightarrow>
      bt_get (entries (restore_power_on_values od a b)) i = bt_get (entries od) i) \<and>
    (\<forall>i e s. in_reset_range a b i \<longrightarrow> bt_get (entries od) i = Some e \<longrightarrow> od_stored od i s \<longrightarrow>
      od_read (restore_power_on_values od a b) i s =
        map_option (power_on_value (loaded od) i e s) (od_read od i s))"
proof (intro conjI allI impI)
  fix i assume "\<not> in_reset_range a b i"
  then show "bt_get (entries (restore_power_on_values od a b)) i = bt_get (entries od) i"
    by (simp add: restore_get option.map_ident)
next
  fix i e s
  assume r: "in_reset_range a b i" and e: "bt_get (entries od) i = Some e" and st: "od_stored od i s"
  have "small_object (oe_object e)" using assms e by (auto simp: small_od_def)
  moreover have "\<not> (s = 0 \<and> obj_kind (oe_object e) \<noteq> 0)"
    using st e by (simp add: od_stored_def read_object_def)
  ultimately show "od_read (restore_power_on_values od a b) i s =
      map_option (power_on_value (loaded od) i e s) (od_read od i s)"
    using r e power_on_object_read [of e s "loaded od" i] by (simp add: od_read_def restore_get)
qed

text \<open>
  The number of entries written to a PDO mapping object is validated and then dropped: the
  write succeeds without changing anything that can be read, so writing 0 does not deactivate
  the mapping.\<close>

lemma pdo_mapping_count_not_stored:
  assumes "od_write od i 0 (Unsigned8 n) = (Inr (), od')" "is_pdo_mapping_index0 i 0"
    and "read_object od i = Some (Array es)" "od_inv od"
  shows "od_read od' j t = od_read od j t \<and> od_read od' i 0 = Some (Unsigned8 (of_nat (min (length es) 254)))"
proof -
  have nc: "\<not> is_command i" using assms(2) by (auto simp: is_command_def is_pdo_mapping_index0_def)
  from assms(1) have w: "write_internal od i 0 (Unsigned8 n) True = (Inr (), od')"
    by (cases rule: od_write_cases) (use nc in auto)
  have "od_read od' k u = od_read od k u" for k u
    using write_internal_read [OF w, of k u] assms(3,4) by (simp add: od_inv_def)
  moreover have "od_read od i 0 = Some (Unsigned8 (of_nat (min (length es) 254)))"
    using assms(3) by (auto simp: read_object_def od_read_def object_read_def)
  ultimately show ?thesis by simp
qed

end
