(* ===== verification/Nmt_Machines.thy ===== *)
theory Nmt_Machines
  imports Nmt_States Dll_Errors Od_Storage "HOL-Library.Sublist"
begin

section \<open>The NMT state machines\<close>

text \<open>
  \<^verbatim>\<open>nmt/{state_machine,cn_state_machine,mn_state_machine}.rs\<close>. The provided methods of the trait
  \<^verbatim>\<open>NmtStateMachine\<close> take the required methods \<open>cur\<close> (\<^verbatim>\<open>current_state\<close>) and \<open>set_st\<close>
  (\<^verbatim>\<open>set_state\<close>) as arguments; the two machines pass theirs. The state of the machine and the
  dictionary are passed through every operation.
\<close>

subsection \<open>The provided methods of the trait\<close>

definition update_od_state :: "('m \<Rightarrow> NmtState) \<Rightarrow> 'm \<Rightarrow> 's ObjectDictionary \<Rightarrow> 's ObjectDictionary" where
  "update_od_state cur m od =
     snd (write_internal od 0x1F8C 0 (Unsigned8 (NmtState_u8 (cur m))) False)"

text \<open>\<^verbatim>\<open>set_state\<close> followed by \<^verbatim>\<open>update_od_state\<close>.\<close>

definition enter_state ::
  "('m \<Rightarrow> NmtState) \<Rightarrow> ('m \<Rightarrow> NmtState \<Rightarrow> 'm) \<Rightarrow> NmtState \<Rightarrow> 'm \<times> 's ObjectDictionary \<Rightarrow>
     'm \<times> 's ObjectDictionary" where
  "enter_state cur set_st st mo =
     (let m = set_st (fst mo) st in (m, update_od_state cur m (snd mo)))"

definition reset_target :: "NmtEvent \<Rightarrow> NmtState option" where
  "reset_target event =
     (case event of
        Reset \<Rightarrow> Some NmtGsInitialising
      | NmtEvent.SwReset \<Rightarrow> Some NmtGsInitialising
      | NmtEvent.ResetNode \<Rightarrow> Some NmtGsResetApplication
      | NmtEvent.ResetCommunication \<Rightarrow> Some NmtGsResetCommunication
      | NmtEvent.ResetConfiguration \<Rightarrow> Some NmtGsResetConfiguration
      | _ \<Rightarrow> None)"

definition nmt_reset ::
  "('m \<Rightarrow> NmtState) \<Rightarrow> ('m \<Rightarrow> NmtState \<Rightarrow> 'm) \<Rightarrow> NmtEvent \<Rightarrow> 'm \<times> 's ObjectDictionary \<Rightarrow>
     'm \<times> 's ObjectDictionary" where
  "nmt_reset cur set_st event mo =
     (case reset_target event of
        None \<Rightarrow> mo
      | Some initial \<Rightarrow>
          let mo = (if initial = NmtGsInitialising then enter_state cur set_st NmtGsInitialising mo else mo);
              mo = (if initial = NmtGsInitialising \<or> initial = NmtGsResetApplication then
                      (let (m, od) = enter_state cur set_st NmtGsResetApplication mo;
                           od = restore_power_on_values od 0x2000 0x5FFF;
                           od = restore_power_on_values od 0x6000 0x9FFF
                       in (m, od))
                    else mo);
              mo = (if initial = NmtGsInitialising \<or> initial = NmtGsResetApplication
                       \<or> initial = NmtGsResetCommunication then
                      (let (m, od) = enter_state cur set_st NmtGsResetCommunication mo;
                           od = restore_power_on_values od 0x1000 0x1FFF
                       in (m, od))
                    else mo);
              mo = (if initial = NmtGsInitialising \<or> initial = NmtGsResetApplication
                       \<or> initial = NmtGsResetCommunication \<or> initial = NmtGsResetConfiguration
                    then enter_state cur set_st NmtGsResetConfiguration mo else mo)
          in enter_state cur set_st NmtNotActive mo)"

definition run_internal_initialisation ::
  "('m \<Rightarrow> NmtState) \<Rightarrow> ('m \<Rightarrow> NmtState \<Rightarrow> 'm) \<Rightarrow> 'm \<times> 's ObjectDictionary \<Rightarrow>
     'm \<times> 's ObjectDictionary" where
  "run_internal_initialisation cur set_st mo =
     (if cur (fst mo) \<noteq> NmtGsInitialising then mo else nmt_reset cur set_st NmtEvent.SwReset mo)"

definition is_reset_event :: "NmtEvent \<Rightarrow> bool" where
  "is_reset_event e \<longleftrightarrow> e \<in> {Reset, NmtEvent.SwReset, NmtEvent.ResetNode, NmtEvent.ResetCommunication, NmtEvent.ResetConfiguration}"

primrec NmtEvent_u8 :: "NmtEvent \<Rightarrow> u8" where
  "NmtEvent_u8 NmtEvent.StartNode = 0"
| "NmtEvent_u8 NmtEvent.StopNode = 1"
| "NmtEvent_u8 NmtEvent.EnterPreOperational2 = 2"
| "NmtEvent_u8 NmtEvent.EnableReadyToOperate = 3"
| "NmtEvent_u8 Reset = 4"
| "NmtEvent_u8 NmtEvent.SwReset = 5"
| "NmtEvent_u8 NmtEvent.ResetNode = 6"
| "NmtEvent_u8 NmtEvent.ResetCommunication = 7"
| "NmtEvent_u8 NmtEvent.ResetConfiguration = 8"
| "NmtEvent_u8 EnterEplMode = 9"
| "NmtEvent_u8 Timeout = 10"
| "NmtEvent_u8 Error = 11"
| "NmtEvent_u8 SocSoAReceived = 12"
| "NmtEvent_u8 SocReceived = 13"
| "NmtEvent_u8 PowerlinkFrameReceived = 14"
| "NmtEvent_u8 CnConfigurationComplete = 15"
| "NmtEvent_u8 AllCnsIdentified = 16"
| "NmtEvent_u8 ConfigurationCompleteCnsReady = 17"
| "NmtEvent_u8 AllMandatoryCnsOperational = 18"

subsection \<open>Controlled node\<close>

record CnNmtStateMachine =
  cn_current_state :: NmtState
  cn_node_id :: NodeId
  cn_feature_flags :: FeatureFlags
  cn_basic_ethernet_timeout :: u32

definition CnNmt_new :: "NodeId \<Rightarrow> FeatureFlags \<Rightarrow> u32 \<Rightarrow> CnNmtStateMachine" where
  "CnNmt_new nid feature_flags basic_ethernet_timeout =
     \<lparr> cn_current_state = NmtGsInitialising, cn_node_id = nid,
       cn_feature_flags = feature_flags, cn_basic_ethernet_timeout = basic_ethernet_timeout \<rparr>"

text \<open>\<^verbatim>\<open>if let ObjectValue::Unsigned32(val)\<close>, else \<^verbatim>\<open>TypeMismatch\<close>.\<close>

definition expect_u32 :: "ObjectValue \<Rightarrow> u32 result" where
  "expect_u32 v = (case v of Unsigned32 val \<Rightarrow> Inr val | _ \<Rightarrow> Inl TypeMismatch)"

definition CnNmt_from_od :: "'s ObjectDictionary \<Rightarrow> CnNmtStateMachine result" where
  "CnNmt_from_od od =
     rbind (ok_or (od_read od 0x1F93 1) ObjectNotFound) (\<lambda>node_id_val.
     rbind (case node_id_val of Unsigned8 val \<Rightarrow> node_id_of val | _ \<Rightarrow> Inl TypeMismatch) (\<lambda>nid.
     rbind (ok_or (od_read od 0x1F82 0) ObjectNotFound) (\<lambda>feature_flags_val.
     rbind (expect_u32 feature_flags_val) (\<lambda>feature_flags.
     rbind (ok_or (od_read od 0x1F99 0) ObjectNotFound) (\<lambda>basic_ethernet_timeout_val.
     rbind (expect_u32 basic_ethernet_timeout_val) (\<lambda>basic_ethernet_timeout.
       Inr (CnNmt_new nid feature_flags basic_ethernet_timeout)))))))"

definition cn_set_state :: "CnNmtStateMachine \<Rightarrow> NmtState \<Rightarrow> CnNmtStateMachine" where
  "cn_set_state m st = m\<lparr> cn_current_state := st \<rparr>"

text \<open>The \<^verbatim>\<open>match (self.current_state, event)\<close>; \<open>None\<close> is the last arm, an unexpected event.\<close>

definition cn_next :: "NmtState \<Rightarrow> NmtEvent \<Rightarrow> NmtState option" where
  "cn_next state event =
     (case state of
        NmtNotActive \<Rightarrow>
          (case event of
             SocReceived \<Rightarrow> Some NmtPreOperational1
           | SocSoAReceived \<Rightarrow> Some NmtPreOperational1
           | Timeout \<Rightarrow> Some NmtBasicEthernet
           | _ \<Rightarrow> None)
      | NmtPreOperational1 \<Rightarrow>
          (case event of SocReceived \<Rightarrow> Some NmtPreOperational2 | _ \<Rightarrow> None)
      | NmtPreOperational2 \<Rightarrow>
          (case event of
             NmtEvent.EnableReadyToOperate \<Rightarrow> Some NmtPreOperational2
           | CnConfigurationComplete \<Rightarrow> Some NmtReadyToOperate
           | NmtEvent.StopNode \<Rightarrow> Some NmtCsStopped
           | Error \<Rightarrow> Some NmtPreOperational1
           | _ \<Rightarrow> None)
      | NmtReadyToOperate \<Rightarrow>
          (case event of
             NmtEvent.StartNode \<Rightarrow> Some NmtOperational
           | NmtEvent.StopNode \<Rightarrow> Some NmtCsStopped
           | Error \<Rightarrow> Some NmtPreOperational1
           | _ \<Rightarrow> None)
      | NmtOperational \<Rightarrow>
          (case event of
             NmtEvent.StopNode \<Rightarrow> Some NmtCsStopped
           | NmtEvent.EnterPreOperational2 \<Rightarrow> Some NmtPreOperational2
           | Error \<Rightarrow> Some NmtPreOperational1
           | _ \<Rightarrow> None)
      | NmtCsStopped \<Rightarrow>
          (case event of
             NmtEvent.EnterPreOperational2 \<Rightarrow> Some NmtPreOperational2
           | Error \<Rightarrow> Some NmtPreOperational1
           | _ \<Rightarrow> None)
      | NmtBasicEthernet \<Rightarrow>
          (case event of PowerlinkFrameReceived \<Rightarrow> Some NmtPreOperational1 | _ \<Rightarrow> None)
      | _ \<Rightarrow> None)"

definition cn_process_event ::
  "CnNmtStateMachine \<Rightarrow> NmtEvent \<Rightarrow> 's ObjectDictionary \<Rightarrow>
     DllError list option \<times> CnNmtStateMachine \<times> 's ObjectDictionary" where
  "cn_process_event m event od =
     (let old_state = cn_current_state m
      in if is_reset_event event then
           (let (m, od) = nmt_reset cn_current_state cn_set_state event (m, od);
                od = (if old_state \<noteq> cn_current_state m then update_od_state cn_current_state m od else od)
            in (None, m, od))
         else
           let errors = (case cn_next old_state event of
                 Some _ \<Rightarrow> []
               | None \<Rightarrow> [UnexpectedEventInState (NmtState_u8 old_state) (NmtEvent_u8 event)]);
               next_state = unwrap_or (cn_next old_state event) old_state;
               (m, od) =
                 (if old_state \<noteq> next_state then
                    (let m = m\<lparr> cn_current_state := next_state \<rparr>
                     in (m, update_od_state cn_current_state m od))
                  else (m, od))
           in (if errors = [] then None else Some errors, m, od))"

subsection \<open>Managing node\<close>

record MnNmtStateMachine =
  mn_current_state :: NmtState
  mn_node_id :: NodeId
  mn_feature_flags :: FeatureFlags
  mn_wait_not_active_timeout :: u32
  mn_startup_flags :: u32

definition MnNmt_new :: "NodeId \<Rightarrow> FeatureFlags \<Rightarrow> u32 \<Rightarrow> u32 \<Rightarrow> MnNmtStateMachine" where
  "MnNmt_new nid feature_flags wait_not_active_timeout startup_flags =
     \<lparr> mn_current_state = NmtGsInitialising, mn_node_id = nid,
       mn_feature_flags = feature_flags, mn_wait_not_active_timeout = wait_not_active_timeout,
       mn_startup_flags = startup_flags \<rparr>"

definition MnNmt_from_od :: "'s ObjectDictionary \<Rightarrow> MnNmtStateMachine result" where
  "MnNmt_from_od od =
     rbind (ok_or (od_read od 0x1F82 0) ObjectNotFound) (\<lambda>feature_flags_val.
     rbind (expect_u32 feature_flags_val) (\<lambda>feature_flags.
     rbind (ok_or (od_read od 0x1F89 1) ObjectNotFound) (\<lambda>wait_val.
     rbind (expect_u32 wait_val) (\<lambda>wait_not_active_timeout.
     rbind (ok_or (od_read od 0x1F80 0) ObjectNotFound) (\<lambda>startup_val.
     rbind (expect_u32 startup_val) (\<lambda>startup_flags.
       Inr (MnNmt_new C_ADR_MN_DEF_NODE_ID feature_flags wait_not_active_timeout startup_flags)))))))"

definition mn_set_state :: "MnNmtStateMachine \<Rightarrow> NmtState \<Rightarrow> MnNmtStateMachine" where
  "mn_set_state m st = m\<lparr> mn_current_state := st \<rparr>"

definition mn_next :: "u32 \<Rightarrow> NmtState \<Rightarrow> NmtEvent \<Rightarrow> NmtState" where
  "mn_next startup_flags state event =
     (case (state, event) of
        (NmtNotActive, Timeout) \<Rightarrow>
          if startup_flags AND 0x2000 \<noteq> 0 then NmtBasicEthernet else NmtPreOperational1
      | (NmtPreOperational1, AllCnsIdentified) \<Rightarrow> NmtPreOperational2
      | (NmtPreOperational2, ConfigurationCompleteCnsReady) \<Rightarrow> NmtReadyToOperate
      | (NmtReadyToOperate, AllMandatoryCnsOperational) \<Rightarrow> NmtOperational
      | (NmtOperational, Error) \<Rightarrow> NmtPreOperational1
      | (NmtBasicEthernet, PowerlinkFrameReceived) \<Rightarrow> NmtPreOperational1
      | (current, _) \<Rightarrow> current)"

definition mn_process_event ::
  "MnNmtStateMachine \<Rightarrow> NmtEvent \<Rightarrow> 's ObjectDictionary \<Rightarrow>
     DllError list option \<times> MnNmtStateMachine \<times> 's ObjectDictionary" where
  "mn_process_event m event od =
     (let old_state = mn_current_state m
      in if is_reset_event event then
           (let (m, od) = nmt_reset mn_current_state mn_set_state event (m, od);
                od = (if old_state \<noteq> mn_current_state m then update_od_state mn_current_state m od else od)
            in (None, m, od))
         else
           let next_state = mn_next (mn_startup_flags m) old_state event;
               (m, od) =
                 (if old_state \<noteq> next_state then
                    (let m = m\<lparr> mn_current_state := next_state \<rparr>
                     in (m, update_od_state mn_current_state m od))
                  else (m, od))
           in (None, m, od))"

subsection \<open>The state cell of the dictionary\<close>

text \<open>
  Object 0x1F8C mirrors the NMT state. It can be written when it is an octet variable; that it
  stays one over a reset needs that neither its default nor a loaded parameter has another type.
  The last condition is on the storage back end: it never delivers anything but an octet for
  this read-only object, whatever its state.
\<close>

definition octet_or_none :: "ObjectValue option \<Rightarrow> bool" where
  "octet_or_none v \<longleftrightarrow> (case v of None \<Rightarrow> True | Some x \<Rightarrow> discriminant x = discriminant (Unsigned8 0))"

definition state_cell_ok :: "'s ObjectDictionary \<Rightarrow> bool" where
  "state_cell_ok od \<longleftrightarrow> bt_inv (entries od) \<and>
     (\<exists>e b. bt_get (entries od) 0x1F8C = Some e \<and> oe_object e = Variable (Unsigned8 b)
        \<and> octet_or_none (oe_default_value e)) \<and>
     (\<forall>ops st. storage od = Some (ops, st) \<longrightarrow>
        (\<forall>st' p. fst (so_load ops st') = Inr p \<longrightarrow> octet_or_none (bt_get p (0x1F8C, 0))))"

definition od_mirrors :: "'s ObjectDictionary \<Rightarrow> NmtState \<Rightarrow> bool" where
  "od_mirrors od st \<longleftrightarrow> od_read od 0x1F8C 0 = Some (Unsigned8 (NmtState_u8 st))"

lemma octet_or_none_cases: "octet_or_none v \<longleftrightarrow> v = None \<or> (\<exists>b. v = Some (Unsigned8 b))"
proof -
  have "discriminant x = 5 \<longleftrightarrow> (\<exists>b. x = Unsigned8 b)" for x by (cases x) auto
  then show ?thesis by (cases v) (auto simp: octet_or_none_def)
qed

lemma update_od_state_ok:
  assumes "state_cell_ok od"
  shows "state_cell_ok (update_od_state cur m od)" "od_mirrors (update_od_state cur m od) (cur m)"
  using assms
  by (auto simp: state_cell_ok_def update_od_state_def od_mirrors_def write_internal_def
      object_write_def od_read_def object_read_def)

lemma storage_restore:
  "storage (restore_power_on_values od a b) =
     (case storage od of None \<Rightarrow> None | Some (ops, st) \<Rightarrow> Some (ops, snd (so_load ops st)))"
  by (auto simp: restore_power_on_values_def split: option.split prod.splits sum.split)

lemma restore_cell_ok:
  assumes "state_cell_ok od"
  shows "state_cell_ok (restore_power_on_values od a b)"
proof -
  from assms obtain e v where e: "bt_get (entries od) 0x1F8C = Some e" "oe_object e = Variable (Unsigned8 v)"
    "octet_or_none (oe_default_value e)" by (auto simp: state_cell_ok_def)
  have l: "octet_or_none (Option.bind (loaded od) (\<lambda>p. bt_get p (0x1F8C, 0)))"
    using assms
    by (auto simp: state_cell_ok_def loaded_def octet_or_none_cases split: option.splits sum.splits)
  have "\<exists>w. power_on_object (loaded od) 0x1F8C e = Variable (Unsigned8 w)"
    using l e by (auto simp: power_on_object_def octet_or_none_cases)
  with assms e show ?thesis
    by (auto simp: state_cell_ok_def restore_get storage_restore split: option.splits)
qed

subsection \<open>The contract of an NMT machine\<close>

fun nmt_run ::
  "('m \<Rightarrow> NmtEvent \<Rightarrow> 's ObjectDictionary \<Rightarrow> DllError list option \<times> 'm \<times> 's ObjectDictionary) \<Rightarrow>
     NmtEvent list \<Rightarrow> 'm \<times> 's ObjectDictionary \<Rightarrow> 'm \<times> 's ObjectDictionary" where
  "nmt_run proc [] mo = mo"
| "nmt_run proc (e # es) mo = nmt_run proc es (snd (proc (fst mo) e (snd mo)))"

text \<open>The objects a reset event may touch: its ranges, without the error history.\<close>

definition reset_scope :: "NmtEvent \<Rightarrow> u16 \<Rightarrow> bool" where
  "reset_scope e i \<longleftrightarrow> i \<noteq> 0x1003 \<and> e \<noteq> NmtEvent.ResetConfiguration \<and> 0x1000 \<le> i \<and>
     i \<le> (if e = NmtEvent.ResetCommunication then 0x1FFF else 0x9FFF)"

definition same_outside :: "(u16 \<Rightarrow> bool) \<Rightarrow> 's ObjectDictionary \<Rightarrow> 's ObjectDictionary \<Rightarrow> bool" where
  "same_outside P od od' \<longleftrightarrow>
     (\<forall>i. \<not> P i \<longrightarrow> i \<noteq> 0x1F8C \<longrightarrow> bt_get (entries od') i = bt_get (entries od) i)"

lemma same_outside_refl: "same_outside P od od"
  by (simp add: same_outside_def)

lemma same_outside_trans:
  "same_outside P od od' \<Longrightarrow> same_outside P od' od'' \<Longrightarrow> same_outside P od od''"
  by (simp add: same_outside_def)

lemma update_same_outside:
  "state_cell_ok od \<Longrightarrow> same_outside P od (update_od_state cur m od)"
  by (auto simp: same_outside_def update_od_state_def write_internal_def state_cell_ok_def
      split: option.split sum.split)

lemma restore_same_outside:
  assumes "\<And>i. a \<le> i \<Longrightarrow> i \<le> b \<Longrightarrow> i \<noteq> 0x1003 \<Longrightarrow> P i"
  shows "same_outside P od (restore_power_on_values od a b)"
  unfolding same_outside_def
proof (intro allI impI)
  fix i assume "\<not> P i"
  then have "\<not> in_reset_range a b i" using assms by (auto simp: in_reset_range_def)
  then show "bt_get (entries (restore_power_on_values od a b)) i = bt_get (entries od) i"
    by (simp add: restore_get option.map_ident)
qed

locale nmt_machine =
  fixes cur :: "'m \<Rightarrow> NmtState"
    and set_st :: "'m \<Rightarrow> NmtState \<Rightarrow> 'm"
    and proc :: "'m \<Rightarrow> NmtEvent \<Rightarrow> 's ObjectDictionary \<Rightarrow>
      DllError list option \<times> 'm \<times> 's ObjectDictionary"
    and nxt :: "'m \<Rightarrow> NmtEvent \<Rightarrow> NmtState"
  assumes cur_set: "cur (set_st m st) = st"
    and proc_reset: "is_reset_event e \<Longrightarrow> snd (proc m e od) =
      (let (m', od') = nmt_reset cur set_st e (m, od)
       in (m', if cur m \<noteq> cur m' then update_od_state cur m' od' else od'))"
    and proc_step: "\<not> is_reset_event e \<Longrightarrow> snd (proc m e od) =
      (if cur m = nxt m e then (m, od)
       else (set_st m (nxt m e), update_od_state cur (set_st m (nxt m e)) od))"
begin

definition ok :: "(u16 \<Rightarrow> bool) \<Rightarrow> 's ObjectDictionary \<Rightarrow> 'm \<times> 's ObjectDictionary \<Rightarrow> bool" where
  "ok P od0 mo \<longleftrightarrow> state_cell_ok (snd mo) \<and> same_outside P od0 (snd mo)"

lemma ok_enter:
  "ok P od0 mo \<Longrightarrow> ok P od0 (enter_state cur set_st st mo) \<and>
    cur (fst (enter_state cur set_st st mo)) = st \<and> od_mirrors (snd (enter_state cur set_st st mo)) st"
  using update_od_state_ok [of "snd mo" cur "set_st (fst mo) st"]
    update_same_outside [of "snd mo" P cur "set_st (fst mo) st"] same_outside_trans
  by (auto simp: ok_def enter_state_def Let_def cur_set)

lemma ok_restore:
  "ok P od0 (m, od) \<Longrightarrow> (\<And>i. a \<le> i \<Longrightarrow> i \<le> b \<Longrightarrow> i \<noteq> 0x1003 \<Longrightarrow> P i) \<Longrightarrow>
    ok P od0 (m, restore_power_on_values od a b)"
  using restore_cell_ok [of od a b] restore_same_outside [of a b P od] same_outside_trans
  by (auto simp: ok_def)

lemma reset_correct:
  fixes od :: "'s ObjectDictionary"
  assumes "is_reset_event e" "state_cell_ok od"
  shows "cur (fst (nmt_reset cur set_st e (m, od))) = NmtNotActive \<and>
    state_cell_ok (snd (nmt_reset cur set_st e (m, od))) \<and>
    od_mirrors (snd (nmt_reset cur set_st e (m, od))) NmtNotActive \<and>
    same_outside (reset_scope e) od (snd (nmt_reset cur set_st e (m, od)))"
proof -
  let ?ok = "ok (reset_scope e) od"
  define app :: "'m \<times> 's ObjectDictionary \<Rightarrow> 'm \<times> 's ObjectDictionary"
    where "app mo = (let (m, od) = enter_state cur set_st NmtGsResetApplication mo
      in (m, restore_power_on_values (restore_power_on_values od 0x2000 0x5FFF) 0x6000 0x9FFF))" for mo
  define com :: "'m \<times> 's ObjectDictionary \<Rightarrow> 'm \<times> 's ObjectDictionary"
    where "com mo = (let (m, od) = enter_state cur set_st NmtGsResetCommunication mo
      in (m, restore_power_on_values od 0x1000 0x1FFF))" for mo
  have app: "?ok mo \<Longrightarrow> e \<noteq> NmtEvent.ResetCommunication \<Longrightarrow> e \<noteq> NmtEvent.ResetConfiguration \<Longrightarrow> ?ok (app mo)" for mo
  proof -
    assume mo: "?ok mo" and e: "e \<noteq> NmtEvent.ResetCommunication" "e \<noteq> NmtEvent.ResetConfiguration"
    obtain m1 od1 where 1: "enter_state cur set_st NmtGsResetApplication mo = (m1, od1)" by fastforce
    have "?ok (m1, od1)" using ok_enter [OF mo, of NmtGsResetApplication] 1 by simp
    with e show ?thesis
      unfolding app_def 1
      by (auto intro!: ok_restore simp: reset_scope_def word_le_nat_alt)
  qed
  have com: "?ok mo \<Longrightarrow> e \<noteq> NmtEvent.ResetConfiguration \<Longrightarrow> ?ok (com mo)" for mo
  proof -
    assume mo: "?ok mo" and e: "e \<noteq> NmtEvent.ResetConfiguration"
    obtain m1 od1 where 1: "enter_state cur set_st NmtGsResetCommunication mo = (m1, od1)" by fastforce
    have "?ok (m1, od1)" using ok_enter [OF mo, of NmtGsResetCommunication] 1 by simp
    with e show ?thesis
      unfolding com_def 1
      by (auto intro!: ok_restore simp: reset_scope_def word_le_nat_alt)
  qed
  have start: "?ok (m, od)" using assms(2) by (simp add: ok_def same_outside_refl)
  define mo where "mo = enter_state cur set_st NmtGsResetConfiguration
      (if e = NmtEvent.ResetConfiguration then (m, od)
       else com (if e = NmtEvent.ResetCommunication then (m, od)
         else app (if e = NmtEvent.ResetNode then (m, od)
           else enter_state cur set_st NmtGsInitialising (m, od))))"
  have en: "?ok x \<Longrightarrow> ?ok (enter_state cur set_st st x)" for x st using ok_enter by blast
  have ifI: "(c \<Longrightarrow> ?ok x) \<Longrightarrow> (\<not> c \<Longrightarrow> ?ok y) \<Longrightarrow> ?ok (if c then x else y)" for c x y by simp
  have "?ok mo"
    unfolding mo_def by (intro en ifI com app start) assumption+
  moreover have "nmt_reset cur set_st e (m, od) = enter_state cur set_st NmtNotActive mo"
    using assms(1) unfolding mo_def app_def com_def
    by (auto simp: is_reset_event_def nmt_reset_def reset_target_def Let_def)
  ultimately show ?thesis using ok_enter [of "reset_scope e" od mo NmtNotActive] by (simp add: ok_def)
qed

lemma reset_state: "is_reset_event e \<Longrightarrow> cur (fst (nmt_reset cur set_st e mo)) = NmtNotActive"
  by (auto simp: is_reset_event_def nmt_reset_def reset_target_def enter_state_def Let_def cur_set)

lemma proc_state:
  "cur (fst (snd (proc m e od))) = (if is_reset_event e then NmtNotActive else nxt m e)"
  using reset_state [of e "(m, od)"]
  by (auto simp: proc_reset proc_step cur_set case_prod_unfold Let_def)

lemma proc_mirrors:
  fixes od :: "'s ObjectDictionary"
  assumes "state_cell_ok od" "od_mirrors od (cur m) \<or> is_reset_event e"
  shows "state_cell_ok (snd (snd (proc m e od))) \<and>
    od_mirrors (snd (snd (proc m e od))) (cur (fst (snd (proc m e od))))"
proof (cases "is_reset_event e")
  case True
  obtain m' od' where r: "nmt_reset cur set_st e (m, od) = (m', od')" by fastforce
  from reset_correct [OF True assms(1), of m] r update_od_state_ok [of od' cur m'] True show ?thesis
    by (auto simp: proc_reset Let_def)
next
  case False
  with assms update_od_state_ok [of od cur "set_st m (nxt m e)"] show ?thesis
    by (auto simp: proc_step cur_set)
qed

lemma run_mirrors:
  fixes od :: "'s ObjectDictionary"
  assumes "state_cell_ok od" "od_mirrors od (cur m)"
  shows "state_cell_ok (snd (nmt_run proc es (m, od))) \<and>
    od_mirrors (snd (nmt_run proc es (m, od))) (cur (fst (nmt_run proc es (m, od))))"
  using assms
proof (induction es arbitrary: m od)
  case (Cons e es)
  obtain m' od' where p: "snd (proc m e od) = (m', od')" by fastforce
  have "state_cell_ok od' \<and> od_mirrors od' (cur m')"
    using proc_mirrors [OF Cons.prems(1), of m e] Cons.prems(2) p by simp
  with Cons.IH p show ?case by simp
qed simp

lemma proc_scope:
  fixes od :: "'s ObjectDictionary"
  assumes "state_cell_ok od"
  shows "same_outside (if is_reset_event e then reset_scope e else (\<lambda>_. False)) od (snd (snd (proc m e od)))"
proof (cases "is_reset_event e")
  case True
  obtain m' od' where r: "nmt_reset cur set_st e (m, od) = (m', od')" by fastforce
  from reset_correct [OF True assms, of m] r
  have "state_cell_ok od'" "same_outside (reset_scope e) od od'" by simp_all
  with update_same_outside [of od' "reset_scope e" cur m'] True r show ?thesis
    by (auto simp: proc_reset Let_def intro: same_outside_trans)
next
  case False
  with update_same_outside [OF assms, of "\<lambda>_. False" cur "set_st m (nxt m e)"] show ?thesis
    by (simp add: proc_step same_outside_refl)
qed

end

interpretation cn_nmt: nmt_machine cn_current_state cn_set_state cn_process_event
  "\<lambda>m e. unwrap_or (cn_next (cn_current_state m) e) (cn_current_state m)"
  by unfold_locales
    (auto simp: cn_set_state_def cn_process_event_def Let_def case_prod_unfold)

interpretation mn_nmt: nmt_machine mn_current_state mn_set_state mn_process_event
  "\<lambda>m e. mn_next (mn_startup_flags m) (mn_current_state m) e"
  by unfold_locales
    (auto simp: mn_set_state_def mn_process_event_def Let_def case_prod_unfold)

lemma mn_flags_kept:
  "mn_startup_flags (fst (snd (mn_process_event m e od))) = mn_startup_flags m"
  by (auto simp: mn_process_event_def nmt_reset_def enter_state_def mn_set_state_def Let_def
      split: option.split)

subsection \<open>Properties\<close>


definition state_od :: "unit ObjectDictionary" where
  "state_od = populate_protocol_objects (od_new None)"

lemma state_od_ok: "state_cell_ok state_od" "od_mirrors state_od NmtGsOff"
proof -
  have bt: "bt_inv (entries (od_new None :: unit ObjectDictionary))" by (simp add: od_new_def)
  have inv: "bt_inv (entries state_od)" and g: "bt_get (entries state_od) 0x1F8C =
      Some (mk_entry (Variable (Unsigned8 0)) ''NMT_CurrNMTState_U8'' Mandatory (Some ReadOnly)
        (Some (Unsigned8 0)) (Some PmNo))"
    using fold_insert_missing [OF bt, of protocol_objects]
    by (simp_all add: state_od_def populate_protocol_objects_def)
      (simp add: od_new_def protocol_objects_def)
  have "storage state_od = None"
    by (simp add: state_od_def od_new_def)
  with inv g show "state_cell_ok state_od" "od_mirrors state_od NmtGsOff"
    by (auto simp: state_cell_ok_def od_mirrors_def od_read_def object_read_def mk_entry_def
        octet_or_none_def)
qed


text \<open>The same for a managing node.\<close>

lemma mn_state_mirrored:
  assumes "state_cell_ok od" "od_mirrors od (mn_current_state m)"
  shows "od_mirrors (snd (nmt_run mn_process_event es (m, od)))
    (mn_current_state (fst (nmt_run mn_process_event es (m, od))))"
  using mn_nmt.run_mirrors [OF assms] by blast



text \<open>The states along a run, without the dictionary.\<close>

definition cn_step :: "NmtEvent \<Rightarrow> NmtState \<Rightarrow> NmtState" where
  "cn_step e st = (if is_reset_event e then NmtNotActive else unwrap_or (cn_next st e) st)"

lemma cn_run_state:
  "cn_current_state (fst (nmt_run cn_process_event es (m, od))) = fold cn_step es (cn_current_state m)"
proof (induction es arbitrary: m od)
  case (Cons e es)
  obtain m' od' where p: "snd (cn_process_event m e od) = (m', od')" by fastforce
  then have "cn_current_state m' = cn_step e (cn_current_state m)"
    using cn_nmt.proc_state [of m e od] by (simp add: cn_step_def)
  with Cons p show ?case by simp
qed simp

primrec cn_needs :: "NmtState \<Rightarrow> NmtEvent list option" where
  "cn_needs NmtGsOff = None"
| "cn_needs NmtGsInitialising = None"
| "cn_needs NmtGsResetApplication = None"
| "cn_needs NmtGsResetCommunication = None"
| "cn_needs NmtGsResetConfiguration = None"
| "cn_needs NmtNotActive = Some []"
| "cn_needs NmtPreOperational1 = Some []"
| "cn_needs NmtPreOperational2 = Some [SocReceived]"
| "cn_needs NmtReadyToOperate = Some [SocReceived, CnConfigurationComplete]"
| "cn_needs NmtOperational = Some [SocReceived, CnConfigurationComplete, NmtEvent.StartNode]"
| "cn_needs NmtCsStopped = Some [SocReceived]"
| "cn_needs NmtBasicEthernet = Some []"

text \<open>One step of a machine with such a table: the history that the new state needs is the old
  one, shortened or extended by the event.\<close>

lemma needs_step:
  assumes "needs st = Some xs" "subseq xs es"
    and "\<exists>ys. needs st' = Some ys \<and> (ys = xs @ [e] \<or> prefix ys xs)"
  shows "\<exists>ys. needs st' = Some ys \<and> subseq ys (es @ [e])"
proof -
  from assms(3) obtain ys where ys: "needs st' = Some ys" "ys = xs @ [e] \<or> prefix ys xs" by blast
  from ys(2) have "subseq ys (es @ [e])"
  proof
    assume "ys = xs @ [e]"
    then show ?thesis using assms(2) by simp
  next
    assume "prefix ys xs"
    then have "subseq ys es" using assms(2) by (meson prefix_imp_subseq subseq_order.trans)
    then show ?thesis by (rule subseq_rev_drop_many)
  qed
  with ys(1) show ?thesis by blast
qed

lemma needs_fold:
  assumes "\<And>st e xs. needs st = Some xs \<Longrightarrow>
      \<exists>ys. needs (step e st) = Some ys \<and> (ys = xs @ [e] \<or> prefix ys xs)"
    and "needs st0 = Some []"
  shows "\<exists>xs. needs (fold step es st0) = Some xs \<and> subseq xs es"
proof (induction es rule: rev_induct)
  case Nil
  with assms(2) show ?case by simp
next
  case (snoc e es)
  then obtain xs where xs: "needs (fold step es st0) = Some xs" "subseq xs es" by blast
  from needs_step [of needs, OF xs assms(1) [of "fold step es st0" xs e, OF xs(1)]]
  show ?case by simp
qed

lemma cn_needs_step:
  "cn_needs st = Some xs \<Longrightarrow>
    \<exists>ys. cn_needs (cn_step e st) = Some ys \<and> (ys = xs @ [e] \<or> prefix ys xs)"
  by (cases st; cases e) (auto simp: cn_step_def cn_next_def is_reset_event_def)

text \<open>
  C22: a controlled node that has become Operational, starting from NotActive and through any
  events, has received a SoC, then completed its configuration, then been started, in this
  order: no event sequence skips a step of the boot-up.\<close>

theorem cn_operational_boot_order:
  assumes "cn_current_state m = NmtNotActive"
    and "cn_current_state (fst (nmt_run cn_process_event es (m, od))) = NmtOperational"
  shows "subseq [SocReceived, CnConfigurationComplete, NmtEvent.StartNode] es"
proof -
  have "fold cn_step es NmtNotActive = NmtOperational"
    using assms by (simp add: cn_run_state)
  with needs_fold [of cn_needs cn_step NmtNotActive es, OF cn_needs_step] show ?thesis by auto
qed

theorem cn_operational_boot_order_witness:
  "let m = (CnNmt_new 1 0 0)\<lparr> cn_current_state := NmtNotActive \<rparr>;
       es = [SocSoAReceived, SocReceived, CnConfigurationComplete, NmtEvent.StartNode]
   in cn_current_state (fst (nmt_run cn_process_event es (m, state_od))) = NmtOperational \<and>
      subseq [SocReceived, CnConfigurationComplete, NmtEvent.StartNode] es"
proof -
  let ?m = "(CnNmt_new 1 0 0)\<lparr> cn_current_state := NmtNotActive \<rparr>"
  let ?es = "[SocSoAReceived, SocReceived, CnConfigurationComplete, NmtEvent.StartNode]"
  have "cn_current_state (fst (nmt_run cn_process_event ?es (?m, state_od))) = NmtOperational"
    by (simp add: cn_run_state cn_step_def cn_next_def is_reset_event_def del: nmt_run.simps)
  from this cn_operational_boot_order [OF _ this] show ?thesis by (simp del: nmt_run.simps)
qed

definition mn_step :: "u32 \<Rightarrow> NmtEvent \<Rightarrow> NmtState \<Rightarrow> NmtState" where
  "mn_step fl e st = (if is_reset_event e then NmtNotActive else mn_next fl st e)"

lemma mn_run_state:
  "mn_current_state (fst (nmt_run mn_process_event es (m, od)))
    = fold (mn_step (mn_startup_flags m)) es (mn_current_state m)"
proof (induction es arbitrary: m od)
  case (Cons e es)
  obtain m' od' where p: "snd (mn_process_event m e od) = (m', od')" by fastforce
  then have "mn_current_state m' = mn_step (mn_startup_flags m) e (mn_current_state m)"
    "mn_startup_flags m' = mn_startup_flags m"
    using mn_nmt.proc_state [of m e od] mn_flags_kept [of m e od] by (simp_all add: mn_step_def)
  with Cons p show ?case by simp
qed simp

primrec mn_needs :: "NmtState \<Rightarrow> NmtEvent list option" where
  "mn_needs NmtGsOff = None"
| "mn_needs NmtGsInitialising = None"
| "mn_needs NmtGsResetApplication = None"
| "mn_needs NmtGsResetCommunication = None"
| "mn_needs NmtGsResetConfiguration = None"
| "mn_needs NmtNotActive = Some []"
| "mn_needs NmtPreOperational1 = Some []"
| "mn_needs NmtPreOperational2 = Some [AllCnsIdentified]"
| "mn_needs NmtReadyToOperate = Some [AllCnsIdentified, ConfigurationCompleteCnsReady]"
| "mn_needs NmtOperational =
     Some [AllCnsIdentified, ConfigurationCompleteCnsReady, AllMandatoryCnsOperational]"
| "mn_needs NmtCsStopped = None"
| "mn_needs NmtBasicEthernet = Some []"

lemma mn_needs_step:
  "mn_needs st = Some xs \<Longrightarrow>
    \<exists>ys. mn_needs (mn_step fl e st) = Some ys \<and> (ys = xs @ [e] \<or> prefix ys xs)"
  by (cases st; cases e) (auto simp: mn_step_def mn_next_def is_reset_event_def)

text \<open>
  A managing node that has become Operational from NotActive has, in this order, identified
  all mandatory nodes, completed the configuration with the nodes ready, and seen all mandatory
  nodes operational.\<close>

lemma mn_operational_boot_order:
  assumes "mn_current_state m = NmtNotActive"
    and "mn_current_state (fst (nmt_run mn_process_event es (m, od))) = NmtOperational"
  shows "subseq [AllCnsIdentified, ConfigurationCompleteCnsReady, AllMandatoryCnsOperational] es"
proof -
  have "fold (mn_step (mn_startup_flags m)) es NmtNotActive = NmtOperational"
    using assms by (simp add: mn_run_state)
  with needs_fold [of mn_needs "mn_step (mn_startup_flags m)" NmtNotActive es, OF mn_needs_step]
  show ?thesis by auto
qed

end
