(* ===== verification/Payload_Codec.thy ===== *)
theory Payload_Codec
  imports Frames
begin

section \<open>Codecs of payloads\<close>

text \<open>
  The contracts of a codec for the payload of a frame, which, unlike that of a frame, has no
  Ethernet header and no padding, and reads only the octets it wrote. The first locale is what
  serialising promises for a well-formed payload. The second is the stronger contract of a codec
  that stays inside its buffer for any payload and accepts only well-formed ones.
\<close>

locale payload_writer =
  fixes ser :: "'f \<Rightarrow> serializer"
    and deser :: "bytes \<Rightarrow> 'f result"
    and wf :: "'f \<Rightarrow> bool"
    and psize :: "'f \<Rightarrow> nat"
  assumes wf_length: "wf f \<Longrightarrow> length (snd (ser f buf)) = length buf"
    and wf_result: "wf f \<Longrightarrow> fst (ser f buf) =
      (if psize f \<le> length buf then Inr (psize f) else Inl BufferTooShort)"
    and wf_behind: "wf f \<Longrightarrow> psize f \<le> length buf \<Longrightarrow>
      drop (psize f) (snd (ser f buf)) = drop (psize f) buf"
    and wf_deser: "wf f \<Longrightarrow> psize f \<le> length buf \<Longrightarrow>
      deser (take (psize f) (snd (ser f buf)) @ rest) = Inr f"
begin

lemma written: "wf f \<Longrightarrow> psize f \<le> length buf \<Longrightarrow>
    \<exists>out. ser f buf = (Inr (psize f), out) \<and> length out = length buf \<and> drop (psize f) out = drop (psize f) buf \<and>
      (\<forall>rest. deser (take (psize f) out @ rest) = Inr f)"
  using wf_length [of f buf] wf_result [of f buf] wf_behind [of f buf] wf_deser [of f buf]
  by (cases "ser f buf") simp

end

locale payload_codec =
  fixes ser :: "'f \<Rightarrow> serializer"
    and deser :: "bytes \<Rightarrow> 'f result"
    and wf :: "'f \<Rightarrow> bool"
    and psize :: "'f \<Rightarrow> nat"
  assumes ser_length: "length (snd (ser f buf)) = length buf"
    and ser_result: "fst (ser f buf) =
      (if psize f \<le> length buf then Inr (psize f) else Inl BufferTooShort)"
    and ser_behind: "psize f \<le> length buf \<Longrightarrow>
      drop (psize f) (snd (ser f buf)) = drop (psize f) buf"
    and ser_prefix_deser: "wf f \<Longrightarrow> psize f \<le> length buf \<Longrightarrow>
      deser (take (psize f) (snd (ser f buf)) @ rest) = Inr f"
    and deser_wf: "deser bs = Inr f \<Longrightarrow> wf f \<and> psize f \<le> length bs"
begin

lemma roundtrip: "wf f \<Longrightarrow> psize f \<le> length buf \<Longrightarrow> deser (snd (ser f buf)) = Inr f"
  using ser_prefix_deser [of f buf "drop (psize f) (snd (ser f buf))"] by simp

lemma ser_eq:
  "psize f \<le> length buf \<Longrightarrow> ser f buf = (Inr (psize f), snd (ser f buf))"
  by (metis prod.collapse ser_result)

lemma ser_split:
  "psize f \<le> length buf \<Longrightarrow>
    snd (ser f buf) = take (psize f) (snd (ser f buf)) @ drop (psize f) buf"
  by (metis append_take_drop_id ser_behind)

end

sublocale payload_codec \<subseteq> writer: payload_writer ser deser wf psize
  by unfold_locales (simp_all add: ser_length ser_result ser_behind ser_prefix_deser)

end
