(* ===== verification/Sdo_Codec.thy ===== *)
theory Sdo_Codec
  imports Payload_Codec Utf8
begin

section \<open>The codecs of the SDO layers\<close>

text \<open>
  \<^verbatim>\<open>sdo/sequence.rs\<close>, \<^verbatim>\<open>sdo/command/base.rs\<close>, \<^verbatim>\<open>sdo/asnd.rs\<close>, \<^verbatim>\<open>sdo/udp.rs\<close> and \<^verbatim>\<open>sdo/embedded.rs\<close>: the
  headers of the sequence and of the command layer, the payloads of the requests, and the two
  transports. The headers and the commands satisfy the locale \<open>payload_codec\<close>.
\<close>

subsection \<open>Sequence layer\<close>

datatype ReceiveConnState = NoConnection | Initialization | ConnectionValid | ErrorResponse

primrec ReceiveConnState_u8 :: "ReceiveConnState \<Rightarrow> u8" where
  "ReceiveConnState_u8 NoConnection = 0"
| "ReceiveConnState_u8 Initialization = 1"
| "ReceiveConnState_u8 ConnectionValid = 2"
| "ReceiveConnState_u8 ErrorResponse = 3"

definition ReceiveConnState_try_from :: "u8 \<Rightarrow> ReceiveConnState result" where
  "ReceiveConnState_try_from value =
     (if value = 0 then Inr NoConnection
      else if value = 1 then Inr Initialization
      else if value = 2 then Inr ConnectionValid
      else if value = 3 then Inr ErrorResponse
      else Inl InvalidEnumValue)"

datatype SendConnState =
  NoConnection | Initialization | ConnectionValid | ConnectionValidAckRequest

primrec SendConnState_u8 :: "SendConnState \<Rightarrow> u8" where
  "SendConnState_u8 NoConnection = 0"
| "SendConnState_u8 Initialization = 1"
| "SendConnState_u8 ConnectionValid = 2"
| "SendConnState_u8 ConnectionValidAckRequest = 3"

definition SendConnState_try_from :: "u8 \<Rightarrow> SendConnState result" where
  "SendConnState_try_from value =
     (if value = 0 then Inr NoConnection
      else if value = 1 then Inr Initialization
      else if value = 2 then Inr ConnectionValid
      else if value = 3 then Inr ConnectionValidAckRequest
      else Inl InvalidEnumValue)"

interpretation rcon: u8_enum ReceiveConnState_u8 ReceiveConnState_try_from
proof
  show "ReceiveConnState_try_from (ReceiveConnState_u8 x) = Inr x" for x
    by (cases x) (simp_all add: ReceiveConnState_try_from_def)
  show "ReceiveConnState_try_from v = Inr x \<Longrightarrow> ReceiveConnState_u8 x = v" for v x
    by (auto simp: ReceiveConnState_try_from_def split: if_splits)
qed

interpretation scon: u8_enum SendConnState_u8 SendConnState_try_from
proof
  show "SendConnState_try_from (SendConnState_u8 x) = Inr x" for x
    by (cases x) (simp_all add: SendConnState_try_from_def)
  show "SendConnState_try_from v = Inr x \<Longrightarrow> SendConnState_u8 x = v" for v x
    by (auto simp: SendConnState_try_from_def split: if_splits)
qed

record SequenceLayerHeader =
  receive_sequence_number :: u8
  receive_con :: ReceiveConnState
  send_sequence_number :: u8
  send_con :: SendConnState

definition SequenceLayerHeader_serialize :: "SequenceLayerHeader \<Rightarrow> serializer" where
  "SequenceLayerHeader_serialize h buffer =
     (if length buffer < 4 then (Inl BufferTooShort, buffer)
      else
        let buffer = buffer[0 := push_bit 2 (receive_sequence_number h) OR ReceiveConnState_u8 (receive_con h)];
            buffer = buffer[1 := push_bit 2 (send_sequence_number h) OR SendConnState_u8 (send_con h)];
            buffer = put 2 [0, 0] buffer
        in (Inr 4, buffer))"

definition SequenceLayerHeader_deserialize :: "bytes \<Rightarrow> SequenceLayerHeader result" where
  "SequenceLayerHeader_deserialize buffer =
     (if length buffer < 4 then Inl BufferTooShort
      else
        let octet0 = buffer ! 0;
            octet1 = buffer ! 1
        in rbind (ReceiveConnState_try_from (octet0 AND 0b11)) (\<lambda>rcon.
           rbind (SendConnState_try_from (octet1 AND 0b11)) (\<lambda>scon.
             Inr \<lparr> receive_sequence_number = drop_bit 2 octet0 AND 0b00111111,
                   receive_con = rcon,
                   send_sequence_number = drop_bit 2 octet1 AND 0b00111111,
                   send_con = scon \<rparr>)))"

definition wf_seq :: "SequenceLayerHeader \<Rightarrow> bool" where
  "wf_seq h \<longleftrightarrow> receive_sequence_number h < 64 \<and> send_sequence_number h < 64"

text \<open>Six bits and two bits in an octet.\<close>

lemma mask_words: "(0x3F :: u8) = mask 6" "(3 :: u8) = mask 2"
  by (simp_all add: mask_eq_exp_minus_1)

lemma pack62:
  fixes x c :: u8
  assumes "x < 64" "c < 4"
  shows "drop_bit 2 (push_bit 2 x OR c) AND 0x3F = x" "(push_bit 2 x OR c) AND 3 = c"
proof -
  have x: "take_bit 6 x = x" and c: "take_bit 2 c = c"
    using assms by (simp_all add: word_unat_eq_iff unsigned_take_bit_eq take_bit_nat_eq_self word_less_nat_alt)
  have cb: "bit c i \<Longrightarrow> i < 2" for i using c by (metis bit_take_bit_iff)
  have xb: "bit x i \<Longrightarrow> i < 6" for i using x by (metis bit_take_bit_iff)
  show "drop_bit 2 (push_bit 2 x OR c) AND 0x3F = x" unfolding mask_words
    by (rule bit_word_eqI)
      (auto simp: bit_and_iff bit_or_iff bit_drop_bit_eq bit_push_bit_iff bit_mask_iff
        dest: cb xb)
  show "(push_bit 2 x OR c) AND 3 = c" unfolding mask_words
    by (rule bit_word_eqI)
      (auto simp: bit_and_iff bit_or_iff bit_push_bit_iff bit_mask_iff dest: cb)
qed

lemma seq_written:
  assumes "4 \<le> length buf"
  shows "take 4 (snd (SequenceLayerHeader_serialize h buf)) =
    [push_bit 2 (receive_sequence_number h) OR ReceiveConnState_u8 (receive_con h),
     push_bit 2 (send_sequence_number h) OR SendConnState_u8 (send_con h), 0, 0]"
proof -
  obtain a b r where "buf = a # b # r" "2 \<le> length r"
    using assms by (cases buf; cases "tl buf") auto
  then show ?thesis by (simp add: SequenceLayerHeader_serialize_def put_def)
qed

lemma ReceiveConnState_u8_lt: "ReceiveConnState_u8 x < 4"
  by (cases x) simp_all

lemma SendConnState_u8_lt: "SendConnState_u8 x < 4"
  by (cases x) simp_all

lemma and_3F_lt: "(x :: u8) AND 0x3F < 64"
  using word_and_le1 [of x "0x3F"] by (simp add: word_le_nat_alt word_less_nat_alt)

interpretation seq: payload_codec SequenceLayerHeader_serialize SequenceLayerHeader_deserialize
  wf_seq "\<lambda>_. 4"
proof
  fix h :: SequenceLayerHeader and buf bs rest :: bytes
  show "length (snd (SequenceLayerHeader_serialize h buf)) = length buf"
    by (simp add: SequenceLayerHeader_serialize_def)
  show "fst (SequenceLayerHeader_serialize h buf) = (if 4 \<le> length buf then Inr 4 else Inl BufferTooShort)"
    by (simp add: SequenceLayerHeader_serialize_def Let_def)
  show "4 \<le> length buf \<Longrightarrow> drop 4 (snd (SequenceLayerHeader_serialize h buf)) = drop 4 buf"
    by (simp add: SequenceLayerHeader_serialize_def put_def)
  show "wf_seq h \<Longrightarrow> 4 \<le> length buf \<Longrightarrow>
      SequenceLayerHeader_deserialize (take 4 (snd (SequenceLayerHeader_serialize h buf)) @ rest) = Inr h"
    by (simp add: seq_written SequenceLayerHeader_deserialize_def wf_seq_def pack62
        ReceiveConnState_u8_lt SendConnState_u8_lt rcon.try_from_disc scon.try_from_disc
        del: drop_bit_or)
  show "SequenceLayerHeader_deserialize bs = Inr h \<Longrightarrow> wf_seq h \<and> 4 \<le> length bs"
    by (auto simp: SequenceLayerHeader_deserialize_def Let_def wf_seq_def rbind_eq_Inr and_3F_lt
        split: if_splits)
qed

subsection \<open>Command layer\<close>

datatype CommandId =
    CmdNil | WriteByIndex | ReadByIndex | WriteAllByIndex | ReadAllByIndex | WriteByName | ReadByName
  | FileWrite | FileRead | WriteMultipleParamByIndex | ReadMultipleParamByIndex | Abort | MaxSegmentSize

primrec CommandId_u8 :: "CommandId \<Rightarrow> u8" where
  "CommandId_u8 CmdNil = 0x00"
| "CommandId_u8 WriteByIndex = 0x01"
| "CommandId_u8 ReadByIndex = 0x02"
| "CommandId_u8 WriteAllByIndex = 0x03"
| "CommandId_u8 ReadAllByIndex = 0x04"
| "CommandId_u8 WriteByName = 0x05"
| "CommandId_u8 ReadByName = 0x06"
| "CommandId_u8 FileWrite = 0x20"
| "CommandId_u8 FileRead = 0x21"
| "CommandId_u8 WriteMultipleParamByIndex = 0x31"
| "CommandId_u8 ReadMultipleParamByIndex = 0x32"
| "CommandId_u8 Abort = 0x40"
| "CommandId_u8 MaxSegmentSize = 0x70"

definition CommandId_try_from :: "u8 \<Rightarrow> CommandId result" where
  "CommandId_try_from value =
     (if value = 0x00 then Inr CmdNil
      else if value = 0x01 then Inr WriteByIndex
      else if value = 0x02 then Inr ReadByIndex
      else if value = 0x03 then Inr WriteAllByIndex
      else if value = 0x04 then Inr ReadAllByIndex
      else if value = 0x05 then Inr WriteByName
      else if value = 0x06 then Inr ReadByName
      else if value = 0x20 then Inr FileWrite
      else if value = 0x21 then Inr FileRead
      else if value = 0x31 then Inr WriteMultipleParamByIndex
      else if value = 0x32 then Inr ReadMultipleParamByIndex
      else if value = 0x40 then Inr Abort
      else if value = 0x70 then Inr MaxSegmentSize
      else Inl InvalidEnumValue)"

datatype Segmentation = Expedited | Initiate | Segment | Complete

primrec Segmentation_u8 :: "Segmentation \<Rightarrow> u8" where
  "Segmentation_u8 Expedited = 0"
| "Segmentation_u8 Initiate = 1"
| "Segmentation_u8 Segment = 2"
| "Segmentation_u8 Complete = 3"

definition Segmentation_try_from :: "u8 \<Rightarrow> Segmentation result" where
  "Segmentation_try_from value =
     (if value = 0 then Inr Expedited
      else if value = 1 then Inr Initiate
      else if value = 2 then Inr Segment
      else if value = 3 then Inr Complete
      else Inl InvalidEnumValue)"

interpretation cmd_id: u8_enum CommandId_u8 CommandId_try_from
proof
  show "CommandId_try_from (CommandId_u8 x) = Inr x" for x
    by (cases x) (simp_all add: CommandId_try_from_def)
  show "CommandId_try_from v = Inr x \<Longrightarrow> CommandId_u8 x = v" for v x
    by (auto simp: CommandId_try_from_def split: if_splits)
qed

interpretation segm: u8_enum Segmentation_u8 Segmentation_try_from
proof
  show "Segmentation_try_from (Segmentation_u8 x) = Inr x" for x
    by (cases x) (simp_all add: Segmentation_try_from_def)
  show "Segmentation_try_from v = Inr x \<Longrightarrow> Segmentation_u8 x = v" for v x
    by (auto simp: Segmentation_try_from_def split: if_splits)
qed

record CommandLayerHeader =
  transaction_id :: u8
  is_response :: bool
  is_aborted :: bool
  segmentation :: Segmentation
  command_id :: CommandId
  segment_size :: u16

record SdoCommand =
  sc_header :: CommandLayerHeader
  sc_data_size :: "u32 option"
  sc_payload :: bytes

definition command_flags :: "bool \<Rightarrow> bool \<Rightarrow> Segmentation \<Rightarrow> u8" where
  "command_flags response aborted seg =
     (if response then 0x10 else 0) OR (if aborted then 0x20 else 0) OR push_bit 6 (Segmentation_u8 seg)"

definition SdoCommand_deserialize :: "bytes \<Rightarrow> SdoCommand result" where
  "SdoCommand_deserialize buffer =
     (if length buffer < 8 then Inl BufferTooShort
      else
        let tid = buffer ! 1;
            flags = buffer ! 2
        in rbind (Segmentation_try_from (drop_bit 6 flags AND 0b11)) (\<lambda>seg.
           rbind (CommandId_try_from (buffer ! 3)) (\<lambda>cid.
             let seg_size = from_le (sub_slice 4 6 buffer) :: u16;
                 header = \<lparr> transaction_id = tid, is_response = flags AND 0x10 \<noteq> 0,
                            is_aborted = flags AND 0x20 \<noteq> 0, segmentation = seg,
                            command_id = cid, segment_size = seg_size \<rparr>
             in rbind (if seg = Initiate
                       then (if length buffer < 12 then Inl BufferTooShort
                             else Inr (Some (from_le (sub_slice 8 12 buffer) :: u32), 12))
                       else Inr (None, 8)) (\<lambda>(data_size, payload_offset).
                  let payload_end = payload_offset + unat seg_size
                  in if length buffer < payload_end then Inl BufferTooShort
                     else Inr \<lparr> sc_header = header, sc_data_size = data_size,
                                sc_payload = sub_slice payload_offset payload_end buffer \<rparr>))))"

definition SdoCommand_serialize :: "SdoCommand \<Rightarrow> serializer" where
  "SdoCommand_serialize c buffer =
     (let h = sc_header c;
          flags = command_flags (is_response h) (is_aborted h) (segmentation h)
      in if length buffer < 8 then (Inl BufferTooShort, buffer)
         else
           let buffer = buffer[0 := 0];
               buffer = buffer[1 := transaction_id h];
               buffer = buffer[2 := flags];
               buffer = buffer[3 := CommandId_u8 (command_id h)];
               buffer = put 4 (le16 (segment_size h)) buffer;
               buffer = put 6 [0, 0] buffer
           in if segmentation h = Initiate \<and> length buffer < 12 then (Inl BufferTooShort, buffer)
              else
                let (current_offset, buffer) =
                      (if segmentation h = Initiate
                       then (12, put 8 (le32 (unwrap_or (sc_data_size c) 0)) buffer)
                       else (8, buffer));
                    payload_len = length (sc_payload c)
                in if length buffer < current_offset + payload_len then (Inl BufferTooShort, buffer)
                   else (Inr (current_offset + payload_len), put current_offset (sc_payload c) buffer))"

definition command_offset :: "SdoCommand \<Rightarrow> nat" where
  "command_offset c = (if segmentation (sc_header c) = Initiate then 12 else 8)"

definition command_size :: "SdoCommand \<Rightarrow> nat" where
  "command_size c = command_offset c + length (sc_payload c)"

text \<open>The header tells the length of the payload, and only an Initiate carries the total size.\<close>

definition wf_command :: "SdoCommand \<Rightarrow> bool" where
  "wf_command c \<longleftrightarrow> unat (segment_size (sc_header c)) = length (sc_payload c) \<and>
     (sc_data_size c = None \<longleftrightarrow> segmentation (sc_header c) \<noteq> Initiate)"

lemma command_flags_read:
  "command_flags r a s AND 0x10 \<noteq> 0 \<longleftrightarrow> r" "command_flags r a s AND 0x20 \<noteq> 0 \<longleftrightarrow> a"
  "Segmentation_try_from (drop_bit 6 (command_flags r a s) AND 3) = Inr s"
  by (cases r; cases a; cases s; simp add: command_flags_def Segmentation_try_from_def)+

text \<open>The image of a command on the wire.\<close>

definition command_header_image :: "CommandLayerHeader \<Rightarrow> bytes" where
  "command_header_image h =
     [0, transaction_id h, command_flags (is_response h) (is_aborted h) (segmentation h),
      CommandId_u8 (command_id h)] @ le16 (segment_size h) @ [0, 0]"

definition command_image :: "SdoCommand \<Rightarrow> bytes" where
  "command_image c = command_header_image (sc_header c) @
     (if segmentation (sc_header c) = Initiate then le32 (unwrap_or (sc_data_size c) 0) else []) @
     sc_payload c"

lemma length_command_header_image [simp]: "length (command_header_image h) = 8"
  by (simp add: command_header_image_def)

lemma length_command_image [simp]: "length (command_image c) = command_size c"
  by (simp add: command_image_def command_size_def command_offset_def)

lemma command_header_written:
  assumes "8 \<le> length buf"
  shows "put 6 [0, 0] (put 4 (le16 (segment_size h)) (buf[0 := 0, Suc 0 := transaction_id h,
      2 := command_flags (is_response h) (is_aborted h) (segmentation h),
      3 := CommandId_u8 (command_id h)])) = command_header_image h @ drop 8 buf"
proof -
  obtain a b c d r where "buf = a # b # c # d # r" "4 \<le> length r"
    using assms by (cases buf; cases "tl buf"; cases "tl (tl buf)"; cases "tl (tl (tl buf))") auto
  then show ?thesis by (simp add: put_def command_header_image_def numeral_eq_Suc)
qed

lemma put_append:
  "length xs = off \<Longrightarrow> put off ys (xs @ r) = xs @ ys @ drop (length ys) r"
  "length xs + length zs = off \<Longrightarrow> put off ys (xs @ zs @ r) = xs @ zs @ ys @ drop (length ys) r"
  by (auto simp: put_def)

lemma SdoCommand_serialize_eq:
  "SdoCommand_serialize c buf =
     (if length buf < 8 then (Inl BufferTooShort, buf)
      else if segmentation (sc_header c) = Initiate \<and> length buf < 12
      then (Inl BufferTooShort, command_header_image (sc_header c) @ drop 8 buf)
      else if length buf < command_size c
      then (Inl BufferTooShort, take (command_offset c) (command_image c) @ drop (command_offset c) buf)
      else (Inr (command_size c), command_image c @ drop (command_size c) buf))"
  using command_header_written [of buf "sc_header c"]
  by (cases "segmentation (sc_header c) = Initiate"; cases "length buf < 8")
    (auto simp: SdoCommand_serialize_def Let_def command_size_def command_offset_def
      command_image_def put_append ac_simps)

lemma command_roundtrip:
  assumes "wf_command c"
  shows "SdoCommand_deserialize (command_image c @ rest) = Inr c"
proof -
  let ?h = "sc_header c"
  have sz: "unat (segment_size ?h) = length (sc_payload c)" using assms by (simp add: wf_command_def)
  have le: "sub_slice 4 6 (command_image c @ rest) = le16 (segment_size ?h)"
    by (simp add: command_image_def command_header_image_def sub_slice_def)
  have i: "(command_image c @ rest) ! Suc 0 = transaction_id ?h"
    "(command_image c @ rest) ! 2 = command_flags (is_response ?h) (is_aborted ?h) (segmentation ?h)"
    "(command_image c @ rest) ! 3 = CommandId_u8 (command_id ?h)"
    by (simp_all add: command_image_def command_header_image_def)
  show ?thesis
  proof (cases "segmentation ?h = Initiate")
    case True
    then obtain n where n: "sc_data_size c = Some n" using assms by (auto simp: wf_command_def)
    have "sub_slice 8 12 (command_image c @ rest) = le32 n"
      "sub_slice 12 (12 + length (sc_payload c)) (command_image c @ rest) = sc_payload c"
      using True n by (simp_all add: command_image_def sub_slice_def)
    then show ?thesis using True n sz
      by (simp add: SdoCommand_deserialize_def Let_def i le command_flags_read cmd_id.try_from_disc
          command_size_def command_offset_def)
  next
    case False
    then have n: "sc_data_size c = None" using assms by (auto simp: wf_command_def)
    have "sub_slice 8 (8 + length (sc_payload c)) (command_image c @ rest) = sc_payload c"
      using False by (simp add: command_image_def sub_slice_def)
    then show ?thesis using False n sz
      by (simp add: SdoCommand_deserialize_def Let_def i le command_flags_read cmd_id.try_from_disc
          command_size_def command_offset_def)
  qed
qed

lemma SdoCommand_deserialize_wf:
  assumes "SdoCommand_deserialize bs = Inr c"
  shows "wf_command c \<and> command_size c \<le> length bs"
  using assms
  by (auto simp: SdoCommand_deserialize_def Let_def rbind_eq_Inr wf_command_def command_size_def
      command_offset_def split: if_splits)

interpretation cmd: payload_codec SdoCommand_serialize SdoCommand_deserialize wf_command command_size
proof
  fix c :: SdoCommand and buf bs rest :: bytes
  have sz: "8 \<le> command_size c" "command_offset c \<le> command_size c"
    "segmentation (sc_header c) = Initiate \<Longrightarrow> 12 \<le> command_size c"
    by (simp_all add: command_size_def command_offset_def)
  have "length buf < command_size c \<Longrightarrow> \<not> length buf < command_offset c \<or> length buf < 8 \<or>
      segmentation (sc_header c) = Initiate \<and> length buf < 12"
    by (auto simp: command_offset_def)
  then show "length (snd (SdoCommand_serialize c buf)) = length buf"
    using sz by (auto simp: SdoCommand_serialize_eq)
  show "fst (SdoCommand_serialize c buf) =
      (if command_size c \<le> length buf then Inr (command_size c) else Inl BufferTooShort)"
    using sz by (auto simp: SdoCommand_serialize_eq)
  show "command_size c \<le> length buf \<Longrightarrow>
      drop (command_size c) (snd (SdoCommand_serialize c buf)) = drop (command_size c) buf"
    using sz by (simp add: SdoCommand_serialize_eq)
  show "wf_command c \<Longrightarrow> command_size c \<le> length buf \<Longrightarrow>
      SdoCommand_deserialize (take (command_size c) (snd (SdoCommand_serialize c buf)) @ rest) = Inr c"
    using sz by (auto simp: SdoCommand_serialize_eq command_roundtrip)
qed (rule SdoCommand_deserialize_wf)

subsection \<open>Payloads of the requests\<close>

record ReadByIndexRequest =
  rbi_index :: u16
  rbi_sub_index :: u8

definition ReadByIndexRequest_from_payload :: "bytes \<Rightarrow> ReadByIndexRequest result" where
  "ReadByIndexRequest_from_payload payload =
     (if length payload < 4 then Inl SdoInvalidCommandPayload
      else Inr \<lparr> rbi_index = from_le (sub_slice 0 2 payload), rbi_sub_index = payload ! 2 \<rparr>)"

text \<open>\<^verbatim>\<open>iter().position(|&b| b == 0)\<close>.\<close>

definition position0 :: "bytes \<Rightarrow> nat option" where
  "position0 bs = (let n = length (takeWhile (\<lambda>b. b \<noteq> 0) bs) in if n < length bs then Some n else None)"

definition ReadByNameRequest_from_payload :: "bytes \<Rightarrow> rust_string result" where
  "ReadByNameRequest_from_payload payload =
     (let name_end = unwrap_or (position0 payload) (length payload)
      in ok_or (from_utf8 (take name_end payload)) SdoInvalidCommandPayload)"

record WriteByIndexRequest =
  wbi_index :: u16
  wbi_sub_index :: u8
  wbi_data :: bytes

definition WriteByIndexRequest_from_payload :: "bytes \<Rightarrow> WriteByIndexRequest result" where
  "WriteByIndexRequest_from_payload payload =
     (if length payload < 4 then Inl SdoInvalidCommandPayload
      else Inr \<lparr> wbi_index = from_le (sub_slice 0 2 payload), wbi_sub_index = payload ! 2,
                 wbi_data = drop 4 payload \<rparr>)"

record WriteAllByIndexRequest =
  wai_index :: u16
  wai_data :: bytes

definition WriteAllByIndexRequest_from_payload :: "bytes \<Rightarrow> WriteAllByIndexRequest result" where
  "WriteAllByIndexRequest_from_payload payload =
     (if length payload < 4 then Inl SdoInvalidCommandPayload
      else Inr \<lparr> wai_index = from_le (sub_slice 0 2 payload), wai_data = drop 4 payload \<rparr>)"

record WriteByNameRequest =
  wbn_name :: rust_string
  wbn_data :: bytes

definition WriteByNameRequest_from_payload :: "bytes \<Rightarrow> WriteByNameRequest result" where
  "WriteByNameRequest_from_payload payload =
     (let name_end = unwrap_or (position0 payload) 0
      in if name_end = 0 then Inl SdoInvalidCommandPayload
         else rbind (ok_or (from_utf8 (take name_end payload)) SdoInvalidCommandPayload) (\<lambda>name.
                Inr \<lparr> wbn_name = name, wbn_data = drop (name_end + 1) payload \<rparr>))"

record MultipleParamEntry =
  mp_index :: u16
  mp_sub_index :: u8

text \<open>\<^verbatim>\<open>chunks_exact(4)\<close>.\<close>

fun chunks4 :: "bytes \<Rightarrow> bytes list" where
  "chunks4 (a # b # c # d # r) = [a, b, c, d] # chunks4 r"
| "chunks4 _ = []"

definition ReadMultipleParamRequest_from_payload :: "bytes \<Rightarrow> MultipleParamEntry list result" where
  "ReadMultipleParamRequest_from_payload payload =
     (if length payload mod 4 \<noteq> 0 then Inl SdoInvalidCommandPayload
      else Inr (map (\<lambda>chunk. \<lparr> mp_index = from_le (sub_slice 0 2 chunk), mp_sub_index = chunk ! 2 \<rparr>)
             (chunks4 payload)))"

subsection \<open>Transports\<close>

definition serialize_sdo_asnd_payload :: "SequenceLayerHeader \<Rightarrow> SdoCommand \<Rightarrow> bytes result" where
  "serialize_sdo_asnd_payload seq_header c =
     (let estimated_size = 4 + 4 + (if sc_data_size c \<noteq> None then 4 else 0) + length (sc_payload c);
          (r, seq_buf) = SequenceLayerHeader_serialize seq_header (replicate 4 0)
      in rbind r (\<lambda>_.
           let (r, cmd_buf) = SdoCommand_serialize c (replicate (estimated_size - 4) 0)
           in rbind r (\<lambda>cmd_len. Inr (seq_buf @ take cmd_len cmd_buf))))"

definition serialize_sdo_udp_payload :: "SequenceLayerHeader \<Rightarrow> SdoCommand \<Rightarrow> serializer" where
  "serialize_sdo_udp_payload seq_header c buffer =
     (if length buffer < 4 + 4 then (Inl BufferTooShort, buffer)
      else
        let buffer = buffer[0 := MessageType_u8 ASnd];
            buffer = put 1 [0, 0] buffer;
            buffer = buffer[3 := ServiceId_u8 Sdo];
            (r, rest) = SequenceLayerHeader_serialize seq_header (drop 4 buffer);
            buffer = take 4 buffer @ rest
        in case r of
             Inl e \<Rightarrow> (Inl e, buffer)
           | Inr seq_len \<Rightarrow>
               let seq_end_offset = 4 + seq_len;
                   (r, rest) = SdoCommand_serialize c (drop seq_end_offset buffer);
                   buffer = take seq_end_offset buffer @ rest
               in (rbind r (\<lambda>cmd_len. Inr (seq_end_offset + cmd_len)), buffer))"

definition deserialize_sdo_udp_payload :: "bytes \<Rightarrow> (SequenceLayerHeader \<times> SdoCommand) result" where
  "deserialize_sdo_udp_payload buffer =
     (if length buffer < 4 + 4 then Inl BufferTooShort
      else if buffer ! 0 \<noteq> MessageType_u8 ASnd then Inl InvalidPlFrame
      else if buffer ! 3 \<noteq> ServiceId_u8 Sdo then Inl (InvalidServiceId (buffer ! 3))
      else rbind (SequenceLayerHeader_deserialize (drop 4 buffer)) (\<lambda>seq_header.
           rbind (SdoCommand_deserialize (drop (4 + 4) buffer)) (\<lambda>c.
             Inr (seq_header, c))))"

lemma udp_serialize_eq:
  assumes "8 + command_size c \<le> length buf"
  shows "serialize_sdo_udp_payload s c buf = (Inr (8 + command_size c),
    [MessageType_u8 ASnd, 0, 0, ServiceId_u8 Sdo] @ take 4 (snd (SequenceLayerHeader_serialize s (drop 4 buf)))
      @ take (command_size c) (snd (SdoCommand_serialize c (drop 8 buf))) @ drop (8 + command_size c) buf)"
proof -
  obtain a b d e r where buf: "buf = a # b # d # e # r"
    using assms by (cases buf; cases "tl buf"; cases "tl (tl buf)"; cases "tl (tl (tl buf))") auto
  have len: "4 + command_size c \<le> length r" using assms buf by simp
  define x where "x = take 4 (snd (SequenceLayerHeader_serialize s r))"
  define y where "y = take (command_size c) (snd (SdoCommand_serialize c (drop 4 r)))"
  have x: "length x = 4" "SequenceLayerHeader_serialize s r = (Inr 4, x @ drop 4 r)"
    using seq.ser_eq [of r s] seq.ser_split [of r s] len by (simp_all add: x_def seq.ser_length)
  have y: "SdoCommand_serialize c (drop 4 r) = (Inr (command_size c), y @ drop (command_size c + 4) r)"
    using cmd.ser_eq [of c "drop 4 r"] cmd.ser_split [of c "drop 4 r"] len by (simp add: y_def)
  have "drop (8 + command_size c) buf = drop (command_size c + 4) (drop 4 buf)" by simp
  then have d: "drop (8 + command_size c) buf = drop (command_size c + 4) r" by (simp add: buf)
  have "serialize_sdo_udp_payload s c buf = (Inr (8 + command_size c),
      [MessageType_u8 ASnd, 0, 0, ServiceId_u8 Sdo] @ x @ y @ drop (8 + command_size c) buf)"
    using len unfolding d by (simp add: buf serialize_sdo_udp_payload_def put_def x y)
  then show ?thesis by (simp add: x_def y_def buf)
qed

lemma sdo_udp_message:
  assumes "wf_seq s" "wf_command c"
  shows "if 8 + command_size c \<le> length buf
    then \<exists>out. serialize_sdo_udp_payload s c buf = (Inr (8 + command_size c), out) \<and>
      length out = length buf \<and>
      (\<forall>rest. deserialize_sdo_udp_payload (take (8 + command_size c) out @ rest) = Inr (s, c))
    else fst (serialize_sdo_udp_payload s c buf) = Inl BufferTooShort"
proof (cases "8 + command_size c \<le> length buf")
  case True
  let ?x = "take 4 (snd (SequenceLayerHeader_serialize s (drop 4 buf)))"
  let ?y = "take (command_size c) (snd (SdoCommand_serialize c (drop 8 buf)))"
  define w where "w = [MessageType_u8 ASnd, 0, 0, ServiceId_u8 Sdo] @ ?x @ ?y"
  have len: "length ?x = 4" "length ?y = command_size c"
    using True by (simp_all add: seq.ser_length cmd.ser_length)
  have out: "serialize_sdo_udp_payload s c buf = (Inr (8 + command_size c), w @ drop (8 + command_size c) buf)"
    using True by (simp add: udp_serialize_eq w_def)
  have "SequenceLayerHeader_deserialize (?x @ r) = Inr s" for r
    using seq.ser_prefix_deser [OF assms(1), of "drop 4 buf"] True by simp
  moreover have "SdoCommand_deserialize (?y @ r) = Inr c" for r
    using cmd.ser_prefix_deser [OF assms(2), of "drop 8 buf"] True by simp
  ultimately have "deserialize_sdo_udp_payload (w @ rest) = Inr (s, c)" for rest
    using len by (simp add: deserialize_sdo_udp_payload_def w_def)
  moreover have "length w = 8 + command_size c" using len by (simp add: w_def)
  ultimately show ?thesis using True out by simp
next
  case False
  moreover have "8 \<le> command_size c" by (simp add: command_size_def command_offset_def)
  ultimately show ?thesis
    by (auto simp: serialize_sdo_udp_payload_def Let_def case_prod_unfold seq.ser_result seq.ser_length
        cmd.ser_result split: sum.splits)
qed

text \<open>
  An SDO message of the sequence and command layers that fits into the caller's buffer is
  written to it with its exact length; what was written, followed by anything, is decoded to the
  same message. A message that does not fit is an error, and the buffer is never overrun.\<close>

lemma sdo_udp_roundtrip:
  assumes "wf_seq s" "wf_command c"
  shows "if 8 + command_size c \<le> length buf
    then \<exists>out. serialize_sdo_udp_payload s c buf = (Inr (8 + command_size c), out) \<and>
      length out = length buf \<and>
      (\<forall>rest. deserialize_sdo_udp_payload (take (8 + command_size c) out @ rest) = Inr (s, c))
    else fst (serialize_sdo_udp_payload s c buf) = Inl BufferTooShort"
  by (rule sdo_udp_message [OF assms])

definition example_command :: SdoCommand where
  "example_command =
     \<lparr> sc_header = \<lparr> transaction_id = 7, is_response = False, is_aborted = False, segmentation = Expedited,
         command_id = ReadByIndex, segment_size = 4 \<rparr>,
       sc_data_size = None, sc_payload = [0x18, 0x10, 1, 0] \<rparr>"

definition example_seq :: SequenceLayerHeader where
  "example_seq = \<lparr> receive_sequence_number = 3, receive_con = ReceiveConnState.ConnectionValid,
     send_sequence_number = 63, send_con = SendConnState.ConnectionValid \<rparr>"

lemma example_wf: "wf_seq example_seq" "wf_command example_command" "command_size example_command = 12"
  by (simp_all add: wf_seq_def example_seq_def wf_command_def example_command_def command_size_def
      command_offset_def)

text \<open>Over ASnd the buffer for the command layer is four octets smaller than the header needs: the
  serializer succeeds only for a command that names a total size without being an Initiate, which
  no well-formed command does.\<close>

lemma sdo_asnd_too_short:
  "serialize_sdo_asnd_payload s c =
     (if sc_data_size c \<noteq> None \<and> segmentation (sc_header c) \<noteq> Initiate
      then Inr (take 4 (snd (SequenceLayerHeader_serialize s (replicate 4 0))) @ command_image c)
      else Inl BufferTooShort) \<and>
   (wf_command c \<longrightarrow> serialize_sdo_asnd_payload s c = Inl BufferTooShort)"
proof -
  let ?n = "4 + (if sc_data_size c \<noteq> None then 4 else 0) + length (sc_payload c)"
  have fits: "command_size c \<le> ?n \<longleftrightarrow> sc_data_size c \<noteq> None \<and> segmentation (sc_header c) \<noteq> Initiate"
    by (auto simp: command_size_def command_offset_def)
  have "serialize_sdo_asnd_payload s c =
      rbind (fst (SdoCommand_serialize c (replicate ?n 0))) (\<lambda>n.
        Inr (snd (SequenceLayerHeader_serialize s (replicate 4 0)) @
          take n (snd (SdoCommand_serialize c (replicate ?n 0)))))"
    by (simp add: serialize_sdo_asnd_payload_def Let_def case_prod_unfold seq.ser_result)
  moreover have "take (command_size c) (snd (SdoCommand_serialize c buf)) = command_image c"
    if "command_size c \<le> length buf" for buf
    using that by (auto simp: SdoCommand_serialize_eq command_size_def command_offset_def)
  ultimately have "serialize_sdo_asnd_payload s c =
     (if sc_data_size c \<noteq> None \<and> segmentation (sc_header c) \<noteq> Initiate
      then Inr (take 4 (snd (SequenceLayerHeader_serialize s (replicate 4 0))) @ command_image c)
      else Inl BufferTooShort)"
    using fits by (auto simp: cmd.ser_result seq.ser_length command_size_def command_offset_def)
  then show ?thesis by (simp add: wf_command_def)
qed

subsection \<open>SDO embedded in PDO\<close>

record PdoSequenceLayerHeader =
  ps_sequence_number :: u8
  ps_connection_state :: u8

definition PdoSequenceLayerHeader_serialize :: "PdoSequenceLayerHeader \<Rightarrow> serializer" where
  "PdoSequenceLayerHeader_serialize h buffer =
     (if buffer = [] then (Inl BufferTooShort, buffer)
      else (Inr 1, buffer[0 := push_bit 2 (ps_sequence_number h) OR ps_connection_state h]))"

definition PdoSequenceLayerHeader_deserialize :: "bytes \<Rightarrow> PdoSequenceLayerHeader result" where
  "PdoSequenceLayerHeader_deserialize buffer =
     (if buffer = [] then Inl BufferTooShort
      else Inr \<lparr> ps_sequence_number = drop_bit 2 (buffer ! 0) AND 0b00111111,
                 ps_connection_state = buffer ! 0 AND 0b11 \<rparr>)"

definition wf_pdo_seq :: "PdoSequenceLayerHeader \<Rightarrow> bool" where
  "wf_pdo_seq h \<longleftrightarrow> ps_sequence_number h < 64 \<and> ps_connection_state h < 4"

lemma and_3_lt: "(x :: u8) AND 3 < 4"
  using word_and_le1 [of x 3] by (simp add: word_le_nat_alt word_less_nat_alt)

interpretation pdo_seq: payload_codec PdoSequenceLayerHeader_serialize
  PdoSequenceLayerHeader_deserialize wf_pdo_seq "\<lambda>_. 1"
proof
  fix h :: PdoSequenceLayerHeader and buf bs rest :: bytes
  show "length (snd (PdoSequenceLayerHeader_serialize h buf)) = length buf"
    "fst (PdoSequenceLayerHeader_serialize h buf) = (if 1 \<le> length buf then Inr 1 else Inl BufferTooShort)"
    by (cases buf; simp add: PdoSequenceLayerHeader_serialize_def)+
  show "1 \<le> length buf \<Longrightarrow> drop 1 (snd (PdoSequenceLayerHeader_serialize h buf)) = drop 1 buf"
    by (cases buf) (simp_all add: PdoSequenceLayerHeader_serialize_def)
  show "wf_pdo_seq h \<Longrightarrow> 1 \<le> length buf \<Longrightarrow> PdoSequenceLayerHeader_deserialize
      (take 1 (snd (PdoSequenceLayerHeader_serialize h buf)) @ rest) = Inr h"
    by (cases buf) (simp_all add: PdoSequenceLayerHeader_serialize_def
        PdoSequenceLayerHeader_deserialize_def wf_pdo_seq_def pack62 del: drop_bit_or)
  show "PdoSequenceLayerHeader_deserialize bs = Inr h \<Longrightarrow> wf_pdo_seq h \<and> 1 \<le> length bs"
    by (cases bs) (auto simp: PdoSequenceLayerHeader_deserialize_def wf_pdo_seq_def and_3F_lt and_3_lt)
qed

record PdoSdoCommand =
  pc_sequence_header :: PdoSequenceLayerHeader
  pc_transaction_id :: u8
  pc_is_response :: bool
  pc_is_aborted :: bool
  pc_segmentation :: Segmentation
  pc_valid_payload_length :: u8
  pc_command_id :: CommandId
  pc_index :: u16
  pc_sub_index :: u8
  pc_data :: bytes

definition PdoSdoCommand_deserialize :: "bytes \<Rightarrow> PdoSdoCommand result" where
  "PdoSdoCommand_deserialize buffer =
     (if length buffer < 8 then Inl BufferTooShort
      else rbind (PdoSequenceLayerHeader_deserialize (sub_slice 0 1 buffer)) (\<lambda>sequence_header.
        let tid = buffer ! 1;
            flags = buffer ! 2;
            valid_payload_length = buffer ! 3
        in rbind (CommandId_try_from (buffer ! 4)) (\<lambda>cid.
           let index = from_le (sub_slice 5 7 buffer);
               sub_index = buffer ! 7
           in rbind (Segmentation_try_from (drop_bit 6 flags AND 0b11)) (\<lambda>seg.
             let data_offset = 8;
                 data_len = unat valid_payload_length
             in if length buffer < data_offset + data_len then Inl BufferTooShort
                else Inr \<lparr> pc_sequence_header = sequence_header, pc_transaction_id = tid,
                           pc_is_response = flags AND 0x10 \<noteq> 0, pc_is_aborted = flags AND 0x20 \<noteq> 0,
                           pc_segmentation = seg, pc_valid_payload_length = valid_payload_length,
                           pc_command_id = cid, pc_index = index, pc_sub_index = sub_index,
                           pc_data = sub_slice data_offset (data_offset + data_len) buffer \<rparr>))))"

definition PdoSdoCommand_serialize :: "PdoSdoCommand \<Rightarrow> bytes" where
  "PdoSdoCommand_serialize c =
     [push_bit 2 (ps_sequence_number (pc_sequence_header c)) OR ps_connection_state (pc_sequence_header c)] @
     [pc_transaction_id c] @
     [command_flags (pc_is_response c) (pc_is_aborted c) (pc_segmentation c)] @
     [of_nat (length (pc_data c))] @
     [CommandId_u8 (pc_command_id c)] @
     le16 (pc_index c) @
     [pc_sub_index c] @
     pc_data c"

definition wf_pdo_command :: "PdoSdoCommand \<Rightarrow> bool" where
  "wf_pdo_command c \<longleftrightarrow> wf_pdo_seq (pc_sequence_header c) \<and>
     length (pc_data c) = unat (pc_valid_payload_length c)"

lemma PdoSdoCommand_roundtrip:
  assumes "wf_pdo_command c"
  shows "PdoSdoCommand_deserialize (PdoSdoCommand_serialize c @ rest) = Inr c"
proof -
  let ?b = "PdoSdoCommand_serialize c @ rest"
  have wf: "wf_pdo_seq (pc_sequence_header c)" "length (pc_data c) = unat (pc_valid_payload_length c)"
    using assms by (simp_all add: wf_pdo_command_def)
  have "\<exists>x y. le16 (pc_index c) = [x, y]" by (simp add: numeral_2_eq_2)
  then obtain x y where xy: "le16 (pc_index c) = [x, y]" by blast
  have b: "?b ! Suc 0 = pc_transaction_id c"
    "?b ! 2 = command_flags (pc_is_response c) (pc_is_aborted c) (pc_segmentation c)"
    "?b ! 3 = pc_valid_payload_length c" "?b ! 4 = CommandId_u8 (pc_command_id c)"
    "sub_slice 5 7 ?b = le16 (pc_index c)" "?b ! 7 = pc_sub_index c"
    "sub_slice 0 (Suc 0) ?b = [push_bit 2 (ps_sequence_number (pc_sequence_header c)) OR
       ps_connection_state (pc_sequence_header c)]"
    "sub_slice 8 (8 + unat (pc_valid_payload_length c)) ?b = pc_data c"
    "length (PdoSdoCommand_serialize c) = 8 + unat (pc_valid_payload_length c)"
    using wf(2) by (simp_all add: PdoSdoCommand_serialize_def xy sub_slice_def)
  show ?thesis using wf
    by (simp add: PdoSdoCommand_deserialize_def Let_def b command_flags_read cmd_id.try_from_disc
        PdoSequenceLayerHeader_deserialize_def wf_pdo_seq_def pack62 del: drop_bit_or)
qed

lemma PdoSdoCommand_accepted_wf:
  assumes "PdoSdoCommand_deserialize bs = Inr c"
  shows "wf_pdo_command c"
  using assms
  by (auto simp: PdoSdoCommand_deserialize_def Let_def rbind_eq_Inr wf_pdo_command_def
      dest: pdo_seq.deser_wf split: if_splits)

text \<open>
  An SDO message embedded in a PDO is decoded to itself from what was written, whatever
  follows it in the container; and whatever is accepted from a container can be written and
  decoded again.\<close>

lemma sdo_embedded_roundtrip:
  "(wf_pdo_command c \<longrightarrow> PdoSdoCommand_deserialize (PdoSdoCommand_serialize c @ rest) = Inr c) \<and>
   (PdoSdoCommand_deserialize bs = Inr c \<longrightarrow>
      PdoSdoCommand_deserialize (PdoSdoCommand_serialize c @ rest) = Inr c)"
  using PdoSdoCommand_roundtrip PdoSdoCommand_accepted_wf by blast

end
