(* ===== verification/Sdo_Server.thy ===== *)
theory Sdo_Server
  imports Sdo_Codec Od_Props "HOL-Library.List_Lexorder"
begin

section \<open>The SDO server\<close>

text \<open>
  \<^verbatim>\<open>sdo/state.rs\<close>, \<^verbatim>\<open>sdo/handlers.rs\<close>, \<^verbatim>\<open>sdo/sequence_handler.rs\<close>, \<^verbatim>\<open>sdo/command/handler.rs\<close> and
  \<^verbatim>\<open>sdo/server.rs\<close>: the state of a segmented transfer, the handlers of the commands, the sequence
  layer of one connection, and the server that keeps one connection per client. The functions take
  and return what the methods borrow mutably: the connection, the dictionary, and the state of the
  application's handler for optional commands, which is a parameter. Times are words; adding a
  timeout to the current time wraps (the code would panic in a debug build) only at the end of the
  64-bit range of microseconds.
\<close>

subsection \<open>Clients\<close>

datatype SdoClientInfo = AsndClient NodeId bytes | UdpClient IpAddress u16

text \<open>The derived order: the variant, then the fields in their order.\<close>

primrec client_key :: "SdoClientInfo \<Rightarrow> nat \<times> bytes \<times> u16" where
  "client_key (AsndClient nid mac) = (0, nid # mac, 0)"
| "client_key (UdpClient ip port) = (1, ip, port)"

lemma client_key_inj: "client_key a = client_key b \<longleftrightarrow> a = b"
  by (cases a; cases b) auto

instantiation SdoClientInfo :: linorder
begin

definition less_eq_SdoClientInfo :: "SdoClientInfo \<Rightarrow> SdoClientInfo \<Rightarrow> bool" where
  "less_eq_SdoClientInfo a b \<longleftrightarrow> client_key a \<le> client_key b"

definition less_SdoClientInfo :: "SdoClientInfo \<Rightarrow> SdoClientInfo \<Rightarrow> bool" where
  "less_SdoClientInfo a b \<longleftrightarrow> client_key a < client_key b"

instance
  by standard (auto simp: less_eq_SdoClientInfo_def less_SdoClientInfo_def client_key_inj
      dest: antisym intro: less_imp_le)

end

record SdoResponseData =
  rd_client_info :: SdoClientInfo
  rd_seq_header :: SequenceLayerHeader
  rd_command :: SdoCommand

subsection \<open>Segmented transfers\<close>

record SdoTransferState =
  ts_transaction_id :: u8
  ts_total_size :: nat
  ts_data_buffer :: bytes
  ts_offset :: nat
  ts_index :: u16
  ts_sub_index :: u8
  ts_deadline_us :: "u64 option"
  ts_retransmissions_left :: u32
  ts_last_sent_segment :: "SdoCommand option"

datatype SdoServerState =
    Closed
  | Opening
  | Established
  | SegmentedDownload SdoTransferState
  | SegmentedUpload SdoTransferState

definition MAX_EXPEDITED_PAYLOAD :: nat where "MAX_EXPEDITED_PAYLOAD = 1452"

definition sdo_deadline :: "'s ObjectDictionary \<Rightarrow> u64 \<Rightarrow> u64" where
  "sdo_deadline od current_time_us =
     current_time_us + ucast (unwrap_or (read_u32 od 0x1300 0) 15000) * 1000"

definition get_next_upload_segment ::
  "SdoTransferState \<Rightarrow> 's ObjectDictionary \<Rightarrow> u64 \<Rightarrow> (SdoCommand \<times> bool) \<times> SdoTransferState" where
  "get_next_upload_segment st od current_time_us =
     (let chunk_size = MAX_EXPEDITED_PAYLOAD;
          remaining = ts_total_size st - ts_offset st;
          current_chunk_size = min chunk_size remaining;
          chunk = sub_slice (ts_offset st) (ts_offset st + current_chunk_size) (ts_data_buffer st);
          (seg, data_size) =
            (if ts_offset st = 0 then (Initiate, Some (of_nat (ts_total_size st))) else (Segment, None));
          st = st\<lparr> ts_offset := ts_offset st + current_chunk_size \<rparr>;
          (is_last_segment, seg, st) =
            (if ts_offset st \<ge> ts_total_size st
             then (True, Complete, st\<lparr> ts_deadline_us := None, ts_last_sent_segment := None \<rparr>)
             else (False, seg,
                   st\<lparr> ts_deadline_us := Some (sdo_deadline od current_time_us),
                       ts_retransmissions_left := unwrap_or (read_u32 od 0x1302 0) 2 \<rparr>));
          command = \<lparr> sc_header = \<lparr> transaction_id = ts_transaction_id st, is_response = True,
                        is_aborted = False, segmentation = seg, command_id = ReadByIndex,
                        segment_size = of_nat (length chunk) \<rparr>,
                      sc_data_size = data_size, sc_payload = chunk \<rparr>;
          st = (if \<not> is_last_segment then st\<lparr> ts_last_sent_segment := Some command \<rparr> else st)
      in ((command, is_last_segment), st))"

definition perform_od_write :: "SdoTransferState \<Rightarrow> 's ObjectDictionary \<Rightarrow> (u32 + unit) \<times> 's ObjectDictionary" where
  "perform_od_write st od =
     (case od_read od (ts_index st) (ts_sub_index st) of
        Some type_template \<Rightarrow>
          (case value_deserialize (ts_data_buffer st) type_template of
             Inr v \<Rightarrow>
               if discriminant v \<noteq> discriminant type_template then (Inl 0x06070010, od)
               else
                 (case od_write od (ts_index st) (ts_sub_index st) v of
                    (Inr _, od) \<Rightarrow> (Inr (), od)
                  | (Inl e, od) \<Rightarrow>
                      (Inl (case e of
                              StorageError msg \<Rightarrow>
                                if msg = ''Object is read-only'' then 0x06010002 else 0x08000020
                            | TypeMismatch \<Rightarrow> 0x06070010
                            | ValidationError _ \<Rightarrow> 0x06090030
                            | _ \<Rightarrow> 0x08000020), od))
           | Inl e \<Rightarrow> (Inl (if e = BufferTooShort then 0x06070013 else 0x06070010), od))
      | None \<Rightarrow>
          (Inl (if read_object od (ts_index st) = None then 0x06020000 else 0x06090011), od))"

definition process_download_segment ::
  "SdoTransferState \<Rightarrow> SdoCommand \<Rightarrow> 's ObjectDictionary \<Rightarrow> u64 \<Rightarrow>
     (u32 + bool) \<times> SdoTransferState \<times> 's ObjectDictionary" where
  "process_download_segment st command od current_time_us =
     (if ts_offset st + length (sc_payload command) > ts_total_size st then (Inl 0x06070010, st, od)
      else
        let st = st\<lparr> ts_data_buffer := ts_data_buffer st @ sc_payload command,
                     ts_offset := ts_offset st + length (sc_payload command) \<rparr>
        in if segmentation (sc_header command) = Complete then
             if ts_offset st \<noteq> ts_total_size st
             then (Inl (if ts_offset st < ts_total_size st then 0x06070013 else 0x06070012), st, od)
             else
               (case perform_od_write st od of
                  (Inr _, od) \<Rightarrow> (Inr True, st, od)
                | (Inl abort_code, od) \<Rightarrow> (Inl abort_code, st, od))
           else (Inr False, st\<lparr> ts_deadline_us := Some (sdo_deadline od current_time_us) \<rparr>, od))"

subsection \<open>One connection\<close>

record SdoSequenceHandler =
  sh_state :: SdoServerState
  sh_send_sequence_number :: u8
  sh_last_received_sequence_number :: u8
  sh_client_info :: SdoClientInfo

definition SdoSequenceHandler_new :: "SdoClientInfo \<Rightarrow> SdoSequenceHandler" where
  "SdoSequenceHandler_new client_info =
     \<lparr> sh_state = Closed, sh_send_sequence_number = 0, sh_last_received_sequence_number = 63,
       sh_client_info = client_info \<rparr>"

definition is_closed :: "SdoSequenceHandler \<Rightarrow> bool" where
  "is_closed h \<longleftrightarrow> sh_state h = Closed"

definition seq_reset :: "SdoSequenceHandler \<Rightarrow> SdoSequenceHandler" where
  "seq_reset h = h\<lparr> sh_state := Closed, sh_send_sequence_number := 0,
     sh_last_received_sequence_number := 63 \<rparr>"

definition next_seq :: "u8 \<Rightarrow> u8" where
  "next_seq n = (n + 1) mod 64"

definition abort_command :: "u8 \<Rightarrow> u32 \<Rightarrow> SdoCommand" where
  "abort_command tid abort_code =
     \<lparr> sc_header = \<lparr> transaction_id = tid, is_response = True, is_aborted = True,
         segmentation = Expedited, command_id = CmdNil, segment_size = 4 \<rparr>,
       sc_data_size = None, sc_payload = le32 abort_code \<rparr>"

definition seq_abort :: "SdoSequenceHandler \<Rightarrow> u8 \<Rightarrow> u32 \<Rightarrow> SdoCommand \<times> SdoSequenceHandler" where
  "seq_abort h tid abort_code = (abort_command tid abort_code, seq_reset h)"

definition default_header :: CommandLayerHeader where
  "default_header = \<lparr> transaction_id = 0, is_response = False, is_aborted = False,
     segmentation = Expedited, command_id = CmdNil, segment_size = 0 \<rparr>"

subsection \<open>Command handlers\<close>

text \<open>The payload is sent in one frame if it is small enough, otherwise the first segment of an
  upload is sent and the state of the transfer kept.\<close>

definition new_upload :: "u8 \<Rightarrow> u16 \<Rightarrow> u8 \<Rightarrow> bytes \<Rightarrow> SdoTransferState" where
  "new_upload tid index sub_index payload =
     \<lparr> ts_transaction_id = tid, ts_total_size = length payload, ts_data_buffer = payload,
       ts_offset = 0, ts_index = index, ts_sub_index = sub_index, ts_deadline_us = None,
       ts_retransmissions_left = 0, ts_last_sent_segment = None \<rparr>"

definition respond_payload ::
  "SdoSequenceHandler \<Rightarrow> SdoCommand \<Rightarrow> CommandLayerHeader \<Rightarrow> 's ObjectDictionary \<Rightarrow> u64 \<Rightarrow>
     u16 \<Rightarrow> u8 \<Rightarrow> bytes \<Rightarrow> SdoCommand \<times> SdoSequenceHandler" where
  "respond_payload h command response_header od current_time_us index sub_index payload =
     (if length payload \<le> MAX_EXPEDITED_PAYLOAD
      then (\<lparr> sc_header = response_header\<lparr> segment_size := of_nat (length payload) \<rparr>,
              sc_data_size = None, sc_payload = payload \<rparr>, h)
      else
        let transfer_state = new_upload (transaction_id (sc_header command)) index sub_index payload;
            ((response_command, is_last), transfer_state) =
              get_next_upload_segment transfer_state od current_time_us
        in (response_command,
            if \<not> is_last then h\<lparr> sh_state := SegmentedUpload transfer_state \<rparr> else h))"

definition handle_read_by_index ::
  "SdoSequenceHandler \<Rightarrow> SdoCommand \<Rightarrow> CommandLayerHeader \<Rightarrow> 's ObjectDictionary \<Rightarrow> u64 \<Rightarrow>
     SdoCommand \<times> SdoSequenceHandler" where
  "handle_read_by_index h command response_header od current_time_us =
     (let tid = transaction_id (sc_header command)
      in case ReadByIndexRequest_from_payload (sc_payload command) of
           Inr req \<Rightarrow>
             (case od_read od (rbi_index req) (rbi_sub_index req) of
                Some v \<Rightarrow>
                  respond_payload h command response_header od current_time_us
                    (rbi_index req) (rbi_sub_index req) (value_serialize v)
              | None \<Rightarrow>
                  if read_object od (rbi_index req) = None then seq_abort h tid 0x06020000
                  else seq_abort h tid 0x06090011)
         | Inl SdoInvalidCommandPayload \<Rightarrow> seq_abort h tid 0x05040001
         | Inl _ \<Rightarrow> seq_abort h tid 0x08000000)"

definition ack_command :: "CommandLayerHeader \<Rightarrow> SdoCommand" where
  "ack_command response_header =
     \<lparr> sc_header = response_header, sc_data_size = None, sc_payload = [] \<rparr>"

definition write_expedited ::
  "SdoSequenceHandler \<Rightarrow> SdoCommand \<Rightarrow> CommandLayerHeader \<Rightarrow> 's ObjectDictionary \<Rightarrow>
     SdoCommand \<times> SdoSequenceHandler \<times> 's ObjectDictionary" where
  "write_expedited h command response_header od =
     (let tid = transaction_id (sc_header command)
      in case WriteByIndexRequest_from_payload (sc_payload command) of
           Inr req \<Rightarrow>
             let st = \<lparr> ts_transaction_id = tid, ts_total_size = length (wbi_data req),
                        ts_data_buffer = wbi_data req, ts_offset = length (wbi_data req),
                        ts_index = wbi_index req, ts_sub_index = wbi_sub_index req,
                        ts_deadline_us = None, ts_retransmissions_left = 0,
                        ts_last_sent_segment = None \<rparr>
             in (case perform_od_write st od of
                   (Inr _, od) \<Rightarrow> (ack_command response_header, h, od)
                 | (Inl abort_code, od) \<Rightarrow>
                     let (c, h) = seq_abort h tid abort_code in (c, h, od))
         | Inl e \<Rightarrow>
             let (c, h) = seq_abort h tid (if e = SdoInvalidCommandPayload then 0x05040001 else 0x08000000)
             in (c, h, od))"

definition write_initiate ::
  "SdoSequenceHandler \<Rightarrow> SdoCommand \<Rightarrow> CommandLayerHeader \<Rightarrow> 's ObjectDictionary \<Rightarrow> u64 \<Rightarrow>
     SdoCommand \<times> SdoSequenceHandler" where
  "write_initiate h command response_header od current_time_us =
     (let tid = transaction_id (sc_header command)
      in case WriteByIndexRequest_from_payload (sc_payload command) of
           Inr req \<Rightarrow>
             let total_size = unat (unwrap_or (sc_data_size command) 0)
             in if total_size = 0 then seq_abort h tid 0x06070010
                else
                  (ack_command response_header,
                   h\<lparr> sh_state := SegmentedDownload
                      \<lparr> ts_transaction_id = tid, ts_total_size = total_size,
                        ts_data_buffer = wbi_data req, ts_offset = length (wbi_data req),
                        ts_index = wbi_index req, ts_sub_index = wbi_sub_index req,
                        ts_deadline_us = Some (sdo_deadline od current_time_us),
                        ts_retransmissions_left = 0, ts_last_sent_segment = None \<rparr> \<rparr>)
         | Inl e \<Rightarrow> seq_abort h tid (if e = SdoInvalidCommandPayload then 0x05040001 else 0x08000000))"

definition write_segment ::
  "SdoSequenceHandler \<Rightarrow> SdoCommand \<Rightarrow> CommandLayerHeader \<Rightarrow> 's ObjectDictionary \<Rightarrow> u64 \<Rightarrow>
     SdoCommand \<times> SdoSequenceHandler \<times> 's ObjectDictionary" where
  "write_segment h command response_header od current_time_us =
     (let tid = transaction_id (sc_header command)
      in case sh_state h of
           SegmentedDownload transfer_state \<Rightarrow>
             if ts_transaction_id transfer_state \<noteq> tid
             then (let (c, h) = seq_abort h tid 0x08000000 in (c, h, od))
             else
               (case process_download_segment transfer_state command od current_time_us of
                  (Inr True, st, od) \<Rightarrow>
                    (ack_command response_header, h\<lparr> sh_state := Established \<rparr>, od)
                | (Inr False, st, od) \<Rightarrow>
                    (ack_command response_header, h\<lparr> sh_state := SegmentedDownload st \<rparr>, od)
                | (Inl abort_code, st, od) \<Rightarrow>
                    let (c, h) = seq_abort (h\<lparr> sh_state := Established \<rparr>) tid abort_code in (c, h, od))
         | _ \<Rightarrow>
             let (c, h) = seq_abort (h\<lparr> sh_state := Established \<rparr>) tid 0x05040003 in (c, h, od))"

definition handle_write_by_index ::
  "SdoSequenceHandler \<Rightarrow> SdoCommand \<Rightarrow> CommandLayerHeader \<Rightarrow> 's ObjectDictionary \<Rightarrow> u64 \<Rightarrow>
     SdoCommand \<times> SdoSequenceHandler \<times> 's ObjectDictionary" where
  "handle_write_by_index h command response_header od current_time_us =
     (case segmentation (sc_header command) of
        Expedited \<Rightarrow> write_expedited h command response_header od
      | Initiate \<Rightarrow>
          let (c, h) = write_initiate h command response_header od current_time_us in (c, h, od)
      | Segment \<Rightarrow> write_segment h command response_header od current_time_us
      | Complete \<Rightarrow> write_segment h command response_header od current_time_us)"

definition handle_read_by_name ::
  "SdoSequenceHandler \<Rightarrow> SdoCommand \<Rightarrow> CommandLayerHeader \<Rightarrow> 's ObjectDictionary \<Rightarrow> u64 \<Rightarrow>
     SdoCommand \<times> SdoSequenceHandler" where
  "handle_read_by_name h command response_header od current_time_us =
     (let tid = transaction_id (sc_header command)
      in case ReadByNameRequest_from_payload (sc_payload command) of
           Inr name \<Rightarrow>
             (case find_by_name od name of
                Some (index, sub_index) \<Rightarrow>
                  handle_read_by_index h
                    (command\<lparr> sc_payload := le16 index @ [sub_index] @ [0],
                              sc_header := (sc_header command)\<lparr> segment_size := 4 \<rparr> \<rparr>)
                    response_header od current_time_us
              | None \<Rightarrow> seq_abort h tid 0x060A0023)
         | Inl e \<Rightarrow> seq_abort h tid (if e = SdoInvalidCommandPayload then 0x05040001 else 0x08000000))"

definition handle_write_by_name ::
  "SdoSequenceHandler \<Rightarrow> SdoCommand \<Rightarrow> CommandLayerHeader \<Rightarrow> 's ObjectDictionary \<Rightarrow> u64 \<Rightarrow>
     SdoCommand \<times> SdoSequenceHandler \<times> 's ObjectDictionary" where
  "handle_write_by_name h command response_header od current_time_us =
     (let tid = transaction_id (sc_header command)
      in case WriteByNameRequest_from_payload (sc_payload command) of
           Inr req \<Rightarrow>
             (case find_by_name od (wbn_name req) of
                Some (index, sub_index) \<Rightarrow>
                  let new_payload = le16 index @ [sub_index] @ [0] @ wbn_data req
                  in handle_write_by_index h
                       (command\<lparr> sc_payload := new_payload,
                                 sc_header := (sc_header command)\<lparr> segment_size := of_nat (length new_payload) \<rparr> \<rparr>)
                       response_header od current_time_us
              | None \<Rightarrow> let (c, h) = seq_abort h tid 0x060A0023 in (c, h, od))
         | Inl e \<Rightarrow>
             let (c, h) = seq_abort h tid (if e = SdoInvalidCommandPayload then 0x05040001 else 0x08000000)
             in (c, h, od))"

text \<open>The values of the sub-indices from 1 on; \<open>None\<close> when one of them cannot be read.\<close>

fun read_all :: "'s ObjectDictionary \<Rightarrow> u16 \<Rightarrow> nat list \<Rightarrow> bytes \<Rightarrow> bytes option" where
  "read_all od index [] payload = Some payload"
| "read_all od index (i # is) payload =
     (case od_read od index (of_nat (i + 1)) of
        Some v \<Rightarrow> read_all od index is (payload @ value_serialize v)
      | None \<Rightarrow> None)"

definition handle_read_all_by_index ::
  "SdoSequenceHandler \<Rightarrow> SdoCommand \<Rightarrow> CommandLayerHeader \<Rightarrow> 's ObjectDictionary \<Rightarrow> u64 \<Rightarrow>
     SdoCommand \<times> SdoSequenceHandler" where
  "handle_read_all_by_index h command response_header od current_time_us =
     (let tid = transaction_id (sc_header command)
      in if length (sc_payload command) < 2 then seq_abort h tid 0x05040001
         else
           let index = from_le (sub_slice 0 2 (sc_payload command));
               respond = (\<lambda>sub_indices.
                 case read_all od index [0..<length sub_indices] [] of
                   Some payload \<Rightarrow>
                     respond_payload h command response_header od current_time_us index 0 payload
                 | None \<Rightarrow> seq_abort h tid 0x06090011)
           in case read_object od index of
                Some (Record sub_indices) \<Rightarrow> respond sub_indices
              | Some (Array sub_indices) \<Rightarrow> respond sub_indices
              | Some (Variable _) \<Rightarrow> seq_abort h tid 0x06090030
              | None \<Rightarrow> seq_abort h tid 0x06020000)"

definition pad4 :: "bytes \<Rightarrow> bytes" where
  "pad4 bs = bs @ replicate ((4 - length bs mod 4) mod 4) 0"

fun read_multiple :: "'s ObjectDictionary \<Rightarrow> MultipleParamEntry list \<Rightarrow> bytes \<Rightarrow> u32 + bytes" where
  "read_multiple od [] payload = Inr payload"
| "read_multiple od (e # es) payload =
     (case od_read od (mp_index e) (mp_sub_index e) of
        Some v \<Rightarrow>
          let data = value_serialize v
          in read_multiple od es (pad4 (payload @ [0, 0] @ le16 (of_nat (length data)) @ data))
      | None \<Rightarrow>
          Inl (if read_object od (mp_index e) = None then 0x06020000 else 0x06090011))"

definition handle_read_multiple_params ::
  "SdoSequenceHandler \<Rightarrow> SdoCommand \<Rightarrow> CommandLayerHeader \<Rightarrow> 's ObjectDictionary \<Rightarrow> u64 \<Rightarrow>
     SdoCommand \<times> SdoSequenceHandler" where
  "handle_read_multiple_params h command response_header od current_time_us =
     (let tid = transaction_id (sc_header command)
      in case ReadMultipleParamRequest_from_payload (sc_payload command) of
           Inr es \<Rightarrow>
             (case read_multiple od es [] of
                Inr payload \<Rightarrow>
                  respond_payload h command response_header od current_time_us 0 0
                    (le32 (of_nat (length es)) @ payload)
              | Inl abort_code \<Rightarrow> seq_abort h tid abort_code)
         | Inl e \<Rightarrow> seq_abort h tid (if e = SdoInvalidCommandPayload then 0x05040001 else 0x08000000))"

definition handle_max_segment_size :: "SdoCommand \<Rightarrow> CommandLayerHeader \<Rightarrow> SdoCommand" where
  "handle_max_segment_size command response_header =
     (let max_size_server = of_nat MAX_EXPEDITED_PAYLOAD :: u16;
          max_size_client = (if length (sc_payload command) \<ge> 2
                             then from_le (sub_slice 0 2 (sc_payload command)) else 0 :: u16)
      in \<lparr> sc_header = response_header\<lparr> segment_size := 4 \<rparr>, sc_data_size = None,
           sc_payload = le16 max_size_client @ le16 max_size_server \<rparr>)"

subsection \<open>Optional commands\<close>

text \<open>The trait \<^verbatim>\<open>SdoCommandHandler\<close>: the application's handlers of the optional commands, with a
  state of their own.\<close>

type_synonym ('h, 's) command_method =
  "'h \<Rightarrow> SdoCommand \<Rightarrow> 's ObjectDictionary \<Rightarrow> SdoCommand \<times> 'h \<times> 's ObjectDictionary"

record ('h, 's) SdoCommandHandler =
  ch_write_all_by_index :: "('h, 's) command_method"
  ch_write_multiple_params :: "('h, 's) command_method"
  ch_file_read :: "('h, 's) command_method"
  ch_file_write :: "('h, 's) command_method"

definition abort_unsupported :: "(unit, 's) command_method" where
  "abort_unsupported ch command od =
     (abort_command (transaction_id (sc_header command)) 0x06010001, ch, od)"

definition DefaultSdoHandler :: "(unit, 's) SdoCommandHandler" where
  "DefaultSdoHandler =
     \<lparr> ch_write_all_by_index = abort_unsupported, ch_write_multiple_params = abort_unsupported,
       ch_file_read = abort_unsupported, ch_file_write = abort_unsupported \<rparr>"

subsection \<open>The sequence layer\<close>

definition mk_seq :: "u8 \<Rightarrow> ReceiveConnState \<Rightarrow> u8 \<Rightarrow> SendConnState \<Rightarrow> SequenceLayerHeader" where
  "mk_seq rsnr rcon ssnr scon =
     \<lparr> receive_sequence_number = rsnr, receive_con = rcon, send_sequence_number = ssnr, send_con = scon \<rparr>"

definition acknowledge_upload :: "u8 \<Rightarrow> u8 \<Rightarrow> SdoServerState \<Rightarrow> SdoServerState" where
  "acknowledge_upload acked sent state =
     (case state of
        SegmentedUpload st \<Rightarrow>
          if acked = sent
          then SegmentedUpload (st\<lparr> ts_deadline_us := None, ts_last_sent_segment := None,
                                    ts_retransmissions_left := 0 \<rparr>)
          else SegmentedUpload st
      | _ \<Rightarrow> state)"

definition process_sequence_layer ::
  "SdoSequenceHandler \<Rightarrow> SequenceLayerHeader \<Rightarrow> SequenceLayerHeader result \<times> SdoSequenceHandler" where
  "process_sequence_layer h request =
     (let ssnr = sh_send_sequence_number h;
          last = sh_last_received_sequence_number h
      in case sh_state h of
           Closed \<Rightarrow>
             if send_con request = SendConnState.Initialization
             then (Inr (mk_seq (send_sequence_number request) ReceiveConnState.Initialization 0
                          SendConnState.Initialization),
                   h\<lparr> sh_state := Opening, sh_send_sequence_number := 0,
                      sh_last_received_sequence_number := send_sequence_number request \<rparr>)
             else (Inr (mk_seq (send_sequence_number request) ReceiveConnState.NoConnection ssnr
                          SendConnState.NoConnection), h)
         | Opening \<Rightarrow>
             if send_con request = SendConnState.ConnectionValid \<and> receive_sequence_number request = ssnr
             then (Inr (mk_seq (send_sequence_number request) ReceiveConnState.ConnectionValid
                          (next_seq ssnr) SendConnState.ConnectionValid),
                   h\<lparr> sh_state := Established,
                      sh_last_received_sequence_number := send_sequence_number request,
                      sh_send_sequence_number := next_seq ssnr \<rparr>)
             else (Inl (SdoSequenceError ''Invalid sequence state during SDO opening.''),
                   h\<lparr> sh_state := Closed \<rparr>)
         | _ \<Rightarrow>
             let expected_seq = next_seq last
             in if send_sequence_number request = last
                then (Inr (mk_seq last ReceiveConnState.ConnectionValid ssnr SendConnState.ConnectionValid), h)
                else if send_sequence_number request \<noteq> expected_seq
                then (Inl (SdoSequenceError ''SDO sequence number mismatch.''), h)
                else
                  let state = acknowledge_upload (receive_sequence_number request) ssnr (sh_state h);
                      h = h\<lparr> sh_last_received_sequence_number := send_sequence_number request,
                             sh_state := state, sh_send_sequence_number := next_seq ssnr \<rparr>;
                      scon = (case state of
                                SegmentedUpload st \<Rightarrow>
                                  if ts_offset st = 0 then ConnectionValidAckRequest
                                  else SendConnState.ConnectionValid
                              | _ \<Rightarrow> SendConnState.ConnectionValid)
                  in (Inr (mk_seq (send_sequence_number request) ReceiveConnState.ConnectionValid
                             (next_seq ssnr) scon), h))"

text \<open>The empty command with which the server marks a transfer aborted by the client.\<close>

definition aborted_marker :: SdoCommand where
  "aborted_marker =
     \<lparr> sc_header = default_header\<lparr> is_aborted := True \<rparr>, sc_data_size = None, sc_payload = [] \<rparr>"

definition dispatch_command ::
  "('h, 's) SdoCommandHandler \<Rightarrow> SdoSequenceHandler \<Rightarrow> SdoCommand \<Rightarrow> 's ObjectDictionary \<Rightarrow> u64 \<Rightarrow> 'h \<Rightarrow>
     SdoCommand \<times> SdoSequenceHandler \<times> 's ObjectDictionary \<times> 'h" where
  "dispatch_command chs h command od current_time_us ch =
     (let tid = transaction_id (sc_header command);
          response_header = default_header\<lparr> transaction_id := tid, is_response := True \<rparr>;
          reading = (\<lambda>(c, h). (c, h, od, ch));
          writing = (\<lambda>(c, h, od). (c, h, od, ch));
          optional = (\<lambda>(c, ch, od). (c, h, od, ch))
      in case command_id (sc_header command) of
           ReadByIndex \<Rightarrow> reading (handle_read_by_index h command response_header od current_time_us)
         | WriteByIndex \<Rightarrow> writing (handle_write_by_index h command response_header od current_time_us)
         | ReadByName \<Rightarrow> reading (handle_read_by_name h command response_header od current_time_us)
         | WriteByName \<Rightarrow> writing (handle_write_by_name h command response_header od current_time_us)
         | ReadAllByIndex \<Rightarrow> reading (handle_read_all_by_index h command response_header od current_time_us)
         | ReadMultipleParamByIndex \<Rightarrow>
             reading (handle_read_multiple_params h command response_header od current_time_us)
         | MaxSegmentSize \<Rightarrow> (handle_max_segment_size command response_header, h, od, ch)
         | WriteAllByIndex \<Rightarrow> optional (ch_write_all_by_index chs ch command od)
         | WriteMultipleParamByIndex \<Rightarrow> optional (ch_write_multiple_params chs ch command od)
         | FileRead \<Rightarrow> optional (ch_file_read chs ch command od)
         | FileWrite \<Rightarrow> optional (ch_file_write chs ch command od)
         | CmdNil \<Rightarrow> (ack_command response_header, h, od, ch)
         | Abort \<Rightarrow> reading (seq_abort h tid 0x05040001))"

definition process_command_layer ::
  "('h, 's) SdoCommandHandler \<Rightarrow> SdoSequenceHandler \<Rightarrow> SdoCommand \<Rightarrow> 's ObjectDictionary \<Rightarrow> u64 \<Rightarrow> 'h \<Rightarrow>
     SdoCommand \<times> SdoSequenceHandler \<times> 's ObjectDictionary \<times> 'h" where
  "process_command_layer chs h command od current_time_us ch =
     (let tid = transaction_id (sc_header command);
          aborted = is_aborted (sc_header command);
          normal = (if aborted then (aborted_marker, h\<lparr> sh_state := Established \<rparr>, od, ch)
                    else dispatch_command chs h command od current_time_us ch)
      in case sh_state h of
           SegmentedUpload st \<Rightarrow>
             if ts_transaction_id st = tid \<and> \<not> aborted then
               if command_id (sc_header command) = CmdNil \<or> is_response (sc_header command) then
                 (let ((response_command, is_last), st) = get_next_upload_segment st od current_time_us
                  in (response_command,
                      h\<lparr> sh_state := (if \<not> is_last then SegmentedUpload st else Established) \<rparr>, od, ch))
               else (let (c, h) = seq_abort h tid 0x05040003 in (c, h, od, ch))
             else if aborted then (aborted_marker, h\<lparr> sh_state := Established \<rparr>, od, ch)
             else (let (c, h) = seq_abort h tid 0x08000000 in (c, h, od, ch))
         | _ \<Rightarrow> normal)"

subsection \<open>Requests of one connection\<close>

definition response_data :: "SdoSequenceHandler \<Rightarrow> SequenceLayerHeader \<Rightarrow> SdoCommand \<Rightarrow> SdoResponseData" where
  "response_data h seq_header command =
     \<lparr> rd_client_info = sh_client_info h, rd_seq_header = seq_header, rd_command = command \<rparr>"

text \<open>The branch of \<^verbatim>\<open>handle_request\<close> for a client that asks for a retransmission.\<close>

definition handle_error_response ::
  "SdoSequenceHandler \<Rightarrow> SequenceLayerHeader \<Rightarrow> SdoResponseData result \<times> SdoSequenceHandler" where
  "handle_error_response h sequence_header =
     (case (case sh_state h of SegmentedUpload st \<Rightarrow> ts_last_sent_segment st | _ \<Rightarrow> None) of
        Some last_command \<Rightarrow>
          (Inr (response_data h
             (mk_seq (send_sequence_number sequence_header) ReceiveConnState.ConnectionValid
                (sh_send_sequence_number h) ConnectionValidAckRequest) last_command), h)
      | None \<Rightarrow>
          (case process_sequence_layer h sequence_header of
             (Inl e, h) \<Rightarrow> (Inl e, h)
           | (Inr ack_header, h) \<Rightarrow>
               (Inr (response_data h ack_header
                  \<lparr> sc_header = default_header, sc_data_size = None, sc_payload = [] \<rparr>), h)))"

text \<open>The branch for a request without a command: the handshake, or an acknowledgement, which
  moves a segmented upload on.\<close>

definition handle_empty_request ::
  "SdoSequenceHandler \<Rightarrow> SequenceLayerHeader \<Rightarrow> SequenceLayerHeader \<Rightarrow> 's ObjectDictionary \<Rightarrow> u64 \<Rightarrow>
     SdoResponseData result \<times> SdoSequenceHandler" where
  "handle_empty_request h sequence_header response_header od current_time_us =
     (let is_init_handshake = (sh_state h = Opening);
          is_ack = (send_con sequence_header = SendConnState.ConnectionValid);
          response_header =
            response_header\<lparr> receive_sequence_number := sh_last_received_sequence_number h \<rparr>
      in if is_init_handshake \<or> is_ack then
           (case sh_state h of
              SegmentedUpload st \<Rightarrow>
                (let ((response_command, is_last), st) = get_next_upload_segment st od current_time_us
                 in (Inr (response_data h response_header response_command),
                     h\<lparr> sh_state := (if \<not> is_last then SegmentedUpload st else Closed) \<rparr>))
            | state \<Rightarrow>
                (Inr (response_data h response_header
                   (ack_command (default_header\<lparr> transaction_id := 0, is_response := True \<rparr>))),
                 if \<not> is_init_handshake \<and> state = Established then h\<lparr> sh_state := Closed \<rparr> else h))
         else (Inl SdoInvalidCommandPayload, h))"

definition ends_transfer :: "SdoCommand \<Rightarrow> bool" where
  "ends_transfer c \<longleftrightarrow> segmentation (sc_header c) = Expedited \<or> segmentation (sc_header c) = Complete \<or>
     is_aborted (sc_header c)"

definition handle_command ::
  "('h, 's) SdoCommandHandler \<Rightarrow> SdoSequenceHandler \<Rightarrow> SequenceLayerHeader \<Rightarrow> bytes \<Rightarrow>
     's ObjectDictionary \<Rightarrow> u64 \<Rightarrow> 'h \<Rightarrow> SdoResponseData \<times> SdoSequenceHandler \<times> 's ObjectDictionary \<times> 'h" where
  "handle_command chs h response_header command_payload od current_time_us ch =
     (case SdoCommand_deserialize command_payload of
        Inr sdo_command \<Rightarrow>
          let (response_command, h, od, ch) = process_command_layer chs h sdo_command od current_time_us ch;
              response_header =
                response_header\<lparr> receive_sequence_number := sh_last_received_sequence_number h \<rparr>;
              h = (if sh_state h \<noteq> Opening \<and> ends_transfer response_command
                   then h\<lparr> sh_state := Closed \<rparr> else h);
              response_header =
                (if is_aborted (sc_header response_command)
                 then response_header\<lparr> send_con := SendConnState.NoConnection \<rparr> else response_header)
          in (response_data h response_header response_command, h, od, ch)
      | Inl e \<Rightarrow>
          let tid = (case command_payload of [] \<Rightarrow> 0 | flags # _ \<Rightarrow> flags AND 0x0F);
              (c, h) = seq_abort h tid 0x05040001;
              response_header =
                response_header\<lparr> receive_sequence_number := sh_last_received_sequence_number h,
                                 send_con := SendConnState.NoConnection \<rparr>
          in (response_data h response_header c, h, od, ch))"

definition seq_handle_request ::
  "('h, 's) SdoCommandHandler \<Rightarrow> SdoSequenceHandler \<Rightarrow> bytes \<Rightarrow> 's ObjectDictionary \<Rightarrow> u64 \<Rightarrow> 'h \<Rightarrow>
     SdoResponseData result \<times> SdoSequenceHandler \<times> 's ObjectDictionary \<times> 'h" where
  "seq_handle_request chs h request od current_time_us ch =
     (if length request < 4 then (Inl BufferTooShort, h, od, ch)
      else
        case SequenceLayerHeader_deserialize (sub_slice 0 4 request) of
          Inl e \<Rightarrow> (Inl e, h, od, ch)
        | Inr sequence_header \<Rightarrow>
            let command_payload = drop 4 request
            in if receive_con sequence_header = ErrorResponse
               then (let (r, h) = handle_error_response h sequence_header in (r, h, od, ch))
               else
                 case process_sequence_layer h sequence_header of
                   (Inl e, h) \<Rightarrow> (Inl e, h, od, ch)
                 | (Inr response_header, h) \<Rightarrow>
                     if command_payload = []
                     then (let (r, h) = handle_empty_request h sequence_header response_header od current_time_us
                           in (r, h, od, ch))
                     else (let (r, h, od, ch) =
                                 handle_command chs h response_header command_payload od current_time_us ch
                           in (Inr r, h, od, ch)))"

definition seq_tick ::
  "SdoSequenceHandler \<Rightarrow> u64 \<Rightarrow> 's ObjectDictionary \<Rightarrow>
     SdoResponseData option result \<times> SdoSequenceHandler" where
  "seq_tick h current_time_us od =
     (let time_out = (\<lambda>h tid.
            let (c, h) = seq_abort h tid 0x05040000
            in (Inr (Some (response_data h (mk_seq (sh_last_received_sequence_number h)
                  ReceiveConnState.ConnectionValid (sh_send_sequence_number h) SendConnState.NoConnection) c)), h))
      in case sh_state h of
           SegmentedUpload st \<Rightarrow>
             (case ts_deadline_us st of
                Some deadline \<Rightarrow>
                  if current_time_us \<ge> deadline then
                    if ts_retransmissions_left st > 0 then
                      (let st = st\<lparr> ts_retransmissions_left := ts_retransmissions_left st - 1,
                                    ts_deadline_us := Some (sdo_deadline od current_time_us) \<rparr>;
                           h = h\<lparr> sh_state := SegmentedUpload st \<rparr>
                       in case ts_last_sent_segment st of
                            Some last_command \<Rightarrow>
                              (Inr (Some (response_data h (mk_seq (sh_last_received_sequence_number h)
                                 ReceiveConnState.ConnectionValid (sh_send_sequence_number h)
                                 ConnectionValidAckRequest) last_command)), h)
                          | None \<Rightarrow>
                              (Inl (InternalError ''Missing last sent segment during retransmission''), h))
                    else time_out h (ts_transaction_id st)
                  else (Inr None, h)
              | None \<Rightarrow> (Inr None, h))
         | SegmentedDownload st \<Rightarrow>
             (case ts_deadline_us st of
                Some deadline \<Rightarrow>
                  if current_time_us \<ge> deadline then time_out h (ts_transaction_id st) else (Inr None, h)
              | None \<Rightarrow> (Inr None, h))
         | _ \<Rightarrow> (Inr None, h))"

subsection \<open>The server\<close>

type_synonym connections = "(SdoClientInfo, SdoSequenceHandler) btree"

record ('h, 's) SdoServer =
  srv_connections :: connections
  srv_ops :: "('h, 's) SdoCommandHandler"
  srv_handler :: 'h

definition SdoServer_with_handler :: "('h, 's) SdoCommandHandler \<Rightarrow> 'h \<Rightarrow> ('h, 's) SdoServer" where
  "SdoServer_with_handler chs ch = \<lparr> srv_connections = [], srv_ops = chs, srv_handler = ch \<rparr>"

definition SdoServer_new :: "(unit, 's) SdoServer" where
  "SdoServer_new = SdoServer_with_handler DefaultSdoHandler ()"

definition handler_deadline :: "SdoSequenceHandler \<Rightarrow> u64 option" where
  "handler_deadline h =
     (case sh_state h of
        SegmentedUpload st \<Rightarrow> ts_deadline_us st
      | SegmentedDownload st \<Rightarrow> ts_deadline_us st
      | _ \<Rightarrow> None)"

definition next_action_time :: "('h, 's) SdoServer \<Rightarrow> u64 option" where
  "next_action_time s =
     (case List.map_filter handler_deadline (map snd (srv_connections s)) of
        [] \<Rightarrow> None
      | d # ds \<Rightarrow> Some (fold min ds d))"

text \<open>The loop of \<^verbatim>\<open>tick\<close>: connections in their order, at most one response, the clients to prune.
  An error stops it.\<close>

fun tick_all ::
  "u64 \<Rightarrow> 's ObjectDictionary \<Rightarrow> SdoResponseData option \<Rightarrow> connections \<Rightarrow>
     (SdoResponseData option \<times> SdoClientInfo list) result \<times> connections" where
  "tick_all now od resp [] = (Inr (resp, []), [])"
| "tick_all now od resp ((k, h) # cs) =
     (case (if resp = None then seq_tick h now od else (Inr resp, h)) of
        (Inl e, h) \<Rightarrow> (Inl e, (k, h) # cs)
      | (Inr resp, h) \<Rightarrow>
          (case tick_all now od resp cs of
             (Inl e, cs) \<Rightarrow> (Inl e, (k, h) # cs)
           | (Inr (resp, prune), cs) \<Rightarrow>
               (Inr (resp, if is_closed h then k # prune else prune), (k, h) # cs)))"

definition server_tick ::
  "('h, 's) SdoServer \<Rightarrow> u64 \<Rightarrow> 's ObjectDictionary \<Rightarrow>
     SdoResponseData option result \<times> ('h, 's) SdoServer" where
  "server_tick s now od =
     (case tick_all now od None (srv_connections s) of
        (Inl e, cs) \<Rightarrow> (Inl e, s\<lparr> srv_connections := cs \<rparr>)
      | (Inr (resp, prune), cs) \<Rightarrow> (Inr resp, s\<lparr> srv_connections := fold bt_remove prune cs \<rparr>))"

definition server_handle_request ::
  "('h, 's) SdoServer \<Rightarrow> bytes \<Rightarrow> SdoClientInfo \<Rightarrow> 's ObjectDictionary \<Rightarrow> u64 \<Rightarrow>
     SdoResponseData result \<times> ('h, 's) SdoServer \<times> 's ObjectDictionary" where
  "server_handle_request s request client_info od current_time_us =
     (if length request < 4 then (Inl BufferTooShort, s, od)
      else
        let h = unwrap_or (bt_get (srv_connections s) client_info) (SdoSequenceHandler_new client_info);
            (r, h, od, ch) = seq_handle_request (srv_ops s) h request od current_time_us (srv_handler s);
            conns = bt_insert client_info h (srv_connections s);
            conns = (case r of
                       Inl e \<Rightarrow> conns
                     | Inr _ \<Rightarrow> if is_closed h then bt_remove client_info conns else conns)
        in (r, s\<lparr> srv_connections := conns, srv_handler := ch \<rparr>, od))"

subsection \<open>Transports\<close>

text \<open>\<^verbatim>\<open>sdo/transport.rs\<close>. Of the node's context the ASnd transport uses the MAC address, the node id
  and the kind of node.\<close>

definition AsndTransport_build_response ::
  "bytes \<Rightarrow> NodeId \<Rightarrow> bool \<Rightarrow> SdoResponseData \<Rightarrow> NodeAction result" where
  "AsndTransport_build_response mac_address node_id is_cn data =
     (case rd_client_info data of
        AsndClient client_id client_mac \<Rightarrow>
          rbind (serialize_sdo_asnd_payload (rd_seq_header data) (rd_command data)) (\<lambda>sdo_payload.
            serialize_frame_action
              (FASnd (ASndFrame_new mac_address client_mac client_id node_id Sdo sdo_payload)) is_cn)
      | UdpClient _ _ \<Rightarrow> Inl (InternalError ''Attempted to build ASnd response for UDP client''))"

definition UdpTransport_build_response :: "SdoResponseData \<Rightarrow> NodeAction result" where
  "UdpTransport_build_response data =
     (case rd_client_info data of
        UdpClient ip port \<Rightarrow>
          let (r, udp_buffer) =
                serialize_sdo_udp_payload (rd_seq_header data) (rd_command data) (replicate 1500 0)
          in rbind r (\<lambda>udp_payload_len. Inr (SendUdp ip port (take udp_payload_len udp_buffer)))
      | AsndClient _ _ \<Rightarrow> Inl (InternalError ''Attempted to build UDP response for ASnd client''))"

end
