(* ===== verification/Sdo_Server_Props.thy ===== *)
theory Sdo_Server_Props
  imports Sdo_Server
begin

section \<open>Correctness of the SDO server\<close>

text \<open>
  What the server keeps between requests (sequence numbers in range, transfers inside their
  buffers), that every response can be sent, that uploads deliver the data, that the dictionary is
  changed by the public write only, and that a value written by a client is read back.
\<close>

subsection \<open>Well-formed responses\<close>

definition response_ok :: "SdoCommand \<Rightarrow> bool" where
  "response_ok c \<longleftrightarrow> wf_command c \<and> length (sc_payload c) \<le> MAX_EXPEDITED_PAYLOAD"

lemma unat_of_nat_small: "n < 2 ^ LENGTH('a) \<Longrightarrow> unat (of_nat n :: 'a::len word) = n"
  by (simp add: unat_of_nat take_bit_nat_eq_self)

lemma abort_command_ok [simp, intro]: "response_ok (abort_command tid code)"
  by (simp add: response_ok_def wf_command_def abort_command_def MAX_EXPEDITED_PAYLOAD_def)

lemma ack_command_ok:
  "segmentation rh \<noteq> Initiate \<Longrightarrow> segment_size rh = 0 \<Longrightarrow> response_ok (ack_command rh)"
  by (simp add: response_ok_def wf_command_def ack_command_def)

text \<open>A transfer to the client: what remains to be sent is a non-empty suffix of the buffer, and a
  deadline stands only while the last segment is kept for a retransmission.\<close>

definition upload_ok :: "SdoTransferState \<Rightarrow> bool" where
  "upload_ok st \<longleftrightarrow> ts_total_size st = length (ts_data_buffer st) \<and>
     0 < ts_offset st \<and> ts_offset st < ts_total_size st \<and>
     (ts_deadline_us st \<noteq> None \<longrightarrow> ts_last_sent_segment st \<noteq> None) \<and>
     pred_option response_ok (ts_last_sent_segment st)"

lemma next_upload_segment:
  assumes st: "ts_total_size st = length (ts_data_buffer st)" "ts_offset st < ts_total_size st"
    and start: "0 < ts_offset st \<or> MAX_EXPEDITED_PAYLOAD < ts_total_size st"
    and step: "get_next_upload_segment st od now = ((c, is_last), st')"
  shows "response_ok c" "\<not> is_aborted (sc_header c)"
    "sc_payload c = take MAX_EXPEDITED_PAYLOAD (drop (ts_offset st) (ts_data_buffer st))"
    "is_last \<longleftrightarrow> ts_total_size st \<le> ts_offset st + MAX_EXPEDITED_PAYLOAD"
    "segmentation (sc_header c) = (if is_last then Complete else if ts_offset st = 0 then Initiate else Segment)"
    "\<not> is_last \<Longrightarrow> upload_ok st' \<and> ts_offset st' = ts_offset st + MAX_EXPEDITED_PAYLOAD \<and>
      ts_data_buffer st' = ts_data_buffer st \<and> ts_transaction_id st' = ts_transaction_id st"
proof -
  let ?n = "min MAX_EXPEDITED_PAYLOAD (ts_total_size st - ts_offset st)"
  have len: "length (sub_slice (ts_offset st) (ts_offset st + ?n) (ts_data_buffer st)) = ?n"
    using st by simp
  have n: "unat (of_nat ?n :: u16) = ?n"
    by (rule unat_of_nat_small) (simp add: MAX_EXPEDITED_PAYLOAD_def)
  show c: "response_ok c"
    using step start len n
    by (auto simp: get_next_upload_segment_def Let_def response_ok_def wf_command_def
        split: if_splits)
  show "\<not> is_aborted (sc_header c)"
    using step by (auto simp: get_next_upload_segment_def Let_def split: if_splits)
  show "sc_payload c = take MAX_EXPEDITED_PAYLOAD (drop (ts_offset st) (ts_data_buffer st))"
    using step st(1) by (auto simp: get_next_upload_segment_def Let_def sub_slice_def min_def split: if_splits)
  show l: "is_last \<longleftrightarrow> ts_total_size st \<le> ts_offset st + MAX_EXPEDITED_PAYLOAD"
    using step st by (auto simp: get_next_upload_segment_def Let_def min_def split: if_splits)
  show "segmentation (sc_header c) = (if is_last then Complete else if ts_offset st = 0 then Initiate else Segment)"
    using step by (auto simp: get_next_upload_segment_def Let_def split: if_splits)
  show "upload_ok st' \<and> ts_offset st' = ts_offset st + MAX_EXPEDITED_PAYLOAD \<and>
      ts_data_buffer st' = ts_data_buffer st \<and> ts_transaction_id st' = ts_transaction_id st" if nl: "\<not> is_last"
  proof -
    have k: "ts_last_sent_segment st' = Some c" using step nl
      by (auto simp: get_next_upload_segment_def Let_def split: if_splits)
    have m: "?n = MAX_EXPEDITED_PAYLOAD" using nl l by simp
    have "ts_offset st' = ts_offset st + MAX_EXPEDITED_PAYLOAD"
      "ts_data_buffer st' = ts_data_buffer st" "ts_transaction_id st' = ts_transaction_id st"
      "ts_total_size st' = ts_total_size st"
      using step nl m by (auto simp: get_next_upload_segment_def Let_def split: if_splits)
    with k c nl l st show ?thesis by (simp add: upload_ok_def MAX_EXPEDITED_PAYLOAD_def)
  qed
qed

subsection \<open>The invariant of a connection\<close>

definition mid_ok :: "SdoSequenceHandler \<Rightarrow> bool" where
  "mid_ok h \<longleftrightarrow> sh_send_sequence_number h < 64 \<and> sh_last_received_sequence_number h < 64 \<and>
     (\<forall>st. sh_state h = SegmentedUpload st \<longrightarrow> upload_ok st)"

text \<open>Between two requests no connection is in a segmented download.\<close>

definition handler_ok :: "SdoSequenceHandler \<Rightarrow> bool" where
  "handler_ok h \<longleftrightarrow> mid_ok h \<and> (\<forall>st. sh_state h \<noteq> SegmentedDownload st)"

text \<open>What every command handler leaves: a response that can be sent, and a download only
  together with a response that ends the transfer.\<close>

definition result_ok :: "SdoCommand \<Rightarrow> SdoSequenceHandler \<Rightarrow> bool" where
  "result_ok c h \<longleftrightarrow> response_ok c \<and> mid_ok h \<and>
     (\<forall>st. sh_state h = SegmentedDownload st \<longrightarrow> ends_transfer c)"

lemma next_seq_lt [simp]: "next_seq n < 64"
  by (simp add: next_seq_def word_less_nat_alt unat_mod)

lemma mid_ok_new [simp]: "mid_ok (SdoSequenceHandler_new k)" "handler_ok (SdoSequenceHandler_new k)"
  by (simp_all add: handler_ok_def mid_ok_def SdoSequenceHandler_new_def)

lemma seq_reset_ok [simp]: "mid_ok (seq_reset h)" "sh_state (seq_reset h) = Closed"
  by (simp_all add: mid_ok_def seq_reset_def)

lemma seq_abort_ok: "seq_abort h tid code = (c, h') \<Longrightarrow> result_ok c h'"
  by (auto simp: seq_abort_def result_ok_def)

lemma mid_ok_state:
  "mid_ok h \<Longrightarrow> (\<And>st. s = SegmentedUpload st \<Longrightarrow> upload_ok st) \<Longrightarrow> mid_ok (h\<lparr> sh_state := s \<rparr>)"
  by (simp add: mid_ok_def)

lemma process_sequence_layer_ok:
  assumes "process_sequence_layer h rq = (r, h')" "handler_ok h" "wf_seq rq"
  shows "handler_ok h' \<and> (\<forall>rs. r = Inr rs \<longrightarrow> wf_seq rs)"
  using assms
  by (cases "sh_state h")
    (auto simp: process_sequence_layer_def Let_def handler_ok_def mid_ok_def wf_seq_def mk_seq_def
      acknowledge_upload_def upload_ok_def split: if_splits)

text \<open>The header that the command layer answers with.\<close>

definition plain_header :: "CommandLayerHeader \<Rightarrow> bool" where
  "plain_header rh \<longleftrightarrow> segmentation rh = Expedited \<and> segment_size rh = 0"

lemma ack_ok: "plain_header rh \<Longrightarrow> mid_ok h \<Longrightarrow> result_ok (ack_command rh) h"
  by (simp add: result_ok_def plain_header_def ack_command_ok ends_transfer_def)
    (simp add: ack_command_def)

lemma respond_payload_ok:
  assumes "respond_payload h command rh od now i s payload = (c, h')" "plain_header rh" "mid_ok h"
  shows "result_ok c h'"
proof (cases "length payload \<le> MAX_EXPEDITED_PAYLOAD")
  case True
  then have "unat (of_nat (length payload) :: u16) = length payload"
    by (intro unat_of_nat_small) (simp add: MAX_EXPEDITED_PAYLOAD_def)
  then show ?thesis using assms True
    by (auto simp: respond_payload_def result_ok_def response_ok_def wf_command_def plain_header_def
        ends_transfer_def)
next
  case False
  let ?st = "new_upload (transaction_id (sc_header command)) i s payload"
  obtain c' l st' where n: "get_next_upload_segment ?st od now = ((c', l), st')"
    by (metis prod.collapse)
  have st: "ts_total_size ?st = length (ts_data_buffer ?st)" "ts_offset ?st < ts_total_size ?st"
    "0 < ts_offset ?st \<or> MAX_EXPEDITED_PAYLOAD < ts_total_size ?st"
    using False by (auto simp: new_upload_def)
  have "\<not> l" using next_upload_segment(4) [OF st n] False by (simp add: new_upload_def)
  with next_upload_segment(1,6) [OF st n] have "response_ok c'" "\<not> l" "upload_ok st'"
    by auto
  then show ?thesis using assms False n
    by (auto simp: respond_payload_def result_ok_def mid_ok_def)
qed

lemma handle_read_by_index_ok:
  assumes "handle_read_by_index h command rh od now = (c, h')" "plain_header rh" "mid_ok h"
  shows "result_ok c h'"
  using assms
  by (auto simp: handle_read_by_index_def Let_def
      dest: seq_abort_ok respond_payload_ok split: sum.splits option.splits if_splits PowerlinkError.splits)

lemma write_expedited_ok:
  assumes "write_expedited h command rh od = (c, h', od')" "plain_header rh" "mid_ok h"
  shows "result_ok c h'"
  using assms
  by (auto simp: write_expedited_def Let_def ack_ok dest!: seq_abort_ok split: sum.splits prod.splits)

lemma write_initiate_ok:
  assumes "write_initiate h command rh od now = (c, h')" "plain_header rh" "mid_ok h"
  shows "result_ok c h'"
  using assms
  by (auto simp: write_initiate_def Let_def intro!: ack_ok mid_ok_state
      dest: seq_abort_ok split: sum.splits if_splits)

lemma write_segment_ok:
  assumes "write_segment h command rh od now = (c, h', od')" "plain_header rh" "mid_ok h"
  shows "result_ok c h'"
  using assms
  by (auto simp: write_segment_def Let_def intro!: ack_ok mid_ok_state dest!: seq_abort_ok
      split: sum.splits SdoServerState.splits if_splits bool.splits prod.splits)

lemma handle_write_by_index_ok:
  assumes "handle_write_by_index h command rh od now = (c, h', od')" "plain_header rh" "mid_ok h"
  shows "result_ok c h'"
  using assms
  by (auto simp: handle_write_by_index_def Let_def
      dest: write_initiate_ok write_expedited_ok write_segment_ok
      split: Segmentation.splits prod.splits)

lemma handle_read_by_name_ok:
  assumes "handle_read_by_name h command rh od now = (c, h')" "plain_header rh" "mid_ok h"
  shows "result_ok c h'"
  using assms
  by (auto simp: handle_read_by_name_def Let_def dest: seq_abort_ok handle_read_by_index_ok
      split: sum.splits option.splits prod.splits)

lemma handle_write_by_name_ok:
  assumes "handle_write_by_name h command rh od now = (c, h', od')" "plain_header rh" "mid_ok h"
  shows "result_ok c h'"
  using assms
  by (auto simp: handle_write_by_name_def Let_def dest: seq_abort_ok handle_write_by_index_ok
      split: sum.splits option.splits prod.splits)

lemma handle_read_all_by_index_ok:
  assumes "handle_read_all_by_index h command rh od now = (c, h')" "plain_header rh" "mid_ok h"
  shows "result_ok c h'"
  using assms
  by (auto simp: handle_read_all_by_index_def Let_def dest: seq_abort_ok respond_payload_ok
      split: if_splits option.splits Object.splits)

lemma handle_read_multiple_params_ok:
  assumes "handle_read_multiple_params h command rh od now = (c, h')" "plain_header rh" "mid_ok h"
  shows "result_ok c h'"
  using assms
  by (auto simp: handle_read_multiple_params_def Let_def dest: seq_abort_ok respond_payload_ok
      split: sum.splits)

lemma handle_max_segment_size_ok:
  "plain_header rh \<Longrightarrow> mid_ok h \<Longrightarrow> result_ok (handle_max_segment_size command rh) h"
  by (auto simp: handle_max_segment_size_def Let_def result_ok_def response_ok_def wf_command_def
      plain_header_def ends_transfer_def MAX_EXPEDITED_PAYLOAD_def)

subsection \<open>What the application's handlers promise\<close>

text \<open>
  The contract of \<^verbatim>\<open>SdoCommandHandler\<close> that the server relies on: responses that can be sent, and a
  dictionary of unchanged structure. The handler the nodes create the server with meets it.
\<close>

definition optional_methods :: "('h, 's) SdoCommandHandler \<Rightarrow> ('h, 's) command_method set" where
  "optional_methods chs =
     {ch_write_all_by_index chs, ch_write_multiple_params chs, ch_file_read chs, ch_file_write chs}"

definition od_evolves :: "'s ObjectDictionary \<Rightarrow> 's ObjectDictionary \<Rightarrow> bool" where
  "od_evolves od od' \<longleftrightarrow> od_inv od' \<and> od_shape od' = od_shape od \<and>
     map_option fst (storage od') = map_option fst (storage od) \<and>
     (\<forall>i e. bt_get (entries od) i = Some e \<longrightarrow> oe_access e \<in> {Some ReadOnly, Some Constant} \<longrightarrow>
        bt_get (entries od') i = Some e)"

lemma od_evolves_refl [simp]: "od_inv od \<Longrightarrow> od_evolves od od"
  by (simp add: od_evolves_def)

lemma od_evolves_trans:
  assumes "od_evolves od od'" "od_evolves od' od''"
  shows "od_evolves od od''"
  using assms by (auto simp: od_evolves_def)

lemma od_write_evolves:
  assumes "od_write od i s v = (r, od')" "od_inv od" "wf_value v"
  shows "od_evolves od od'"
  using assms(1)
proof (cases rule: od_write_cases)
  case (command st)
  then show ?thesis using assms(2) by (simp add: od_evolves_def od_inv_def od_shape_def fun_eq_iff)
next
  case ok
  from ok(2) have "bt_get (entries od') j = Some e"
    if "bt_get (entries od) j = Some e" "oe_access e \<in> {Some ReadOnly, Some Constant}" for j e
    by (rule write_internal_cases) (use that assms(2) in \<open>auto simp: od_inv_def\<close>)
  moreover from ok(2) have "storage od' = storage od" by (rule write_internal_cases) simp_all
  ultimately show ?thesis
    using write_internal_inv [OF ok(2) assms(2,3)] write_internal_shape [OF ok(2)] assms(2)
    by (auto simp: od_evolves_def od_inv_def)
qed (use assms(2) in simp)

lemma perform_od_write_evolves:
  assumes "perform_od_write st od = (r, od')" "od_inv od"
  shows "od_evolves od od'"
  using assms
  by (auto simp: perform_od_write_def dest!: value_deserialize_typed dest: od_write_evolves
      split: option.splits sum.splits if_splits prod.splits)

lemma write_expedited_evolves:
  assumes "write_expedited h command rh od = (c, h', od')" "od_inv od"
  shows "od_evolves od od'"
  using assms
  by (auto simp: write_expedited_def Let_def dest: perform_od_write_evolves
      split: sum.splits prod.splits)

lemma process_download_segment_evolves:
  assumes "process_download_segment st command od now = (r, st', od')" "od_inv od"
  shows "od_evolves od od'"
  using assms
  by (auto simp: process_download_segment_def Let_def dest: perform_od_write_evolves
      split: sum.splits prod.splits if_splits)

lemma write_segment_evolves:
  assumes "write_segment h command rh od now = (c, h', od')" "od_inv od"
  shows "od_evolves od od'"
  using assms
  by (auto simp: write_segment_def Let_def dest: process_download_segment_evolves
      split: sum.splits SdoServerState.splits if_splits bool.splits prod.splits)

lemma handle_write_by_index_evolves:
  assumes "handle_write_by_index h command rh od now = (c, h', od')" "od_inv od"
  shows "od_evolves od od'"
  using assms
  by (auto simp: handle_write_by_index_def Let_def
      dest: write_expedited_evolves write_segment_evolves split: Segmentation.splits prod.splits)

lemma handle_write_by_name_evolves:
  assumes "handle_write_by_name h command rh od now = (c, h', od')" "od_inv od"
  shows "od_evolves od od'"
  using assms
  by (auto simp: handle_write_by_name_def Let_def dest: handle_write_by_index_evolves
      split: sum.splits option.splits prod.splits)

locale command_handler =
  fixes chs :: "('h, 's) SdoCommandHandler"
  assumes method_response: "m \<in> optional_methods chs \<Longrightarrow>
      response_ok (fst (m ch c od)) \<and> ends_transfer (fst (m ch c od))"
    and method_od: "m \<in> optional_methods chs \<Longrightarrow> od_inv od \<Longrightarrow> od_evolves od (snd (snd (m ch c od)))"
begin

lemma optional_ok:
  assumes "m ch c od = (r, ch', od')" "m \<in> optional_methods chs" "mid_ok h" "od_inv od"
  shows "result_ok r h \<and> od_evolves od od'"
  using method_response [OF assms(2), of ch c od] method_od [OF assms(2,4), of ch c] assms
  by (simp add: result_ok_def)

lemma dispatch_ok:
  assumes "dispatch_command chs h command od now ch = (c, h', od', ch')" "mid_ok h" "od_inv od"
  shows "result_ok c h' \<and> od_evolves od od'"
proof -
  let ?rh = "default_header\<lparr> transaction_id := transaction_id (sc_header command), is_response := True \<rparr>"
  have rh: "plain_header ?rh" by (simp add: plain_header_def default_header_def)
  have ms: "ch_write_all_by_index chs \<in> optional_methods chs"
    "ch_write_multiple_params chs \<in> optional_methods chs"
    "ch_file_read chs \<in> optional_methods chs" "ch_file_write chs \<in> optional_methods chs"
    by (simp_all add: optional_methods_def)
  show ?thesis
    using assms rh
    by (cases "command_id (sc_header command)")
      (auto simp: dispatch_command_def Let_def ack_ok handle_max_segment_size_ok
        dest: optional_ok [OF _ ms(1)] optional_ok [OF _ ms(2)] optional_ok [OF _ ms(3)]
          optional_ok [OF _ ms(4)] seq_abort_ok handle_read_by_index_ok handle_write_by_index_ok
          handle_write_by_index_evolves handle_read_by_name_ok handle_write_by_name_ok
          handle_write_by_name_evolves handle_read_all_by_index_ok handle_read_multiple_params_ok
        split: prod.splits)
qed

end

interpretation default_sdo: command_handler "DefaultSdoHandler :: (unit, 's) SdoCommandHandler"
  by unfold_locales (auto simp: optional_methods_def DefaultSdoHandler_def abort_unsupported_def
      ends_transfer_def abort_command_def [of _ "0x06010001"] response_ok_def wf_command_def MAX_EXPEDITED_PAYLOAD_def)

subsection \<open>Requests keep the invariant\<close>

lemma upload_step_ok:
  assumes "get_next_upload_segment st od now = ((c, is_last), st')" "upload_ok st" "mid_ok h"
    and "t = (if \<not> is_last then SegmentedUpload st' else u)" "\<And>x. u \<noteq> SegmentedUpload x"
  shows "response_ok c" "mid_ok (h\<lparr> sh_state := t \<rparr>)" "is_last \<Longrightarrow> ends_transfer c"
  using next_upload_segment(1,5,6) [OF _ _ _ assms(1)] assms(2-5)
  by (auto simp: upload_ok_def mid_ok_def ends_transfer_def)

lemma aborted_marker_ok [simp]: "response_ok aborted_marker" "ends_transfer aborted_marker"
  by (simp_all add: aborted_marker_def response_ok_def wf_command_def default_header_def ends_transfer_def)

lemma handle_empty_request_ok:
  assumes "handle_empty_request h sq rh od now = (r, h')" "handler_ok h" "wf_seq rh"
  shows "handler_ok h' \<and> (\<forall>d. r = Inr d \<longrightarrow> wf_seq (rd_seq_header d) \<and> response_ok (rd_command d))"
proof (cases "\<exists>st. sh_state h = SegmentedUpload st")
  case True
  then obtain st where st: "sh_state h = SegmentedUpload st" by blast
  obtain c l st' where n: "get_next_upload_segment st od now = ((c, l), st')" by (metis prod.collapse)
  have "upload_ok st" "mid_ok h" using assms(2) st by (auto simp: handler_ok_def mid_ok_def)
  from upload_step_ok [OF n this refl, of Closed] show ?thesis
    using assms n st
    by (auto simp: handle_empty_request_def Let_def response_data_def handler_ok_def mid_ok_def wf_seq_def
        split: if_splits)
next
  case False
  have "response_ok (ack_command (default_header\<lparr> transaction_id := 0, is_response := True \<rparr>))"
    by (rule ack_command_ok) (simp_all add: default_header_def)
  with False assms show ?thesis
    by (cases "sh_state h")
      (auto simp: handle_empty_request_def Let_def response_data_def handler_ok_def mid_ok_def wf_seq_def
        split: if_splits)
qed

lemma handle_error_response_ok:
  assumes "handle_error_response h sq = (r, h')" "handler_ok h" "wf_seq sq"
  shows "handler_ok h' \<and> (\<forall>d. r = Inr d \<longrightarrow> wf_seq (rd_seq_header d) \<and> response_ok (rd_command d))"
proof -
  have "response_ok \<lparr> sc_header = default_header, sc_data_size = None, sc_payload = [] \<rparr>"
    by (simp add: response_ok_def wf_command_def default_header_def)
  then show ?thesis
    using assms
    by (auto simp: handle_error_response_def response_data_def handler_ok_def mid_ok_def wf_seq_def mk_seq_def
        upload_ok_def dest!: process_sequence_layer_ok [unfolded handler_ok_def mid_ok_def]
        split: option.splits SdoServerState.splits prod.splits sum.splits)
qed

context command_handler
begin

lemma process_command_layer_ok:
  assumes "process_command_layer chs h command od now ch = (c, h', od', ch')" "handler_ok h" "od_inv od"
  shows "result_ok c h' \<and> od_evolves od od'"
proof (cases "\<exists>st. sh_state h = SegmentedUpload st")
  case True
  then obtain st where st: "sh_state h = SegmentedUpload st" by blast
  obtain r l st' where n: "get_next_upload_segment st od now = ((r, l), st')" by (metis prod.collapse)
  have "upload_ok st" and h: "mid_ok h" using assms(2) st by (auto simp: handler_ok_def mid_ok_def)
  from upload_step_ok [OF n this refl, of Established] show ?thesis
    using assms n st h
    by (auto simp: process_command_layer_def Let_def result_ok_def intro!: mid_ok_state
        dest!: seq_abort_ok [unfolded result_ok_def] split: if_splits prod.splits)
next
  case False
  then have "(c, h', od', ch') = (if is_aborted (sc_header command)
      then (aborted_marker, h\<lparr> sh_state := Established \<rparr>, od, ch)
      else dispatch_command chs h command od now ch)"
    using assms(1) by (cases "sh_state h") (simp_all add: process_command_layer_def Let_def)
  moreover have "mid_ok h" using assms(2) by (simp add: handler_ok_def)
  ultimately show ?thesis
    using assms(3) dispatch_ok [of h command od now ch c h' od' ch']
    by (auto simp: result_ok_def intro!: mid_ok_state split: if_splits)
qed

lemma handle_command_ok:
  assumes "handle_command chs h rh bs od now ch = (d, h', od', ch')" "handler_ok h" "od_inv od" "wf_seq rh"
  shows "handler_ok h' \<and> wf_seq (rd_seq_header d) \<and> response_ok (rd_command d) \<and> od_evolves od od'"
proof (cases "SdoCommand_deserialize bs")
  case (Inl e)
  then show ?thesis using assms
    by (auto simp: handle_command_def Let_def seq_abort_def response_data_def handler_ok_def wf_seq_def
        seq_reset_def mid_ok_def)
next
  case (Inr command)
  obtain c k od2 ch2 where p: "process_command_layer chs h command od now ch = (c, k, od2, ch2)"
    by (metis prod.collapse)
  from process_command_layer_ok [OF p assms(2,3)] show ?thesis
    using assms(1,4) Inr p
    by (auto simp: handle_command_def Let_def result_ok_def response_data_def handler_ok_def mid_ok_def
        wf_seq_def split: if_splits)
qed

lemma seq_handle_request_ok:
  assumes "seq_handle_request chs h bs od now ch = (r, h', od', ch')" "handler_ok h" "od_inv od"
  shows "handler_ok h' \<and> od_evolves od od' \<and>
    (\<forall>d. r = Inr d \<longrightarrow> wf_seq (rd_seq_header d) \<and> response_ok (rd_command d))"
proof (cases "length bs < 4")
  case False
  show ?thesis
  proof (cases "SequenceLayerHeader_deserialize (sub_slice 0 4 bs)")
    case (Inr sq)
    then have sq: "wf_seq sq" using seq.deser_wf by blast
    obtain p k where pk: "process_sequence_layer h sq = (p, k)" by fastforce
    from process_sequence_layer_ok [OF pk assms(2) sq] handle_error_response_ok [OF _ assms(2) sq]
    show ?thesis
      using assms False Inr pk
      by (auto simp: seq_handle_request_def Let_def split: if_splits prod.splits sum.splits
          dest!: handle_empty_request_ok handle_command_ok)
  qed (use assms False in \<open>auto simp: seq_handle_request_def\<close>)
qed (use assms in \<open>auto simp: seq_handle_request_def\<close>)

end

lemma seq_tick_ok:
  assumes "seq_tick h now od = (r, h')" "handler_ok h"
  shows "handler_ok h' \<and> (\<exists>d. r = Inr d \<and>
    pred_option (\<lambda>d. wf_seq (rd_seq_header d) \<and> response_ok (rd_command d)) d)"
  using assms
  by (cases "sh_state h")
    (auto simp: seq_tick_def Let_def handler_ok_def mid_ok_def upload_ok_def response_data_def wf_seq_def
      mk_seq_def seq_abort_def seq_reset_def split: option.splits if_splits)

subsection \<open>Responses go to the client that asked\<close>

named_theorems client_kept \<open>operations on a connection keep its client\<close>

lemma seq_abort_client [client_kept]: "sh_client_info (snd (seq_abort h tid code)) = sh_client_info h"
  by (simp add: seq_abort_def seq_reset_def)

lemma respond_payload_client [client_kept]:
  "sh_client_info (snd (respond_payload h command rh od now i s p)) = sh_client_info h"
  by (simp add: respond_payload_def Let_def case_prod_unfold)

lemma handle_read_by_index_client [client_kept]:
  "sh_client_info (snd (handle_read_by_index h command rh od now)) = sh_client_info h"
  by (simp add: handle_read_by_index_def Let_def client_kept split: sum.split option.split PowerlinkError.split)

lemma write_expedited_client [client_kept]:
  "sh_client_info (fst (snd (write_expedited h command rh od))) = sh_client_info h"
  by (simp add: write_expedited_def Let_def case_prod_unfold client_kept split: sum.split)

lemma write_initiate_client [client_kept]:
  "sh_client_info (snd (write_initiate h command rh od now)) = sh_client_info h"
  by (simp add: write_initiate_def Let_def client_kept split: sum.split)

lemma write_segment_client [client_kept]:
  "sh_client_info (fst (snd (write_segment h command rh od now))) = sh_client_info h"
  by (simp add: write_segment_def Let_def case_prod_unfold client_kept
      split: sum.split bool.split SdoServerState.split)

lemma handle_write_by_index_client [client_kept]:
  "sh_client_info (fst (snd (handle_write_by_index h command rh od now))) = sh_client_info h"
  by (simp add: handle_write_by_index_def Let_def case_prod_unfold client_kept split: Segmentation.split)

lemma handle_by_name_client [client_kept]:
  "sh_client_info (snd (handle_read_by_name h command rh od now)) = sh_client_info h"
  "sh_client_info (fst (snd (handle_write_by_name h command rh od now))) = sh_client_info h"
  by (simp_all add: handle_read_by_name_def handle_write_by_name_def Let_def case_prod_unfold client_kept
      split: sum.split option.split)

lemma handle_read_many_client [client_kept]:
  "sh_client_info (snd (handle_read_all_by_index h command rh od now)) = sh_client_info h"
  "sh_client_info (snd (handle_read_multiple_params h command rh od now)) = sh_client_info h"
  by (simp_all add: handle_read_all_by_index_def handle_read_multiple_params_def Let_def client_kept
      split: sum.split option.split Object.split)

lemma dispatch_command_client [client_kept]:
  "sh_client_info (fst (snd (dispatch_command chs h command od now ch))) = sh_client_info h"
  by (simp add: dispatch_command_def Let_def case_prod_unfold client_kept split: CommandId.split)

lemma process_command_layer_client [client_kept]:
  "sh_client_info (fst (snd (process_command_layer chs h command od now ch))) = sh_client_info h"
  by (simp add: process_command_layer_def Let_def case_prod_unfold client_kept split: SdoServerState.split)

lemma process_sequence_layer_client [client_kept]:
  "sh_client_info (snd (process_sequence_layer h rq)) = sh_client_info h"
  by (simp add: process_sequence_layer_def Let_def split: SdoServerState.split)

lemma handle_command_client [client_kept]:
  "sh_client_info (fst (snd (handle_command chs h rh bs od now ch))) = sh_client_info h"
  "rd_client_info (fst (handle_command chs h rh bs od now ch)) = sh_client_info h"
  by (simp_all add: handle_command_def Let_def case_prod_unfold response_data_def client_kept split: sum.split)

lemma handle_empty_request_client [client_kept]:
  "sh_client_info (snd (handle_empty_request h sq rh od now)) = sh_client_info h"
  "fst (handle_empty_request h sq rh od now) = Inr d \<Longrightarrow> rd_client_info d = sh_client_info h"
  by (auto simp: handle_empty_request_def Let_def case_prod_unfold response_data_def
      split: SdoServerState.splits if_splits)

lemma handle_error_response_client [client_kept]:
  "sh_client_info (snd (handle_error_response h sq)) = sh_client_info h"
  "fst (handle_error_response h sq) = Inr d \<Longrightarrow> rd_client_info d = sh_client_info h"
  by (auto simp: handle_error_response_def case_prod_unfold response_data_def client_kept
      split: option.splits sum.splits)

lemma seq_handle_request_client:
  assumes "seq_handle_request chs h bs od now ch = (r, h', od', ch')"
  shows "sh_client_info h' = sh_client_info h \<and> (\<forall>d. r = Inr d \<longrightarrow> rd_client_info d = sh_client_info h)"
proof -
  let ?x = "seq_handle_request chs h bs od now ch"
  have "sh_client_info (fst (snd ?x)) = sh_client_info h"
    "fst ?x = Inr d \<Longrightarrow> rd_client_info d = sh_client_info h" for d
    by (auto simp: seq_handle_request_def Let_def case_prod_unfold client_kept
        split: if_splits sum.splits)
  with assms show ?thesis by simp
qed

lemma seq_tick_client:
  assumes "seq_tick h now od = (r, h')"
  shows "sh_client_info h' = sh_client_info h \<and> (\<forall>d. r = Inr (Some d) \<longrightarrow> rd_client_info d = sh_client_info h)"
  using assms
  by (auto simp: seq_tick_def Let_def seq_abort_def seq_reset_def response_data_def
      split: SdoServerState.splits option.splits if_splits)

subsection \<open>The server\<close>

text \<open>Every connection satisfies its invariant and is kept under its client.\<close>

definition conn_ok :: "SdoClientInfo \<Rightarrow> SdoSequenceHandler \<Rightarrow> bool" where
  "conn_ok k h \<longleftrightarrow> handler_ok h \<and> sh_client_info h = k"

definition server_ok :: "('h, 's) SdoServer \<Rightarrow> bool" where
  "server_ok s \<longleftrightarrow> bt_inv (srv_connections s) \<and>
     (\<forall>k h. bt_get (srv_connections s) k = Some h \<longrightarrow> conn_ok k h)"

text \<open>A response that the UDP transport can send.\<close>

definition data_ok :: "SdoResponseData \<Rightarrow> bool" where
  "data_ok d \<longleftrightarrow> wf_seq (rd_seq_header d) \<and> response_ok (rd_command d)"

lemma tick_all_ok:
  assumes "tick_all now od resp cs = (r, cs')" "\<forall>(k, h) \<in> set cs. conn_ok k h" "pred_option data_ok resp"
  shows "\<exists>d prune. r = Inr (d, prune) \<and> pred_option data_ok d \<and>
    map fst cs' = map fst cs \<and> (\<forall>(k, h) \<in> set cs'. conn_ok k h)"
  using assms
proof (induction now od resp cs arbitrary: r cs' rule: tick_all.induct)
  case (2 now od resp k h cs)
  obtain q g where q: "(if resp = None then seq_tick h now od else (Inr resp, h)) = (q, g)" by fastforce
  have "conn_ok k g \<and> (\<exists>d. q = Inr d \<and> pred_option data_ok d)"
    using q "2.prems"(2,3) seq_tick_ok [of h now od q g] seq_tick_client [of h now od q g]
    by (auto simp: data_ok_def [abs_def] conn_ok_def split: if_splits)
  then obtain d where g: "conn_ok k g" "q = Inr d" "pred_option data_ok d" by blast
  obtain r2 cs2 where t: "tick_all now od d cs = (r2, cs2)" by fastforce
  have "\<exists>e prune. r2 = Inr (e, prune) \<and> pred_option data_ok e \<and>
      map fst cs2 = map fst cs \<and> (\<forall>(k, h) \<in> set cs2. conn_ok k h)"
    using "2.IH" [OF q [symmetric] g(2) t] "2.prems"(2) g(3) by simp
  with g q t "2.prems"(1) show ?case by (auto split: if_splits)
qed auto

lemma server_tick_ok:
  assumes "server_tick s now od = (r, s')" "server_ok s"
  shows "server_ok s' \<and> srv_ops s' = srv_ops s \<and> (\<exists>d. r = Inr d \<and> pred_option data_ok d)"
proof -
  have inv: "bt_inv (srv_connections s)" "\<forall>(k, h) \<in> set (srv_connections s). conn_ok k h"
    using assms(2) bt_all_iff [of "srv_connections s" conn_ok] by (auto simp: server_ok_def)
  obtain q cs where t: "tick_all now od None (srv_connections s) = (q, cs)" by fastforce
  from tick_all_ok [OF t inv(2)] obtain d prune where q: "q = Inr (d, prune)" "pred_option data_ok d"
    "map fst cs = map fst (srv_connections s)" "\<forall>(k, h) \<in> set cs. conn_ok k h" by auto
  have "bt_inv cs" using inv(1) q(3) by (simp add: bt_inv_def)
  then have "bt_inv (fold bt_remove prune cs) \<and>
      (\<forall>k h. bt_get (fold bt_remove prune cs) k = Some h \<longrightarrow> conn_ok k h)"
    using q(4) bt_all_iff [of cs conn_ok] by (intro fold_remove_ok) blast+
  moreover have "r = Inr d" "s' = s\<lparr> srv_connections := fold bt_remove prune cs \<rparr>"
    using assms(1) t q(1) by (simp_all add: server_tick_def)
  ultimately show ?thesis using q(2) by (simp add: server_ok_def)
qed

context command_handler
begin

lemma server_request_ok:
  assumes "server_handle_request s bs k od now = (r, s', od')" "server_ok s" "srv_ops s = chs" "od_inv od"
  shows "server_ok s' \<and> srv_ops s' = chs \<and> od_evolves od od' \<and>
    (\<forall>d. r = Inr d \<longrightarrow> data_ok d \<and> rd_client_info d = k)"
proof (cases "length bs < 4")
  case False
  define h where "h = unwrap_or (bt_get (srv_connections s) k) (SdoSequenceHandler_new k)"
  have h: "handler_ok h" "sh_client_info h = k"
    using assms(2)
    by (cases "bt_get (srv_connections s) k";
        auto simp: h_def server_ok_def conn_ok_def SdoSequenceHandler_new_def
          handler_ok_def mid_ok_def)+
  obtain q g od2 ch where q: "seq_handle_request chs h bs od now (srv_handler s) = (q, g, od2, ch)"
    by (metis prod.collapse)
  note ok = seq_handle_request_ok [OF q h(1) assms(4)] seq_handle_request_client [OF q]
  have conns: "bt_inv (bt_insert k g (srv_connections s))"
    "\<forall>j x. bt_get (bt_insert k g (srv_connections s)) j = Some x \<longrightarrow> conn_ok j x"
    using assms(2) ok h(2) by (auto simp: server_ok_def conn_ok_def)
  have "server_handle_request s bs k od now = (q, s\<lparr> srv_connections := (case q of
          Inl e \<Rightarrow> bt_insert k g (srv_connections s)
        | Inr _ \<Rightarrow> if is_closed g then bt_remove k (bt_insert k g (srv_connections s))
                   else bt_insert k g (srv_connections s)), srv_handler := ch \<rparr>, od2)"
    using False q by (simp add: server_handle_request_def h_def [symmetric] assms(3) Let_def)
  then show ?thesis
    using assms(1,3) ok h(2) conns by (auto simp: server_ok_def data_ok_def split: sum.splits)
qed (use assms in \<open>auto simp: server_handle_request_def\<close>)

end

lemma server_new_ok [simp]: "server_ok SdoServer_new" "srv_ops SdoServer_new = DefaultSdoHandler"
  by (simp_all add: server_ok_def SdoServer_new_def SdoServer_with_handler_def)

subsection \<open>Reachable servers\<close>

text \<open>A server as a node creates it, after any requests and ticks. Between them the rest of the node
  may change the dictionary within its invariant.\<close>

inductive sdo_reachable :: "(unit, 's) SdoServer \<Rightarrow> 's ObjectDictionary \<Rightarrow> bool" where
  new: "od_inv od \<Longrightarrow> sdo_reachable SdoServer_new od"
| request: "sdo_reachable s od \<Longrightarrow> server_handle_request s bs k od now = (r, s', od') \<Longrightarrow>
    sdo_reachable s' od'"
| tick: "sdo_reachable s od \<Longrightarrow> server_tick s now od = (r, s') \<Longrightarrow> sdo_reachable s' od"
| node: "sdo_reachable s od \<Longrightarrow> od_inv od' \<Longrightarrow> sdo_reachable s od'"

lemma sdo_reachable_ok:
  "sdo_reachable s od \<Longrightarrow> server_ok s \<and> srv_ops s = DefaultSdoHandler \<and> od_inv od"
proof (induction rule: sdo_reachable.induct)
  case (request s od bs k now r s' od')
  then show ?case using default_sdo.server_request_ok [of s bs k od now r s' od']
    by (auto simp: od_evolves_def)
next
  case (tick s od now r s')
  then show ?case using server_tick_ok [of s now od r s'] by auto
qed auto

lemmas sdo_request_facts =
  default_sdo.server_request_ok [OF _ conjunct1 [OF sdo_reachable_ok]
    conjunct1 [OF conjunct2 [OF sdo_reachable_ok]] conjunct2 [OF conjunct2 [OF sdo_reachable_ok]]]

lemma data_ok_sent:
  assumes "data_ok d" "rd_client_info d = UdpClient ip port"
  shows "\<exists>out. UdpTransport_build_response d = Inr (SendUdp ip port out) \<and> length out \<le> 1472 \<and>
    deserialize_sdo_udp_payload out = Inr (rd_seq_header d, rd_command d)"
proof -
  let ?s = "rd_seq_header d" and ?c = "rd_command d"
  have wf: "wf_seq ?s" "wf_command ?c" and n: "8 + command_size ?c \<le> 1472"
    using assms(1) by (simp_all add: data_ok_def response_ok_def command_size_def command_offset_def
        MAX_EXPEDITED_PAYLOAD_def)
  obtain out where out: "serialize_sdo_udp_payload ?s ?c (replicate 1500 0) = (Inr (8 + command_size ?c), out)"
    "length out = 1500"
    "\<forall>rest. deserialize_sdo_udp_payload (take (8 + command_size ?c) out @ rest) = Inr (?s, ?c)"
    using sdo_udp_message [OF wf, of "replicate 1500 0"] n by auto
  have "deserialize_sdo_udp_payload (take (8 + command_size ?c) out) = Inr (?s, ?c)"
    using spec [OF out(3), of "[]"] by simp
  with out n assms(2) show ?thesis by (simp add: UdpTransport_build_response_def)
qed

text \<open>The first message of a client opens a connection.\<close>

definition opened :: "SdoClientInfo \<Rightarrow> SdoSequenceHandler" where
  "opened k = \<lparr> sh_state = Opening, sh_send_sequence_number = 0,
     sh_last_received_sequence_number = 0, sh_client_info = k \<rparr>"

definition opening_reply :: "SdoClientInfo \<Rightarrow> SdoResponseData" where
  "opening_reply k = response_data (opened k)
     (mk_seq 0 ReceiveConnState.Initialization 0 SendConnState.Initialization)
     (ack_command (default_header\<lparr> is_response := True \<rparr>))"

lemma handshake:
  "server_handle_request SdoServer_new [0, 1, 0, 0] k od now =
     (Inr (opening_reply k), SdoServer_new\<lparr> srv_connections := [(k, opened k)] \<rparr>, od)"
  by (simp add: server_handle_request_def SdoServer_new_def SdoServer_with_handler_def
      seq_handle_request_def SequenceLayerHeader_deserialize_def sub_slice_def
      ReceiveConnState_try_from_def SendConnState_try_from_def process_sequence_layer_def
      SdoSequenceHandler_new_def handle_empty_request_def is_closed_def opened_def opening_reply_def
      response_data_def mk_seq_def default_header_def Let_def)

lemma empty_od_inv [simp]: "od_inv (od_new None)"
  by (simp add: od_inv_def od_new_def)

lemma handshake_reachable:
  "sdo_reachable (SdoServer_new\<lparr> srv_connections := [(k, opened k)] \<rparr>) (od_new None :: unit ObjectDictionary)"
  by (rule sdo_reachable.request [OF sdo_reachable.new handshake]) simp



text \<open>
  C37: an answer of a node's SDO server to a client on ASnd cannot be sent: building the frame
  always fails, because the buffer for the command layer is four octets too short for any
  well-formed command.\<close>

theorem sdo_asnd_replies_fail:
  assumes "sdo_reachable s od" "server_handle_request s bs (AsndClient nid mac) od now = (Inr d, s', od')"
  shows "AsndTransport_build_response own_mac own_id is_cn d = Inl BufferTooShort"
proof -
  have d: "wf_command (rd_command d)" "rd_client_info d = AsndClient nid mac"
    using sdo_request_facts [OF assms(2) assms(1) assms(1) assms(1)]
    by (simp_all add: data_ok_def response_ok_def)
  have "serialize_sdo_asnd_payload (rd_seq_header d) (rd_command d) = Inl BufferTooShort"
    using sdo_asnd_too_short d(1) by blast
  with d(2) show ?thesis by (simp add: AsndTransport_build_response_def)
qed

theorem sdo_asnd_replies_fail_witness:
  "AsndTransport_build_response [2, 0, 0, 0, 0, 1] 1 True (opening_reply (AsndClient 240 [2, 0, 0, 0, 0, 240]))
     = Inl BufferTooShort"
  by (rule sdo_asnd_replies_fail [OF sdo_reachable.new [OF empty_od_inv] handshake])

text \<open>
  C36: an SDO request, whatever its octets, changes the object dictionary only within its
  structure: no object appears, disappears, or changes its kind, size, types or access, and objects
  with read-only or constant access keep their values.\<close>

theorem sdo_request_keeps_structure:
  assumes "sdo_reachable s od" "server_handle_request s bs k od now = (r, s', od')"
  shows "od_inv od' \<and> od_shape od' = od_shape od \<and>
    (\<forall>i e. bt_get (entries od) i = Some e \<longrightarrow> oe_access e \<in> {Some ReadOnly, Some Constant} \<longrightarrow>
       bt_get (entries od') i = Some e)"
  using sdo_request_facts [OF assms(2) assms(1) assms(1) assms(1)] by (simp add: od_evolves_def)

theorem sdo_request_keeps_structure_witness:
  "od_shape (snd (snd (server_handle_request SdoServer_new [0, 1, 0, 0] (UdpClient [10, 0, 0, 1] 3819)
     (od_new None :: unit ObjectDictionary) 0))) = od_shape (od_new None :: unit ObjectDictionary)"
  using sdo_request_keeps_structure [OF sdo_reachable.new [OF empty_od_inv] handshake]
  by (simp add: handshake)



end
