(* ===== verification/Sdo_Transfers.thy ===== *)
theory Sdo_Transfers
  imports Sdo_Server_Props
begin

section \<open>Transfers over an SDO connection\<close>

text \<open>
  What a client of the server obtains over a whole transfer: the segments of an upload that it
  acknowledges one after the other, and the value that it reads back after a write.
\<close>

subsection \<open>Uploads\<close>

text \<open>The acknowledgement of a client that has received the last frame of the server.\<close>

definition ack_of :: "SdoSequenceHandler \<Rightarrow> SequenceLayerHeader" where
  "ack_of h = mk_seq (sh_send_sequence_number h) ReceiveConnState.ConnectionValid
     (next_seq (sh_last_received_sequence_number h)) SendConnState.ConnectionValid"

definition ack_bytes :: "SdoSequenceHandler \<Rightarrow> bytes" where
  "ack_bytes h = snd (SequenceLayerHeader_serialize (ack_of h) [0, 0, 0, 0])"

text \<open>One acknowledgement per point in time.\<close>

fun pull :: "'s ObjectDictionary \<Rightarrow> u64 list \<Rightarrow> SdoSequenceHandler \<Rightarrow> SdoCommand list \<times> SdoSequenceHandler" where
  "pull od [] h = ([], h)"
| "pull od (t # ts) h =
     (case seq_handle_request DefaultSdoHandler h (ack_bytes h) od t () of
        (Inr d, h, _, _) \<Rightarrow> (let (cs, h) = pull od ts h in (rd_command d # cs, h))
      | (Inl _, h, _, _) \<Rightarrow> pull od ts h)"

lemma unat_next_seq: "unat (next_seq n) = (unat n + 1) mod 256 mod 64"
  by (simp add: next_seq_def unat_mod unat_word_ariths)

lemma next_seq_neq:
  assumes "n < 64"
  shows "next_seq n \<noteq> n"
proof
  assume "next_seq n = n"
  then have "(unat n + 1) mod 256 mod 64 = unat n" using unat_next_seq [of n] by (simp only:)
  moreover have "unat n < 64" using assms by (simp add: word_less_nat_alt)
  ultimately show False by (cases "unat n = 63") simp_all
qed

lemma ack_bytes_deser:
  assumes "handler_ok h"
  shows "SequenceLayerHeader_deserialize (sub_slice 0 4 (ack_bytes h)) = Inr (ack_of h)" "length (ack_bytes h) = 4"
proof -
  have "wf_seq (ack_of h)" using assms by (simp add: ack_of_def mk_seq_def wf_seq_def handler_ok_def mid_ok_def)
  then show "SequenceLayerHeader_deserialize (sub_slice 0 4 (ack_bytes h)) = Inr (ack_of h)"
    using seq.roundtrip [of "ack_of h" "[0, 0, 0, 0]"] seq.ser_length [of "ack_of h" "[0, 0, 0, 0]"]
    by (simp add: ack_bytes_def sub_slice_def)
  show "length (ack_bytes h) = 4" by (simp add: ack_bytes_def seq.ser_length)
qed

definition acked :: "SdoTransferState \<Rightarrow> SdoTransferState" where
  "acked st = st\<lparr> ts_deadline_us := None, ts_last_sent_segment := None, ts_retransmissions_left := 0 \<rparr>"

lemma ack_step:
  assumes "handler_ok h" "sh_state h = SegmentedUpload st"
    and "get_next_upload_segment (acked st) od now = ((c, is_last), st')"
  shows "\<exists>d h'. seq_handle_request chs h (ack_bytes h) od now ch = (Inr d, h', od, ch) \<and> rd_command d = c \<and>
    sh_state h' = (if is_last then Closed else SegmentedUpload st')"
  using assms ack_bytes_deser [OF assms(1)] next_seq_neq [of "sh_last_received_sequence_number h"]
  by (simp add: seq_handle_request_def Let_def ack_of_def mk_seq_def process_sequence_layer_def
      acknowledge_upload_def acked_def [symmetric] handle_empty_request_def response_data_def handler_ok_def mid_ok_def)

lemma upload_delivers:
  assumes "handler_ok h" "sh_state h = SegmentedUpload st" "od_inv od"
    and "length ts = (ts_total_size st - ts_offset st + 1451) div 1452"
  shows "\<exists>cs h'. pull od ts h = (cs, h') \<and> sh_state h' = Closed \<and> length cs = length ts \<and>
    concat (map sc_payload cs) = drop (ts_offset st) (ts_data_buffer st) \<and>
    map (\<lambda>c. segmentation (sc_header c)) cs = replicate (length ts - 1) Segment @ [Complete]"
  using assms
proof (induction ts arbitrary: h st)
  case Nil
  then have "ts_offset st < ts_total_size st" by (simp add: handler_ok_def mid_ok_def upload_ok_def)
  with Nil show ?case by (simp add: div_eq_0_iff)
next
  case (Cons t ts)
  have st: "upload_ok st" using Cons.prems(1,2) by (simp add: handler_ok_def mid_ok_def)
  obtain c l st' where n: "get_next_upload_segment (acked st) od t = ((c, l), st')"
    by (metis prod.collapse)
  have ok: "ts_total_size (acked st) = length (ts_data_buffer (acked st))"
    "ts_offset (acked st) < ts_total_size (acked st)"
    "0 < ts_offset (acked st) \<or> MAX_EXPEDITED_PAYLOAD < ts_total_size (acked st)"
    using st by (simp_all add: acked_def upload_ok_def)
  note seg = next_upload_segment [OF ok n]
  have sel: "ts_offset (acked st) = ts_offset st" "ts_data_buffer (acked st) = ts_data_buffer st"
    "ts_total_size (acked st) = ts_total_size st" by (simp_all add: acked_def)
  from ack_step [OF Cons.prems(1,2) n, of DefaultSdoHandler "()"] obtain d h' where
    s: "seq_handle_request DefaultSdoHandler h (ack_bytes h) od t () = (Inr d, h', od, ())"
      "rd_command d = c" "sh_state h' = (if l then Closed else SegmentedUpload st')" by blast
  have h': "handler_ok h'"
    using default_sdo.seq_handle_request_ok [OF s(1) Cons.prems(1,3)] by blast
  show ?case
  proof (cases l)
    case True
    then have "ts_total_size st - ts_offset st \<le> 1452" "0 < ts_total_size st - ts_offset st"
      using seg(4) st sel by (simp_all add: MAX_EXPEDITED_PAYLOAD_def upload_ok_def)
    then have "(ts_total_size st - ts_offset st + 1451) div 1452 = 1"
      by (intro div_nat_eqI) simp_all
    then have "ts = []" using Cons.prems(4) by simp
    moreover have "sc_payload c = drop (ts_offset st) (ts_data_buffer st)"
      using seg(3,4) True st sel by (simp add: upload_ok_def)
    ultimately show ?thesis using s True seg(5) by simp
  next
    case False
    note st' = conjunct1 [OF seg(6) [OF False]] conjunct2 [OF seg(6) [OF False]]
    have off: "ts_offset st' = ts_offset st + 1452" "ts_data_buffer st' = ts_data_buffer st"
      using st'(2) sel by (simp_all add: MAX_EXPEDITED_PAYLOAD_def)
    have tot: "ts_total_size st' = ts_total_size st"
      using st'(1) off st by (simp add: upload_ok_def)
    have "length ts = (ts_total_size st' - ts_offset st' + 1451) div 1452"
    proof -
      have "ts_offset st + 1452 < ts_total_size st" using st'(1) off tot by (simp add: upload_ok_def)
      then have "ts_total_size st - ts_offset st + 1451 =
          1452 + (ts_total_size st - (ts_offset st + 1452) + 1451)" by simp
      then have "(ts_total_size st - ts_offset st + 1451) div 1452 =
          Suc ((ts_total_size st - (ts_offset st + 1452) + 1451) div 1452)"
        by (simp only: div_add_self1 [of "1452::nat"])
      then show ?thesis using Cons.prems(4) off tot by simp
    qed
    with Cons.IH [OF h' _ Cons.prems(3)] s(3) False obtain cs h2 where
      p: "pull od ts h' = (cs, h2)" "sh_state h2 = Closed" "length cs = length ts"
        "concat (map sc_payload cs) = drop (ts_offset st') (ts_data_buffer st')"
        "map (\<lambda>c. segmentation (sc_header c)) cs = replicate (length ts - 1) Segment @ [Complete]" by auto
    have "ts \<noteq> []" using p(3,5) by auto
    moreover have "sc_payload c @ drop (ts_offset st') (ts_data_buffer st') = drop (ts_offset st) (ts_data_buffer st)"
      unfolding seg(3) off sel MAX_EXPEDITED_PAYLOAD_def
      by (metis add.commute append_take_drop_id drop_drop)
    moreover have "segmentation (sc_header c) = Segment"
      using seg(5) False st sel by (simp add: upload_ok_def)
    ultimately show ?thesis using s p by (cases ts) simp_all
  qed
qed

subsection \<open>Requests on an established connection\<close>

definition request_bytes :: "SdoSequenceHandler \<Rightarrow> SdoCommand \<Rightarrow> bytes" where
  "request_bytes h c = ack_bytes h @ command_image c"

definition read_command :: "u8 \<Rightarrow> u16 \<Rightarrow> u8 \<Rightarrow> SdoCommand" where
  "read_command tid i s =
     \<lparr> sc_header = \<lparr> transaction_id = tid, is_response = False, is_aborted = False,
         segmentation = Expedited, command_id = ReadByIndex, segment_size = 4 \<rparr>,
       sc_data_size = None, sc_payload = le16 i @ [s, 0] \<rparr>"

definition write_command :: "u8 \<Rightarrow> u16 \<Rightarrow> u8 \<Rightarrow> bytes \<Rightarrow> SdoCommand" where
  "write_command tid i s data =
     \<lparr> sc_header = \<lparr> transaction_id = tid, is_response = False, is_aborted = False,
         segmentation = Expedited, command_id = WriteByIndex, segment_size = of_nat (4 + length data) \<rparr>,
       sc_data_size = None, sc_payload = le16 i @ [s, 0] @ data \<rparr>"

lemma read_command_sel [simp]:
  "transaction_id (sc_header (read_command tid i s)) = tid" "\<not> is_aborted (sc_header (read_command tid i s))"
  "command_id (sc_header (read_command tid i s)) = ReadByIndex"
  "sc_payload (read_command tid i s) = le16 i @ [s, 0]"
  by (simp_all add: read_command_def)

lemma write_command_sel [simp]:
  "transaction_id (sc_header (write_command tid i s data)) = tid"
  "\<not> is_aborted (sc_header (write_command tid i s data))"
  "segmentation (sc_header (write_command tid i s data)) = Expedited"
  "command_id (sc_header (write_command tid i s data)) = WriteByIndex"
  "sc_payload (write_command tid i s data) = le16 i @ [s, 0] @ data"
  by (simp_all add: write_command_def)

lemma read_command_wf: "wf_command (read_command tid i s)"
  by (simp add: wf_command_def read_command_def)

lemma write_command_wf: "4 + length data < 2 ^ 16 \<Longrightarrow> wf_command (write_command tid i s data)"
  by (simp add: wf_command_def write_command_def unat_of_nat_small [of "4 + length data", simplified])

lemma index_payload:
  "ReadByIndexRequest_from_payload (le16 i @ [s, 0]) = Inr \<lparr> rbi_index = i, rbi_sub_index = s \<rparr>"
  "WriteByIndexRequest_from_payload (le16 i @ [s, 0] @ data) =
     Inr \<lparr> wbi_index = i, wbi_sub_index = s, wbi_data = data \<rparr>"
proof -
  obtain x y where xy: "le16 i = [x, y]" by (simp add: numeral_2_eq_2)
  have "from_le [x, y] = i" using from_le_to_le [of 2 i] xy by simp
  then show "ReadByIndexRequest_from_payload (le16 i @ [s, 0]) = Inr \<lparr> rbi_index = i, rbi_sub_index = s \<rparr>"
    "WriteByIndexRequest_from_payload (le16 i @ [s, 0] @ data) =
      Inr \<lparr> wbi_index = i, wbi_sub_index = s, wbi_data = data \<rparr>"
    by (simp_all add: ReadByIndexRequest_from_payload_def WriteByIndexRequest_from_payload_def xy
        sub_slice_def del: from_le.simps)
qed

text \<open>The connection after the sequence layer has accepted the frame.\<close>

definition advance :: "SdoSequenceHandler \<Rightarrow> SdoSequenceHandler" where
  "advance h = h\<lparr> sh_last_received_sequence_number := next_seq (sh_last_received_sequence_number h),
     sh_state := Established, sh_send_sequence_number := next_seq (sh_send_sequence_number h) \<rparr>"

lemma request_reaches_command:
  assumes "handler_ok h" "sh_state h = Established" "wf_command c"
  shows "seq_handle_request chs h (request_bytes h c) od now ch =
    (let (r, h', od', ch') = handle_command chs (advance h)
        (mk_seq (next_seq (sh_last_received_sequence_number h)) ReceiveConnState.ConnectionValid
           (next_seq (sh_send_sequence_number h)) SendConnState.ConnectionValid)
        (command_image c) od now ch
     in (Inr r, h', od', ch'))"
proof -
  have b: "length (request_bytes h c) = 4 + command_size c" "drop 4 (request_bytes h c) = command_image c"
    "SequenceLayerHeader_deserialize (sub_slice 0 4 (request_bytes h c)) = Inr (ack_of h)"
    using ack_bytes_deser [OF assms(1)] by (simp_all add: request_bytes_def sub_slice_def)
  have "command_image c \<noteq> []" using length_command_image [of c]
    by (metis add_gr_0 command_offset_def command_size_def less_numeral_extra(3) list.size(3)
        zero_less_numeral)
  then show ?thesis
    using assms(1,2) b next_seq_neq [of "sh_last_received_sequence_number h"]
    by (simp add: seq_handle_request_def Let_def ack_of_def mk_seq_def process_sequence_layer_def
        acknowledge_upload_def advance_def handler_ok_def mid_ok_def)
qed

lemma advance_ok: "handler_ok h \<Longrightarrow> handler_ok (advance h)"
  by (simp add: handler_ok_def mid_ok_def advance_def)

text \<open>A connection for the examples.\<close>

definition example_conn :: SdoSequenceHandler where
  "example_conn = \<lparr> sh_state = Established, sh_send_sequence_number = 1,
     sh_last_received_sequence_number = 1, sh_client_info = UdpClient [10, 0, 0, 1] 3819 \<rparr>"

lemma example_conn_ok: "handler_ok example_conn" "sh_state example_conn = Established"
  by (simp_all add: handler_ok_def mid_ok_def example_conn_def)

lemma example_od_read:
  "od_inv example_od" "od_read example_od 0x6000 1 = Some (Unsigned8 1)"
  "od_write example_od 0x6000 1 (Unsigned8 9) = (Inr (), snd (od_write example_od 0x6000 1 (Unsigned8 9)))"
  by (simp_all add: od_inv_def example_od_def od_insert_def od_new_def mk_entry_def bt_inv_def bt_get_def
      od_read_def object_read_def vec_get_def od_write_def is_pdo_mapping_index0_def write_internal_def
      object_write_def write_elems_def)

text \<open>
  C19: a write request on an established connection whose data encodes a value of the object's type
  has exactly the effect of the public write of that value, and it is answered by an abort exactly
  if that write fails.\<close>

theorem sdo_write_is_od_write:
  assumes "handler_ok h" "sh_state h = Established" "od_read od i s = Some t"
    and "discriminant t = discriminant v" "wf_value v" "4 + length (value_serialize v) < 2 ^ 16"
  shows "\<exists>d h'. seq_handle_request chs h (request_bytes h (write_command tid i s (value_serialize v))) od now ch
      = (Inr d, h', snd (od_write od i s v), ch) \<and>
    (is_aborted (sc_header (rd_command d)) \<longleftrightarrow> fst (od_write od i s v) \<noteq> Inr ())"
proof -
  have des: "SdoCommand_deserialize (command_image (write_command tid i s (value_serialize v))) =
      Inr (write_command tid i s (value_serialize v))"
    using command_roundtrip [OF write_command_wf [OF assms(6)], of tid i s "[]"] by simp
  have val: "value_deserialize (value_serialize v) t = Inr v"
    using value_roundtrip_self [OF assms(5)] value_deserialize_template [OF assms(4)] by simp
  have [simp]: "sh_state (advance h) = Established" by (simp add: advance_def)
  obtain r od' where w: "od_write od i s v = (r, od')" by fastforce
  show ?thesis
    unfolding request_reaches_command [OF assms(1,2) write_command_wf [OF assms(6)]]
    using w assms(3,4) val
    by (cases r)
      (auto simp: handle_command_def des process_command_layer_def dispatch_command_def
        handle_write_by_index_def write_expedited_def index_payload [simplified] perform_od_write_def Let_def
        ack_command_def default_header_def seq_abort_def abort_command_def response_data_def)
qed

theorem sdo_write_is_od_write_witness:
  "\<exists>d h'. seq_handle_request DefaultSdoHandler example_conn
     (request_bytes example_conn (write_command 7 0x6000 1 [9])) example_od 0 ()
     = (Inr d, h', snd (od_write example_od 0x6000 1 (Unsigned8 9)), ()) \<and>
   \<not> is_aborted (sc_header (rd_command d))"
proof -
  have v: "value_serialize (Unsigned8 9) = [9]" by simp
  have "fst (od_write example_od 0x6000 1 (Unsigned8 9)) = Inr ()" by (subst example_od_read(3)) simp
  with sdo_write_is_od_write [OF example_conn_ok example_od_read(2), of "Unsigned8 9" DefaultSdoHandler 7 0 "()",
      unfolded v]
  show ?thesis by simp
qed



end
