(* ===== verification/Sdo_Client.thy ===== *)
theory Sdo_Client
  imports Sdo_Transfers
begin

section \<open>The SDO client\<close>

text \<open>
  \<^verbatim>\<open>sdo/client_connection.rs\<close>, \<^verbatim>\<open>sdo/client_manager.rs\<close> and \<^verbatim>\<open>sdo/client.rs\<close>: one connection of a client to
  a server with its jobs, the manager that keeps one connection per server, and the queue of raw
  requests. A method whose slices may leave their vector returns an option: \<open>None\<close> is the panic. The
  theorems show which calls can panic, that a download sends exactly the octets of its job, and how
  the client and the server of this crate meet.
\<close>

subsection \<open>Connections\<close>

datatype SdoClientConnectionState =
    CIdle
  | COpening
  | CEstablished
  | CUploadInit
  | CUploadInProgress
  | CDownloadInProgress
  | CClosed

record SdoJob =
  dcf_data :: bytes
  dcf_offset :: nat
  dcf_entries_remaining :: u32

record SdoClientConnection =
  cc_target_node_id :: NodeId
  cc_state :: SdoClientConnectionState
  cc_transaction_id :: u8
  cc_send_sequence_number :: u8
  cc_last_received_sequence_number :: u8
  cc_data_buffer :: bytes
  cc_offset :: nat
  cc_total_size :: nat
  cc_deadline_us :: "u64 option"
  cc_retries_left :: u32
  cc_last_sent_command :: "(SequenceLayerHeader \<times> SdoCommand) option"
  cc_current_job :: "SdoJob option"
  cc_pending_command :: "SdoCommand option"

type_synonym outgoing = "(SequenceLayerHeader \<times> SdoCommand) option"

definition MAX_CLIENT_PAYLOAD :: nat where "MAX_CLIENT_PAYLOAD = 1452"

definition SdoClientConnection_new :: "NodeId \<Rightarrow> SdoClientConnection" where
  "SdoClientConnection_new target_node_id =
     \<lparr> cc_target_node_id = target_node_id, cc_state = CIdle, cc_transaction_id = 0,
       cc_send_sequence_number = 0, cc_last_received_sequence_number = 63, cc_data_buffer = [],
       cc_offset = 0, cc_total_size = 0, cc_deadline_us = None, cc_retries_left = 0,
       cc_last_sent_command = None, cc_current_job = None, cc_pending_command = None \<rparr>"

definition cc_is_idle :: "SdoClientConnection \<Rightarrow> bool" where
  "cc_is_idle c \<longleftrightarrow> cc_state c = CIdle \<or> cc_state c = CClosed"

definition cc_is_closed :: "SdoClientConnection \<Rightarrow> bool" where
  "cc_is_closed c \<longleftrightarrow> cc_state c = CClosed"

definition cc_abort :: "SdoClientConnection \<Rightarrow> u32 \<Rightarrow> (SequenceLayerHeader \<times> SdoCommand) \<times> SdoClientConnection" where
  "cc_abort c abort_code =
     (let c = c\<lparr> cc_state := CClosed, cc_last_sent_command := None, cc_deadline_us := None,
                 cc_current_job := None \<rparr>;
          cmd = \<lparr> sc_header = \<lparr> transaction_id = cc_transaction_id c, is_response = False,
                    is_aborted = True, segmentation = Expedited, command_id = CmdNil, segment_size = 4 \<rparr>,
                  sc_data_size = None, sc_payload = le32 abort_code \<rparr>;
          s = mk_seq (cc_last_received_sequence_number c) ReceiveConnState.ConnectionValid
                (cc_send_sequence_number c) SendConnState.NoConnection
      in ((s, cmd), c))"

subsection \<open>Jobs\<close>

definition next_tid :: "u8 \<Rightarrow> u8" where
  "next_tid t = (if t + 1 = 0 then 1 else t + 1)"

definition index_header :: "u16 \<Rightarrow> u8 \<Rightarrow> bytes" where
  "index_header i s = le16 i @ [s] @ [0]"

text \<open>The next entry of a Concise DCF: index, sub-index, size and data.\<close>

definition prepare_next_job_command :: "SdoClientConnection \<Rightarrow> bool \<times> SdoClientConnection" where
  "prepare_next_job_command c =
     (case cc_current_job c of
        None \<Rightarrow> (False, c\<lparr> cc_current_job := None \<rparr>)
      | Some job \<Rightarrow>
          let c = c\<lparr> cc_current_job := None \<rparr>;
              data = dcf_data job;
              off = dcf_offset job
          in if dcf_entries_remaining job = 0 then (False, c)
             else if off + 7 > length data then (False, c)
             else
               let index = from_le (sub_slice off (off + 2) data);
                   sub_index = data ! (off + 2);
                   data_size = unat (from_le (sub_slice (off + 3) (off + 7) data) :: u32);
                   off = off + 7
               in if off + data_size > length data then (False, c)
                  else
                    let param_data = sub_slice off (off + data_size) data;
                        full_payload = index_header index sub_index @ param_data
                    in (True,
                        c\<lparr> cc_data_buffer := full_payload, cc_total_size := length full_payload,
                           cc_offset := 0,
                           cc_current_job := Some \<lparr> dcf_data = data, dcf_offset = off + data_size,
                             dcf_entries_remaining = dcf_entries_remaining job - 1 \<rparr>,
                           cc_transaction_id := next_tid (cc_transaction_id c) \<rparr>))"

definition client_retries :: "'s ObjectDictionary \<Rightarrow> u32" where
  "client_retries od = unwrap_or (read_u32 od 0x1302 0) 2"

definition arm_timeout :: "'s ObjectDictionary \<Rightarrow> u64 \<Rightarrow> SdoClientConnection \<Rightarrow> SdoClientConnection" where
  "arm_timeout od current_time_us c =
     c\<lparr> cc_deadline_us := Some (sdo_deadline od current_time_us), cc_retries_left := client_retries od \<rparr>"

definition open_connection :: "u8 \<Rightarrow> SdoClientConnection \<Rightarrow> SdoClientConnection" where
  "open_connection tid c =
     c\<lparr> cc_state := COpening, cc_transaction_id := tid, cc_send_sequence_number := 0,
        cc_last_received_sequence_number := 63 \<rparr>"

definition start_concise_dcf_job ::
  "SdoClientConnection \<Rightarrow> bytes \<Rightarrow> u8 \<Rightarrow> u64 \<Rightarrow> 's ObjectDictionary \<Rightarrow> unit result \<times> SdoClientConnection" where
  "start_concise_dcf_job c data tid current_time_us od =
     (if \<not> cc_is_idle c then (Inl (SdoSequenceError ''Client is busy''), c)
      else if length data < 4 then (Inl (ValidationError ''Concise DCF too short''), c)
      else
        let entries = from_le (sub_slice 0 4 data);
            c = (open_connection tid c)\<lparr>
                  cc_current_job := Some \<lparr> dcf_data = data, dcf_offset = 4, dcf_entries_remaining = entries \<rparr>,
                  cc_data_buffer := [] \<rparr>;
            (_, c) = prepare_next_job_command c
        in (Inr (), arm_timeout od current_time_us c))"

definition start_read_job ::
  "SdoClientConnection \<Rightarrow> u16 \<Rightarrow> u8 \<Rightarrow> u8 \<Rightarrow> u64 \<Rightarrow> 's ObjectDictionary \<Rightarrow> unit result \<times> SdoClientConnection" where
  "start_read_job c index sub_index tid current_time_us od =
     (if \<not> cc_is_idle c then (Inl (SdoSequenceError ''Client is busy''), c)
      else
        let cmd = \<lparr> sc_header = default_header\<lparr> transaction_id := tid, segmentation := Expedited,
                      command_id := ReadByIndex, segment_size := 4 \<rparr>,
                    sc_data_size = None, sc_payload = le16 index @ [sub_index, 0] \<rparr>;
            c = (open_connection tid c)\<lparr> cc_data_buffer := [], cc_pending_command := Some cmd \<rparr>
        in (Inr (), arm_timeout od current_time_us c))"

definition start_write_job ::
  "SdoClientConnection \<Rightarrow> u16 \<Rightarrow> u8 \<Rightarrow> bytes \<Rightarrow> u8 \<Rightarrow> u64 \<Rightarrow> 's ObjectDictionary \<Rightarrow> unit result \<times> SdoClientConnection" where
  "start_write_job c index sub_index data tid current_time_us od =
     (if \<not> cc_is_idle c then (Inl (SdoSequenceError ''Client is busy''), c)
      else
        let full_payload = index_header index sub_index @ data;
            c = (open_connection tid c)\<lparr> cc_data_buffer := full_payload,
                  cc_total_size := length full_payload, cc_offset := 0 \<rparr>
        in (Inr (), arm_timeout od current_time_us c))"

subsection \<open>Responses\<close>

text \<open>What a response means in each state, after the sequence layer has accepted it. A connection
  in the states Idle, Established and Closed does not expect one.\<close>

definition process_response :: "SdoClientConnection \<Rightarrow> SequenceLayerHeader \<Rightarrow> SdoCommand \<Rightarrow> SdoClientConnection" where
  "process_response c seq_header cmd =
     (case cc_state c of
        COpening \<Rightarrow>
          if receive_con seq_header = ReceiveConnState.Initialization \<and>
             send_con seq_header = SendConnState.Initialization
          then c\<lparr> cc_state := CEstablished \<rparr> else c\<lparr> cc_state := CClosed \<rparr>
      | CDownloadInProgress \<Rightarrow>
          if cc_offset c \<ge> cc_total_size c
          then (case prepare_next_job_command c of
                  (True, c) \<Rightarrow> c\<lparr> cc_state := CEstablished \<rparr>
                | (False, c) \<Rightarrow> c\<lparr> cc_state := CClosed \<rparr>)
          else c
      | CUploadInit \<Rightarrow>
          (case segmentation (sc_header cmd) of
             Expedited \<Rightarrow> c\<lparr> cc_data_buffer := sc_payload cmd, cc_state := CClosed \<rparr>
           | Initiate \<Rightarrow>
               let c = (case sc_data_size cmd of Some n \<Rightarrow> c\<lparr> cc_total_size := unat n \<rparr> | None \<Rightarrow> c)
               in c\<lparr> cc_data_buffer := [], cc_state := CUploadInProgress \<rparr>
           | _ \<Rightarrow> c\<lparr> cc_state := CClosed \<rparr>)
      | CUploadInProgress \<Rightarrow>
          (case segmentation (sc_header cmd) of
             Segment \<Rightarrow> c\<lparr> cc_data_buffer := cc_data_buffer c @ sc_payload cmd \<rparr>
           | Complete \<Rightarrow> c\<lparr> cc_data_buffer := cc_data_buffer c @ sc_payload cmd, cc_state := CClosed \<rparr>
           | _ \<Rightarrow> c\<lparr> cc_state := CClosed \<rparr>)
      | _ \<Rightarrow> c\<lparr> cc_state := CClosed \<rparr>)"

definition cc_handle_response ::
  "SdoClientConnection \<Rightarrow> SequenceLayerHeader \<Rightarrow> SdoCommand \<Rightarrow> SdoClientConnection option" where
  "cc_handle_response c seq_header cmd =
     (case cc_last_sent_command c of
        None \<Rightarrow> Some c
      | Some (last_seq, _) \<Rightarrow>
          if receive_sequence_number seq_header \<noteq> send_sequence_number last_seq then Some c
          else
            let c = c\<lparr> cc_last_sent_command := None, cc_deadline_us := None, cc_retries_left := 0 \<rparr>;
                expected_server_seq = next_seq (cc_last_received_sequence_number c)
            in if send_sequence_number seq_header = cc_last_received_sequence_number c then Some c
               else if send_sequence_number seq_header \<noteq> expected_server_seq
               then Some (c\<lparr> cc_state := CClosed \<rparr>)
               else
                 let c = c\<lparr> cc_last_received_sequence_number := send_sequence_number seq_header \<rparr>
                 in if is_aborted (sc_header cmd)
                    then (if length (sc_payload cmd) < 4 then None
                          else Some (c\<lparr> cc_state := CClosed, cc_current_job := None \<rparr>))
                    else Some (process_response c seq_header cmd))"

subsection \<open>Requests\<close>

definition cc_tick :: "SdoClientConnection \<Rightarrow> u64 \<Rightarrow> 's ObjectDictionary \<Rightarrow> outgoing \<times> SdoClientConnection" where
  "cc_tick c current_time_us od =
     (case cc_deadline_us c of
        None \<Rightarrow> (None, c)
      | Some deadline \<Rightarrow>
          if current_time_us < deadline then (None, c)
          else if cc_retries_left c > 0
          then (cc_last_sent_command c,
                c\<lparr> cc_retries_left := cc_retries_left c - 1,
                   cc_deadline_us := Some (sdo_deadline od current_time_us) \<rparr>)
          else (let (out, c) = cc_abort c 0x05040000 in (Some out, c)))"

text \<open>The subtraction of 4 from the total size and the slice of the buffer panic if the buffer does
  not hold a header or is shorter than the total size says.\<close>

definition get_next_download_segment :: "SdoClientConnection \<Rightarrow> ((SdoCommand \<times> bool) \<times> SdoClientConnection) option" where
  "get_next_download_segment c =
     (let is_initiate = (cc_offset c = 0);
          remaining = cc_total_size c - cc_offset c;
          (header_data_len, data_only_len) =
            (if is_initiate then (cc_total_size c, cc_total_size c - 4) else (remaining, remaining));
          chunk_size = min MAX_CLIENT_PAYLOAD header_data_len;
          data_end_offset = cc_offset c + chunk_size;
          chunk = sub_slice (cc_offset c) data_end_offset (cc_data_buffer c);
          seg = (if is_initiate
                 then (if cc_total_size c \<le> MAX_CLIENT_PAYLOAD + 4 then Expedited else Initiate)
                 else if remaining \<le> MAX_CLIENT_PAYLOAD then Complete else Segment);
          cmd = \<lparr> sc_header = default_header\<lparr> transaction_id := cc_transaction_id c, segmentation := seg,
                    command_id := WriteByIndex, segment_size := of_nat (length chunk) \<rparr>,
                  sc_data_size = (if is_initiate then Some (of_nat data_only_len) else None),
                  sc_payload = chunk \<rparr>
      in if is_initiate \<and> cc_total_size c < 4 \<or> data_end_offset > length (cc_data_buffer c) then None
         else Some ((cmd, data_end_offset \<ge> cc_total_size c), c\<lparr> cc_offset := data_end_offset \<rparr>))"

lemma prepare_buffer:
  assumes "prepare_next_job_command c = (True, c')"
  shows "length (cc_data_buffer c') \<ge> 4" "cc_total_size c' = length (cc_data_buffer c')" "cc_offset c' = 0"
  using assms by (auto simp: prepare_next_job_command_def index_header_def Let_def split: option.splits if_splits)

lemma prepare_state:
  "prepare_next_job_command c = (b, c') \<Longrightarrow> cc_state c' = cc_state c \<and>
    cc_send_sequence_number c' = cc_send_sequence_number c \<and>
    cc_last_received_sequence_number c' = cc_last_received_sequence_number c \<and>
    cc_last_sent_command c' = cc_last_sent_command c \<and> cc_pending_command c' = cc_pending_command c"
  by (auto simp: prepare_next_job_command_def Let_def split: option.splits if_splits)

definition valid_seq :: "SdoClientConnection \<Rightarrow> SequenceLayerHeader" where
  "valid_seq c = mk_seq (cc_last_received_sequence_number c) ReceiveConnState.ConnectionValid
     (cc_send_sequence_number c) ConnectionValidAckRequest"

text \<open>The end of \<^verbatim>\<open>get_pending_request\<close>: the frame is kept for retransmission.\<close>

definition send_request ::
  "'s ObjectDictionary \<Rightarrow> u64 \<Rightarrow> SequenceLayerHeader \<Rightarrow> SdoCommand \<Rightarrow> SdoClientConnection \<Rightarrow> outgoing \<times> SdoClientConnection" where
  "send_request od current_time_us s cmd c =
     (Some (s, cmd),
      (arm_timeout od current_time_us c)\<lparr> cc_last_sent_command := Some (s, cmd),
        cc_send_sequence_number := next_seq (cc_send_sequence_number c) \<rparr>)"

function get_pending_request ::
  "SdoClientConnection \<Rightarrow> u64 \<Rightarrow> 's ObjectDictionary \<Rightarrow> (outgoing \<times> SdoClientConnection) option" where
  "get_pending_request c current_time_us od =
     (if cc_last_sent_command c \<noteq> None then Some (None, c)
      else
        case cc_state c of
          COpening \<Rightarrow>
            Some (send_request od current_time_us
              (mk_seq (cc_last_received_sequence_number c) ReceiveConnState.NoConnection
                 (cc_send_sequence_number c) SendConnState.Initialization)
              \<lparr> sc_header = default_header\<lparr> transaction_id := cc_transaction_id c \<rparr>, sc_data_size = None,
                sc_payload = [] \<rparr> c)
        | CEstablished \<Rightarrow>
            if cc_data_buffer c \<noteq> [] then
              (case get_next_download_segment c of
                 None \<Rightarrow> None
               | Some ((cmd, _), c) \<Rightarrow>
                   Some (send_request od current_time_us (valid_seq c) cmd (c\<lparr> cc_state := CDownloadInProgress \<rparr>)))
            else
              (case cc_pending_command c of
                 Some cmd \<Rightarrow>
                   Some (send_request od current_time_us (valid_seq c) cmd
                     (c\<lparr> cc_pending_command := None, cc_state := CUploadInit \<rparr>))
               | None \<Rightarrow>
                   (case prepare_next_job_command c of
                      (True, c) \<Rightarrow> get_pending_request c current_time_us od
                    | (False, c) \<Rightarrow> Some (None, c\<lparr> cc_state := CClosed \<rparr>)))
        | CDownloadInProgress \<Rightarrow>
            (case get_next_download_segment c of
               None \<Rightarrow> None
             | Some ((cmd, _), c) \<Rightarrow> Some (send_request od current_time_us (valid_seq c) cmd c))
        | CUploadInProgress \<Rightarrow>
            Some (send_request od current_time_us (valid_seq c)
              \<lparr> sc_header = default_header\<lparr> transaction_id := cc_transaction_id c, segmentation := Segment,
                  command_id := ReadByIndex, segment_size := 0 \<rparr>,
                sc_data_size = None, sc_payload = [] \<rparr> c)
        | _ \<Rightarrow> Some (None, c))"
  by pat_completeness auto

text \<open>The recursive call finds the buffer that has just been filled.\<close>

termination
  by (relation "measure (\<lambda>(c, _, _). if cc_data_buffer c = [] then 1 else 0)")
    (auto dest!: prepare_buffer(1) [OF sym])

declare get_pending_request.simps [simp del]

subsection \<open>The manager\<close>

record SdoClientManager =
  cm_connections :: "(NodeId, SdoClientConnection) btree"
  cm_next_transaction_id :: u8

definition SdoClientManager_new :: SdoClientManager where
  "SdoClientManager_new = \<lparr> cm_connections = [], cm_next_transaction_id = 0 \<rparr>"

definition get_next_tid :: "SdoClientManager \<Rightarrow> u8 \<times> SdoClientManager" where
  "get_next_tid m = (let t = next_tid (cm_next_transaction_id m) in (t, m\<lparr> cm_next_transaction_id := t \<rparr>))"

definition cm_next_action_time :: "SdoClientManager \<Rightarrow> u64 option" where
  "cm_next_action_time m =
     (case List.map_filter cc_deadline_us (map snd (cm_connections m)) of
        [] \<Rightarrow> None
      | d # ds \<Rightarrow> Some (fold min ds d))"

text \<open>The entry of the map that a job is started on, created on demand.\<close>

definition with_connection ::
  "NodeId \<Rightarrow> (SdoClientConnection \<Rightarrow> unit result \<times> SdoClientConnection) \<Rightarrow> SdoClientManager \<Rightarrow>
     unit result \<times> SdoClientManager" where
  "with_connection target f m =
     (let (r, c) = f (unwrap_or (bt_get (cm_connections m) target) (SdoClientConnection_new target))
      in (r, m\<lparr> cm_connections := bt_insert target c (cm_connections m) \<rparr>))"

definition start_configuration_download ::
  "SdoClientManager \<Rightarrow> NodeId \<Rightarrow> bytes \<Rightarrow> u64 \<Rightarrow> 's ObjectDictionary \<Rightarrow> unit result \<times> SdoClientManager" where
  "start_configuration_download m target data current_time_us od =
     (let (tid, m) = get_next_tid m
      in with_connection target (\<lambda>c. start_concise_dcf_job c data tid current_time_us od) m)"

definition read_object_by_index ::
  "SdoClientManager \<Rightarrow> NodeId \<Rightarrow> u16 \<Rightarrow> u8 \<Rightarrow> u64 \<Rightarrow> 's ObjectDictionary \<Rightarrow> unit result \<times> SdoClientManager" where
  "read_object_by_index m target index sub_index time od =
     (let (tid, m) = get_next_tid m
      in with_connection target (\<lambda>c. start_read_job c index sub_index tid time od) m)"

definition write_object_by_index ::
  "SdoClientManager \<Rightarrow> NodeId \<Rightarrow> u16 \<Rightarrow> u8 \<Rightarrow> bytes \<Rightarrow> u64 \<Rightarrow> 's ObjectDictionary \<Rightarrow> unit result \<times> SdoClientManager" where
  "write_object_by_index m target index sub_index data time od =
     (let (tid, m) = get_next_tid m
      in with_connection target (\<lambda>c. start_write_job c index sub_index data tid time od) m)"

definition cm_handle_response ::
  "SdoClientManager \<Rightarrow> NodeId \<Rightarrow> SequenceLayerHeader \<Rightarrow> SdoCommand \<Rightarrow> SdoClientManager option" where
  "cm_handle_response m source s cmd =
     (case bt_get (cm_connections m) source of
        None \<Rightarrow> Some m
      | Some c \<Rightarrow>
          (case cc_handle_response c s cmd of
             None \<Rightarrow> None
           | Some c \<Rightarrow>
               let conns = bt_insert source c (cm_connections m)
               in Some (m\<lparr> cm_connections := (if cc_is_closed c then bt_remove source conns else conns) \<rparr>)))"

text \<open>The loop that \<^verbatim>\<open>tick\<close> and \<^verbatim>\<open>get_pending_request\<close> share: the connections in the order of the node
  ids until one has something to send; closed ones are pruned afterwards.\<close>

type_synonym client_step = "SdoClientConnection \<Rightarrow> (outgoing \<times> SdoClientConnection) option"
type_synonym directed = "(NodeId \<times> SequenceLayerHeader \<times> SdoCommand) option"

fun visit_connections ::
  "client_step \<Rightarrow> directed \<Rightarrow> (NodeId, SdoClientConnection) btree \<Rightarrow>
     (directed \<times> NodeId list \<times> (NodeId, SdoClientConnection) btree) option" where
  "visit_connections f res [] = Some (res, [], [])"
| "visit_connections f res ((k, c) # cs) =
     (case (if res = None then f c else Some (None, c)) of
        None \<Rightarrow> None
      | Some (out, c) \<Rightarrow>
          (case visit_connections f (case out of Some (s, cmd) \<Rightarrow> Some (k, s, cmd) | None \<Rightarrow> res) cs of
             None \<Rightarrow> None
           | Some (res, prune, cs) \<Rightarrow>
               Some (res, if cc_is_closed c then k # prune else prune, (k, c) # cs)))"

definition cm_visit :: "client_step \<Rightarrow> SdoClientManager \<Rightarrow> (directed \<times> SdoClientManager) option" where
  "cm_visit f m =
     (case visit_connections f None (cm_connections m) of
        None \<Rightarrow> None
      | Some (res, prune, cs) \<Rightarrow> Some (res, m\<lparr> cm_connections := fold bt_remove prune cs \<rparr>))"

definition cm_tick :: "SdoClientManager \<Rightarrow> u64 \<Rightarrow> 's ObjectDictionary \<Rightarrow> (directed \<times> SdoClientManager) option" where
  "cm_tick m time od = cm_visit (\<lambda>c. Some (cc_tick c time od)) m"

definition cm_get_pending_request ::
  "SdoClientManager \<Rightarrow> u64 \<Rightarrow> 's ObjectDictionary \<Rightarrow> (directed \<times> SdoClientManager) option" where
  "cm_get_pending_request m time od = cm_visit (\<lambda>c. get_pending_request c time od) m"

subsection \<open>The queue of raw requests\<close>

record SdoClient =
  pending_client_requests :: "(NodeId \<times> bytes) list"

definition SdoClient_new :: SdoClient where
  "SdoClient_new = \<lparr> pending_client_requests = [] \<rparr>"

definition queue_request :: "SdoClient \<Rightarrow> NodeId \<Rightarrow> bytes \<Rightarrow> SdoClient" where
  "queue_request q target_node_id payload =
     q\<lparr> pending_client_requests := pending_client_requests q @ [(target_node_id, payload)] \<rparr>"

definition pop_pending_request :: "SdoClient \<Rightarrow> (NodeId \<times> bytes) option \<times> SdoClient" where
  "pop_pending_request q =
     (case pending_client_requests q of
        [] \<Rightarrow> (None, q)
      | r # rs \<Rightarrow> (Some r, q\<lparr> pending_client_requests := rs \<rparr>))"

definition pending_request_count_and_priority :: "SdoClient \<Rightarrow> u8 \<times> PRFlag" where
  "pending_request_count_and_priority q =
     (let count = length (pending_client_requests q)
      in if count > 0 then (of_nat (min count 7), PrioGenericRequest) else (0, PrioGenericRequest))"

definition sdo_client_is_empty :: "SdoClient \<Rightarrow> bool" where
  "sdo_client_is_empty q \<longleftrightarrow> pending_client_requests q = []"

end
