(* ===== verification/Sdo_Client_Props.thy ===== *)
theory Sdo_Client_Props
  imports Sdo_Client
begin

section \<open>Correctness of the SDO client\<close>

text \<open>
  An invariant of client connections under which no slice of the client leaves its buffer; the
  frames of a download as the octets of its job, for a whole Concise DCF; and the first exchange of
  the client with the server of this crate.
\<close>

subsection \<open>The invariant\<close>

definition buffer_ok :: "SdoClientConnection \<Rightarrow> bool" where
  "buffer_ok c \<longleftrightarrow> 4 \<le> length (cc_data_buffer c) \<and> cc_total_size c = length (cc_data_buffer c)"

definition client_ok :: "SdoClientConnection \<Rightarrow> bool" where
  "client_ok c \<longleftrightarrow> cc_send_sequence_number c < 64 \<and> cc_last_received_sequence_number c < 64 \<and>
     (case cc_state c of
        COpening \<Rightarrow> cc_data_buffer c = [] \<or> buffer_ok c \<and> cc_offset c = 0
      | CEstablished \<Rightarrow> cc_data_buffer c = [] \<or> buffer_ok c \<and> cc_offset c = 0
      | CDownloadInProgress \<Rightarrow> buffer_ok c \<and> 0 < cc_offset c \<and> cc_offset c \<le> cc_total_size c
      | _ \<Rightarrow> True)"

lemma client_ok_new [simp]: "client_ok (SdoClientConnection_new n)"
  by (simp add: client_ok_def SdoClientConnection_new_def)

lemma client_ok_closed [simp]:
  "client_ok (c\<lparr> cc_state := CClosed \<rparr>) \<longleftrightarrow>
    cc_send_sequence_number c < 64 \<and> cc_last_received_sequence_number c < 64"
  by (simp add: client_ok_def)

lemma client_ok_aborted [simp]:
  "client_ok (c\<lparr> cc_state := CClosed, cc_current_job := None \<rparr>) \<longleftrightarrow>
    cc_send_sequence_number c < 64 \<and> cc_last_received_sequence_number c < 64"
  by (simp add: client_ok_def)

lemma client_ok_seq:
  "client_ok c \<Longrightarrow> cc_send_sequence_number c < 64"
  "client_ok c \<Longrightarrow> cc_last_received_sequence_number c < 64"
  by (simp_all add: client_ok_def)

lemma prepare_cases:
  assumes "prepare_next_job_command c = (b, c')"
  obtains "\<not> b" "c' = c\<lparr> cc_current_job := None \<rparr>" | "b" "buffer_ok c'" "cc_offset c' = 0"
  using assms by (auto simp: prepare_next_job_command_def buffer_ok_def index_header_def Let_def
      split: option.splits if_splits)

lemma job_started_ok:
  assumes "client_ok c"
  shows "client_ok (snd (start_read_job c i s tid now od))"
    and "client_ok (snd (start_write_job c i s data tid now od))"
  using assms
  by (cases "cc_is_idle c"; simp add: start_read_job_def start_write_job_def open_connection_def arm_timeout_def
      client_ok_def buffer_ok_def index_header_def Let_def)+

lemma dcf_started_ok:
  assumes "client_ok c"
  shows "client_ok (snd (start_concise_dcf_job c data tid now od))"
proof (cases "cc_is_idle c \<and> 4 \<le> length data")
  case True
  let ?c = "(open_connection tid c)\<lparr> cc_current_job := Some \<lparr> dcf_data = data, dcf_offset = 4,
      dcf_entries_remaining = from_le (sub_slice 0 4 data) \<rparr>, cc_data_buffer := [] \<rparr>"
  obtain b c' where p: "prepare_next_job_command ?c = (b, c')" by fastforce
  from p have "cc_data_buffer c' = [] \<or> buffer_ok c' \<and> cc_offset c' = 0" by (cases rule: prepare_cases) auto
  with True p prepare_state [OF p] show ?thesis
    by (simp add: start_concise_dcf_job_def arm_timeout_def client_ok_def open_connection_def buffer_ok_def
        linorder_not_less)
next
  case False
  with assms show ?thesis by (auto simp: start_concise_dcf_job_def)
qed

lemma segment_in_bounds:
  assumes "buffer_ok c" "cc_offset c \<le> cc_total_size c"
  shows "\<exists>cmd l. get_next_download_segment c =
    Some ((cmd, l), c\<lparr> cc_offset := min (cc_offset c + 1452) (cc_total_size c) \<rparr>) \<and>
    sc_payload cmd = take 1452 (drop (cc_offset c) (cc_data_buffer c)) \<and>
    (l \<longleftrightarrow> cc_total_size c \<le> cc_offset c + 1452) \<and>
    command_id (sc_header cmd) = WriteByIndex \<and> transaction_id (sc_header cmd) = cc_transaction_id c \<and>
    segmentation (sc_header cmd) =
      (if cc_offset c = 0 then if cc_total_size c \<le> 1456 then Expedited else Initiate
       else if cc_total_size c \<le> cc_offset c + 1452 then Complete else Segment)"
  using assms
  by (auto simp: get_next_download_segment_def buffer_ok_def MAX_CLIENT_PAYLOAD_def default_header_def sub_slice_def
      min_def Let_def)

lemma send_request_ok:
  "client_ok c \<Longrightarrow> client_ok (snd (send_request od now s cmd c))"
  by (simp add: send_request_def arm_timeout_def client_ok_def buffer_ok_def split: SdoClientConnectionState.splits)

lemma download_frame:
  assumes "buffer_ok c" "cc_offset c \<le> cc_total_size c" "cc_last_sent_command c = None"
    and "cc_state c = CDownloadInProgress \<or> cc_state c = CEstablished"
  shows "\<exists>cmd. get_pending_request c now od = Some (send_request od now (valid_seq c) cmd
      (c\<lparr> cc_offset := min (cc_offset c + 1452) (cc_total_size c), cc_state := CDownloadInProgress \<rparr>)) \<and>
    sc_payload cmd = take 1452 (drop (cc_offset c) (cc_data_buffer c)) \<and>
    command_id (sc_header cmd) = WriteByIndex \<and> transaction_id (sc_header cmd) = cc_transaction_id c"
proof -
  from segment_in_bounds [OF assms(1,2)] obtain cmd l where
    "get_next_download_segment c = Some ((cmd, l), c\<lparr> cc_offset := min (cc_offset c + 1452) (cc_total_size c) \<rparr>)"
    "sc_payload cmd = take 1452 (drop (cc_offset c) (cc_data_buffer c))"
    "command_id (sc_header cmd) = WriteByIndex" "transaction_id (sc_header cmd) = cc_transaction_id c" by blast
  moreover have "cc_data_buffer c \<noteq> []" using assms(1) by (auto simp: buffer_ok_def)
  moreover have same: "c\<lparr> cc_offset := n, cc_state := CDownloadInProgress \<rparr> = c\<lparr> cc_offset := n \<rparr>"
    if "cc_state c = CDownloadInProgress" for n using that by simp
  ultimately show ?thesis using assms(3,4)
    by (auto simp: get_pending_request.simps [of c] valid_seq_def same)
qed

lemma download_frame_ok:
  assumes "client_ok c" "buffer_ok c" "cc_offset c \<le> cc_total_size c" "cc_last_sent_command c = None"
    and "cc_state c = CDownloadInProgress \<or> cc_state c = CEstablished"
  shows "\<exists>out c'. get_pending_request c now od = Some (out, c') \<and> client_ok c'"
proof -
  have "client_ok (c\<lparr> cc_offset := min (cc_offset c + 1452) (cc_total_size c), cc_state := CDownloadInProgress \<rparr>)"
    using assms(1-3) by (auto simp: client_ok_def buffer_ok_def min_def)
  with download_frame [OF assms(2-5)] send_request_ok show ?thesis
    by (metis prod.collapse)
qed

lemma pending_request_ok:
  assumes "client_ok c"
  shows "\<exists>out c'. get_pending_request c now od = Some (out, c') \<and> client_ok c'"
proof -
  consider (sent) "cc_last_sent_command c \<noteq> None"
    | (data) "cc_last_sent_command c = None" "cc_state c = CDownloadInProgress \<or> cc_state c = CEstablished"
        "buffer_ok c" "cc_offset c \<le> cc_total_size c"
    | (read) "cc_last_sent_command c = None" "cc_state c = CEstablished" "cc_data_buffer c = []"
    | (other) "cc_last_sent_command c = None" "cc_state c \<noteq> CDownloadInProgress" "cc_state c \<noteq> CEstablished"
    using assms by (cases "cc_last_sent_command c"; cases "cc_state c") (auto simp: client_ok_def)
  then show ?thesis
  proof cases
    case sent
    with assms show ?thesis by (simp add: get_pending_request.simps)
  next
    case data
    with assms show ?thesis by (intro download_frame_ok)
  next
    case read
    obtain b c' where p: "prepare_next_job_command c = (b, c')" by fastforce
    have next_entry: "\<exists>out c''. get_pending_request c' now od = Some (out, c'') \<and> client_ok c''" if "b"
    proof -
      from p that have "buffer_ok c'" "cc_offset c' = 0" by (cases rule: prepare_cases; simp)+
      then show ?thesis using prepare_state [OF p] read assms
        by (intro download_frame_ok) (auto simp: client_ok_def)
    qed
    show ?thesis
    proof (cases "cc_pending_command c")
      case None
      then show ?thesis using read assms p next_entry prepare_state [OF p]
        by (cases b) (auto simp: get_pending_request.simps [of c] client_ok_def)
    next
      case (Some cmd)
      then show ?thesis using read assms
        by (simp add: get_pending_request.simps [of c] send_request_def arm_timeout_def client_ok_def)
    qed
  next
    case other
    then show ?thesis using assms send_request_ok [OF assms]
      by (cases "cc_state c") (auto simp: get_pending_request.simps [of c] send_request_def)
  qed
qed

lemma process_response_ok:
  assumes "client_ok c"
  shows "client_ok (process_response c s cmd)"
proof (cases "cc_state c = CDownloadInProgress")
  case True
  obtain b c' where p: "prepare_next_job_command c = (b, c')" by fastforce
  from p have "client_ok (c'\<lparr> cc_state := if b then CEstablished else CClosed \<rparr>)"
    using prepare_state [OF p] assms True
    by (cases rule: prepare_cases) (auto simp: client_ok_def buffer_ok_def)
  then show ?thesis using p True assms by (cases b) (auto simp: process_response_def)
next
  case False
  with assms show ?thesis
    by (auto simp: process_response_def client_ok_def buffer_ok_def Let_def
        split: SdoClientConnectionState.splits Segmentation.splits option.splits)
qed

lemma handle_response_ok:
  assumes "client_ok c" "cc_handle_response c s cmd = Some c'"
  shows "client_ok c'"
proof -
  let ?c = "c\<lparr> cc_last_sent_command := None, cc_deadline_us := None, cc_retries_left := 0 \<rparr>"
  have "client_ok ?c" using assms(1)
    by (simp add: client_ok_def buffer_ok_def split: SdoClientConnectionState.splits)
  moreover have "client_ok (?c\<lparr> cc_last_received_sequence_number := next_seq n \<rparr>)" for n using assms(1)
    by (simp add: client_ok_def buffer_ok_def split: SdoClientConnectionState.splits)
  ultimately show ?thesis using assms client_ok_seq [OF assms(1)]
    by (auto simp: cc_handle_response_def Let_def intro!: process_response_ok
        split: option.splits if_splits)
qed

lemma handle_response_panics:
  "cc_handle_response c s cmd = None \<Longrightarrow> is_aborted (sc_header cmd) \<and> length (sc_payload cmd) < 4"
  by (auto simp: cc_handle_response_def Let_def split: option.splits if_splits)

lemma tick_ok: "client_ok c \<Longrightarrow> client_ok (snd (cc_tick c now od))"
  by (auto simp: cc_tick_def cc_abort_def client_ok_def buffer_ok_def Let_def
      split: option.splits SdoClientConnectionState.splits)

subsection \<open>The manager\<close>

lemma tid_never_0: "next_tid t \<noteq> 0"
  by (simp add: next_tid_def)

definition manager_ok :: "SdoClientManager \<Rightarrow> bool" where
  "manager_ok m \<longleftrightarrow> bt_inv (cm_connections m) \<and> (\<forall>k c. bt_get (cm_connections m) k = Some c \<longrightarrow> client_ok c)"

lemma visit_connections_ok:
  assumes "\<And>c. client_ok c \<Longrightarrow> \<exists>out c'. f c = Some (out, c') \<and> client_ok c'"
    and "\<forall>(k, c) \<in> set cs. client_ok c"
  shows "\<exists>res' prune cs'. visit_connections f res cs = Some (res', prune, cs') \<and> map fst cs' = map fst cs \<and>
    (\<forall>(k, c) \<in> set cs'. client_ok c)"
  using assms(2)
proof (induction cs arbitrary: res)
  case (Cons p cs)
  obtain k c where p: "p = (k, c)" by fastforce
  obtain out c' where f: "(if res = None then f c else Some (None, c)) = Some (out, c')" "client_ok c'"
    using assms(1) [of c] Cons.prems p by (cases "res = None") auto
  from Cons.IH [of "case out of Some (s, cmd) \<Rightarrow> Some (k, s, cmd) | None \<Rightarrow> res"] Cons.prems
  show ?case using f by (auto simp: p)
qed simp

lemma cm_visit_ok:
  assumes "\<And>c. client_ok c \<Longrightarrow> \<exists>out c'. f c = Some (out, c') \<and> client_ok c'" "manager_ok m"
  shows "\<exists>res m'. cm_visit f m = Some (res, m') \<and> manager_ok m'"
proof -
  have inv: "bt_inv (cm_connections m)" "\<forall>(k, c) \<in> set (cm_connections m). client_ok c"
    using assms(2) bt_all_iff [of "cm_connections m" "\<lambda>_. client_ok"] by (auto simp: manager_ok_def)
  from visit_connections_ok [OF assms(1) inv(2), of "\<lambda>x. x" None] obtain res prune cs where
    v: "visit_connections f None (cm_connections m) = Some (res, prune, cs)"
      "map fst cs = map fst (cm_connections m)" "\<forall>(k, c) \<in> set cs. client_ok c" by blast
  have "bt_inv cs" using inv(1) v(2) by (simp add: bt_inv_def)
  then have "bt_inv (fold bt_remove prune cs) \<and>
      (\<forall>k c. bt_get (fold bt_remove prune cs) k = Some c \<longrightarrow> client_ok c)"
    using v(3) bt_all_iff [of cs "\<lambda>_. client_ok"] by (intro fold_remove_ok) blast+
  with v(1) show ?thesis by (simp add: cm_visit_def manager_ok_def)
qed

lemma with_connection_ok:
  assumes "manager_ok m" "\<And>c. client_ok c \<Longrightarrow> client_ok (snd (f c))"
  shows "manager_ok (snd (with_connection n f m))"
proof -
  let ?c = "unwrap_or (bt_get (cm_connections m) n) (SdoClientConnection_new n)"
  have "client_ok (snd (f ?c))"
    using assms by (cases "bt_get (cm_connections m) n") (auto simp: manager_ok_def)
  then show ?thesis using assms(1) by (auto simp: with_connection_def manager_ok_def split: prod.splits)
qed

lemma manager_ok_tid [simp]: "manager_ok (m\<lparr> cm_next_transaction_id := t \<rparr>) = manager_ok m"
  by (simp add: manager_ok_def)

lemma cm_handle_response_ok:
  assumes "manager_ok m" "cm_handle_response m n s cmd = Some m'"
  shows "manager_ok m'"
  using assms
  by (auto simp: cm_handle_response_def manager_ok_def Let_def dest: handle_response_ok [rotated]
      split: option.splits if_splits)

text \<open>The managers that the operations of a node can produce, with its dictionary, which may change
  at any time.\<close>

inductive client_reachable :: "'s ObjectDictionary \<Rightarrow> SdoClientManager \<Rightarrow> bool" where
  new: "client_reachable od SdoClientManager_new"
| dictionary: "client_reachable od m \<Longrightarrow> client_reachable od' m"
| configuring: "client_reachable od m \<Longrightarrow> client_reachable od (snd (start_configuration_download m n data now od))"
| reading: "client_reachable od m \<Longrightarrow> client_reachable od (snd (read_object_by_index m n i s now od))"
| writing: "client_reachable od m \<Longrightarrow> client_reachable od (snd (write_object_by_index m n i s data now od))"
| response: "client_reachable od m \<Longrightarrow> cm_handle_response m n seq cmd = Some m' \<Longrightarrow> client_reachable od m'"
| tick: "client_reachable od m \<Longrightarrow> cm_tick m now od = Some (out, m') \<Longrightarrow> client_reachable od m'"
| request: "client_reachable od m \<Longrightarrow> cm_get_pending_request m now od = Some (out, m') \<Longrightarrow>
    client_reachable od m'"

lemma cm_tick_ok: "manager_ok m \<Longrightarrow> \<exists>out m'. cm_tick m now od = Some (out, m') \<and> manager_ok m'"
  unfolding cm_tick_def by (rule cm_visit_ok) (auto dest: tick_ok intro: prod.collapse [symmetric])

lemma cm_request_ok: "manager_ok m \<Longrightarrow> \<exists>out m'. cm_get_pending_request m now od = Some (out, m') \<and> manager_ok m'"
  unfolding cm_get_pending_request_def by (rule cm_visit_ok) (auto intro: pending_request_ok)

lemma client_reachable_ok: "client_reachable od m \<Longrightarrow> manager_ok m"
proof (induction rule: client_reachable.induct)
  case new
  show ?case by (simp add: manager_ok_def SdoClientManager_new_def)
next
  case (tick od m now out m')
  then show ?case using cm_tick_ok [of m now od] by auto
next
  case (request od m now out m')
  then show ?case using cm_request_ok [of m now od] by auto
qed (auto simp: start_configuration_download_def read_object_by_index_def write_object_by_index_def get_next_tid_def
    Let_def intro!: with_connection_ok job_started_ok dcf_started_ok dest: cm_handle_response_ok)



subsection \<open>Downloads\<close>

text \<open>A server that acknowledges every frame: the handshake, then each segment.\<close>

definition accepting_reply :: "SequenceLayerHeader \<Rightarrow> SdoClientConnection \<Rightarrow> SequenceLayerHeader" where
  "accepting_reply s c =
     (if send_con s = SendConnState.Initialization
      then mk_seq (send_sequence_number s) ReceiveConnState.Initialization
             (next_seq (cc_last_received_sequence_number c)) SendConnState.Initialization
      else mk_seq (send_sequence_number s) ReceiveConnState.ConnectionValid
             (next_seq (cc_last_received_sequence_number c)) SendConnState.ConnectionValid)"

definition exchange :: "'s ObjectDictionary \<Rightarrow> u64 \<Rightarrow> SdoClientConnection \<Rightarrow> (SdoCommand \<times> SdoClientConnection) option" where
  "exchange od now c =
     (case get_pending_request c now od of
        Some (Some (s, cmd), c) \<Rightarrow>
          map_option (Pair cmd) (cc_handle_response c (accepting_reply s c) (ack_command default_header))
      | _ \<Rightarrow> None)"

fun exchanges :: "'s ObjectDictionary \<Rightarrow> u64 list \<Rightarrow> SdoClientConnection \<Rightarrow> (SdoCommand list \<times> SdoClientConnection) option" where
  "exchanges od [] c = Some ([], c)"
| "exchanges od (t # ts) c =
     (case exchange od t c of
        None \<Rightarrow> None
      | Some (cmd, c) \<Rightarrow> map_option (\<lambda>(cs, c). (cmd # cs, c)) (exchanges od ts c))"

lemma exchanges_append:
  "exchanges od (ts @ us) c =
    (case exchanges od ts c of
       None \<Rightarrow> None
     | Some (cs, c) \<Rightarrow> map_option (\<lambda>(ds, c). (cs @ ds, c)) (exchanges od us c))"
  by (induction ts arbitrary: c) (auto simp: map_option_case split: option.splits)

text \<open>The connection after an exchange of a frame that was sent by \<open>send_request\<close>.\<close>

definition acked_conn :: "SdoClientConnection \<Rightarrow> SdoClientConnection" where
  "acked_conn c = c\<lparr> cc_deadline_us := None, cc_retries_left := 0, cc_last_sent_command := None,
     cc_send_sequence_number := next_seq (cc_send_sequence_number c),
     cc_last_received_sequence_number := next_seq (cc_last_received_sequence_number c) \<rparr>"

lemma acked_conn_sent:
  "(snd (send_request od now s cmd c))\<lparr> cc_last_sent_command := None, cc_deadline_us := None, cc_retries_left := 0,
     cc_last_received_sequence_number := next_seq (cc_last_received_sequence_number c) \<rparr> = acked_conn c"
  by (rule SdoClientConnection.equality) (simp_all add: send_request_def arm_timeout_def acked_conn_def)

lemma exchange_sent:
  assumes "get_pending_request c now od = Some (send_request od now s cmd c1)"
    and "cc_last_received_sequence_number c1 < 64"
  shows "exchange od now c = Some (cmd, process_response (acked_conn c1)
    (accepting_reply s c1) (ack_command default_header))"
proof -
  let ?c = "snd (send_request od now s cmd c1)"
  have "cc_handle_response ?c (accepting_reply s ?c) (ack_command default_header) =
      Some (process_response (acked_conn c1) (accepting_reply s c1) (ack_command default_header))"
    unfolding acked_conn_sent [where od = od and now = now and s = s and cmd = cmd and c = c1, symmetric] cc_handle_response_def Let_def
    using next_seq_neq [OF assms(2)]
    by (simp add: send_request_def arm_timeout_def accepting_reply_def mk_seq_def ack_command_def default_header_def)
  then show ?thesis using assms(1)
    by (simp add: exchange_def send_request_def)
qed

text \<open>How an exchange ends when the buffer has been sent: with the next entry of the job, if any.\<close>

definition finish :: "SdoClientConnection \<Rightarrow> SdoClientConnection" where
  "finish c = (case prepare_next_job_command c of
     (True, c) \<Rightarrow> c\<lparr> cc_state := CEstablished \<rparr> | (False, c) \<Rightarrow> c\<lparr> cc_state := CClosed \<rparr>)"

lemma exchange_segment:
  assumes "client_ok c" "buffer_ok c" "cc_offset c \<le> cc_total_size c" "cc_last_sent_command c = None"
    and "cc_state c = CDownloadInProgress \<or> cc_state c = CEstablished"
  shows "\<exists>cmd. exchange od now c = Some (cmd,
      let c' = acked_conn (c\<lparr> cc_offset := min (cc_offset c + 1452) (cc_total_size c), cc_state := CDownloadInProgress \<rparr>)
      in if cc_offset c' = cc_total_size c' then finish c' else c') \<and>
    sc_payload cmd = take 1452 (drop (cc_offset c) (cc_data_buffer c)) \<and>
    command_id (sc_header cmd) = WriteByIndex \<and> transaction_id (sc_header cmd) = cc_transaction_id c"
proof -
  let ?c = "c\<lparr> cc_offset := min (cc_offset c + 1452) (cc_total_size c), cc_state := CDownloadInProgress \<rparr>"
  from download_frame [OF assms(2-5)] obtain cmd where
    cmd: "get_pending_request c now od = Some (send_request od now (valid_seq c) cmd ?c)"
      "sc_payload cmd = take 1452 (drop (cc_offset c) (cc_data_buffer c))"
      "command_id (sc_header cmd) = WriteByIndex" "transaction_id (sc_header cmd) = cc_transaction_id c" by blast
  have "process_response (acked_conn ?c) (accepting_reply (valid_seq c) ?c) (ack_command default_header) =
      (if cc_offset (acked_conn ?c) = cc_total_size (acked_conn ?c) then finish (acked_conn ?c) else acked_conn ?c)"
    by (auto simp: process_response_def finish_def acked_conn_def min_def)
  then show ?thesis using exchange_sent [OF cmd(1)] cmd client_ok_seq [OF assms(1)] by (auto simp: Let_def)
qed

definition frames :: "nat \<Rightarrow> nat" where
  "frames n = (n + 1451) div 1452"

lemma frames_last: "0 < n \<Longrightarrow> n \<le> 1452 \<Longrightarrow> frames n = 1"
  unfolding frames_def by (intro div_nat_eqI) simp_all

lemma frames_more: "1452 < n \<Longrightarrow> frames n = Suc (frames (n - 1452))"
proof -
  assume "1452 < n"
  then have "n + 1451 = 1452 + (n - 1452 + 1451)" by simp
  then show ?thesis by (simp only: frames_def div_add_self1 [of "1452::nat"])
qed

definition same_job :: "SdoClientConnection \<Rightarrow> SdoClientConnection \<Rightarrow> bool" where
  "same_job c c' \<longleftrightarrow> cc_current_job c' = cc_current_job c \<and> cc_last_sent_command c' = None \<and>
     cc_send_sequence_number c' < 64 \<and> cc_last_received_sequence_number c' < 64"

definition transfer_of :: "bytes \<Rightarrow> SdoCommand list \<Rightarrow> bool" where
  "transfer_of p ds \<longleftrightarrow> concat (map sc_payload ds) = p \<and> length ds = frames (length p) \<and>
     (\<exists>tid. \<forall>d \<in> set ds. command_id (sc_header d) = WriteByIndex \<and> transaction_id (sc_header d) = tid)"

lemma exchanges_buffer:
  assumes "client_ok c" "buffer_ok c" "cc_offset c < cc_total_size c" "cc_last_sent_command c = None"
    and "cc_state c = CDownloadInProgress \<or> cc_state c = CEstablished"
    and "length ts = frames (cc_total_size c - cc_offset c)"
  shows "\<exists>cs c1. exchanges od ts c = Some (cs, finish c1) \<and> length cs = length ts \<and>
    concat (map sc_payload cs) = drop (cc_offset c) (cc_data_buffer c) \<and> same_job c c1 \<and>
    (\<forall>d \<in> set cs. command_id (sc_header d) = WriteByIndex \<and> transaction_id (sc_header d) = cc_transaction_id c)"
  using assms
proof (induction ts arbitrary: c)
  case Nil
  then have "frames (cc_total_size c - cc_offset c) = 0" by simp
  with Nil(3) show ?case
    using frames_last [of "cc_total_size c - cc_offset c"] frames_more [of "cc_total_size c - cc_offset c"]
    by (cases "cc_total_size c - cc_offset c \<le> 1452") simp_all
next
  case (Cons t ts)
  let ?c = "acked_conn (c\<lparr> cc_offset := min (cc_offset c + 1452) (cc_total_size c), cc_state := CDownloadInProgress \<rparr>)"
  from exchange_segment [of c od t] Cons.prems obtain cmd where
    cmd: "exchange od t c = Some (cmd, if cc_offset ?c = cc_total_size ?c then finish ?c else ?c)"
      "sc_payload cmd = take 1452 (drop (cc_offset c) (cc_data_buffer c))"
      "command_id (sc_header cmd) = WriteByIndex" "transaction_id (sc_header cmd) = cc_transaction_id c"
    by (auto simp: Let_def)
  have len: "length (cc_data_buffer c) = cc_total_size c" using Cons.prems(2) by (simp add: buffer_ok_def)
  have job: "same_job c ?c" by (simp add: same_job_def acked_conn_def)
  show ?case
  proof (cases "cc_total_size c - cc_offset c \<le> 1452")
    case True
    then have "ts = []" using Cons.prems(3,6) frames_last [of "cc_total_size c - cc_offset c"] by simp
    moreover have "cc_offset ?c = cc_total_size ?c" using True Cons.prems(3) by (simp add: acked_conn_def)
    ultimately show ?thesis using cmd True job len by fastforce
  next
    case False
    have off: "cc_offset ?c = cc_offset c + 1452" "cc_total_size ?c = cc_total_size c"
      "cc_data_buffer ?c = cc_data_buffer c" "cc_transaction_id ?c = cc_transaction_id c"
      using False by (simp_all add: acked_conn_def)
    have "\<exists>cs c1. exchanges od ts ?c = Some (cs, finish c1) \<and> length cs = length ts \<and>
        concat (map sc_payload cs) = drop (cc_offset ?c) (cc_data_buffer ?c) \<and> same_job ?c c1 \<and>
        (\<forall>d \<in> set cs. command_id (sc_header d) = WriteByIndex \<and> transaction_id (sc_header d) = cc_transaction_id ?c)"
    proof (rule Cons.IH)
      show "client_ok ?c" "buffer_ok ?c" using Cons.prems(1,2) False
        by (auto simp: client_ok_def buffer_ok_def acked_conn_def)
      show "length ts = frames (cc_total_size ?c - cc_offset ?c)"
        using Cons.prems(6) frames_more [of "cc_total_size c - cc_offset c"] False off
        by (simp add: diff_diff_eq)
    qed (use False in \<open>simp_all add: acked_conn_def\<close>)
    then obtain cs c1 where cs: "exchanges od ts ?c = Some (cs, finish c1)" "length cs = length ts"
      "concat (map sc_payload cs) = drop (cc_offset c + 1452) (cc_data_buffer c)" "same_job ?c c1"
      "\<forall>d \<in> set cs. command_id (sc_header d) = WriteByIndex \<and> transaction_id (sc_header d) = cc_transaction_id c"
      unfolding off by blast
    have "sc_payload cmd @ drop (cc_offset c + 1452) (cc_data_buffer c) = drop (cc_offset c) (cc_data_buffer c)"
      unfolding cmd(2) by (metis add.commute append_take_drop_id drop_drop)
    moreover have "exchange od t c = Some (cmd, ?c)" using cmd(1) off False by simp
    moreover have "same_job c c1" using cs(4) job by (simp add: same_job_def)
    ultimately show ?thesis using cs cmd(3,4) by (intro exI [of _ "cmd # cs"] exI [of _ c1]) simp
  qed
qed

text \<open>The entries of a Concise DCF, read off the octets, as the payloads of their writes. Reading
  stops at an entry that is cut off.\<close>

fun dcf_writes :: "nat \<Rightarrow> bytes \<Rightarrow> bytes list" where
  "dcf_writes 0 bs = []"
| "dcf_writes (Suc n) bs =
     (let data_size = unat (from_le (take 4 (drop 3 bs)) :: u32)
      in if length bs < 7 \<or> length bs < 7 + data_size then []
         else (take 3 bs @ [0] @ take data_size (drop 7 bs)) # dcf_writes n (drop (7 + data_size) bs))"

definition job_writes :: "SdoJob \<Rightarrow> bytes list" where
  "job_writes job = dcf_writes (unat (dcf_entries_remaining job)) (drop (dcf_offset job) (dcf_data job))"

lemma index_header_read:
  "n + 3 \<le> length data \<Longrightarrow>
    index_header (from_le (sub_slice n (n + 2) data)) (data ! (n + 2)) = take 3 (drop n data) @ [0]"
proof -
  assume n: "n + 3 \<le> length data"
  have "take 3 (drop n data) = take 2 (drop n data) @ [drop n data ! 2]"
    using n take_Suc_conv_app_nth [of 2 "drop n data"] by simp
  moreover have "le16 (from_le (take 2 (drop n data))) = take 2 (drop n data)"
    using n to_le_from_le [where 'a = 16, of "take 2 (drop n data)"] by simp
  ultimately show ?thesis using n by (simp add: index_header_def sub_slice_def)
qed

lemma prepare_job:
  assumes "cc_current_job c = Some job"
  shows "case job_writes job of
      [] \<Rightarrow> prepare_next_job_command c = (False, c\<lparr> cc_current_job := None \<rparr>)
    | p # ps \<Rightarrow> \<exists>c' job'. prepare_next_job_command c = (True, c') \<and> cc_data_buffer c' = p \<and>
        cc_current_job c' = Some job' \<and> job_writes job' = ps"
proof (cases "unat (dcf_entries_remaining job)")
  case 0
  then have "dcf_entries_remaining job = 0" by (simp add: unat_eq_0)
  with assms 0 show ?thesis by (simp add: job_writes_def prepare_next_job_command_def)
next
  case (Suc k)
  let ?bs = "drop (dcf_offset job) (dcf_data job)"
  let ?n = "unat (from_le (take 4 (drop 3 ?bs)) :: u32)"
  have n: "dcf_entries_remaining job \<noteq> 0" using Suc by auto
  have k: "unat (dcf_entries_remaining job - 1) = k"
    using Suc n by (simp add: unat_minus_one)
  have sz: "sub_slice (dcf_offset job + 3) (dcf_offset job + 7) (dcf_data job) = take 4 (drop 3 ?bs)"
    by (simp add: sub_slice_def add.commute)
  show ?thesis
  proof (cases "length ?bs < 7 \<or> length ?bs < 7 + ?n")
    case True
    then show ?thesis using assms n Suc sz
      by (auto simp: job_writes_def prepare_next_job_command_def Let_def)
  next
    case False
    then have w: "job_writes job = (take 3 ?bs @ [0] @ take ?n (drop 7 ?bs)) # dcf_writes k (drop (7 + ?n) ?bs)"
      by (simp add: job_writes_def Suc Let_def)
    from False have l: "dcf_offset job + 7 \<le> length (dcf_data job)" "dcf_offset job + 7 + ?n \<le> length (dcf_data job)"
      by auto
    show ?thesis unfolding w using assms n l k sz index_header_read [of "dcf_offset job" "dcf_data job"]
      by (auto simp: prepare_next_job_command_def Let_def job_writes_def sub_slice_def add.commute add.assoc)
  qed
qed

lemma buffer_transfer:
  assumes "client_ok c" "buffer_ok c" "cc_offset c = 0" "cc_last_sent_command c = None" "cc_state c = CEstablished"
    and "length ts = frames (length (cc_data_buffer c))"
  shows "\<exists>cs c1. exchanges od ts c = Some (cs, finish c1) \<and> transfer_of (cc_data_buffer c) cs \<and> same_job c c1"
proof -
  have "cc_offset c < cc_total_size c" "length ts = frames (cc_total_size c - cc_offset c)"
    using assms(2,3,6) by (auto simp: buffer_ok_def)
  from exchanges_buffer [OF assms(1,2) this(1) assms(4) disjI2 [OF assms(5)] this(2)] show ?thesis
    using assms(3,6) by (fastforce simp: transfer_of_def)
qed

lemma job_exchanges:
  assumes "client_ok c" "buffer_ok c" "cc_offset c = 0" "cc_last_sent_command c = None" "cc_state c = CEstablished"
    and "cc_data_buffer c = p" "cc_current_job c = Some job" "job_writes job = ps"
    and "length ts = sum_list (map (\<lambda>p. frames (length p)) (p # ps))"
  shows "\<exists>css c'. exchanges od ts c = Some (concat css, c') \<and> cc_state c' = CClosed \<and>
    list_all2 transfer_of (p # ps) css"
  using assms
proof (induction ps arbitrary: c p job ts)
  case Nil
  then have "length ts = frames (length (cc_data_buffer c))" by simp
  from buffer_transfer [OF Nil(1-5) this] obtain cs c1 where
    cs: "exchanges od ts c = Some (cs, finish c1)" "transfer_of p cs" "same_job c c1" using Nil(6) by blast
  have "cc_state (finish c1) = CClosed"
    using prepare_job [of c1 job] cs(3) Nil(7,8) by (simp add: finish_def same_job_def)
  with cs show ?case by (intro exI [of _ "[cs]"] exI [of _ "finish c1"]) simp
next
  case (Cons q ps)
  let ?k = "frames (length p)"
  have k: "length (take ?k ts) = frames (length (cc_data_buffer c))"
    "length (drop ?k ts) = sum_list (map (\<lambda>p. frames (length p)) (q # ps))"
    using Cons.prems(6,9) by simp_all
  from buffer_transfer [OF Cons.prems(1-5) k(1)] obtain cs c1 where
    cs: "exchanges od (take ?k ts) c = Some (cs, finish c1)" "transfer_of p cs" "same_job c c1"
    using Cons.prems(6) by blast
  from prepare_job [of c1 job] cs(3) Cons.prems(7,8) obtain c2 job' where
    c2: "prepare_next_job_command c1 = (True, c2)" "cc_data_buffer c2 = q" "cc_current_job c2 = Some job'"
      "job_writes job' = ps" by (auto simp: same_job_def)
  note b = prepare_buffer [OF c2(1)] prepare_state [OF c2(1)]
  have "\<exists>css c'. exchanges od (drop ?k ts) (finish c1) = Some (concat css, c') \<and> cc_state c' = CClosed \<and>
      list_all2 transfer_of (q # ps) css"
    by (rule Cons.IH [OF _ _ _ _ _ _ _ _ k(2)])
      (use c2 b cs(3) in \<open>auto simp: finish_def client_ok_def buffer_ok_def same_job_def\<close>)
  then obtain css c' where css: "exchanges od (drop ?k ts) (finish c1) = Some (concat css, c')" "cc_state c' = CClosed"
    "list_all2 transfer_of (q # ps) css" by blast
  have "exchanges od ts c = Some (concat (cs # css), c')"
    using exchanges_append [of od "take ?k ts" "drop ?k ts" c] cs(1) css(1) by simp
  with css cs(2) show ?case by (intro exI [of _ "cs # css"] exI [of _ c']) simp
qed

lemma opening_exchange:
  assumes "client_ok c" "cc_state c = COpening" "cc_last_sent_command c = None"
  shows "\<exists>cmd. exchange od now c = Some (cmd, (acked_conn c)\<lparr> cc_state := CEstablished \<rparr>) \<and>
    command_id (sc_header cmd) = CmdNil \<and> sc_payload cmd = []"
proof -
  let ?s = "mk_seq (cc_last_received_sequence_number c) ReceiveConnState.NoConnection
      (cc_send_sequence_number c) SendConnState.Initialization"
  have "\<exists>cmd. get_pending_request c now od = Some (send_request od now ?s cmd c) \<and>
      command_id (sc_header cmd) = CmdNil \<and> sc_payload cmd = []"
    using assms(2,3)
    by (auto simp: get_pending_request.simps [of c] default_header_def)
  then obtain cmd where cmd: "get_pending_request c now od = Some (send_request od now ?s cmd c)"
    "command_id (sc_header cmd) = CmdNil" "sc_payload cmd = []" by blast
  show ?thesis using exchange_sent [OF cmd(1) client_ok_seq(2) [OF assms(1)]] cmd(2,3) assms(2)
    by (simp add: process_response_def accepting_reply_def mk_seq_def acked_conn_def)
qed



subsection \<open>The client and the server of this crate\<close>

text \<open>A message of the client as the server receives it.\<close>

definition wire :: "SequenceLayerHeader \<Rightarrow> SdoCommand \<Rightarrow> bytes" where
  "wire s cmd = snd (SequenceLayerHeader_serialize s [0, 0, 0, 0]) @ command_image cmd"

lemma wire_read:
  assumes "wf_seq s"
  shows "SequenceLayerHeader_deserialize (sub_slice 0 4 (wire s cmd)) = Inr s" "drop 4 (wire s cmd) = command_image cmd"
    "4 \<le> length (wire s cmd)" "command_image cmd \<noteq> []"
proof -
  have "length (snd (SequenceLayerHeader_serialize s [0, 0, 0, 0])) = 4" by (simp add: seq.ser_length)
  then show "SequenceLayerHeader_deserialize (sub_slice 0 4 (wire s cmd)) = Inr s"
    "drop 4 (wire s cmd) = command_image cmd" "4 \<le> length (wire s cmd)"
    using seq.roundtrip [OF assms, of "[0, 0, 0, 0]"] by (simp_all add: wire_def sub_slice_def)
  show "command_image cmd \<noteq> []" by (simp add: command_image_def command_header_image_def)
qed

definition opening_command :: "u8 \<Rightarrow> SdoCommand" where
  "opening_command tid =
     \<lparr> sc_header = default_header\<lparr> transaction_id := tid \<rparr>, sc_data_size = None, sc_payload = [] \<rparr>"

lemma server_opens:
  assumes "server_ok srv" "bt_get (srv_connections srv) k = None"
  shows "\<exists>d srv'. server_handle_request srv (wire (mk_seq 63 ReceiveConnState.NoConnection 0 SendConnState.Initialization)
        (opening_command tid)) k sod now = (Inr d, srv', sod) \<and>
    rd_seq_header d = mk_seq 0 ReceiveConnState.Initialization 0 SendConnState.Initialization \<and>
    \<not> is_aborted (sc_header (rd_command d)) \<and> bt_get (srv_connections srv') k = Some (opened k)"
proof -
  let ?s = "mk_seq 63 ReceiveConnState.NoConnection 0 SendConnState.Initialization" and ?c = "opening_command tid"
  have "wf_seq ?s" by (simp add: wf_seq_def mk_seq_def)
  note w = wire_read [OF this, of ?c]
  have wf: "wf_command ?c" by (simp add: wf_command_def opening_command_def default_header_def)
  have des: "SdoCommand_deserialize (command_image ?c) = Inr ?c" using command_roundtrip [OF wf, of "[]"] by simp
  show ?thesis using w des assms
    by (simp add: server_handle_request_def seq_handle_request_def SdoSequenceHandler_new_def process_sequence_layer_def
        mk_seq_def handle_command_def process_command_layer_def dispatch_command_def opening_command_def
        default_header_def ack_command_def opened_def response_data_def is_closed_def server_ok_def Let_def)
qed

lemma server_rejects:
  assumes "bt_get (srv_connections srv) k = Some (opened k)" "wf_seq s" "send_con s = ConnectionValidAckRequest"
    and "receive_con s \<noteq> ErrorResponse"
  shows "\<exists>srv'. server_handle_request srv (wire s cmd) k sod now =
    (Inl (SdoSequenceError ''Invalid sequence state during SDO opening.''), srv', sod)"
  using assms wire_read [OF assms(2), of cmd]
  by (simp add: server_handle_request_def seq_handle_request_def process_sequence_layer_def opened_def Let_def)

lemma client_opens:
  assumes "start_write_job (SdoClientConnection_new n) i s data tid now od = (Inr (), c) \<or>
      start_read_job (SdoClientConnection_new n) i s tid now od = (Inr (), c)"
    and "rd = mk_seq 0 ReceiveConnState.Initialization 0 SendConnState.Initialization" "\<not> is_aborted (sc_header reply)"
  shows "\<exists>c1 c2 q cmd c3. get_pending_request c t od =
        Some (Some (mk_seq 63 ReceiveConnState.NoConnection 0 SendConnState.Initialization, opening_command tid), c1) \<and>
    cc_handle_response c1 rd reply = Some c2 \<and> cc_state c2 = CEstablished \<and>
    get_pending_request c2 t od = Some (Some (q, cmd), c3) \<and> wf_seq q \<and>
    send_con q = ConnectionValidAckRequest \<and> receive_con q = ReceiveConnState.ConnectionValid"
proof -
  have c: "cc_state c = COpening" "cc_last_sent_command c = None" "cc_send_sequence_number c = 0"
    "cc_last_received_sequence_number c = 63" "cc_transaction_id c = tid" "client_ok c"
    "cc_data_buffer c \<noteq> [] \<or> cc_pending_command c \<noteq> None"
    using assms(1) job_started_ok [of "SdoClientConnection_new n"]
    by (auto simp: start_write_job_def start_read_job_def cc_is_idle_def SdoClientConnection_new_def open_connection_def
        arm_timeout_def index_header_def client_ok_def buffer_ok_def Let_def)
  let ?q = "mk_seq 63 ReceiveConnState.NoConnection 0 SendConnState.Initialization"
  let ?c1 = "snd (send_request od t ?q (opening_command tid) c)"
  have r: "get_pending_request c t od = Some (Some (?q, opening_command tid), ?c1)"
    using c by (simp add: get_pending_request.simps [of c] send_request_def opening_command_def)
  define c2 where "c2 = (acked_conn c)\<lparr> cc_state := CEstablished \<rparr>"
  have n: "next_seq 63 = 0" "next_seq 0 = 1" by (simp_all add: next_seq_def)
  have "cc_handle_response ?c1 rd reply = Some (process_response (acked_conn c) rd reply)"
    unfolding acked_conn_sent [where od = od and now = t and s = ?q and cmd = "opening_command tid" and c = c, symmetric]
    using c assms(2,3) n by (simp add: cc_handle_response_def send_request_def arm_timeout_def mk_seq_def Let_def)
  then have h: "cc_handle_response ?c1 rd reply = Some c2"
    using c assms(2) by (simp add: process_response_def acked_conn_def c2_def mk_seq_def)
  have c2: "cc_state c2 = CEstablished" "cc_last_sent_command c2 = None" "cc_send_sequence_number c2 = 1"
    "cc_last_received_sequence_number c2 = 0" "cc_data_buffer c2 = cc_data_buffer c"
    "cc_pending_command c2 = cc_pending_command c" "client_ok c2"
    using c n by (auto simp: c2_def acked_conn_def client_ok_def buffer_ok_def)
  have v: "wf_seq (valid_seq c2)" "send_con (valid_seq c2) = ConnectionValidAckRequest"
    "receive_con (valid_seq c2) = ReceiveConnState.ConnectionValid"
    using c2 by (simp_all add: valid_seq_def wf_seq_def mk_seq_def)
  have "\<exists>cmd c3. get_pending_request c2 t od = Some (Some (valid_seq c2, cmd), c3)"
  proof (cases "cc_data_buffer c2 = []")
    case True
    then show ?thesis using c(7) c2 by (auto simp: get_pending_request.simps [of c2] send_request_def)
  next
    case False
    then have "buffer_ok c2" "cc_offset c2 \<le> cc_total_size c2" using c2(1,7) by (auto simp: client_ok_def)
    from download_frame [OF this c2(2) disjI2 [OF c2(1)]] show ?thesis
      unfolding send_request_def by blast
  qed
  with r h c2(1) v show ?thesis by blast
qed

text \<open>
  C40: the client of this crate does not get past the handshake with the server of this crate. The
  server accepts the client's initialisation and the client takes the connection as established;
  but the first command, of a read or of a write, carries the connection state that requests an
  acknowledgement, and a server that is opening a connection answers it with a sequence error.\<close>

theorem sdo_client_rejected_by_server:
  assumes "sdo_reachable srv sod" "bt_get (srv_connections srv) k = None"
    and "start_write_job (SdoClientConnection_new n) i s data tid now od = (Inr (), c) \<or>
      start_read_job (SdoClientConnection_new n) i s tid now od = (Inr (), c)"
  shows "\<exists>q cmd c1 d srv1 c2 q' cmd' c3 srv2.
    get_pending_request c t od = Some (Some (q, cmd), c1) \<and>
    server_handle_request srv (wire q cmd) k sod t = (Inr d, srv1, sod) \<and>
    cc_handle_response c1 (rd_seq_header d) (rd_command d) = Some c2 \<and> cc_state c2 = CEstablished \<and>
    get_pending_request c2 t od = Some (Some (q', cmd'), c3) \<and>
    server_handle_request srv1 (wire q' cmd') k sod t =
      (Inl (SdoSequenceError ''Invalid sequence state during SDO opening.''), srv2, sod)"
proof -
  from server_opens [OF _ assms(2)] sdo_reachable_ok [OF assms(1)] obtain d srv1 where
    d: "server_handle_request srv (wire (mk_seq 63 ReceiveConnState.NoConnection 0 SendConnState.Initialization)
        (opening_command tid)) k sod t = (Inr d, srv1, sod)"
      "rd_seq_header d = mk_seq 0 ReceiveConnState.Initialization 0 SendConnState.Initialization"
      "\<not> is_aborted (sc_header (rd_command d))" "bt_get (srv_connections srv1) k = Some (opened k)" by blast
  from client_opens [OF assms(3) d(2,3)] obtain c1 c2 q cmd c3 where
    c: "get_pending_request c t od =
        Some (Some (mk_seq 63 ReceiveConnState.NoConnection 0 SendConnState.Initialization, opening_command tid), c1)"
      "cc_handle_response c1 (rd_seq_header d) (rd_command d) = Some c2" "cc_state c2 = CEstablished"
      "get_pending_request c2 t od = Some (Some (q, cmd), c3)" "wf_seq q" "send_con q = ConnectionValidAckRequest"
      "receive_con q = ReceiveConnState.ConnectionValid" by blast
  have "receive_con q \<noteq> ErrorResponse" using c(7) by simp
  from server_rejects [OF d(4) c(5,6) this, where cmd = cmd and sod = sod and now = t] obtain srv2 where
    "server_handle_request srv1 (wire q cmd) k sod t =
      (Inl (SdoSequenceError ''Invalid sequence state during SDO opening.''), srv2, sod)" by blast
  with c(1-4) d(1) show ?thesis by metis
qed

theorem sdo_client_rejected_by_server_witness:
  "\<exists>q cmd c1 d srv1 c2 q' cmd' c3 srv2.
    get_pending_request (snd (start_read_job (SdoClientConnection_new 240) 0x6000 1 1 0 example_od)) 0 example_od =
      Some (Some (q, cmd), c1) \<and>
    server_handle_request SdoServer_new (wire q cmd) (UdpClient [10, 0, 0, 1] 3819) example_od 0 = (Inr d, srv1, example_od) \<and>
    cc_handle_response c1 (rd_seq_header d) (rd_command d) = Some c2 \<and> cc_state c2 = CEstablished \<and>
    get_pending_request c2 0 example_od = Some (Some (q', cmd'), c3) \<and>
    server_handle_request srv1 (wire q' cmd') (UdpClient [10, 0, 0, 1] 3819) example_od 0 =
      (Inl (SdoSequenceError ''Invalid sequence state during SDO opening.''), srv2, example_od)"
proof -
  have "start_read_job (SdoClientConnection_new 240) 0x6000 1 1 0 example_od =
      (Inr (), snd (start_read_job (SdoClientConnection_new 240) 0x6000 1 1 0 example_od))"
    by (simp add: start_read_job_def cc_is_idle_def SdoClientConnection_new_def Let_def)
  from sdo_client_rejected_by_server [OF sdo_reachable.new [OF example_od_read(1)] _ disjI2 [OF this]]
  show ?thesis by (simp add: SdoServer_new_def SdoServer_with_handler_def)
qed

end
