(* ===== verification/Sdo_Embedded.thy ===== *)
theory Sdo_Embedded
  imports Sdo_Transfers
begin

section \<open>SDO embedded in PDO\<close>

text \<open>
  \<^verbatim>\<open>sdo/embedded_server.rs\<close> and \<^verbatim>\<open>sdo/embedded_client.rs\<close>: requests and responses that travel in
  containers of the cyclic data, one channel per object 0x1200-0x127F (server) and 0x1280-0x12FF
  (client). The theorems compose the two ends of a channel.
\<close>

subsection \<open>The server\<close>

record EmbeddedServerConnection =
  es_last_sequence_number :: u8
  es_pending_response :: "bytes option"

type_synonym EmbeddedSdoServer = "(u16, EmbeddedServerConnection) btree"

definition EmbeddedServerConnection_default :: EmbeddedServerConnection where
  "EmbeddedServerConnection_default = \<lparr> es_last_sequence_number = 0, es_pending_response = None \<rparr>"

definition es_connection :: "EmbeddedSdoServer \<Rightarrow> u16 \<Rightarrow> EmbeddedServerConnection" where
  "es_connection srv channel_index = unwrap_or (bt_get srv channel_index) EmbeddedServerConnection_default"

definition missing_object_code :: "'s ObjectDictionary \<Rightarrow> u16 \<Rightarrow> u32" where
  "missing_object_code od index = (if read_object od index = None then 0x06020000 else 0x06090011)"

definition embedded_write :: "PdoSdoCommand \<Rightarrow> 's ObjectDictionary \<Rightarrow> (u32 option \<times> bytes) \<times> 's ObjectDictionary" where
  "embedded_write req od =
     (case od_read od (pc_index req) (pc_sub_index req) of
        Some template \<Rightarrow>
          (case value_deserialize (pc_data req) template of
             Inr v \<Rightarrow>
               (case od_write od (pc_index req) (pc_sub_index req) v of
                  (Inr _, od) \<Rightarrow> ((None, []), od)
                | (Inl e, od) \<Rightarrow>
                    ((Some (case e of
                              StorageError msg \<Rightarrow> if msg = ''Object is read-only'' then 0x06010002 else 0x08000020
                            | TypeMismatch \<Rightarrow> 0x06070010
                            | ValidationError _ \<Rightarrow> 0x06090030
                            | _ \<Rightarrow> 0x08000020), []), od))
           | Inl _ \<Rightarrow> ((Some 0x06070010, []), od))
      | None \<Rightarrow> ((Some (missing_object_code od (pc_index req)), []), od))"

definition es_process_command :: "PdoSdoCommand \<Rightarrow> 's ObjectDictionary \<Rightarrow> u8 \<Rightarrow> bytes \<times> 's ObjectDictionary" where
  "es_process_command req od response_seq_num =
     (let ((abort_code, data), od) =
            (case pc_command_id req of
               ReadByIndex \<Rightarrow>
                 (case od_read od (pc_index req) (pc_sub_index req) of
                    Some v \<Rightarrow> ((None, value_serialize v), od)
                  | None \<Rightarrow> ((Some (missing_object_code od (pc_index req)), []), od))
             | WriteByIndex \<Rightarrow> embedded_write req od
             | _ \<Rightarrow> ((Some 0x05040001, []), od))
      in (PdoSdoCommand_serialize
            \<lparr> pc_sequence_header = \<lparr> ps_sequence_number = response_seq_num,
                ps_connection_state = (if abort_code \<noteq> None then 3 else 2) \<rparr>,
              pc_transaction_id = pc_transaction_id req, pc_is_response = True,
              pc_is_aborted = (abort_code \<noteq> None), pc_segmentation = Expedited,
              pc_valid_payload_length = 0,
              pc_command_id = (if abort_code \<noteq> None then CmdNil else pc_command_id req),
              pc_index = pc_index req, pc_sub_index = pc_sub_index req,
              pc_data = (case abort_code of Some code \<Rightarrow> le32 code | None \<Rightarrow> data) \<rparr>, od))"

definition es_handle_request ::
  "EmbeddedSdoServer \<Rightarrow> u16 \<Rightarrow> bytes \<Rightarrow> 's ObjectDictionary \<Rightarrow> EmbeddedSdoServer \<times> 's ObjectDictionary" where
  "es_handle_request srv channel_index payload od =
     (let conn = es_connection srv channel_index;
          srv = bt_insert channel_index conn srv
      in case PdoSdoCommand_deserialize payload of
           Inl _ \<Rightarrow> (srv, od)
         | Inr command \<Rightarrow>
             let n = ps_sequence_number (pc_sequence_header command);
                 expected_seq = next_seq (es_last_sequence_number conn)
             in if n = es_last_sequence_number conn then (srv, od)
                else if n \<noteq> expected_seq then (srv, od)
                else
                  let (response_payload, od) = es_process_command command od n
                  in (bt_insert channel_index
                        (conn\<lparr> es_last_sequence_number := n, es_pending_response := Some response_payload \<rparr>) srv,
                      od))"

definition resize0 :: "nat \<Rightarrow> bytes \<Rightarrow> bytes" where
  "resize0 n bs = take n bs @ replicate (n - length bs) 0"

definition get_pending_response :: "EmbeddedSdoServer \<Rightarrow> u16 \<Rightarrow> nat \<Rightarrow> bytes \<times> EmbeddedSdoServer" where
  "get_pending_response srv channel_index container_len =
     (let conn = es_connection srv channel_index;
          srv = bt_insert channel_index (conn\<lparr> es_pending_response := None \<rparr>) srv
      in (case es_pending_response conn of
            Some payload \<Rightarrow>
              if length payload > container_len then take container_len payload
              else resize0 container_len payload
          | None \<Rightarrow> replicate container_len 0, srv))"

subsection \<open>The client\<close>

record SdoClientRequest =
  cr_command_id :: CommandId
  cr_index :: u16
  cr_sub_index :: u8
  cr_data :: bytes

record EmbeddedClientConnection =
  ec_last_sequence_number :: u8
  ec_next_sequence_number :: u8
  ec_request_queue :: "SdoClientRequest list"

type_synonym EmbeddedSdoClient = "(u16, EmbeddedClientConnection) btree"

definition EmbeddedClientConnection_default :: EmbeddedClientConnection where
  "EmbeddedClientConnection_default =
     \<lparr> ec_last_sequence_number = 0, ec_next_sequence_number = 0, ec_request_queue = [] \<rparr>"

definition ec_connection :: "EmbeddedSdoClient \<Rightarrow> u16 \<Rightarrow> EmbeddedClientConnection" where
  "ec_connection cl channel_index = unwrap_or (bt_get cl channel_index) EmbeddedClientConnection_default"

definition ec_queue :: "EmbeddedSdoClient \<Rightarrow> u16 \<Rightarrow> SdoClientRequest \<Rightarrow> unit result \<times> EmbeddedSdoClient" where
  "ec_queue cl channel_index r =
     (if \<not> (0x1280 \<le> channel_index \<and> channel_index \<le> 0x12FF)
      then (Inl (InternalError ''Invalid SDO client channel index''), cl)
      else
        let conn = ec_connection cl channel_index
        in (Inr (), bt_insert channel_index (conn\<lparr> ec_request_queue := ec_request_queue conn @ [r] \<rparr>) cl))"

definition queue_read :: "EmbeddedSdoClient \<Rightarrow> u16 \<Rightarrow> u16 \<Rightarrow> u8 \<Rightarrow> unit result \<times> EmbeddedSdoClient" where
  "queue_read cl channel_index index sub_index =
     ec_queue cl channel_index
       \<lparr> cr_command_id = ReadByIndex, cr_index = index, cr_sub_index = sub_index, cr_data = [] \<rparr>"

definition queue_write :: "EmbeddedSdoClient \<Rightarrow> u16 \<Rightarrow> u16 \<Rightarrow> u8 \<Rightarrow> bytes \<Rightarrow> unit result \<times> EmbeddedSdoClient" where
  "queue_write cl channel_index index sub_index data =
     ec_queue cl channel_index
       \<lparr> cr_command_id = WriteByIndex, cr_index = index, cr_sub_index = sub_index, cr_data = data \<rparr>"

text \<open>A panic, reading the code of an abort that is too short, is \<open>None\<close>. The application is not told
  of the response: only the sequence number is kept.\<close>

definition ec_handle_response :: "EmbeddedSdoClient \<Rightarrow> u16 \<Rightarrow> bytes \<Rightarrow> EmbeddedSdoClient option" where
  "ec_handle_response cl channel_index payload =
     (case bt_get cl channel_index of
        None \<Rightarrow> Some cl
      | Some conn \<Rightarrow>
          (case PdoSdoCommand_deserialize payload of
             Inl _ \<Rightarrow> Some cl
           | Inr response \<Rightarrow>
               let n = ps_sequence_number (pc_sequence_header response)
               in if n \<noteq> (ec_next_sequence_number conn - 1) mod 64 then Some cl
                  else if pc_is_aborted response \<and> length (pc_data response) < 4 then None
                  else Some (bt_insert channel_index (conn\<lparr> ec_last_sequence_number := n \<rparr>) cl)))"

definition ec_get_pending_request :: "EmbeddedSdoClient \<Rightarrow> u16 \<Rightarrow> nat \<Rightarrow> bytes \<times> EmbeddedSdoClient" where
  "ec_get_pending_request cl channel_index container_len =
     (let conn = ec_connection cl channel_index
      in case ec_request_queue conn of
           [] \<Rightarrow> (replicate container_len 0, bt_insert channel_index conn cl)
         | request # rest \<Rightarrow>
             let cmd = \<lparr> pc_sequence_header = \<lparr> ps_sequence_number = ec_next_sequence_number conn,
                           ps_connection_state = 2 \<rparr>,
                         pc_transaction_id = 1, pc_is_response = False, pc_is_aborted = False,
                         pc_segmentation = Expedited, pc_valid_payload_length = 0,
                         pc_command_id = cr_command_id request, pc_index = cr_index request,
                         pc_sub_index = cr_sub_index request, pc_data = cr_data request \<rparr>;
                 conn = conn\<lparr> ec_request_queue := rest,
                              ec_next_sequence_number := next_seq (ec_next_sequence_number conn) \<rparr>;
                 cl = bt_insert channel_index conn cl;
                 payload = PdoSdoCommand_serialize cmd
             in if length payload > container_len then (replicate container_len 0, cl)
                else (resize0 container_len payload, cl))"

subsection \<open>The two ends of a channel\<close>

text \<open>The request that the client puts into its container.\<close>

definition request_command :: "u8 \<Rightarrow> SdoClientRequest \<Rightarrow> PdoSdoCommand" where
  "request_command n r =
     \<lparr> pc_sequence_header = \<lparr> ps_sequence_number = n, ps_connection_state = 2 \<rparr>,
       pc_transaction_id = 1, pc_is_response = False, pc_is_aborted = False,
       pc_segmentation = Expedited, pc_valid_payload_length = of_nat (length (cr_data r)),
       pc_command_id = cr_command_id r, pc_index = cr_index r,
       pc_sub_index = cr_sub_index r, pc_data = cr_data r \<rparr>"

lemma serialize_length_field [simp]:
  "PdoSdoCommand_serialize (c\<lparr> pc_valid_payload_length := n \<rparr>) = PdoSdoCommand_serialize c"
  by (simp add: PdoSdoCommand_serialize_def)

lemma length_serialize [simp]: "length (PdoSdoCommand_serialize c) = 8 + length (pc_data c)"
  by (simp add: PdoSdoCommand_serialize_def)

lemma resize0_append: "length bs \<le> n \<Longrightarrow> \<exists>rest. resize0 n bs = bs @ rest"
  by (simp add: resize0_def)

lemma request_decoded:
  assumes "n < 64" "length (cr_data r) < 256"
  shows "PdoSdoCommand_deserialize (PdoSdoCommand_serialize (request_command n r) @ rest) = Inr (request_command n r)"
  using assms
  by (intro PdoSdoCommand_roundtrip)
    (simp add: wf_pdo_command_def wf_pdo_seq_def request_command_def unat_of_nat_small)

lemma client_sends:
  assumes "ec_request_queue (ec_connection cl ch) = r # rs" "8 + length (cr_data r) \<le> container_len" "bt_inv cl"
  shows "\<exists>p rest cl'. ec_get_pending_request cl ch container_len = (p, cl') \<and>
    p = PdoSdoCommand_serialize (request_command (ec_next_sequence_number (ec_connection cl ch)) r) @ rest \<and>
    length p = container_len \<and> bt_inv cl' \<and> ec_request_queue (ec_connection cl' ch) = rs \<and>
    bt_get cl' ch \<noteq> None \<and>
    ec_next_sequence_number (ec_connection cl' ch) = next_seq (ec_next_sequence_number (ec_connection cl ch))"
proof -
  let ?n = "ec_next_sequence_number (ec_connection cl ch)"
  have "PdoSdoCommand_serialize ((request_command ?n r)\<lparr> pc_valid_payload_length := 0 \<rparr>) =
      PdoSdoCommand_serialize (request_command ?n r)" by (rule serialize_length_field)
  then show ?thesis using assms
    by (auto simp: ec_get_pending_request_def Let_def request_command_def ec_connection_def resize0_def)
qed

lemma server_executes:
  assumes "PdoSdoCommand_deserialize p = Inr c" "bt_inv srv"
    and "ps_sequence_number (pc_sequence_header c) = next_seq (es_last_sequence_number (es_connection srv ch))"
    and "es_last_sequence_number (es_connection srv ch) < 64"
    and "es_process_command c od (ps_sequence_number (pc_sequence_header c)) = (resp, od')"
  shows "\<exists>srv'. es_handle_request srv ch p od = (srv', od') \<and> bt_inv srv' \<and>
    es_connection srv' ch = \<lparr> es_last_sequence_number = ps_sequence_number (pc_sequence_header c),
      es_pending_response = Some resp \<rparr>"
  using assms next_seq_neq [OF assms(4)]
  by (cases "es_connection srv ch") (auto simp: es_handle_request_def Let_def es_connection_def)

lemma server_ignores_duplicate:
  assumes "PdoSdoCommand_deserialize p = Inr c" "bt_inv srv"
    and "ps_sequence_number (pc_sequence_header c) = es_last_sequence_number (es_connection srv ch)"
  shows "\<exists>srv'. es_handle_request srv ch p od = (srv', od) \<and> bt_inv srv' \<and> es_connection srv' ch = es_connection srv ch"
  using assms by (auto simp: es_handle_request_def Let_def es_connection_def)

text \<open>A container that the cyclic data delivers several times.\<close>

definition deliver :: "u16 \<Rightarrow> bytes \<Rightarrow> EmbeddedSdoServer \<times> 's ObjectDictionary \<Rightarrow> EmbeddedSdoServer \<times> 's ObjectDictionary" where
  "deliver ch p st = es_handle_request (fst st) ch p (snd st)"

lemma deliver_pair [simp]: "deliver ch p (srv, od) = es_handle_request srv ch p od"
  by (simp add: deliver_def)

lemma duplicates_ignored:
  assumes "PdoSdoCommand_deserialize p = Inr c" "bt_inv srv"
    and "ps_sequence_number (pc_sequence_header c) = es_last_sequence_number (es_connection srv ch)"
  shows "\<exists>srv'. (deliver ch p ^^ k) (srv, od) = (srv', od) \<and> bt_inv srv' \<and> es_connection srv' ch = es_connection srv ch"
proof (induction k)
  case (Suc k)
  then obtain srv1 where s: "(deliver ch p ^^ k) (srv, od) = (srv1, od)" "bt_inv srv1"
    "es_connection srv1 ch = es_connection srv ch" by blast
  with server_ignores_duplicate [OF assms(1) s(2), of ch od] assms(3) show ?case
    by auto
qed (use assms in auto)

definition in_step :: "EmbeddedSdoClient \<Rightarrow> u16 \<Rightarrow> EmbeddedSdoServer \<Rightarrow> u16 \<Rightarrow> bool" where
  "in_step cl ch srv sch \<longleftrightarrow> bt_inv cl \<and> bt_inv srv \<and>
     es_last_sequence_number (es_connection srv sch) < 64 \<and>
     ec_next_sequence_number (ec_connection cl ch) = next_seq (es_last_sequence_number (es_connection srv sch))"

definition write_request :: "u16 \<Rightarrow> u8 \<Rightarrow> bytes \<Rightarrow> SdoClientRequest" where
  "write_request i s data =
     \<lparr> cr_command_id = WriteByIndex, cr_index = i, cr_sub_index = s, cr_data = data \<rparr>"

lemma embedded_write_effect:
  assumes "od_read od i s = Some t" "discriminant t = discriminant v" "wf_value v"
  shows "snd (es_process_command (request_command n (write_request i s (value_serialize v))) od m) = snd (od_write od i s v)"
proof -
  have "value_deserialize (value_serialize v) t = Inr v"
    using value_roundtrip_self [OF assms(3)] value_deserialize_template [OF assms(2)] by simp
  with assms(1) show ?thesis
    by (cases "od_write od i s v"; cases "fst (od_write od i s v)")
      (auto simp: es_process_command_def request_command_def write_request_def embedded_write_def Let_def)
qed

text \<open>
  C27: on a channel whose two ends are in step, a write that the client has queued and that fits the
  container has exactly the effect of one write to the server's dictionary, although the cyclic data
  deliver the container any number of times; afterwards the ends are in step again and the server
  has a response for the client.\<close>

theorem embedded_write_once:
  assumes "in_step cl ch srv sch" "od_read od i s = Some t" "discriminant t = discriminant v" "wf_value v"
    and "ec_request_queue (ec_connection cl ch) = write_request i s (value_serialize v) # rs"
    and "length (value_serialize v) < 256" "8 + length (value_serialize v) \<le> container_len"
  shows "\<exists>p cl' srv'. ec_get_pending_request cl ch container_len = (p, cl') \<and>
    (deliver sch p ^^ Suc k) (srv, od) = (srv', snd (od_write od i s v)) \<and>
    in_step cl' ch srv' sch \<and> ec_request_queue (ec_connection cl' ch) = rs \<and>
    es_pending_response (es_connection srv' sch) \<noteq> None"
proof -
  let ?r = "write_request i s (value_serialize v)" and ?n = "ec_next_sequence_number (ec_connection cl ch)"
  have step: "bt_inv cl" "bt_inv srv" "es_last_sequence_number (es_connection srv sch) < 64"
    "?n = next_seq (es_last_sequence_number (es_connection srv sch))" using assms(1) by (simp_all add: in_step_def)
  have data: "cr_data ?r = value_serialize v" by (simp add: write_request_def)
  from client_sends [OF assms(5) _ step(1)] assms(7) obtain p rest cl' where
    p: "ec_get_pending_request cl ch container_len = (p, cl')"
      "p = PdoSdoCommand_serialize (request_command ?n ?r) @ rest" "bt_inv cl'"
      "ec_request_queue (ec_connection cl' ch) = rs"
      "ec_next_sequence_number (ec_connection cl' ch) = next_seq ?n" unfolding data by blast
  have dec: "PdoSdoCommand_deserialize p = Inr (request_command ?n ?r)"
    unfolding p(2) using request_decoded [of ?n ?r rest] assms(6) step(4) by (simp add: data)
  have num: "ps_sequence_number (pc_sequence_header (request_command ?n ?r)) = ?n" by (simp add: request_command_def)
  obtain resp od' where e: "es_process_command (request_command ?n ?r) od ?n = (resp, od')" by fastforce
  have od': "od' = snd (od_write od i s v)" using embedded_write_effect [OF assms(2-4), of ?n ?n] e by simp
  from server_executes [OF dec step(2), of sch od resp od'] step(3,4) e num obtain srv1 where
    s1: "es_handle_request srv sch p od = (srv1, od')" "bt_inv srv1"
      "es_connection srv1 sch = \<lparr> es_last_sequence_number = ?n, es_pending_response = Some resp \<rparr>" by auto
  from duplicates_ignored [OF dec s1(2), of sch k od'] num s1(3) obtain srv2 where
    s2: "(deliver sch p ^^ k) (srv1, od') = (srv2, od')" "bt_inv srv2" "es_connection srv2 sch = es_connection srv1 sch"
    by auto
  have "(deliver sch p ^^ Suc k) (srv, od) = (srv2, od')"
    using s1(1) s2(1) by (simp add: funpow_Suc_right del: funpow.simps)
  moreover have "in_step cl' ch srv2 sch"
    using p(3,5) s2(2,3) s1(3) step(4) by (simp add: in_step_def)
  ultimately show ?thesis using p(1,4) s1(3) s2(3) od' by auto
qed

text \<open>A channel of the examples: the client has sent one request, the server has seen it.\<close>

definition example_client :: EmbeddedSdoClient where
  "example_client = [(0x1280, \<lparr> ec_last_sequence_number = 0, ec_next_sequence_number = 1,
     ec_request_queue = [write_request 0x6000 1 [9]] \<rparr>)]"

definition example_server :: EmbeddedSdoServer where
  "example_server = [(0x1200, EmbeddedServerConnection_default)]"

lemma example_channel:
  "ec_request_queue (ec_connection example_client 0x1280) = [write_request 0x6000 1 (value_serialize (Unsigned8 9))]"
  "in_step example_client 0x1280 example_server 0x1200"
  by (simp_all add: example_client_def example_server_def ec_connection_def es_connection_def in_step_def bt_inv_def
      bt_get_def EmbeddedServerConnection_default_def next_seq_def)

theorem embedded_write_once_witness:
  "\<exists>p cl' srv'. ec_get_pending_request example_client 0x1280 16 = (p, cl') \<and>
    (deliver 0x1200 p ^^ Suc 2) (example_server, example_od) = (srv', snd (od_write example_od 0x6000 1 (Unsigned8 9))) \<and>
    in_step cl' 0x1280 srv' 0x1200 \<and> ec_request_queue (ec_connection cl' 0x1280) = [] \<and>
    es_pending_response (es_connection srv' 0x1200) \<noteq> None"
  by (rule embedded_write_once [OF example_channel(2) example_od_read(2) _ _ example_channel(1)]) simp_all

text \<open>
  The first request on a channel is lost. Both ends start counting at 0, so the server takes the
  first request of a new client for a repetition of one that it has already answered: nothing is
  executed and no response is prepared, while the client goes on to its next request.\<close>

lemma embedded_first_request_lost:
  assumes "bt_inv cl" "ec_connection cl ch = EmbeddedClientConnection_default\<lparr> ec_request_queue := r # rs \<rparr>"
    and "bt_inv srv" "bt_get srv sch = None" "length (cr_data r) < 256" "8 + length (cr_data r) \<le> container_len"
  shows "\<exists>p cl' srv'. ec_get_pending_request cl ch container_len = (p, cl') \<and>
    ec_request_queue (ec_connection cl' ch) = rs \<and> es_handle_request srv sch p od = (srv', od) \<and>
    fst (get_pending_response srv' sch n) = replicate n 0 \<and> in_step cl' ch srv' sch"
proof -
  have q: "ec_request_queue (ec_connection cl ch) = r # rs" "ec_next_sequence_number (ec_connection cl ch) = 0"
    using assms(2) by (simp_all add: EmbeddedClientConnection_default_def)
  from client_sends [OF q(1) assms(6,1)] q(2) obtain p rest cl' where
    p: "ec_get_pending_request cl ch container_len = (p, cl')"
      "p = PdoSdoCommand_serialize (request_command 0 r) @ rest" "bt_inv cl'"
      "ec_request_queue (ec_connection cl' ch) = rs" "ec_next_sequence_number (ec_connection cl' ch) = next_seq 0"
    by auto
  have dec: "PdoSdoCommand_deserialize p = Inr (request_command 0 r)"
    unfolding p(2) using assms(5) by (intro request_decoded) simp_all
  have new: "es_connection srv sch = EmbeddedServerConnection_default"
    using assms(4) by (simp add: es_connection_def)
  from server_ignores_duplicate [OF dec assms(3), of sch od] obtain srv' where
    s: "es_handle_request srv sch p od = (srv', od)" "bt_inv srv'" "es_connection srv' sch = EmbeddedServerConnection_default"
    by (auto simp: new request_command_def EmbeddedServerConnection_default_def)
  moreover have "fst (get_pending_response srv' sch n) = replicate n 0"
    using s(3) by (simp add: get_pending_response_def EmbeddedServerConnection_default_def Let_def)
  moreover have "in_step cl' ch srv' sch"
    using p(3,5) s(2,3) by (simp add: in_step_def EmbeddedServerConnection_default_def)
  ultimately show ?thesis using p(1,4) by auto
qed

end
