(* ===== verification/Pdo_Handler.thy ===== *)
theory Pdo_Handler
  imports Sdo_Embedded Sdo_Client Dll_Errors
begin

section \<open>Process data\<close>

text \<open>
  \<^verbatim>\<open>node/pdo_handler.rs\<close> and the common state of \<^verbatim>\<open>node/mod.rs\<close>: received process data are written to
  the dictionary along the RPDO mappings, with the containers of embedded SDO in between. The trait
  \<^verbatim>\<open>PdoHandler\<close> is implemented by both kinds of node, which differ in their error manager: it is a
  state of any type with a function that handles an error. A panic is \<open>None\<close>.
\<close>

record ('h, 's) CoreNodeContext =
  core_od :: "'s ObjectDictionary"
  core_mac_address :: MacAddress
  core_sdo_server :: "('h, 's) SdoServer"
  core_sdo_client :: SdoClient
  core_embedded_sdo_server :: EmbeddedSdoServer
  core_embedded_sdo_client :: EmbeddedSdoClient

definition core_queue_sdo_request :: "NodeId \<Rightarrow> bytes \<Rightarrow> ('h, 's) CoreNodeContext \<Rightarrow> ('h, 's) CoreNodeContext" where
  "core_queue_sdo_request target payload core =
     core\<lparr> core_sdo_client := queue_request (core_sdo_client core) target payload \<rparr>"

definition core_queue_embedded_read ::
  "u16 \<Rightarrow> u16 \<Rightarrow> u8 \<Rightarrow> ('h, 's) CoreNodeContext \<Rightarrow> unit result \<times> ('h, 's) CoreNodeContext" where
  "core_queue_embedded_read channel index sub_index core =
     (let (r, cl) = queue_read (core_embedded_sdo_client core) channel index sub_index
      in (r, core\<lparr> core_embedded_sdo_client := cl \<rparr>))"

definition core_queue_embedded_write ::
  "u16 \<Rightarrow> u16 \<Rightarrow> u8 \<Rightarrow> bytes \<Rightarrow> ('h, 's) CoreNodeContext \<Rightarrow> unit result \<times> ('h, 's) CoreNodeContext" where
  "core_queue_embedded_write channel index sub_index data core =
     (let (r, cl) = queue_write (core_embedded_sdo_client core) channel index sub_index data
      in (r, core\<lparr> core_embedded_sdo_client := cl \<rparr>))"

definition update_pdo_error_object :: "u16 \<Rightarrow> NodeId \<Rightarrow> 's ObjectDictionary \<Rightarrow> 's ObjectDictionary" where
  "update_pdo_error_object object_index source_node_id od =
     (if source_node_id = 0 \<or> source_node_id \<ge> C_ADR_MN_DEF_NODE_ID then od
      else
        let byte_index = unat (source_node_id - 1) div 8;
            bit_index = unat (source_node_id - 1) mod 8
        in case od_read od object_index 0 of
             Some (OctetString bs) \<Rightarrow>
               if byte_index < length bs
               then snd (write_internal od object_index 0
                      (OctetString (bs[byte_index := bs ! byte_index OR push_bit bit_index 1])) False)
               else od
           | _ \<Rightarrow> od)"

text \<open>The first receive channel that is configured for the source.\<close>

definition rpdo_matches :: "'s ObjectDictionary \<Rightarrow> NodeId \<Rightarrow> nat \<Rightarrow> bool" where
  "rpdo_matches od source_node_id i =
     (case read_u8 od (0x1400 + of_nat i) 1 of
        Some node_id_val \<Rightarrow>
          source_node_id = C_ADR_MN_DEF_NODE_ID \<and> node_id_val = 0 \<or>
          source_node_id \<noteq> 0 \<and> node_id_val = source_node_id
      | None \<Rightarrow> False)"

definition pdo_version_ok :: "u8 \<Rightarrow> u8 \<Rightarrow> bool" where
  "pdo_version_ok expected received \<longleftrightarrow>
     expected = 0 \<and> received = 0 \<or>
     expected > 0 \<and> drop_bit 4 expected = drop_bit 4 received \<and> received AND 0x0F \<ge> expected AND 0x0F"

type_synonym ('m, 'h, 's) pdo_state = "'m \<times> ('h, 's) CoreNodeContext"

text \<open>One entry of the mapping. The first component says whether the next entry is applied.\<close>

definition apply_rpdo_mapping_entry ::
  "(DllError \<Rightarrow> 'm \<Rightarrow> 'm) \<Rightarrow> PdoMappingEntry \<Rightarrow> bytes \<Rightarrow> NodeId \<Rightarrow> ('m, 'h, 's) pdo_state \<Rightarrow>
     (bool \<times> ('m, 'h, 's) pdo_state) option" where
  "apply_rpdo_mapping_entry handle entry payload source_node_id st =
     (let (m, core) = st; od = core_od core
      in case (byte_offset entry, byte_length entry) of
           (Some off, Some len) \<Rightarrow>
             if length payload < off + len
             then Some (False, handle (PdoPayloadShort source_node_id) m,
                        core\<lparr> core_od := update_pdo_error_object 0x1C81 source_node_id od \<rparr>)
             else
               let data_slice = sub_slice off (off + len) payload
               in if 0x1200 \<le> pm_index entry \<and> pm_index entry \<le> 0x127F then
                    (let (srv, od) = es_handle_request (core_embedded_sdo_server core) (pm_index entry) data_slice od
                     in Some (True, m, core\<lparr> core_embedded_sdo_server := srv, core_od := od \<rparr>))
                  else if 0x1280 \<le> pm_index entry \<and> pm_index entry \<le> 0x12FF then
                    map_option (\<lambda>cl. (True, m, core\<lparr> core_embedded_sdo_client := cl \<rparr>))
                      (ec_handle_response (core_embedded_sdo_client core) (pm_index entry) data_slice)
                  else
                    (case od_read od (pm_index entry) (pm_sub_index entry) of
                       None \<Rightarrow> Some (True, m, core)
                     | Some type_template \<Rightarrow>
                         (case value_deserialize data_slice type_template of
                            Inr v \<Rightarrow>
                              if discriminant v \<noteq> discriminant type_template
                              then Some (False, handle (PdoMapVersion source_node_id) m, core)
                              else Some (True, m, core\<lparr> core_od :=
                                     snd (write_internal od (pm_index entry) (pm_sub_index entry) v False) \<rparr>)
                          | Inl _ \<Rightarrow> Some (False, handle (PdoPayloadShort source_node_id) m, core)))
         | _ \<Rightarrow> Some (True, m, core))"

fun apply_rpdo_entries ::
  "(DllError \<Rightarrow> 'm \<Rightarrow> 'm) \<Rightarrow> PdoMappingEntry list \<Rightarrow> bytes \<Rightarrow> NodeId \<Rightarrow> ('m, 'h, 's) pdo_state \<Rightarrow>
     ('m, 'h, 's) pdo_state option" where
  "apply_rpdo_entries handle [] payload source_node_id st = Some st"
| "apply_rpdo_entries handle (e # es) payload source_node_id st =
     (case apply_rpdo_mapping_entry handle e payload source_node_id st of
        None \<Rightarrow> None
      | Some (True, st) \<Rightarrow> apply_rpdo_entries handle es payload source_node_id st
      | Some (False, st) \<Rightarrow> Some st)"

definition rpdo_entries :: "'s ObjectDictionary \<Rightarrow> u16 \<Rightarrow> u8 \<Rightarrow> PdoMappingEntry list" where
  "rpdo_entries od mapping_index num_entries =
     List.map_filter (\<lambda>i. case od_read od mapping_index (of_nat i) of
        Some (Unsigned64 raw_mapping) \<Rightarrow> Some (PdoMappingEntry_from_u64 raw_mapping)
      | _ \<Rightarrow> None) [1..<Suc (unat num_entries)]"

definition consume_pdo_payload ::
  "(DllError \<Rightarrow> 'm \<Rightarrow> 'm) \<Rightarrow> NodeId \<Rightarrow> bytes \<Rightarrow> u8 \<Rightarrow> bool \<Rightarrow> ('m, 'h, 's) pdo_state \<Rightarrow>
     ('m, 'h, 's) pdo_state option" where
  "consume_pdo_payload handle source_node_id payload received_version is_ready st =
     (if \<not> is_ready then Some st
      else
        let (m, core) = st; od = core_od core
        in case find (rpdo_matches od source_node_id) [0..<256] of
             None \<Rightarrow> Some st
           | Some i \<Rightarrow>
               let expected_version = unwrap_or (read_u8 od (0x1400 + of_nat i) 2) 0
               in if \<not> pdo_version_ok expected_version received_version
                  then Some (handle (PdoMapVersion source_node_id) m,
                             core\<lparr> core_od := update_pdo_error_object 0x1C80 source_node_id od \<rparr>)
                  else
                    let mapping_index = 0x1600 + of_nat i
                    in case od_read od mapping_index 0 of
                         Some (Unsigned8 num_entries) \<Rightarrow>
                           if num_entries = 0 then Some st
                           else apply_rpdo_entries handle (rpdo_entries od mapping_index num_entries) payload
                                  source_node_id (m, core)
                       | _ \<Rightarrow> Some st)"

end
