(* ===== verification/Asnd_Payloads.thy ===== *)
theory Asnd_Payloads
  imports Payload_Codec Od_Props Utf8
begin

section \<open>Payloads of the asynchronous phase\<close>

text \<open>
  \<^verbatim>\<open>frame/control/ident_response.rs\<close>, \<^verbatim>\<open>frame/control/status_response.rs\<close> and
  \<^verbatim>\<open>frame/error/status_response.rs\<close>: how a node presents itself and its errors in ASnd frames. Both
  payloads satisfy the locale \<open>payload_writer\<close>.
\<close>

subsection \<open>Error entries\<close>

datatype ErrorEntryMode = Terminator | ErrorActive | ErrorCleared | EventOccurred

primrec ErrorEntryMode_u8 :: "ErrorEntryMode \<Rightarrow> u8" where
  "ErrorEntryMode_u8 Terminator = 0"
| "ErrorEntryMode_u8 ErrorActive = 1"
| "ErrorEntryMode_u8 ErrorCleared = 2"
| "ErrorEntryMode_u8 EventOccurred = 3"

definition ErrorEntryMode_try_from :: "u8 \<Rightarrow> ErrorEntryMode result" where
  "ErrorEntryMode_try_from value =
     (if value = 0 then Inr Terminator
      else if value = 1 then Inr ErrorActive
      else if value = 2 then Inr ErrorCleared
      else if value = 3 then Inr EventOccurred
      else Inl InvalidEnumValue)"

interpretation entry_mode: u8_enum ErrorEntryMode_u8 ErrorEntryMode_try_from
proof
  show "ErrorEntryMode_try_from (ErrorEntryMode_u8 x) = Inr x" for x
    by (cases x) (simp_all add: ErrorEntryMode_try_from_def)
  show "ErrorEntryMode_try_from v = Inr x \<Longrightarrow> ErrorEntryMode_u8 x = v" for v x
    by (auto simp: ErrorEntryMode_try_from_def split: if_splits)
qed

record EntryType =
  et_is_status_entry :: bool
  et_send_to_queue :: bool
  et_mode :: ErrorEntryMode
  et_profile :: u16

record ErrorEntry =
  ee_entry_type :: EntryType
  ee_error_code :: u16
  ee_timestamp :: NetTime
  ee_additional_information :: u64

definition EntryType_from_u16 :: "u16 \<Rightarrow> EntryType result" where
  "EntryType_from_u16 value =
     rbind (ErrorEntryMode_try_from (ucast (drop_bit 12 value AND 0b11))) (\<lambda>mode.
       Inr \<lparr> et_is_status_entry = value AND 0x8000 \<noteq> 0, et_send_to_queue = value AND 0x4000 \<noteq> 0,
             et_mode = mode, et_profile = value AND 0x0FFF \<rparr>)"

definition ErrorEntry_deserialize :: "bytes \<Rightarrow> ErrorEntry result" where
  "ErrorEntry_deserialize buffer =
     (if length buffer < 20 then Inl BufferTooShort
      else
        let entry_type_val = from_le (sub_slice 0 2 buffer);
            error_code = from_le (sub_slice 2 4 buffer);
            seconds = from_le (sub_slice 4 8 buffer);
            nanoseconds = from_le (sub_slice 8 12 buffer);
            additional_information = from_le (sub_slice 12 20 buffer)
        in rbind (EntryType_from_u16 entry_type_val) (\<lambda>entry_type.
             Inr \<lparr> ee_entry_type = entry_type, ee_error_code = error_code,
                   ee_timestamp = \<lparr> nt_seconds = seconds, nt_nanoseconds = nanoseconds \<rparr>,
                   ee_additional_information = additional_information \<rparr>))"

text \<open>The value of the type field and the octets of an entry, as \<^verbatim>\<open>StatusResponsePayload::serialize\<close>
  writes them.\<close>

definition entry_type_value :: "EntryType \<Rightarrow> u16" where
  "entry_type_value t =
     (et_profile t AND 0x0FFF) OR push_bit 12 (ucast (ErrorEntryMode_u8 (et_mode t))) OR
     (if et_is_status_entry t then 0x8000 else 0) OR (if et_send_to_queue t then 0x4000 else 0)"

definition entry_bytes :: "ErrorEntry \<Rightarrow> bytes" where
  "entry_bytes e =
     le16 (entry_type_value (ee_entry_type e)) @ le16 (ee_error_code e) @
     le32 (nt_seconds (ee_timestamp e)) @ le32 (nt_nanoseconds (ee_timestamp e)) @
     to_le 8 (ee_additional_information e)"

subsection \<open>StatusResponse\<close>

record StaticErrorBitField =
  se_error_register :: u8
  se_specific_errors :: bytes

definition StaticErrorBitField_new :: "'s ObjectDictionary \<Rightarrow> StaticErrorBitField" where
  "StaticErrorBitField_new od =
     \<lparr> se_error_register = unwrap_or (read_u8 od 0x1001 0) 0, se_specific_errors = replicate 7 0 \<rparr>"

definition StaticErrorBitField_serialize :: "StaticErrorBitField \<Rightarrow> serializer" where
  "StaticErrorBitField_serialize f buffer =
     (if length buffer < 8 then (Inl BufferTooShort, buffer)
      else (Inr 8, put 1 (se_specific_errors f) (buffer[0 := se_error_register f])))"

definition StaticErrorBitField_deserialize :: "bytes \<Rightarrow> StaticErrorBitField result" where
  "StaticErrorBitField_deserialize buffer =
     (if length buffer < 8 then Inl BufferTooShort
      else Inr \<lparr> se_error_register = buffer ! 0, se_specific_errors = sub_slice 1 8 buffer \<rparr>)"

record StatusResponsePayload =
  sr_en_flag :: bool
  sr_ec_flag :: bool
  sr_pr :: PRFlag
  sr_rs :: RSFlag
  sr_nmt_state :: NmtState
  sr_static_error_bit_field :: StaticErrorBitField
  sr_error_entries :: "ErrorEntry list"

definition StatusResponsePayload_new ::
  "bool \<Rightarrow> bool \<Rightarrow> PRFlag \<Rightarrow> RSFlag \<Rightarrow> NmtState \<Rightarrow> StaticErrorBitField \<Rightarrow> ErrorEntry list \<Rightarrow> StatusResponsePayload" where
  "StatusResponsePayload_new en_flag ec_flag pr rs nmt_state static_error_bit_field error_entries =
     \<lparr> sr_en_flag = en_flag, sr_ec_flag = ec_flag, sr_pr = pr, sr_rs = rs, sr_nmt_state = nmt_state,
       sr_static_error_bit_field = static_error_bit_field, sr_error_entries = error_entries \<rparr>"

fun write_entries :: "nat \<Rightarrow> ErrorEntry list \<Rightarrow> bytes \<Rightarrow> nat \<times> bytes" where
  "write_entries offset [] buffer = (offset, buffer)"
| "write_entries offset (entry # es) buffer = write_entries (offset + 20) es (put offset (entry_bytes entry) buffer)"

definition StatusResponsePayload_serialize :: "StatusResponsePayload \<Rightarrow> serializer" where
  "StatusResponsePayload_serialize f buffer =
     (let required_size = 14 + length (sr_error_entries f) * 20 + 20
      in if length buffer < required_size then (Inl BufferTooShort, buffer)
         else
           let buffer = fill0 0 14 buffer;
               buffer = buffer[0 := (if sr_en_flag f then 0x20 else 0) OR (if sr_ec_flag f then 0x10 else 0)];
               buffer = buffer[1 := push_bit 3 (PRFlag_u8 (sr_pr f)) OR sr_rs f];
               buffer = buffer[2 := NmtState_u8 (sr_nmt_state f)];
               buffer = put 6 (snd (StaticErrorBitField_serialize (sr_static_error_bit_field f)
                                 (sub_slice 6 14 buffer))) buffer;
               (offset, buffer) = write_entries 14 (sr_error_entries f) buffer;
               buffer = put offset (replicate 20 0) buffer
           in (Inr (offset + 20), buffer))"

function read_entries :: "bytes \<Rightarrow> nat \<Rightarrow> ErrorEntry list result" where
  "read_entries buffer offset =
     (if length buffer < offset + 20 then Inr []
      else rbind (ErrorEntry_deserialize (sub_slice offset (offset + 20) buffer)) (\<lambda>entry.
        if et_mode (ee_entry_type entry) = Terminator then Inr []
        else rbind (read_entries buffer (offset + 20)) (\<lambda>es. Inr (entry # es))))"
  by pat_completeness auto

termination by (relation "measure (\<lambda>(buffer, offset). length buffer - offset)") auto

declare read_entries.simps [simp del]

definition StatusResponsePayload_deserialize :: "bytes \<Rightarrow> StatusResponsePayload result" where
  "StatusResponsePayload_deserialize buffer =
     (if length buffer < 14 then Inl BufferTooShort
      else
        let octet0 = buffer ! 0;
            octet1 = buffer ! 1
        in rbind (PRFlag_try_from (drop_bit 3 octet1)) (\<lambda>pr.
           rbind (NmtState_try_from (buffer ! 2)) (\<lambda>nmt_state.
           rbind (StaticErrorBitField_deserialize (sub_slice 6 14 buffer)) (\<lambda>static_error_bit_field.
           rbind (read_entries buffer 14) (\<lambda>error_entries.
             Inr \<lparr> sr_en_flag = octet0 AND 0x20 \<noteq> 0, sr_ec_flag = octet0 AND 0x10 \<noteq> 0, sr_pr = pr,
                   sr_rs = RSFlag_new (octet1 AND 0b111), sr_nmt_state = nmt_state,
                   sr_static_error_bit_field = static_error_bit_field,
                   sr_error_entries = error_entries \<rparr>)))))"

text \<open>What the fields of the code's types and its uses guarantee: an array of seven octets, a profile
  of twelve bits, no terminator among the entries.\<close>

definition wf_entry :: "ErrorEntry \<Rightarrow> bool" where
  "wf_entry e \<longleftrightarrow> et_profile (ee_entry_type e) < 0x1000 \<and> et_mode (ee_entry_type e) \<noteq> Terminator"

definition wf_status :: "StatusResponsePayload \<Rightarrow> bool" where
  "wf_status f \<longleftrightarrow> sr_rs f \<le> 7 \<and> length (se_specific_errors (sr_static_error_bit_field f)) = 7 \<and>
     list_all wf_entry (sr_error_entries f)"

definition status_size :: "StatusResponsePayload \<Rightarrow> nat" where
  "status_size f = 34 + length (sr_error_entries f) * 20"

lemma length_entry_bytes [simp]: "length (entry_bytes e) = 20"
  by (simp add: entry_bytes_def)

lemma entry_type_roundtrip:
  assumes "et_profile t < 0x1000"
  shows "EntryType_from_u16 (entry_type_value t) = Inr t"
proof -
  define p where "p = et_profile t"
  have lt: "unat p < 2 ^ 12" using assms by (simp add: p_def word_less_nat_alt)
  have m: "p AND 0xFFF = p"
  proof -
    have "take_bit 12 p = p" using lt by (simp add: word_unat_eq_iff unsigned_take_bit_eq take_bit_nat_eq_self)
    moreover have "(0xFFF :: u16) = mask 12" by (simp add: mask_eq_exp_minus_1)
    ultimately show ?thesis by (simp add: take_bit_eq_mask)
  qed
  have d: "drop_bit 12 p = 0" using lt by (simp add: word_unat_eq_iff unat_div drop_bit_eq_div)
  have and0: "p AND c = 0" if "0xFFF AND c = 0" for c using that m by (metis and.assoc and.right_neutral and_zero_eq)
  obtain st q md where t: "t = \<lparr> et_is_status_entry = st, et_send_to_queue = q, et_mode = md, et_profile = p \<rparr>"
    by (cases t) (simp add: p_def)
  show ?thesis
    by (cases st; cases q; cases md)
      (simp_all add: t EntryType_from_u16_def entry_type_value_def m d and0 bit.conj_disj_distrib2
        ErrorEntryMode_try_from_def)
qed

lemma entry_roundtrip:
  assumes "et_profile (ee_entry_type e) < 0x1000"
  shows "ErrorEntry_deserialize (entry_bytes e) = Inr e"
proof -
  have "sub_slice 0 2 (entry_bytes e) = le16 (entry_type_value (ee_entry_type e))"
    "sub_slice 2 4 (entry_bytes e) = le16 (ee_error_code e)"
    "sub_slice 4 8 (entry_bytes e) = le32 (nt_seconds (ee_timestamp e))"
    "sub_slice 8 12 (entry_bytes e) = le32 (nt_nanoseconds (ee_timestamp e))"
    "sub_slice 12 20 (entry_bytes e) = to_le 8 (ee_additional_information e)"
    by (simp_all add: entry_bytes_def sub_slice_def)
  then show ?thesis using entry_type_roundtrip [OF assms] by (simp add: ErrorEntry_deserialize_def)
qed

definition entries_image :: "ErrorEntry list \<Rightarrow> bytes" where
  "entries_image es = concat (map entry_bytes es)"

lemma length_entries_image [simp]: "length (entries_image es) = length es * 20"
  by (induction es) (simp_all add: entries_image_def)

lemma write_entries_eq:
  "offset + length es * 20 \<le> length buf \<Longrightarrow>
    write_entries offset es buf = (offset + length es * 20, put offset (entries_image es) buf)"
proof (induction es arbitrary: offset buf)
  case Nil
  then show ?case by (simp add: entries_image_def put_def)
next
  case (Cons e es)
  then show ?case by (simp add: entries_image_def put_def add.commute add.left_commute)
qed

lemma read_entries_terminated:
  assumes "list_all wf_entry es" "drop offset buf = entries_image es @ replicate 20 0 @ rest"
  shows "read_entries buf offset = Inr es"
  using assms
proof (induction es arbitrary: offset)
  case Nil
  then have "length buf - offset = 20 + length rest" by (metis length_drop length_append length_replicate
      append_Nil entries_image_def concat.simps(1) list.simps(8))
  then have l: "\<not> length buf < offset + 20" by linarith
  have "sub_slice offset (offset + 20) buf = replicate 20 0"
    using Nil(2) by (simp add: sub_slice_def entries_image_def)
  then show ?case using l
    by (simp add: read_entries.simps [of buf] ErrorEntry_deserialize_def sub_slice_def EntryType_from_u16_def
        ErrorEntryMode_try_from_def numeral_eq_Suc)
next
  case (Cons e es)
  have d: "drop offset buf = entry_bytes e @ entries_image es @ replicate 20 0 @ rest"
    using Cons.prems(2) by (simp add: entries_image_def)
  then have s: "sub_slice offset (offset + 20) buf = entry_bytes e" by (simp add: sub_slice_def)
  have "drop 20 (drop offset buf) = entries_image es @ replicate 20 0 @ rest" unfolding d by simp
  then have n: "drop (offset + 20) buf = entries_image es @ replicate 20 0 @ rest" by (simp add: add.commute)
  have "length (drop offset buf) \<ge> 20" unfolding d by simp
  then have "\<not> length buf < offset + 20" by simp
  moreover have "et_profile (ee_entry_type e) < 0x1000" "et_mode (ee_entry_type e) \<noteq> Terminator" "list_all wf_entry es"
    using Cons.prems(1) by (simp_all add: wf_entry_def [of e])
  ultimately show ?case using s entry_roundtrip Cons.IH [OF _ n]
    by (simp add: read_entries.simps [of buf offset])
qed

text \<open>The fields of the header, and the payload as header, entries and terminator.\<close>

definition flag_octet :: "StatusResponsePayload \<Rightarrow> u8" where
  "flag_octet f = (if sr_en_flag f then 0x20 else 0) OR (if sr_ec_flag f then 0x10 else 0)"

definition status_header :: "StatusResponsePayload \<Rightarrow> bytes \<Rightarrow> bytes" where
  "status_header f buf = put 6 (se_error_register (sr_static_error_bit_field f) #
       se_specific_errors (sr_static_error_bit_field f))
     ((fill0 0 14 buf)[0 := flag_octet f, 1 := push_bit 3 (PRFlag_u8 (sr_pr f)) OR sr_rs f,
        2 := NmtState_u8 (sr_nmt_state f)])"

lemma static_field_image:
  "length b = 8 \<Longrightarrow> length (se_specific_errors s) = 7 \<Longrightarrow>
    snd (StaticErrorBitField_serialize s b) = se_error_register s # se_specific_errors s"
  by (cases b) (simp_all add: StaticErrorBitField_serialize_def put_def)

lemma flag_octet_read:
  "flag_octet f AND 0x20 \<noteq> 0 \<longleftrightarrow> sr_en_flag f" "flag_octet f AND 0x10 \<noteq> 0 \<longleftrightarrow> sr_ec_flag f"
  by (simp_all add: flag_octet_def)

lemma status_header_read:
  assumes "14 \<le> length buf" "length (se_specific_errors (sr_static_error_bit_field f)) = 7"
  shows "length (status_header f buf) = length buf" "status_header f buf ! 0 = flag_octet f"
    "status_header f buf ! Suc 0 = push_bit 3 (PRFlag_u8 (sr_pr f)) OR sr_rs f"
    "status_header f buf ! 2 = NmtState_u8 (sr_nmt_state f)"
    "sub_slice 6 14 (status_header f buf) = se_error_register (sr_static_error_bit_field f) #
       se_specific_errors (sr_static_error_bit_field f)"
proof -
  have "buf \<noteq> []" using assms(1) by auto
  with assms show "length (status_header f buf) = length buf" "status_header f buf ! 0 = flag_octet f"
    "status_header f buf ! Suc 0 = push_bit 3 (PRFlag_u8 (sr_pr f)) OR sr_rs f"
    "status_header f buf ! 2 = NmtState_u8 (sr_nmt_state f)"
    "sub_slice 6 14 (status_header f buf) = se_error_register (sr_static_error_bit_field f) #
       se_specific_errors (sr_static_error_bit_field f)"
    by (simp_all add: status_header_def)
qed

lemma status_header_behind:
  assumes "14 \<le> length buf" "length (se_specific_errors (sr_static_error_bit_field f)) = 7" "14 \<le> n"
  shows "drop n (status_header f buf) = drop n buf"
  using assms by (simp add: status_header_def)

lemma status_serialize_eq:
  assumes "status_size f \<le> length buf" "length (se_specific_errors (sr_static_error_bit_field f)) = 7"
  shows "StatusResponsePayload_serialize f buf =
    (Inr (status_size f), put 14 (entries_image (sr_error_entries f) @ replicate 20 0) (status_header f buf))"
proof -
  let ?es = "sr_error_entries f"
  have l: "34 + length ?es * 20 \<le> length buf" using assms(1) by (simp add: status_size_def)
  have h: "length (status_header f buf) = length buf" using assms(2) l by (intro status_header_read) simp_all
  have "StatusResponsePayload_serialize f buf =
      (let (offset, b) = write_entries 14 ?es (status_header f buf) in (Inr (offset + 20), put offset (replicate 20 0) b))"
    using l assms(2)
    by (simp add: StatusResponsePayload_serialize_def Let_def static_field_image status_header_def flag_octet_def)
  also have "\<dots> = (Inr (status_size f), put (14 + length ?es * 20) (replicate 20 0)
      (put 14 (entries_image ?es) (status_header f buf)))"
    using l h by (simp add: write_entries_eq status_size_def)
  also have "put (14 + length ?es * 20) (replicate 20 0) (put 14 (entries_image ?es) (status_header f buf)) =
      put 14 (entries_image ?es @ replicate 20 0) (status_header f buf)"
    using l h by (simp add: put_def)
  finally show ?thesis .
qed

lemma status_serialize_short:
  "length buf < status_size f \<Longrightarrow> StatusResponsePayload_serialize f buf = (Inl BufferTooShort, buf)"
  by (simp add: StatusResponsePayload_serialize_def status_size_def)

lemma status_roundtrip:
  assumes "wf_status f" "status_size f \<le> length buf"
  shows "StatusResponsePayload_deserialize (take (status_size f) (snd (StatusResponsePayload_serialize f buf)) @ rest) =
    Inr f"
proof -
  let ?h = "status_header f buf" and ?es = "sr_error_entries f" and ?n = "length (sr_error_entries f) * 20"
  have wf: "sr_rs f \<le> 7" "length (se_specific_errors (sr_static_error_bit_field f)) = 7" "list_all wf_entry ?es"
    using assms(1) by (simp_all add: wf_status_def)
  have l: "14 \<le> length buf" "34 + ?n \<le> length buf" using assms(2) by (simp_all add: status_size_def)
  note hd = status_header_read [OF l(1) wf(2)]
  define b where "b = take (status_size f) (snd (StatusResponsePayload_serialize f buf)) @ rest"
  have b: "b = take 14 ?h @ entries_image ?es @ replicate 20 0 @ rest"
    unfolding b_def status_serialize_eq [OF assms(2) wf(2)]
    using l hd(1) by (simp add: put_def status_size_def)
  have nth: "b ! i = ?h ! i" if "i < 14" for i using that l hd(1) by (simp add: b nth_append)
  have sl: "sub_slice 6 14 b = sub_slice 6 14 ?h" using l hd(1) by (simp add: b sub_slice_def drop_take)
  have en: "read_entries b 14 = Inr ?es"
    by (rule read_entries_terminated [OF wf(3)]) (use l hd(1) in \<open>simp add: b\<close>)
  have se: "StaticErrorBitField_deserialize (sub_slice 6 14 b) = Inr (sr_static_error_bit_field f)"
    unfolding sl hd(5) using wf(2) by (simp add: StaticErrorBitField_deserialize_def sub_slice_def)
  have "14 \<le> length b" using l hd(1) by (simp add: b)
  moreover have "b ! 0 = flag_octet f" "b ! Suc 0 = push_bit 3 (PRFlag_u8 (sr_pr f)) OR sr_rs f"
    "b ! 2 = NmtState_u8 (sr_nmt_state f)" using nth hd by simp_all
  ultimately show ?thesis unfolding b_def [symmetric]
    using en se flags2_roundtrip [OF wf(1), of "sr_pr f"]
    by (simp add: StatusResponsePayload_deserialize_def flag_octet_read Let_def del: drop_bit_or)
qed

interpretation status: payload_writer StatusResponsePayload_serialize StatusResponsePayload_deserialize
  wf_status status_size
proof
  fix f :: StatusResponsePayload and buf rest :: bytes
  assume wf: "wf_status f"
  then have seven: "length (se_specific_errors (sr_static_error_bit_field f)) = 7" by (simp add: wf_status_def)
  show "length (snd (StatusResponsePayload_serialize f buf)) = length buf" "fst (StatusResponsePayload_serialize f buf) =
      (if status_size f \<le> length buf then Inr (status_size f) else Inl BufferTooShort)"
    using status_serialize_eq [OF _ seven, of buf] status_serialize_short [of buf f] status_header_read(1) [OF _ seven, of buf]
    by (cases "status_size f \<le> length buf"; simp add: status_size_def)+
  assume fits: "status_size f \<le> length buf"
  then show "drop (status_size f) (snd (StatusResponsePayload_serialize f buf)) = drop (status_size f) buf"
    using status_serialize_eq [OF fits seven] status_header_read(1) [OF _ seven, of buf]
      status_header_behind [OF _ seven, of buf "status_size f"]
    by (simp add: status_size_def)
  show "StatusResponsePayload_deserialize (take (status_size f) (snd (StatusResponsePayload_serialize f buf)) @ rest) = Inr f"
    by (rule status_roundtrip [OF wf fits])
qed

subsection \<open>IdentResponse\<close>

record IdentResponsePayload =
  ir_pr :: PRFlag
  ir_rs :: RSFlag
  ir_nmt_state :: NmtState
  ir_epl_version :: EPLVersion
  ir_feature_flags :: FeatureFlags
  ir_mtu :: u16
  ir_poll_in_size :: u16
  ir_poll_out_size :: u16
  ir_response_time :: u32
  ir_device_type :: u32
  ir_vendor_id :: u32
  ir_product_code :: u32
  ir_revision_number :: u32
  ir_serial_number :: u32
  ir_verify_conf_date :: u32
  ir_verify_conf_time :: u32
  ir_app_sw_date :: u32
  ir_app_sw_time :: u32
  ir_ip_address :: IpAddress
  ir_subnet_mask :: IpAddress
  ir_default_gateway :: IpAddress
  ir_host_name :: rust_string

definition IdentResponsePayload_new :: "'s ObjectDictionary \<Rightarrow> IdentResponsePayload" where
  "IdentResponsePayload_new od =
     (let u16_or_0 = (\<lambda>i s. unwrap_or (read_u16 od i s) 0);
          u32_or_0 = (\<lambda>i s. unwrap_or (read_u32 od i s) 0)
      in \<lparr> ir_pr = PrioGenericRequest, ir_rs = 0,
           ir_nmt_state =
             (case read_u8 od 0x1F8C 0 of
                Some v \<Rightarrow> (case NmtState_try_from v of Inr st \<Rightarrow> st | Inl _ \<Rightarrow> NmtNotActive)
              | None \<Rightarrow> NmtNotActive),
           ir_epl_version = unwrap_or (read_u8 od 0x1F83 0) 0,
           ir_feature_flags = u32_or_0 0x1F82 0,
           ir_mtu = u16_or_0 0x1F98 8, ir_poll_in_size = u16_or_0 0x1F98 4,
           ir_poll_out_size = u16_or_0 0x1F98 5, ir_response_time = u32_or_0 0x1F98 3,
           ir_device_type = u32_or_0 0x1000 0, ir_vendor_id = u32_or_0 0x1018 1,
           ir_product_code = u32_or_0 0x1018 2, ir_revision_number = u32_or_0 0x1018 3,
           ir_serial_number = u32_or_0 0x1018 4, ir_verify_conf_date = u32_or_0 0x1020 1,
           ir_verify_conf_time = u32_or_0 0x1020 2, ir_app_sw_date = u32_or_0 0x1F52 1,
           ir_app_sw_time = u32_or_0 0x1F52 2, ir_ip_address = le32 (u32_or_0 0x1E40 2),
           ir_subnet_mask = le32 (u32_or_0 0x1E40 3), ir_default_gateway = le32 (u32_or_0 0x1E40 5),
           ir_host_name = (case od_read od 0x1F9A 0 of Some (VisibleString s) \<Rightarrow> s | _ \<Rightarrow> []) \<rparr>)"

definition IdentResponsePayload_serialize :: "IdentResponsePayload \<Rightarrow> serializer" where
  "IdentResponsePayload_serialize f buffer =
     (if length buffer < 158 then (Inl BufferTooShort, buffer)
      else
        let buffer = fill0 0 158 buffer;
            buffer = buffer[1 := push_bit 3 (PRFlag_u8 (ir_pr f)) OR ir_rs f];
            buffer = buffer[2 := NmtState_u8 (ir_nmt_state f)];
            buffer = buffer[4 := ir_epl_version f];
            buffer = put 6 (le32 (ir_feature_flags f)) buffer;
            buffer = put 10 (le16 (ir_mtu f)) buffer;
            buffer = put 12 (le16 (ir_poll_in_size f)) buffer;
            buffer = put 14 (le16 (ir_poll_out_size f)) buffer;
            buffer = put 16 (le32 (ir_response_time f)) buffer;
            buffer = put 22 (le32 (ir_device_type f)) buffer;
            buffer = put 26 (le32 (ir_vendor_id f)) buffer;
            buffer = put 30 (le32 (ir_product_code f)) buffer;
            buffer = put 34 (le32 (ir_revision_number f)) buffer;
            buffer = put 38 (le32 (ir_serial_number f)) buffer;
            buffer = put 50 (le32 (ir_verify_conf_date f)) buffer;
            buffer = put 54 (le32 (ir_verify_conf_time f)) buffer;
            buffer = put 58 (le32 (ir_app_sw_date f)) buffer;
            buffer = put 62 (le32 (ir_app_sw_time f)) buffer;
            buffer = put 66 (ir_ip_address f) buffer;
            buffer = put 70 (ir_subnet_mask f) buffer;
            buffer = put 74 (ir_default_gateway f) buffer;
            len = min (length (ir_host_name f)) 32
        in (Inr 158, put 78 (take len (ir_host_name f)) buffer))"

definition IdentResponsePayload_deserialize :: "bytes \<Rightarrow> IdentResponsePayload result" where
  "IdentResponsePayload_deserialize buffer =
     (if length buffer < 158 then Inl BufferTooShort
      else
        let octet1 = buffer ! 1;
            hostname_slice = sub_slice 78 110 buffer;
            len = length (takeWhile (\<lambda>b. b \<noteq> 0) hostname_slice)
        in rbind (PRFlag_try_from (drop_bit 3 octet1)) (\<lambda>pr.
           rbind (NmtState_try_from (buffer ! 2)) (\<lambda>nmt_state.
             Inr \<lparr> ir_pr = pr, ir_rs = RSFlag_new (octet1 AND 0b111), ir_nmt_state = nmt_state,
                   ir_epl_version = buffer ! 4, ir_feature_flags = from_le (sub_slice 6 10 buffer),
                   ir_mtu = from_le (sub_slice 10 12 buffer),
                   ir_poll_in_size = from_le (sub_slice 12 14 buffer),
                   ir_poll_out_size = from_le (sub_slice 14 16 buffer),
                   ir_response_time = from_le (sub_slice 16 20 buffer),
                   ir_device_type = from_le (sub_slice 22 26 buffer),
                   ir_vendor_id = from_le (sub_slice 26 30 buffer),
                   ir_product_code = from_le (sub_slice 30 34 buffer),
                   ir_revision_number = from_le (sub_slice 34 38 buffer),
                   ir_serial_number = from_le (sub_slice 38 42 buffer),
                   ir_verify_conf_date = from_le (sub_slice 50 54 buffer),
                   ir_verify_conf_time = from_le (sub_slice 54 58 buffer),
                   ir_app_sw_date = from_le (sub_slice 58 62 buffer),
                   ir_app_sw_time = from_le (sub_slice 62 66 buffer),
                   ir_ip_address = sub_slice 66 70 buffer, ir_subnet_mask = sub_slice 70 74 buffer,
                   ir_default_gateway = sub_slice 74 78 buffer,
                   ir_host_name = utf8_lossy (take len hostname_slice) \<rparr>)))"

text \<open>Addresses are arrays of four octets, the three bits of RS hold at most 7; a host name survives
  if it has at most 32 octets and none of them is 0.\<close>

definition wf_ident :: "IdentResponsePayload \<Rightarrow> bool" where
  "wf_ident f \<longleftrightarrow> ir_rs f \<le> 7 \<and> length (ir_ip_address f) = 4 \<and> length (ir_subnet_mask f) = 4 \<and>
     length (ir_default_gateway f) = 4 \<and> utf8_valid (ir_host_name f) \<and> length (ir_host_name f) \<le> 32 \<and>
     0 \<notin> set (ir_host_name f)"

text \<open>A buffer that has been cleared and is filled from left to right.\<close>

definition filled :: "bytes \<Rightarrow> nat \<Rightarrow> bytes \<Rightarrow> bytes" where
  "filled done k rest = done @ replicate k 0 @ rest"

lemma filled_start: "n \<le> length buf \<Longrightarrow> fill0 0 n buf = filled [] n (drop n buf)"
  by (simp add: fill0_def filled_def put_def)

lemma put_filled:
  assumes "length done \<le> off" "off - length done + length xs \<le> k"
  shows "put off xs (filled done k rest) =
    filled (done @ replicate (off - length done) 0 @ xs) (k - (off - length done) - length xs) rest"
proof -
  let ?g = "off - length done"
  have k: "replicate k (0::u8) = replicate ?g 0 @ replicate (length xs) 0 @ replicate (k - ?g - length xs) 0"
    using assms(2) by (simp add: replicate_add [symmetric])
  show ?thesis using assms(1) unfolding filled_def k by (simp add: put_def)
qed

lemma upd_filled:
  assumes "length done \<le> off" "off - length done < k"
  shows "(filled done k rest)[off := x] =
    filled (done @ replicate (off - length done) 0 @ [x]) (k - (off - length done) - 1) rest"
proof -
  have "(filled done k rest)[off := x] = put off [x] (filled done k rest)"
    using assms by (simp add: put_def upd_conv_take_nth_drop filled_def)
  then show ?thesis using put_filled [of "done" off "[x]" k rest] assms by simp
qed

definition ident_image :: "IdentResponsePayload \<Rightarrow> bytes" where
  "ident_image f =
     [0, push_bit 3 (PRFlag_u8 (ir_pr f)) OR ir_rs f, NmtState_u8 (ir_nmt_state f), 0, ir_epl_version f, 0] @
     le32 (ir_feature_flags f) @ le16 (ir_mtu f) @ le16 (ir_poll_in_size f) @ le16 (ir_poll_out_size f) @
     le32 (ir_response_time f) @ [0, 0] @
     le32 (ir_device_type f) @ le32 (ir_vendor_id f) @ le32 (ir_product_code f) @ le32 (ir_revision_number f) @
     le32 (ir_serial_number f) @ replicate 8 0 @
     le32 (ir_verify_conf_date f) @ le32 (ir_verify_conf_time f) @ le32 (ir_app_sw_date f) @ le32 (ir_app_sw_time f) @
     ir_ip_address f @ ir_subnet_mask f @ ir_default_gateway f @ ir_host_name f"

lemma ident_serialize_eq:
  assumes "wf_ident f" "158 \<le> length buf"
  shows "IdentResponsePayload_serialize f buf =
    (Inr 158, filled (ident_image f) (80 - length (ir_host_name f)) (drop 158 buf))"
  using assms
  by (simp add: IdentResponsePayload_serialize_def wf_ident_def filled_start put_filled upd_filled Let_def
      ident_image_def numeral_eq_Suc del: to_le.simps)

lemma length_ident_image: "wf_ident f \<Longrightarrow> length (ident_image f) = 78 + length (ir_host_name f)"
  by (simp add: wf_ident_def ident_image_def)

lemma ident_image_read:
  assumes "wf_ident f" "b = ident_image f @ rest"
  shows "b ! Suc 0 = push_bit 3 (PRFlag_u8 (ir_pr f)) OR ir_rs f" "b ! 2 = NmtState_u8 (ir_nmt_state f)"
    "b ! 4 = ir_epl_version f" "sub_slice 6 10 b = le32 (ir_feature_flags f)"
    "sub_slice 10 12 b = le16 (ir_mtu f)" "sub_slice 12 14 b = le16 (ir_poll_in_size f)"
    "sub_slice 14 16 b = le16 (ir_poll_out_size f)" "sub_slice 16 20 b = le32 (ir_response_time f)"
    "sub_slice 22 26 b = le32 (ir_device_type f)"
    "sub_slice 26 30 b = le32 (ir_vendor_id f)"
    "sub_slice 30 34 b = le32 (ir_product_code f)"
    "sub_slice 34 38 b = le32 (ir_revision_number f)"
    "sub_slice 38 42 b = le32 (ir_serial_number f)"
    "sub_slice 50 54 b = le32 (ir_verify_conf_date f)"
    "sub_slice 54 58 b = le32 (ir_verify_conf_time f)"
    "sub_slice 58 62 b = le32 (ir_app_sw_date f)"
    "sub_slice 62 66 b = le32 (ir_app_sw_time f)"
    "sub_slice 66 70 b = ir_ip_address f" "sub_slice 70 74 b = ir_subnet_mask f"
    "sub_slice 74 78 b = ir_default_gateway f" "drop 78 b = ir_host_name f @ rest"
  using assms by (simp_all add: ident_image_def wf_ident_def sub_slice_def)

lemma host_name_read:
  assumes "wf_ident f" "sub_slice 78 110 b = take 32 (ir_host_name f @ replicate (80 - length (ir_host_name f)) 0 @ rest)"
  shows "takeWhile (\<lambda>b. b \<noteq> 0) (sub_slice 78 110 b) = ir_host_name f"
proof -
  let ?h = "ir_host_name f"
  have "length ?h \<le> 32" "\<forall>x \<in> set ?h. x \<noteq> 0" using assms(1) by (auto simp: wf_ident_def)
  moreover from this have "sub_slice 78 110 b = ?h @ replicate (32 - length ?h) 0"
    unfolding assms(2) by (simp add: min_def)
  ultimately show ?thesis by (simp add: takeWhile_append takeWhile_replicate)
qed

lemma ident_roundtrip:
  assumes "wf_ident f" "158 \<le> length buf"
  shows "IdentResponsePayload_deserialize (take 158 (snd (IdentResponsePayload_serialize f buf)) @ rest) = Inr f"
proof -
  define tl where "tl = replicate (80 - length (ir_host_name f)) 0 @ rest"
  have h: "length (ir_host_name f) \<le> 32" "ir_rs f \<le> 7" "utf8_valid (ir_host_name f)"
    using assms(1) by (simp_all add: wf_ident_def)
  have b: "take 158 (snd (IdentResponsePayload_serialize f buf)) @ rest = ident_image f @ tl"
    using ident_serialize_eq [OF assms] length_ident_image [OF assms(1)] h by (simp add: filled_def tl_def)
  note r = ident_image_read [OF assms(1) refl, of tl]
  have l: "158 \<le> length (ident_image f @ tl)" using length_ident_image [OF assms(1)] h by (simp add: tl_def)
  have "sub_slice 78 110 (ident_image f @ tl) = take 32 (ir_host_name f @ tl)"
    using r(21) by (simp add: sub_slice_def)
  from host_name_read [OF assms(1), of "ident_image f @ tl"] this have
    n: "takeWhile (\<lambda>b. b \<noteq> 0) (sub_slice 78 110 (ident_image f @ tl)) = ir_host_name f" by (simp add: tl_def)
  then have "take (length (ir_host_name f)) (sub_slice 78 110 (ident_image f @ tl)) = ir_host_name f"
    by (metis takeWhile_eq_take)
  then show ?thesis unfolding b using l h(3) n r flags2_roundtrip [OF h(2), of "ir_pr f"]
    by (simp add: IdentResponsePayload_deserialize_def Let_def del: drop_bit_or)
qed

interpretation ident: payload_writer IdentResponsePayload_serialize IdentResponsePayload_deserialize
  wf_ident "\<lambda>_. 158"
proof
  fix f :: IdentResponsePayload and buf rest :: bytes
  assume wf: "wf_ident f"
  then have h: "length (ir_host_name f) \<le> 32" by (simp add: wf_ident_def)
  show "length (snd (IdentResponsePayload_serialize f buf)) = length buf" "fst (IdentResponsePayload_serialize f buf) =
      (if 158 \<le> length buf then Inr 158 else Inl BufferTooShort)"
    using ident_serialize_eq [OF wf, of buf] length_ident_image [OF wf] h
    by (cases "158 \<le> length buf"; simp add: filled_def IdentResponsePayload_serialize_def)+
  assume fits: "158 \<le> length buf"
  show "drop 158 (snd (IdentResponsePayload_serialize f buf)) = drop 158 buf"
    using ident_serialize_eq [OF wf fits] length_ident_image [OF wf] h by (simp add: filled_def)
  show "IdentResponsePayload_deserialize (take 158 (snd (IdentResponsePayload_serialize f buf)) @ rest) = Inr f"
    by (rule ident_roundtrip [OF wf fits])
qed

end
