(* ===== verification/Cn_Payload.thy ===== *)
theory Cn_Payload
  imports Pdo_Handler Asnd_Payloads Nmt_Machines Dll_Machines
begin

section \<open>The frames a controlled node answers with\<close>

text \<open>
  \<^verbatim>\<open>node/cn/state.rs\<close>, \<^verbatim>\<open>node/cn/payload.rs\<close> and \<^verbatim>\<open>od/error_history.rs\<close>: the state of a controlled
  node, its process data for the PRes frame, and the payloads of its answers to the managing node.
  The capacity of the emergency queue is a field: the standard library promises no more than that
  \<^verbatim>\<open>with_capacity(10)\<close> has room for ten entries.
\<close>

subsection \<open>State\<close>

record ('h, 's) CnContext =
  cn_core :: "('h, 's) CoreNodeContext"
  cn_nmt_state_machine :: CnNmtStateMachine
  cn_dll_state_machine :: DllCsStateMachine
  cn_dll_error_manager :: "(CnErrorCounters, unit) DllErrorManager"
  cn_pending_nmt_requests :: "(CnNmtRequest \<times> NodeId) list"
  cn_emergency_queue :: "ErrorEntry list"
  cn_emergency_capacity :: nat
  cn_heartbeat_consumers :: "(NodeId, u64 \<times> u64) btree"
  cn_last_soc_reception_time_us :: u64
  cn_soc_timeout_check_active :: bool
  cn_next_tick_us :: "u64 option"
  cn_en_flag :: bool
  cn_ec_flag :: bool
  cn_error_status_changed :: bool

abbreviation cn_od :: "('h, 's) CnContext \<Rightarrow> 's ObjectDictionary" where
  "cn_od ctx \<equiv> core_od (cn_core ctx)"

abbreviation cn_state :: "('h, 's) CnContext \<Rightarrow> NmtState" where
  "cn_state ctx \<equiv> cn_current_state (cn_nmt_state_machine ctx)"

abbreviation cn_id :: "('h, 's) CnContext \<Rightarrow> NodeId" where
  "cn_id ctx \<equiv> cn_node_id (cn_nmt_state_machine ctx)"

definition queue_nmt_service_request ::
  "NmtServiceRequest \<Rightarrow> NodeId \<Rightarrow> ('h, 's) CnContext \<Rightarrow> ('h, 's) CnContext" where
  "queue_nmt_service_request service target ctx =
     ctx\<lparr> cn_pending_nmt_requests := cn_pending_nmt_requests ctx @ [(Service service, target)] \<rparr>"

subsection \<open>Error history\<close>

text \<open>\<^verbatim>\<open>ErrorEntry::serialize\<close> writes the octets of \<open>entry_bytes\<close>.\<close>

definition write_error_to_history :: "ErrorEntry \<Rightarrow> 's ObjectDictionary \<Rightarrow> 's ObjectDictionary" where
  "write_error_to_history e od =
     (case bt_get (entries od) 0x1003 of
        None \<Rightarrow> od
      | Some entry_obj \<Rightarrow>
          (case oe_object entry_obj of
             Array vals \<Rightarrow>
               let vals = Domain (entry_bytes e) # vals;
                   vals = (if length vals > 254 then butlast vals else vals)
               in od\<lparr> entries := bt_insert 0x1003 (entry_obj\<lparr> oe_object := Array vals \<rparr>) (entries od) \<rparr>
           | _ \<Rightarrow> od))"

subsection \<open>Process data of the PRes\<close>

definition apply_tpdo_mapping_entry ::
  "PdoMappingEntry \<Rightarrow> bytes \<Rightarrow> ('h, 's) CoreNodeContext \<Rightarrow> (PdoError + bytes) \<times> ('h, 's) CoreNodeContext" where
  "apply_tpdo_mapping_entry entry payload_buffer core =
     (case (byte_offset entry, byte_length entry) of
        (Some offset, Some len) \<Rightarrow>
          if length payload_buffer < offset + len
          then (Inl (PayloadTooSmall (of_nat (offset + len) * 8) (length payload_buffer)), core)
          else if 0x1200 \<le> pm_index entry \<and> pm_index entry \<le> 0x127F then
            (let (response_payload, srv) =
                   get_pending_response (core_embedded_sdo_server core) (pm_index entry) len
             in (Inr (put offset response_payload payload_buffer), core\<lparr> core_embedded_sdo_server := srv \<rparr>))
          else if 0x1280 \<le> pm_index entry \<and> pm_index entry \<le> 0x12FF then
            (let (request_payload, cl) =
                   ec_get_pending_request (core_embedded_sdo_client core) (pm_index entry) len
             in (Inr (put offset request_payload payload_buffer), core\<lparr> core_embedded_sdo_client := cl \<rparr>))
          else
            (case od_read (core_od core) (pm_index entry) (pm_sub_index entry) of
               None \<Rightarrow> (Inr payload_buffer, core)
             | Some v \<Rightarrow>
                 let bytes_to_pack = value_serialize v
                 in if length bytes_to_pack \<noteq> len
                    then (Inl (PdoTypeMismatch (pm_index entry) (pm_sub_index entry)
                                (of_nat len * 8) (of_nat (length bytes_to_pack * 8))), core)
                    else (Inr (put offset bytes_to_pack payload_buffer), core))
      | _ \<Rightarrow> (Inr payload_buffer, core))"

fun apply_tpdo_entries ::
  "PdoMappingEntry list \<Rightarrow> bytes \<Rightarrow> ('h, 's) CoreNodeContext \<Rightarrow> bytes result \<times> ('h, 's) CoreNodeContext" where
  "apply_tpdo_entries [] payload core = (Inr payload, core)"
| "apply_tpdo_entries (e # es) payload core =
     (case apply_tpdo_mapping_entry e payload core of
        (Inl err, core) \<Rightarrow> (Inl (from_PdoError err), core)
      | (Inr payload, core) \<Rightarrow> apply_tpdo_entries es payload core)"

definition tpdo_entries :: "'s ObjectDictionary \<Rightarrow> u16 \<Rightarrow> u8 \<Rightarrow> PdoMappingEntry list" where
  "tpdo_entries od mapping_index num_entries =
     map (\<lambda>i. case od_read od mapping_index (of_nat i) of
            Some (Unsigned64 raw_mapping) \<Rightarrow> PdoMappingEntry_from_u64 raw_mapping
          | _ \<Rightarrow> PdoMappingEntry_from_u64 0) [1..<Suc (unat num_entries)]"

definition pres_payload_limit :: "'s ObjectDictionary \<Rightarrow> nat" where
  "pres_payload_limit od = unat (unwrap_or (read_u16 od 0x1F98 5) 36)"

definition build_tpdo_payload ::
  "('h, 's) CoreNodeContext \<Rightarrow> (bytes \<times> PDOVersion) result \<times> ('h, 's) CoreNodeContext" where
  "build_tpdo_payload core =
     (let od = core_od core;
          pdo_version = unwrap_or (read_u8 od 0x1800 2) 0;
          payload_limit = min (pres_payload_limit od) (unat C_DLL_ISOCHR_MAX_PAYL);
          payload = replicate payload_limit 0;
          num_entries = (case od_read od 0x1A00 0 of Some (Unsigned8 num) \<Rightarrow> num | _ \<Rightarrow> 0);
          (r, core) = (if num_entries > 0
                       then apply_tpdo_entries (tpdo_entries od 0x1A00 num_entries) payload core
                       else (Inr payload, core))
      in (rbind r (\<lambda>payload. Inr (payload, pdo_version)), core))"

subsection \<open>Answers\<close>

text \<open>The number and the priority of the pending requests, announced in every answer.\<close>

definition request_flags :: "(CnNmtRequest \<times> NodeId) list \<Rightarrow> SdoClient \<Rightarrow> u8 \<times> PRFlag" where
  "request_flags pending sdo_client =
     (if pending \<noteq> [] then (of_nat (min (length pending) 7), PrioNmtRequest)
      else pending_request_count_and_priority sdo_client)"

definition build_ident_response ::
  "MacAddress \<Rightarrow> NodeId \<Rightarrow> 's ObjectDictionary \<Rightarrow> SoAFrame \<Rightarrow> SdoClient \<Rightarrow> (CnNmtRequest \<times> NodeId) list \<Rightarrow>
     PowerlinkFrame" where
  "build_ident_response mac_address nid od soa sdo_client pending =
     (let (rs_count, pr_flag) = request_flags pending sdo_client;
          payload_struct = (IdentResponsePayload_new od)\<lparr> ir_pr := pr_flag, ir_rs := RSFlag_new rs_count \<rparr>;
          (r, payload_buf) = IdentResponsePayload_serialize payload_struct (replicate 256 0);
          payload_len = (case r of Inr len \<Rightarrow> len | Inl _ \<Rightarrow> 158)
      in FASnd (ASndFrame_new mac_address (source_mac (soa_eth_header soa)) C_ADR_MN_DEF_NODE_ID nid
                  IdentResponse (take payload_len payload_buf)))"

definition reported_state :: "'s ObjectDictionary \<Rightarrow> NmtState" where
  "reported_state od =
     (case read_u8 od 0x1F8C 0 of
        Some val \<Rightarrow> (case NmtState_try_from val of Inr st \<Rightarrow> st | Inl _ \<Rightarrow> NmtNotActive)
      | None \<Rightarrow> NmtNotActive)"

definition async_mtu :: "'s ObjectDictionary \<Rightarrow> nat" where
  "async_mtu od = unat (unwrap_or (read_u16 od 0x1F98 8) 300)"

definition build_status_response ::
  "MacAddress \<Rightarrow> NodeId \<Rightarrow> 's ObjectDictionary \<Rightarrow> bool \<Rightarrow> bool \<Rightarrow> ErrorEntry list \<Rightarrow> SoAFrame \<Rightarrow> SdoClient \<Rightarrow>
     (CnNmtRequest \<times> NodeId) list \<Rightarrow> PowerlinkFrame \<times> 's ObjectDictionary \<times> ErrorEntry list" where
  "build_status_response mac_address nid od en_flag ec_flag emergency_queue soa sdo_client pending =
     (let nmt_state = reported_state od;
          static_errors = StaticErrorBitField_new od;
          (rs_count, pr_flag) = request_flags pending sdo_client;
          max_payload_size = async_mtu od - 4;
          max_entries = (max_payload_size - (14 + 20)) div 20;
          sent = take max_entries emergency_queue;
          od = (if sent \<noteq> [] then increment_counter od 0x1102 2 else od);
          payload_struct = StatusResponsePayload_new en_flag ec_flag pr_flag (RSFlag_new rs_count)
                             nmt_state static_errors sent;
          (r, payload_buf) = StatusResponsePayload_serialize payload_struct (replicate max_payload_size 0);
          payload = (case r of
            Inr len \<Rightarrow> take len payload_buf
          | Inl _ \<Rightarrow>
              let (r, payload_buf) = StatusResponsePayload_serialize (payload_struct\<lparr> sr_error_entries := [] \<rparr>)
                    (replicate (min max_payload_size (14 + 20)) 0)
              in take (case r of Inr len \<Rightarrow> len | Inl _ \<Rightarrow> 14 + 20) payload_buf)
      in (FASnd (ASndFrame_new mac_address (source_mac (soa_eth_header soa)) C_ADR_MN_DEF_NODE_ID nid
                   StatusResponse payload), od, drop max_entries emergency_queue))"

definition build_nmt_request :: "MacAddress \<Rightarrow> NodeId \<Rightarrow> u8 \<Rightarrow> NodeId \<Rightarrow> SoAFrame \<Rightarrow> PowerlinkFrame" where
  "build_nmt_request mac_address nid cmd_id target soa =
     FASnd (ASndFrame_new mac_address (source_mac (soa_eth_header soa)) C_ADR_MN_DEF_NODE_ID nid
              NmtRequest [cmd_id, target])"

definition build_pres_response :: "('h, 's) CnContext \<Rightarrow> bool \<Rightarrow> PowerlinkFrame \<times> ('h, 's) CnContext" where
  "build_pres_response ctx en_flag =
     (let nid = cn_id ctx;
          nmt_state = cn_state ctx;
          mac_address = core_mac_address (cn_core ctx);
          (r, core) = build_tpdo_payload (cn_core ctx);
          ctx = ctx\<lparr> cn_core := core \<rparr>;
          (payload, pdo_version, payload_is_valid) = (case r of
              Inr (payload, version) \<Rightarrow> (payload, version, True)
            | Inl _ \<Rightarrow> (replicate (pres_payload_limit (core_od core)) 0, 0, False));
          rd_flag = (nmt_state = NmtOperational \<and> payload_is_valid);
          (rs_count, pr_flag) = request_flags (cn_pending_nmt_requests ctx) (core_sdo_client core);
          flags = \<lparr> pres_ms = False, pres_en = en_flag, pres_rd = rd_flag, pres_pr = pr_flag,
                    pres_rs = RSFlag_new rs_count \<rparr>
      in (FPRes (PResFrame_new mac_address nid nmt_state flags pdo_version payload), ctx))"

end
