(* ===== verification/Cn_Node.thy ===== *)
theory Cn_Node
  imports Cn_Payload
begin

section \<open>The controlled node\<close>

text \<open>
  \<^verbatim>\<open>node/cn/events.rs\<close>, \<^verbatim>\<open>node/cn/tick.rs\<close> and \<^verbatim>\<open>node/cn/main.rs\<close>: frames, datagrams and ticks. The
  sections of the long function \<^verbatim>\<open>process_frame\<close> are one definition each, in their order. Times are
  64-bit words with wrapping arithmetic, as in a release build. A panic, possible only in the embedded
  SDO client, is \<open>None\<close>.
\<close>

subsection \<open>Access to the parts of the state\<close>

definition map_od :: "('s ObjectDictionary \<Rightarrow> 's ObjectDictionary) \<Rightarrow> ('h, 's) CnContext \<Rightarrow> ('h, 's) CnContext" where
  "map_od f ctx = ctx\<lparr> cn_core := (cn_core ctx)\<lparr> core_od := f (cn_od ctx) \<rparr> \<rparr>"

abbreviation count_telegram :: "u8 \<Rightarrow> ('h, 's) CnContext \<Rightarrow> ('h, 's) CnContext" where
  "count_telegram sub \<equiv> map_od (\<lambda>od. increment_counter od 0x1101 sub)"

abbreviation count_statistics :: "u8 \<Rightarrow> ('h, 's) CnContext \<Rightarrow> ('h, 's) CnContext" where
  "count_statistics sub \<equiv> map_od (\<lambda>od. increment_counter od 0x1102 sub)"

definition raise_nmt :: "NmtEvent \<Rightarrow> ('h, 's) CnContext \<Rightarrow> ('h, 's) CnContext" where
  "raise_nmt event ctx =
     (let (_, m, od) = cn_process_event (cn_nmt_state_machine ctx) event (cn_od ctx)
      in (map_od (\<lambda>_. od) ctx)\<lparr> cn_nmt_state_machine := m \<rparr>)"

text \<open>The error manager of the node only logs (\<^verbatim>\<open>LoggingErrorHandler\<close>).\<close>

definition log_handle ::
  "DllError \<Rightarrow> (CnErrorCounters, unit) DllErrorManager \<Rightarrow>
     (NmtAction \<times> bool) \<times> (CnErrorCounters, unit) DllErrorManager" where
  "log_handle error m = manager_handle_error (cn_handle_error (\<lambda>h e. h)) m error"

definition handle_dll_error :: "DllError \<Rightarrow> ('h, 's) CnContext \<Rightarrow> (NmtAction \<times> bool) \<times> ('h, 's) CnContext" where
  "handle_dll_error error ctx =
     (let (r, m) = log_handle error (cn_dll_error_manager ctx) in (r, ctx\<lparr> cn_dll_error_manager := m \<rparr>))"

definition error_register :: "'s ObjectDictionary \<Rightarrow> u8" where
  "error_register od = unwrap_or (read_u8 od 0x1001 0) 0"

definition write_error_register :: "u8 \<Rightarrow> ('h, 's) CnContext \<Rightarrow> ('h, 's) CnContext" where
  "write_error_register v = map_od (\<lambda>od. snd (write_internal od 0x1001 0 (Unsigned8 v) False))"

subsection \<open>Errors of the DLL\<close>

definition new_error_entry :: "DllError \<Rightarrow> u64 \<Rightarrow> ErrorEntry" where
  "new_error_entry error current_time_us =
     \<lparr> ee_entry_type = \<lparr> et_is_status_entry = False, et_send_to_queue = True, et_mode = EventOccurred,
                          et_profile = 0x002 \<rparr>,
       ee_error_code = to_error_code error,
       ee_timestamp = \<lparr> nt_seconds = ucast (current_time_us div 1000000),
                        nt_nanoseconds = ucast ((current_time_us mod 1000000) * 1000) \<rparr>,
       ee_additional_information = (case error of
           LossOfPres node_id \<Rightarrow> ucast node_id
         | LatePres node_id \<Rightarrow> ucast node_id
         | LossOfStatusRes node_id \<Rightarrow> ucast node_id
         | _ \<Rightarrow> 0) \<rparr>"

definition queue_emergency :: "ErrorEntry \<Rightarrow> ('h, 's) CnContext \<Rightarrow> ('h, 's) CnContext" where
  "queue_emergency error_entry ctx =
     (if length (cn_emergency_queue ctx) < cn_emergency_capacity ctx then
        count_statistics 2 (map_od (write_error_to_history error_entry)
          (ctx\<lparr> cn_emergency_queue := cn_emergency_queue ctx @ [error_entry] \<rparr>))
      else count_statistics 3 ctx)"

definition signal_error :: "DllError \<Rightarrow> u64 \<Rightarrow> ('h, 's) CnContext \<Rightarrow> ('h, 's) CnContext" where
  "signal_error error current_time_us ctx =
     (let ctx = ctx\<lparr> cn_error_status_changed := True \<rparr>;
          current_err_reg = error_register (cn_od ctx);
          new_err_reg = current_err_reg OR 1;
          ctx = (if current_err_reg \<noteq> new_err_reg then count_statistics 5 ctx else ctx);
          ctx = write_error_register new_err_reg ctx
      in queue_emergency (new_error_entry error current_time_us) ctx)"

text \<open>The loop over the errors of the DLL state machine, in frames and in ticks. The first component
  says that an error triggered an NMT action, which ends the processing.\<close>

fun handle_dll_errors :: "DllError list \<Rightarrow> u64 \<Rightarrow> ('h, 's) CnContext \<Rightarrow> bool \<times> ('h, 's) CnContext" where
  "handle_dll_errors [] current_time_us ctx = (False, ctx)"
| "handle_dll_errors (error # errors) current_time_us ctx =
     (let ((nmt_action, signaled), ctx) = handle_dll_error error (count_statistics 1 ctx);
          ctx = (if signaled then signal_error error current_time_us ctx else ctx)
      in if nmt_action \<noteq> None'
         then (True, (raise_nmt NmtEvent.Error ctx)\<lparr> cn_soc_timeout_check_active := False \<rparr>)
         else handle_dll_errors errors current_time_us ctx)"

definition process_dll_event :: "DllCsEvent \<Rightarrow> NmtState \<Rightarrow> u64 \<Rightarrow> ('h, 's) CnContext \<Rightarrow> bool \<times> ('h, 's) CnContext" where
  "process_dll_event event nmt_state current_time_us ctx =
     (let (m, errors) = cs_process_event (cn_dll_state_machine ctx) event nmt_state
      in handle_dll_errors (unwrap_or errors []) current_time_us (ctx\<lparr> cn_dll_state_machine := m \<rparr>))"

subsection \<open>Frames\<close>

text \<open>An SDO request in an ASnd frame for this node.\<close>

definition process_sdo_asnd :: "ASndFrame \<Rightarrow> u64 \<Rightarrow> ('h, 's) CnContext \<Rightarrow> NodeAction \<times> ('h, 's) CnContext" where
  "process_sdo_asnd asnd_frame current_time_us ctx =
     (let ctx = count_telegram 6 ctx;
          client_info = AsndClient (asnd_source asnd_frame) (source_mac (asnd_eth_header asnd_frame));
          (r, srv, od) = server_handle_request (core_sdo_server (cn_core ctx)) (asnd_payload asnd_frame)
                           client_info (cn_od ctx) current_time_us;
          ctx = ctx\<lparr> cn_core := (cn_core ctx)\<lparr> core_sdo_server := srv, core_od := od \<rparr> \<rparr>
      in case r of
           Inr data \<Rightarrow>
             (case AsndTransport_build_response (core_mac_address (cn_core ctx)) (cn_id ctx) True data of
                Inr action \<Rightarrow> (action, count_telegram 7 ctx)
              | Inl _ \<Rightarrow> (NoAction, ctx))
         | Inl _ \<Rightarrow> (NoAction, ctx))"

definition schedule_soc_check :: "u64 \<Rightarrow> ('h, 's) CnContext \<Rightarrow> ('h, 's) CnContext" where
  "schedule_soc_check current_time_us ctx =
     (case (read_u32 (cn_od ctx) 0x1006 0, read_u32 (cn_od ctx) 0x1C14 0) of
        (Some cycle_time_us, Some tolerance_ns) \<Rightarrow>
          if cycle_time_us > 0 then
            let deadline = current_time_us + ucast cycle_time_us + ucast tolerance_ns div 1000
            in (case cn_next_tick_us ctx of
                  Some current_deadline \<Rightarrow>
                    if deadline < current_deadline then ctx\<lparr> cn_next_tick_us := Some deadline \<rparr> else ctx
                | None \<Rightarrow> ctx\<lparr> cn_next_tick_us := Some deadline \<rparr>)
          else ctx\<lparr> cn_soc_timeout_check_active := False \<rparr>
      | _ \<Rightarrow> ctx\<lparr> cn_soc_timeout_check_active := False \<rparr>)"

definition process_soc :: "u64 \<Rightarrow> ('h, 's) CnContext \<Rightarrow> ('h, 's) CnContext" where
  "process_soc current_time_us ctx =
     (let ctx = count_telegram 1
            (ctx\<lparr> cn_last_soc_reception_time_us := current_time_us, cn_soc_timeout_check_active := True \<rparr>);
          (cleared, m) = manager_on_cycle_complete cn_on_cycle_complete (cn_dll_error_manager ctx);
          ctx = ctx\<lparr> cn_dll_error_manager := m \<rparr>;
          ctx = (if cleared then
                   count_statistics 5
                     ((write_error_register (error_register (cn_od ctx) AND NOT 1) ctx)
                        \<lparr> cn_error_status_changed := True \<rparr>)
                 else ctx)
      in schedule_soc_check current_time_us ctx)"

definition count_received :: "PowerlinkFrame \<Rightarrow> u64 \<Rightarrow> ('h, 's) CnContext \<Rightarrow> ('h, 's) CnContext" where
  "count_received frame current_time_us ctx =
     (case frame of
        FPReq _ \<Rightarrow> count_telegram 2 ctx
      | FPRes pres_frame \<Rightarrow>
          (count_telegram 2 ctx)\<lparr> cn_heartbeat_consumers :=
             bt_update (pres_source pres_frame) (\<lambda>(timeout, _). (timeout, current_time_us))
               (cn_heartbeat_consumers ctx) \<rparr>
      | FSoA soa_frame \<Rightarrow>
          (let ctx = count_telegram 4 ctx
           in if soa_req_service_id soa_frame = RequestedServiceId.StatusRequest then count_telegram 8 ctx else ctx)
      | _ \<Rightarrow> ctx)"

text \<open>Of the flags of the managing node, only the error reset of an SoA for this node has an effect.\<close>

definition process_error_flags :: "PowerlinkFrame \<Rightarrow> ('h, 's) CnContext \<Rightarrow> ('h, 's) CnContext" where
  "process_error_flags frame ctx =
     (case frame of
        FSoA soa \<Rightarrow>
          if soa_target_node_id soa = cn_id ctx then
            (let ctx = (if soa_er (soa_flags soa)
                        then count_statistics 6 (ctx\<lparr> cn_en_flag := False, cn_emergency_queue := [] \<rparr>)
                        else ctx)
             in ctx\<lparr> cn_ec_flag := soa_er (soa_flags soa) \<rparr>)
          else ctx
      | _ \<Rightarrow> ctx)"

primrec command_event :: "NmtStateCommand \<Rightarrow> NmtEvent" where
  "command_event NmtStateCommand.StartNode = NmtEvent.StartNode"
| "command_event NmtStateCommand.StopNode = NmtEvent.StopNode"
| "command_event NmtStateCommand.EnterPreOperational2 = NmtEvent.EnterPreOperational2"
| "command_event NmtStateCommand.EnableReadyToOperate = NmtEvent.EnableReadyToOperate"
| "command_event NmtStateCommand.ResetNode = NmtEvent.ResetNode"
| "command_event NmtStateCommand.ResetCommunication = NmtEvent.ResetCommunication"
| "command_event NmtStateCommand.ResetConfiguration = NmtEvent.ResetConfiguration"
| "command_event NmtStateCommand.SwReset = NmtEvent.SwReset"

definition set_host_name :: "bytes \<Rightarrow> ('h, 's) CnContext \<Rightarrow> ('h, 's) CnContext" where
  "set_host_name payload ctx =
     (if length payload \<ge> 34 then
        (case from_utf8 (takeWhile (\<lambda>b. b \<noteq> 0) (sub_slice 2 34 payload)) of
           Some hostname \<Rightarrow>
             queue_nmt_service_request NmtServiceRequest.IdentRequest (cn_id ctx)
               (map_od (\<lambda>od. snd (write_internal od 0x1F9A 0 (VisibleString hostname) False)) ctx)
         | None \<Rightarrow> ctx)
      else ctx)"

definition process_nmt_command :: "bytes \<Rightarrow> ('h, 's) CnContext \<Rightarrow> NmtEvent option \<times> ('h, 's) CnContext" where
  "process_nmt_command payload ctx =
     (case payload of
        [] \<Rightarrow> (None, ctx)
      | cmd_id_byte # _ \<Rightarrow>
          (case NmtStateCommand_try_from cmd_id_byte of
             Inr cmd \<Rightarrow> (Some (command_event cmd), ctx)
           | Inl _ \<Rightarrow>
               (case NmtManagingCommand_try_from cmd_id_byte of
                  Inr NmtNetHostNameSet \<Rightarrow> (None, set_host_name payload ctx)
                | _ \<Rightarrow> (None, ctx))))"

definition frame_nmt_event :: "PowerlinkFrame \<Rightarrow> ('h, 's) CnContext \<Rightarrow> NmtEvent option \<times> ('h, 's) CnContext" where
  "frame_nmt_event frame ctx =
     (case frame of
        FSoc _ \<Rightarrow> (Some SocReceived, ctx)
      | FSoA _ \<Rightarrow> (Some SocSoAReceived, ctx)
      | FASnd asnd_frame \<Rightarrow>
          if asnd_destination asnd_frame = cn_id ctx \<and> asnd_service_id asnd_frame = NmtCommand
          then process_nmt_command (asnd_payload asnd_frame) ctx
          else (None, ctx)
      | _ \<Rightarrow> (None, ctx))"

text \<open>The process data of a PReq for this node and of every PRes.\<close>

definition cn_consume :: "NodeId \<Rightarrow> bytes \<Rightarrow> u8 \<Rightarrow> bool \<Rightarrow> ('h, 's) CnContext \<Rightarrow> ('h, 's) CnContext option" where
  "cn_consume source payload version rd ctx =
     map_option (\<lambda>(m, core). ctx\<lparr> cn_dll_error_manager := m, cn_core := core \<rparr>)
       (consume_pdo_payload (\<lambda>e m. snd (log_handle e m)) source payload version rd
          (cn_dll_error_manager ctx, cn_core ctx))"

definition consume_frame :: "PowerlinkFrame \<Rightarrow> ('h, 's) CnContext \<Rightarrow> ('h, 's) CnContext option" where
  "consume_frame frame ctx =
     (case frame of
        FPReq f \<Rightarrow>
          if preq_destination f = cn_id ctx
          then cn_consume (preq_source f) (preq_payload f) (preq_pdo_version f) (preq_rd (preq_flags f)) ctx
          else Some ctx
      | FPRes f \<Rightarrow> cn_consume (pres_source f) (pres_payload f) (pres_pdo_version f) (pres_rd (pres_flags f)) ctx
      | _ \<Rightarrow> Some ctx)"

definition toggle_en_flag :: "('h, 's) CnContext \<Rightarrow> ('h, 's) CnContext" where
  "toggle_en_flag ctx =
     (if cn_error_status_changed ctx
      then count_statistics 7 (ctx\<lparr> cn_en_flag := \<not> cn_en_flag ctx, cn_error_status_changed := False \<rparr>)
      else ctx)"

text \<open>The requests of the node are taken from the end of their list (\<^verbatim>\<open>Vec::pop\<close>).\<close>

definition answer_soa :: "SoAFrame \<Rightarrow> ('h, 's) CnContext \<Rightarrow> PowerlinkFrame option \<times> ('h, 's) CnContext" where
  "answer_soa soa ctx =
     (case soa_req_service_id soa of
        RequestedServiceId.IdentRequest \<Rightarrow>
          (let ctx = count_telegram 5 ctx
           in (Some (build_ident_response (core_mac_address (cn_core ctx)) (cn_id ctx) (cn_od ctx) soa
                       (core_sdo_client (cn_core ctx)) (cn_pending_nmt_requests ctx)), ctx))
      | RequestedServiceId.StatusRequest \<Rightarrow>
          (let ctx = count_telegram 5 ctx;
               (f, od, queue) = build_status_response (core_mac_address (cn_core ctx)) (cn_id ctx) (cn_od ctx)
                  (cn_en_flag ctx) (cn_ec_flag ctx) (cn_emergency_queue ctx) soa
                  (core_sdo_client (cn_core ctx)) (cn_pending_nmt_requests ctx)
           in (Some f, (map_od (\<lambda>_. od) ctx)\<lparr> cn_emergency_queue := queue \<rparr>))
      | NmtRequestInvite \<Rightarrow>
          (if cn_pending_nmt_requests ctx = [] then (None, ctx)
           else
             let (cmd_type, tgt) = last (cn_pending_nmt_requests ctx);
                 ctx = count_telegram 5 (ctx\<lparr> cn_pending_nmt_requests := butlast (cn_pending_nmt_requests ctx) \<rparr>)
             in (Some (build_nmt_request (core_mac_address (cn_core ctx)) (cn_id ctx)
                         (CnNmtRequest_as_u8 cmd_type) tgt soa), ctx))
      | UnspecifiedInvite \<Rightarrow>
          (case pop_pending_request (core_sdo_client (cn_core ctx)) of
             (None, _) \<Rightarrow> (None, ctx)
           | (Some (_, sdo_payload), q) \<Rightarrow>
               (let ctx = count_telegram 7 (ctx\<lparr> cn_core := (cn_core ctx)\<lparr> core_sdo_client := q \<rparr> \<rparr>)
                in (Some (FASnd (ASndFrame_new (core_mac_address (cn_core ctx)) (source_mac (soa_eth_header soa))
                            C_ADR_MN_DEF_NODE_ID (cn_id ctx) Sdo sdo_payload)), ctx)))
      | NoService \<Rightarrow> (None, ctx))"

definition generate_response :: "PowerlinkFrame \<Rightarrow> ('h, 's) CnContext \<Rightarrow> PowerlinkFrame option \<times> ('h, 's) CnContext" where
  "generate_response frame ctx =
     (if cn_state ctx \<ge> NmtNotActive then
        (case frame of
           FSoA soa_frame \<Rightarrow>
             if soa_target_node_id soa_frame = cn_id ctx \<and>
                cn_state ctx \<in> {NmtPreOperational1, NmtPreOperational2, NmtReadyToOperate, NmtOperational, NmtCsStopped}
             then answer_soa soa_frame ctx
             else (None, ctx)
         | FPReq preq_frame \<Rightarrow>
             if preq_destination preq_frame = cn_id ctx \<and>
                cn_state ctx \<in> {NmtPreOperational2, NmtReadyToOperate, NmtOperational}
             then (let ctx = count_telegram 3 ctx;
                       (f, ctx) = build_pres_response ctx (cn_en_flag ctx)
                   in (Some f, ctx))
             else (None, ctx)
         | _ \<Rightarrow> (None, ctx))
      else (None, ctx))"

text \<open>From the events of a frame to its answer.\<close>

definition finish_frame :: "PowerlinkFrame \<Rightarrow> ('h, 's) CnContext \<Rightarrow> (NodeAction \<times> ('h, 's) CnContext) option" where
  "finish_frame frame ctx =
     map_option (\<lambda>ctx.
       let (response_frame_opt, ctx) = generate_response frame (toggle_en_flag ctx)
       in (case response_frame_opt of
             Some response_frame \<Rightarrow>
               (case serialize_frame_action response_frame True of Inr action \<Rightarrow> action | Inl _ \<Rightarrow> NoAction)
           | None \<Rightarrow> NoAction, ctx))
       (consume_frame frame ctx)"

definition process_plain_frame ::
  "PowerlinkFrame \<Rightarrow> u64 \<Rightarrow> ('h, 's) CnContext \<Rightarrow> (NodeAction \<times> ('h, 's) CnContext) option" where
  "process_plain_frame frame current_time_us ctx =
     (let ctx = (case frame of FSoc _ \<Rightarrow> process_soc current_time_us ctx | _ \<Rightarrow> ctx);
          ctx = process_error_flags frame (count_received frame current_time_us ctx);
          (event, ctx) = frame_nmt_event frame ctx;
          ctx = (case event of Some event \<Rightarrow> raise_nmt event ctx | None \<Rightarrow> ctx);
          (stop, ctx) = process_dll_event (dll_cn_event frame) (cn_state ctx) current_time_us ctx
      in if stop then Some (NoAction, ctx) else finish_frame frame ctx)"

definition process_frame ::
  "('h, 's) CnContext \<Rightarrow> PowerlinkFrame \<Rightarrow> u64 \<Rightarrow> (NodeAction \<times> ('h, 's) CnContext) option" where
  "process_frame ctx frame current_time_us =
     (case frame of
        FASnd asnd_frame \<Rightarrow>
          if asnd_destination asnd_frame = cn_id ctx then
            (if asnd_service_id asnd_frame = Sdo
             then Some (process_sdo_asnd asnd_frame current_time_us ctx)
             else process_plain_frame frame current_time_us (count_telegram 4 ctx))
          else Some (NoAction, ctx)
      | _ \<Rightarrow> process_plain_frame frame current_time_us ctx)"

subsection \<open>Ticks\<close>

definition build_sdo_response :: "('h, 's) CnContext \<Rightarrow> SdoResponseData \<Rightarrow> NodeAction result" where
  "build_sdo_response ctx data =
     (case rd_client_info data of
        AsndClient _ _ \<Rightarrow> AsndTransport_build_response (core_mac_address (cn_core ctx)) (cn_id ctx) True data
      | UdpClient _ _ \<Rightarrow> UdpTransport_build_response data)"

text \<open>The time-outs of the SDO server. \<open>Some\<close> is an answer, with which the tick returns.\<close>

definition tick_sdo_server :: "u64 \<Rightarrow> ('h, 's) CnContext \<Rightarrow> NodeAction option \<times> ('h, 's) CnContext" where
  "tick_sdo_server current_time_us ctx =
     (let (r, srv) = server_tick (core_sdo_server (cn_core ctx)) current_time_us (cn_od ctx);
          ctx = ctx\<lparr> cn_core := (cn_core ctx)\<lparr> core_sdo_server := srv \<rparr> \<rparr>
      in case r of
           Inr (Some data) \<Rightarrow>
             (let ctx = count_telegram 7 ctx
              in case build_sdo_response ctx data of
                   Inr action \<Rightarrow> (Some action, ctx)
                 | Inl _ \<Rightarrow> (None, ctx))
         | _ \<Rightarrow> (None, ctx))"

fun scan_heartbeats :: "u64 \<Rightarrow> (NodeId, u64 \<times> u64) btree \<Rightarrow> NodeId list \<times> (NodeId, u64 \<times> u64) btree" where
  "scan_heartbeats now [] = ([], [])"
| "scan_heartbeats now ((node_id, timeout_us, last_seen_us) # m) =
     (let (timed_out, m) = scan_heartbeats now m
      in if last_seen_us = 0 then (timed_out, (node_id, timeout_us, now) # m)
         else if timeout_us > 0 \<and> now - last_seen_us > timeout_us
         then (node_id # timed_out, (node_id, timeout_us, now) # m)
         else (timed_out, (node_id, timeout_us, last_seen_us) # m))"

fun handle_heartbeat_errors :: "NodeId list \<Rightarrow> ('h, 's) CnContext \<Rightarrow> bool \<times> ('h, 's) CnContext" where
  "handle_heartbeat_errors [] ctx = (False, ctx)"
| "handle_heartbeat_errors (node_id # nodes) ctx =
     (let ((nmt_action, signaled), ctx) = handle_dll_error (HeartbeatTimeout node_id) ctx;
          current_err_reg = error_register (cn_od ctx);
          new_err_reg = current_err_reg OR 1;
          ctx = (if signaled then ctx\<lparr> cn_error_status_changed := True \<rparr> else ctx);
          ctx = (if signaled \<and> current_err_reg \<noteq> new_err_reg
                 then write_error_register new_err_reg (count_statistics 5 ctx) else ctx)
      in if nmt_action \<noteq> None'
         then (True, (raise_nmt NmtEvent.Error ctx)\<lparr> cn_soc_timeout_check_active := False \<rparr>)
         else handle_heartbeat_errors nodes ctx)"

definition tick_heartbeats :: "u64 \<Rightarrow> ('h, 's) CnContext \<Rightarrow> bool \<times> ('h, 's) CnContext" where
  "tick_heartbeats current_time_us ctx =
     (if cn_state ctx \<ge> NmtPreOperational2 then
        (let (timed_out_nodes, hc) = scan_heartbeats current_time_us (cn_heartbeat_consumers ctx)
         in handle_heartbeat_errors timed_out_nodes (ctx\<lparr> cn_heartbeat_consumers := hc \<rparr>))
      else (False, ctx))"

text \<open>The next check after a missed SoC.\<close>

definition reschedule_soc_check :: "u64 \<Rightarrow> ('h, 's) CnContext \<Rightarrow> ('h, 's) CnContext" where
  "reschedule_soc_check current_time_us ctx =
     (if cn_soc_timeout_check_active ctx then
        (case (read_u32 (cn_od ctx) 0x1006 0, read_u32 (cn_od ctx) 0x1C14 0) of
           (Some cycle_time, Some tolerance_ns) \<Rightarrow>
             if cycle_time > 0 then
               let cycle_time_us = ucast cycle_time;
                   cycles_missed = (current_time_us - cn_last_soc_reception_time_us ctx) div cycle_time_us + 1;
                   next_expected_soc_time = cn_last_soc_reception_time_us ctx + cycles_missed * cycle_time_us
               in ctx\<lparr> cn_next_tick_us := Some (next_expected_soc_time + ucast tolerance_ns div 1000) \<rparr>
             else ctx\<lparr> cn_soc_timeout_check_active := False \<rparr>
         | _ \<Rightarrow> ctx\<lparr> cn_soc_timeout_check_active := False \<rparr>)
      else ctx)"

text \<open>The time-outs of the node itself, none of which sends anything.\<close>

definition tick_deadlines :: "u64 \<Rightarrow> NmtState \<Rightarrow> ('h, 's) CnContext \<Rightarrow> ('h, 's) CnContext" where
  "tick_deadlines current_time_us current_nmt_state ctx =
     (let timeout_us = (ucast (cn_basic_ethernet_timeout (cn_nmt_state_machine ctx)) :: u64)
      in if current_nmt_state = NmtNotActive \<and> cn_next_tick_us ctx = None then
           (if timeout_us > 0 then ctx\<lparr> cn_next_tick_us := Some (current_time_us + timeout_us) \<rparr> else ctx)
         else
           (case cn_next_tick_us ctx of
              None \<Rightarrow> ctx
            | Some deadline \<Rightarrow>
                if current_time_us < deadline then ctx
                else
                  let ctx = ctx\<lparr> cn_next_tick_us := None \<rparr>
                  in if current_nmt_state = NmtNotActive then
                       (if timeout_us > 0
                        then (raise_nmt NmtEvent.Timeout ctx)\<lparr> cn_soc_timeout_check_active := False \<rparr> else ctx)
                     else if cn_soc_timeout_check_active ctx then
                       (let (stop, ctx) = process_dll_event SocTimeout current_nmt_state current_time_us ctx
                        in if stop then ctx else reschedule_soc_check current_time_us ctx)
                     else ctx))"

definition process_tick :: "('h, 's) CnContext \<Rightarrow> u64 \<Rightarrow> NodeAction \<times> ('h, 's) CnContext" where
  "process_tick ctx current_time_us =
     (case tick_sdo_server current_time_us ctx of
        (Some action, ctx) \<Rightarrow> (action, ctx)
      | (None, ctx) \<Rightarrow>
          (let current_nmt_state = cn_state ctx;
               (stop, ctx) = tick_heartbeats current_time_us ctx
           in (NoAction, if stop then ctx else tick_deadlines current_time_us current_nmt_state ctx)))"

subsection \<open>The node\<close>

definition heartbeat_consumer :: "ObjectValue \<Rightarrow> (NodeId, u64 \<times> u64) btree \<Rightarrow> (NodeId, u64 \<times> u64) btree" where
  "heartbeat_consumer hb_value m =
     (case hb_value of
        Unsigned32 hb_description \<Rightarrow>
          (let heartbeat_time_ms = (ucast (hb_description AND 0xFFFF) :: u16);
               node_id_val = (ucast (drop_bit 16 hb_description AND 0xFF) :: u8)
           in if heartbeat_time_ms > 0 \<and> node_id_val > 0 then
                (case NodeId_try_from node_id_val of
                   Inr node_id \<Rightarrow> bt_insert node_id (ucast heartbeat_time_ms * 1000, 0) m
                 | Inl _ \<Rightarrow> m)
              else m)
      | _ \<Rightarrow> m)"

definition heartbeat_consumers_of :: "'s ObjectDictionary \<Rightarrow> (NodeId, u64 \<times> u64) btree" where
  "heartbeat_consumers_of od =
     (case read_object od 0x1016 of Some (Array hbs) \<Rightarrow> fold heartbeat_consumer hbs [] | _ \<Rightarrow> [])"

text \<open>\<^verbatim>\<open>ControlledNode::new\<close>; the first argument is the capacity that the emergency queue gets.\<close>

definition ControlledNode_new ::
  "nat \<Rightarrow> 's ObjectDictionary \<Rightarrow> MacAddress \<Rightarrow> (unit, 's) CnContext result" where
  "ControlledNode_new capacity od mac_address =
     (let (r, od) = od_init od
      in rbind r (\<lambda>_. rbind (validate_mandatory_objects od False) (\<lambda>_. rbind (CnNmt_from_od od) (\<lambda>nmt.
           let (nmt, od') = run_internal_initialisation cn_current_state cn_set_state (nmt, od)
           in Inr \<lparr> cn_core = \<lparr> core_od = od', core_mac_address = mac_address, core_sdo_server = SdoServer_new,
                        core_sdo_client = SdoClient_new, core_embedded_sdo_server = [],
                        core_embedded_sdo_client = [] \<rparr>,
                    cn_nmt_state_machine = nmt, cn_dll_state_machine = DllCsStateMachine_new,
                    cn_dll_error_manager = \<lparr> counters = CnErrorCounters_new, handler = () \<rparr>,
                    cn_pending_nmt_requests = [], cn_emergency_queue = [], cn_emergency_capacity = capacity,
                    cn_heartbeat_consumers = heartbeat_consumers_of od,
                    cn_last_soc_reception_time_us = 0, cn_soc_timeout_check_active = False,
                    cn_next_tick_us = None, cn_en_flag = False, cn_ec_flag = True,
                    cn_error_status_changed = False \<rparr>))))"

definition cn_queue_sdo_request :: "bytes \<Rightarrow> ('h, 's) CnContext \<Rightarrow> ('h, 's) CnContext" where
  "cn_queue_sdo_request payload ctx =
     ctx\<lparr> cn_core := core_queue_sdo_request C_ADR_MN_DEF_NODE_ID payload (cn_core ctx) \<rparr>"

definition cn_queue_nmt_request :: "NmtStateCommand \<Rightarrow> NodeId \<Rightarrow> ('h, 's) CnContext \<Rightarrow> ('h, 's) CnContext" where
  "cn_queue_nmt_request command target ctx =
     ctx\<lparr> cn_pending_nmt_requests := cn_pending_nmt_requests ctx @ [(Command command, target)] \<rparr>"

text \<open>A frame of the POWERLINK type that does not decode is an error of the DLL.\<close>

definition process_malformed :: "('h, 's) CnContext \<Rightarrow> ('h, 's) CnContext" where
  "process_malformed ctx =
     (let ((nmt_action, signaled), ctx) = handle_dll_error InvalidFormat ctx;
          ctx = (if signaled
                 then write_error_register (error_register (cn_od ctx) OR 1) (ctx\<lparr> cn_error_status_changed := True \<rparr>)
                 else ctx)
      in if nmt_action \<noteq> None' then raise_nmt NmtEvent.Error ctx else ctx)"

definition process_ethernet_frame ::
  "('h, 's) CnContext \<Rightarrow> bytes \<Rightarrow> u64 \<Rightarrow> (NodeAction \<times> ('h, 's) CnContext) option" where
  "process_ethernet_frame ctx buffer current_time_us =
     (let ctx = (if cn_state ctx = NmtBasicEthernet then raise_nmt PowerlinkFrameReceived ctx else ctx);
          ctx = (if length buffer > 17 \<and> buffer ! 14 = MessageType_u8 ASnd \<and> buffer ! 15 = cn_id ctx \<and>
                    buffer ! 17 = ServiceId_u8 Sdo
                 then count_telegram 6 ctx else ctx)
      in case deserialize_frame buffer of
           Inr frame \<Rightarrow> process_frame ctx frame current_time_us
         | Inl e \<Rightarrow> Some (NoAction, if e \<noteq> InvalidEthernetFrame then process_malformed ctx else ctx))"

text \<open>The headers of a datagram are decoded and written again for the server.\<close>

definition server_payload :: "nat \<Rightarrow> SequenceLayerHeader \<Rightarrow> SdoCommand \<Rightarrow> bytes" where
  "server_payload buffer_len seq_header cmd =
     (let (r1, sdo_payload) = SequenceLayerHeader_serialize seq_header (replicate buffer_len 0);
          seq_len = (case r1 of Inr n \<Rightarrow> n | Inl _ \<Rightarrow> 0);
          (r2, rest) = SdoCommand_serialize cmd (drop seq_len sdo_payload);
          cmd_len = (case r2 of Inr n \<Rightarrow> n | Inl _ \<Rightarrow> 0)
      in take (seq_len + cmd_len) (take seq_len sdo_payload @ rest))"

definition process_udp_datagram ::
  "('h, 's) CnContext \<Rightarrow> bytes \<Rightarrow> IpAddress \<Rightarrow> u16 \<Rightarrow> u64 \<Rightarrow> NodeAction \<times> ('h, 's) CnContext" where
  "process_udp_datagram ctx buffer source_ip source_port current_time_us =
     (case deserialize_sdo_udp_payload buffer of
        Inl _ \<Rightarrow> (NoAction, ctx)
      | Inr (seq_header, cmd) \<Rightarrow>
          (let ctx = count_telegram 6 ctx;
               (r, srv, od) = server_handle_request (core_sdo_server (cn_core ctx))
                  (server_payload (length buffer) seq_header cmd)
                  (UdpClient source_ip source_port) (cn_od ctx) current_time_us;
               ctx = ctx\<lparr> cn_core := (cn_core ctx)\<lparr> core_sdo_server := srv, core_od := od \<rparr> \<rparr>
           in case r of
                Inr data \<Rightarrow>
                  (case UdpTransport_build_response data of Inr action \<Rightarrow> (action, ctx) | Inl _ \<Rightarrow> (NoAction, ctx))
              | Inl _ \<Rightarrow> (NoAction, ctx)))"

text \<open>\<^verbatim>\<open>run_cycle\<close> with the feature \<^verbatim>\<open>sdo-udp\<close>: an Ethernet frame comes first, then a datagram, then the
  timers.\<close>

definition run_ethernet ::
  "('h, 's) CnContext \<Rightarrow> bytes option \<Rightarrow> u64 \<Rightarrow> (NodeAction \<times> ('h, 's) CnContext) option" where
  "run_ethernet ctx ethernet_frame current_time_us =
     (case ethernet_frame of
        Some buffer \<Rightarrow>
          if length buffer \<ge> 14 \<and> sub_slice 12 14 buffer = be16 C_DLL_ETHERTYPE_EPL
          then process_ethernet_frame ctx buffer current_time_us
          else Some (NoAction, ctx)
      | None \<Rightarrow> Some (NoAction, ctx))"

definition run_udp ::
  "('h, 's) CnContext \<Rightarrow> (bytes \<times> IpAddress \<times> u16) option \<Rightarrow> u64 \<Rightarrow> NodeAction \<times> ('h, 's) CnContext" where
  "run_udp ctx udp_datagram current_time_us =
     (case udp_datagram of
        Some (buffer, ip, port) \<Rightarrow>
          (let (action, ctx) = process_udp_datagram ctx buffer ip port current_time_us
           in (action, case action of SendUdp _ _ _ \<Rightarrow> count_telegram 7 ctx | _ \<Rightarrow> ctx))
      | None \<Rightarrow> (NoAction, ctx))"

definition run_cycle ::
  "('h, 's) CnContext \<Rightarrow> bytes option \<Rightarrow> (bytes \<times> IpAddress \<times> u16) option \<Rightarrow> u64 \<Rightarrow>
     (NodeAction \<times> ('h, 's) CnContext) option" where
  "run_cycle ctx ethernet_frame udp_datagram current_time_us =
     Option.bind (run_ethernet ctx ethernet_frame current_time_us) (\<lambda>(action, ctx).
       if action \<noteq> NoAction then Some (action, ctx)
       else
         let (action, ctx) = run_udp ctx udp_datagram current_time_us
         in if action \<noteq> NoAction then Some (action, ctx)
            else Some (process_tick ctx current_time_us))"

end
