(* ===== verification/Od_Sound.thy ===== *)
theory Od_Sound
  imports Sdo_Server_Props Nmt_Machines
begin

section \<open>Soundness of the dictionary under the operations of a node\<close>

text \<open>
  Between the frames a node changes its dictionary in many ways: internal writes, counters, resets
  of the NMT machine, requests of the SDO server. All of them keep it sound: sorted, with
  well-formed values now and after every reset. A reset takes values from the defaults and from the
  storage, so soundness includes both; that a back end delivers a sorted map of well-formed values is
  what the types of the storage trait guarantee.
\<close>

definition storage_sound :: "'s StorageOps \<Rightarrow> bool" where
  "storage_sound ops \<longleftrightarrow>
     (\<forall>st p. fst (so_load ops st) = Inr p \<longrightarrow> bt_inv p \<and> (\<forall>k v. bt_get p k = Some v \<longrightarrow> wf_value v))"

definition od_sound :: "'s ObjectDictionary \<Rightarrow> bool" where
  "od_sound od \<longleftrightarrow> od_inv od \<and>
     (\<forall>i e. bt_get (entries od) i = Some e \<longrightarrow> pred_option wf_value (oe_default_value e)) \<and>
     pred_option storage_sound (map_option fst (storage od))"

lemma od_sound_inv [simp]: "od_sound od \<Longrightarrow> od_inv od"
  by (simp add: od_sound_def)

lemma od_read_wf:
  assumes "od_sound od" "od_read od i s = Some v"
  shows "wf_value v"
proof -
  obtain e where e: "bt_get (entries od) i = Some e" "object_read (oe_object e) s = Some v"
    using assms(2) by (auto simp: od_read_def bind_eq_Some_conv)
  have "list_all wf_value (obj_values (oe_object e))" using assms(1) e(1) by (auto simp: od_sound_def od_inv_def)
  with e(2) show ?thesis
    by (cases "oe_object e") (auto simp: object_read_def vec_get_Some list_all_length split: if_splits)
qed

lemma same_shape_default:
  assumes "od_shape od' = od_shape od" "bt_get (entries od') i = Some e'"
  shows "\<exists>e. bt_get (entries od) i = Some e \<and> oe_default_value e = oe_default_value e'"
proof -
  have "od_shape od' i = od_shape od i" using assms(1) by simp
  with assms(2) obtain e where "bt_get (entries od) i = Some e" "entry_meta e = entry_meta e'"
    by (cases "bt_get (entries od) i") (auto simp: od_shape_def)
  moreover have "oe_default_value (snd (entry_meta x)) = oe_default_value x" for x
    by (simp add: entry_meta_def)
  ultimately show ?thesis by metis
qed

lemma od_sound_shape:
  assumes "od_sound od" "od_inv od'" "od_shape od' = od_shape od"
    "map_option fst (storage od') = map_option fst (storage od)"
  shows "od_sound od'"
  unfolding od_sound_def
proof (intro conjI allI impI)
  fix i e assume "bt_get (entries od') i = Some e"
  from same_shape_default [OF assms(3) this] obtain e0
    where e0: "bt_get (entries od) i = Some e0" "oe_default_value e0 = oe_default_value e" by blast
  then show "pred_option wf_value (oe_default_value e)"
    using assms(1) unfolding od_sound_def by metis
qed (use assms in \<open>simp_all add: od_sound_def\<close>)

lemma od_evolves_sound: "od_evolves od od' \<Longrightarrow> od_sound od \<Longrightarrow> od_sound od'"
  by (rule od_sound_shape) (simp_all add: od_evolves_def)

lemma write_internal_sound:
  assumes "od_sound od" "wf_value v"
  shows "od_sound (snd (write_internal od i s v c))"
proof -
  obtain r od' where w: "write_internal od i s v c = (r, od')" by fastforce
  then have "storage od' = storage od" by (rule write_internal_cases) simp_all
  moreover have "bt_inv (entries od)" using assms(1) by (simp add: od_sound_def od_inv_def)
  ultimately show ?thesis
    using w write_internal_inv [OF w] write_internal_shape [OF w] assms
    by (intro od_sound_shape [OF assms(1)]) simp_all
qed

lemma od_write_sound:
  assumes "od_write od i s v = (r, od')" "od_sound od" "wf_value v"
  shows "od_sound od'"
  using od_evolves_sound [OF od_write_evolves [OF assms(1)]] assms by simp

text \<open>The replacement of one object by another of well-formed values.\<close>

lemma od_sound_update:
  assumes "od_sound od" "bt_get (entries od) i = Some e" "list_all wf_value (obj_values obj)"
  shows "od_sound (od\<lparr> entries := bt_insert i (e\<lparr> oe_object := obj \<rparr>) (entries od) \<rparr>)"
  using assms by (auto simp: od_sound_def od_inv_def split: if_splits)

lemma increment_counter_sound:
  assumes "od_sound od"
  shows "od_sound (increment_counter od i s)"
proof -
  have "list_all wf_value vs \<Longrightarrow> list_all wf_value (vs[n := Unsigned32 x])" for vs n x
    by (simp add: list_all_update)
  moreover have "bt_get (entries od) i = Some e \<Longrightarrow> list_all wf_value (obj_values (oe_object e))" for e
    using assms by (auto simp: od_sound_def od_inv_def)
  ultimately show ?thesis
    using assms
    by (auto simp: increment_counter_def intro!: od_sound_update
        split: option.splits Object.splits ObjectValue.splits)
qed

subsection \<open>Resets\<close>

lemma loaded_sound:
  assumes "od_sound od" "loaded od = Some p" "bt_get p k = Some v"
  shows "wf_value v"
proof -
  obtain ops st where "storage od = Some (ops, st)" "fst (so_load ops st) = Inr p"
    using assms(2) by (auto simp: loaded_def split: option.splits sum.splits)
  moreover from this(1) have "storage_sound ops" using assms(1) by (simp add: od_sound_def)
  ultimately show ?thesis using assms(3) unfolding storage_sound_def by blast
qed

lemma power_on_object_wf:
  assumes "od_sound od" "bt_get (entries od) i = Some e"
  shows "list_all wf_value (obj_values (power_on_object (loaded od) i e))"
proof -
  have dflt: "oe_default_value e = Some v \<Longrightarrow> wf_value v" for v
    using assms unfolding od_sound_def by (metis option.pred_inject(2))
  have st: "Option.bind (loaded od) (\<lambda>p. bt_get p k) = Some v \<Longrightarrow> wf_value v" for k v
    using loaded_sound [OF assms(1)] by (cases "loaded od") auto
  have vals: "list_all wf_value (obj_values (oe_object e))"
    using assms by (auto simp: od_sound_def od_inv_def)
  have elem: "wf_value x \<Longrightarrow> wf_value (power_on_elem (loaded od) (oe_default_value e) i n x)" for n x
    using dflt st by (auto simp: power_on_elem_def Let_def split: option.splits)
  show ?thesis
    using vals dflt st
    by (cases "oe_object e")
      (auto simp: power_on_object_def list_all_iff in_set_enumerate_eq intro!: elem split: option.splits)
qed

lemma restore_sound:
  assumes "od_sound od"
  shows "od_sound (restore_power_on_values od a b)"
proof -
  have "map_option fst (storage (restore_power_on_values od a b)) = map_option fst (storage od)"
    by (auto simp: storage_restore split: option.splits)
  with assms power_on_object_wf [OF assms] show ?thesis
    by (auto simp: od_sound_def od_inv_def restore_get split: if_splits)
qed

lemma update_od_state_sound: "od_sound od \<Longrightarrow> od_sound (update_od_state cur m od)"
  by (simp add: update_od_state_def write_internal_sound)

lemma enter_state_sound: "od_sound (snd mo) \<Longrightarrow> od_sound (snd (enter_state cur set_st st mo))"
  by (simp add: enter_state_def Let_def update_od_state_sound)

lemma nmt_reset_sound:
  assumes "od_sound (snd mo)"
  shows "od_sound (snd (nmt_reset cur set_st e mo))"
  using assms
  by (auto simp: nmt_reset_def Let_def case_prod_unfold intro!: enter_state_sound restore_sound
      split: option.split)

lemma cn_process_event_sound:
  assumes "cn_process_event m e od = (r, m', od')" "od_sound od"
  shows "od_sound od'"
  using assms nmt_reset_sound [of "(m, od)" cn_current_state cn_set_state e]
  by (auto simp: cn_process_event_def Let_def case_prod_unfold update_od_state_sound split: if_splits)

lemma run_internal_initialisation_sound:
  "od_sound (snd mo) \<Longrightarrow> od_sound (snd (run_internal_initialisation cur set_st mo))"
  by (simp add: run_internal_initialisation_def nmt_reset_sound)

subsection \<open>Initialisation\<close>

lemma protocol_defaults_wf: "map_of protocol_objects i = Some e \<Longrightarrow> pred_option wf_value (oe_default_value e)"
  by (auto simp: protocol_objects_def mk_entry_def split: if_splits)

lemma populate_sound:
  assumes "od_sound od"
  shows "od_sound (populate_protocol_objects od)"
proof -
  have b: "bt_inv (entries od)" using assms by (simp add: od_sound_def od_inv_def)
  have "pred_option wf_value (oe_default_value e)"
    if "bt_get (entries (populate_protocol_objects od)) i = Some e" for i e
    using that b assms protocol_defaults_wf [of i e]
    by (cases "bt_get (entries od) i") (auto simp: populate_get od_sound_def)
  with assms populate_inv [of od] show ?thesis by (simp add: od_sound_def)
qed

lemma storage_state_sound: "od_sound od \<Longrightarrow> storage od = Some (ops, st) \<Longrightarrow> od_sound (od\<lparr> storage := Some (ops, st') \<rparr>)"
  by (simp add: od_sound_def od_inv_def)

lemma overlay_sound:
  "\<forall>(k, v) \<in> set p. wf_value v \<Longrightarrow> od_sound od \<Longrightarrow> od_sound (overlay p od)"
  unfolding overlay_def
  by (induction p arbitrary: od) (auto simp: write_internal_sound)

lemma od_init_sound:
  assumes "od_init od = (Inr u, od')" "od_sound od"
  shows "od_sound od'"
proof (cases "storage od")
  case None
  with assms show ?thesis by (auto simp: od_init_def populate_sound)
next
  case (Some os)
  obtain ops st where os: "os = (ops, st)" by fastforce
  let ?d = "populate_protocol_objects od"
  have d: "od_sound ?d" "storage ?d = Some (ops, st)" using assms(2) Some os by (simp_all add: populate_sound)
  have st: "od_sound (?d\<lparr> storage := Some (ops, st') \<rparr>)" for st' by (rule storage_state_sound [OF d])
  have "storage_sound ops" using d by (simp add: od_sound_def)
  then have "\<forall>(k, v) \<in> set p. wf_value v" if "so_load ops st = (Inr p, st')" for p st'
    using that bt_all_iff [of p "\<lambda>_. wf_value"] unfolding storage_sound_def by (metis fst_conv)
  then have "so_load ops st = (Inr p, st') \<Longrightarrow> od_sound (overlay p (?d\<lparr> storage := Some (ops, st') \<rparr>))" for p st'
    by (intro overlay_sound st)
  with assms(1) d(2) st show ?thesis
    by (auto simp: od_init_def Let_def split: if_splits prod.splits sum.splits)
qed

end
