(* ===== verification/Pdo_Props.thy ===== *)
theory Pdo_Props
  imports Od_Sound Cn_Payload
begin

section \<open>Properties of the process data\<close>

text \<open>
  Received process data change the dictionary and the containers of embedded SDO, and nothing else of
  a node.
\<close>

subsection \<open>What process data may change\<close>

definition core_evolves :: "('h, 's) CoreNodeContext \<Rightarrow> ('h, 's) CoreNodeContext \<Rightarrow> bool" where
  "core_evolves c c' \<longleftrightarrow> (od_sound (core_od c) \<longrightarrow> od_sound (core_od c')) \<and>
     core_mac_address c' = core_mac_address c \<and> core_sdo_server c' = core_sdo_server c"

lemma core_evolves_refl [simp]: "core_evolves c c"
  by (simp add: core_evolves_def)

lemma core_evolves_trans: "core_evolves c c' \<Longrightarrow> core_evolves c' c'' \<Longrightarrow> core_evolves c c''"
  by (simp add: core_evolves_def)

lemma es_handle_request_sound:
  assumes "es_handle_request srv ch payload od = (srv', od')" "od_sound od"
  shows "od_sound od'"
proof -
  have w: "od_sound (snd (embedded_write req od))" for req
    using assms(2)
    by (auto simp: embedded_write_def dest!: value_deserialize_typed dest: od_write_sound
        split: option.split sum.split prod.split)
  have "od_sound (snd (es_process_command req od n))" for req n
    using w [of req] assms(2)
    by (auto simp: es_process_command_def Let_def case_prod_unfold split: CommandId.split option.split)
  then have "od_sound (snd (es_handle_request srv ch payload od))"
    using assms(2) by (auto simp: es_handle_request_def Let_def case_prod_unfold split: sum.split)
  with assms(1) show ?thesis by simp
qed

lemma update_pdo_error_object_sound: "od_sound od \<Longrightarrow> od_sound (update_pdo_error_object i n od)"
  by (auto simp: update_pdo_error_object_def Let_def write_internal_sound
      split: option.split ObjectValue.split)

lemma apply_rpdo_entry_evolves:
  assumes "apply_rpdo_mapping_entry handle e payload n (m, core) = Some (b, m', core')"
  shows "core_evolves core core'"
proof -
  have es: "es_handle_request srv ch d (core_od core) = (srv', od') \<Longrightarrow> od_sound (core_od core) \<Longrightarrow> od_sound od'"
    for srv ch d srv' od' by (rule es_handle_request_sound)
  have wr: "value_deserialize d t = Inr v \<Longrightarrow> od_sound (core_od core) \<Longrightarrow>
      od_sound (snd (write_internal (core_od core) i s v False))" for d t v i s
    using value_deserialize_typed write_internal_sound by blast
  show ?thesis
    using assms es wr
    by (auto simp: apply_rpdo_mapping_entry_def Let_def core_evolves_def update_pdo_error_object_sound
        split: option.splits if_splits sum.splits prod.splits)
qed

lemma apply_rpdo_entries_evolves:
  "apply_rpdo_entries handle es payload n st = Some st' \<Longrightarrow> core_evolves (snd st) (snd st')"
proof (induction handle es payload n st rule: apply_rpdo_entries.induct)
  case (2 handle e es payload n st)
  obtain b st1 where 1: "apply_rpdo_mapping_entry handle e payload n st = Some (b, st1)"
    using "2.prems" by (auto split: option.splits)
  have ev: "core_evolves (snd st) (snd st1)"
    using apply_rpdo_entry_evolves 1 by (metis prod.collapse)
  show ?case
  proof (cases b)
    case True
    then show ?thesis using "2.IH" [OF 1, of b st1] "2.prems" 1 ev core_evolves_trans by auto
  qed (use "2.prems" 1 ev in auto)
qed simp

lemma consume_evolves:
  assumes "consume_pdo_payload handle n payload v rd (m, core) = Some (m', core')"
  shows "core_evolves core core'"
  using assms apply_rpdo_entries_evolves [of handle _ payload n "(m, core)" "(m', core')"]
  by (auto simp: consume_pdo_payload_def Let_def core_evolves_def update_pdo_error_object_sound
      split: if_splits option.splits ObjectValue.splits)

lemma apply_tpdo_entry_evolves:
  "apply_tpdo_mapping_entry e payload core = (r, core') \<Longrightarrow> core_evolves core core' \<and> core_od core' = core_od core"
  by (auto simp: apply_tpdo_mapping_entry_def Let_def core_evolves_def
      split: option.splits if_splits prod.splits)

lemma apply_tpdo_entries_evolves:
  "apply_tpdo_entries es payload core = (r, core') \<Longrightarrow> core_evolves core core' \<and> core_od core' = core_od core"
proof (induction es payload core rule: apply_tpdo_entries.induct)
  case (2 e es payload core)
  obtain q core1 where 1: "apply_tpdo_mapping_entry e payload core = (q, core1)" by fastforce
  from apply_tpdo_entry_evolves [OF this] "2.IH" [OF this [symmetric]] "2.prems" 1 core_evolves_trans
  show ?case by (auto split: sum.splits)
qed simp

lemma build_tpdo_evolves:
  assumes "build_tpdo_payload core = (r, core')"
  shows "core_evolves core core' \<and> core_od core' = core_od core"
  using assms
  by (auto simp: build_tpdo_payload_def Let_def dest!: apply_tpdo_entries_evolves split: if_splits prod.splits)

end
