(* ===== verification/Cn_Props.thy ===== *)
theory Cn_Props
  imports Cn_Node Pdo_Props
begin

section \<open>Properties of the controlled node\<close>

text \<open>
  Frames, datagrams and ticks change a controlled node through few operations. The locale
  \<open>cn_invariant\<close> asks of a predicate that each of them keeps it; then \<open>run_cycle\<close> does. It is
  interpreted for the invariant of the node and for what the node never changes.
\<close>

subsection \<open>The parts of the state\<close>

lemma map_od_simps [simp]:
  "cn_core (map_od f ctx) = (cn_core ctx)\<lparr> core_od := f (cn_od ctx) \<rparr>"
  "cn_nmt_state_machine (map_od f ctx) = cn_nmt_state_machine ctx"
  "cn_dll_state_machine (map_od f ctx) = cn_dll_state_machine ctx"
  "cn_dll_error_manager (map_od f ctx) = cn_dll_error_manager ctx"
  "cn_pending_nmt_requests (map_od f ctx) = cn_pending_nmt_requests ctx"
  "cn_emergency_queue (map_od f ctx) = cn_emergency_queue ctx"
  "cn_emergency_capacity (map_od f ctx) = cn_emergency_capacity ctx"
  "cn_en_flag (map_od f ctx) = cn_en_flag ctx"
  "cn_ec_flag (map_od f ctx) = cn_ec_flag ctx"
  by (simp_all add: map_od_def)

text \<open>Two states that agree on the core, the NMT machine and the emergency queue.\<close>

definition cn_same :: "('h, 's) CnContext \<Rightarrow> ('h, 's) CnContext \<Rightarrow> bool" where
  "cn_same ctx ctx' \<longleftrightarrow> cn_core ctx' = cn_core ctx \<and> cn_nmt_state_machine ctx' = cn_nmt_state_machine ctx \<and>
     cn_emergency_queue ctx' = cn_emergency_queue ctx \<and> cn_emergency_capacity ctx' = cn_emergency_capacity ctx"

lemma map_od_core: "map_od f ctx = ctx\<lparr> cn_core := (cn_core ctx)\<lparr> core_od := f (cn_od ctx) \<rparr> \<rparr>"
  by (simp add: map_od_def)

lemma wf_new_error_entry [simp]: "wf_entry (new_error_entry e t)"
  by (simp add: new_error_entry_def wf_entry_def)

lemma write_error_to_history_sound:
  assumes "od_sound od"
  shows "od_sound (write_error_to_history e od)"
proof -
  have "bt_get (entries od) 0x1003 = Some x \<Longrightarrow> list_all wf_value (obj_values (oe_object x))" for x
    using assms by (auto simp: od_sound_def od_inv_def)
  then have "bt_get (entries od) 0x1003 = Some x \<Longrightarrow> oe_object x = Array vs \<Longrightarrow> list_all wf_value vs" for x vs
    by fastforce
  then show ?thesis
    using assms
    by (auto simp: write_error_to_history_def Let_def list_all_iff intro!: od_sound_update dest!: in_set_butlastD
        split: option.split Object.split if_splits)
qed

subsection \<open>Invariants of the node\<close>

locale cn_invariant =
  fixes P :: "('h, 's) CnContext \<Rightarrow> bool"
  assumes keep: "P ctx \<Longrightarrow> cn_same ctx ctx' \<Longrightarrow> P ctx'"
    and core: "P ctx \<Longrightarrow> core_evolves (cn_core ctx) core \<Longrightarrow> P (ctx\<lparr> cn_core := core \<rparr>)"
    and nmt: "P ctx \<Longrightarrow> e \<noteq> CnConfigurationComplete \<Longrightarrow> P (raise_nmt e ctx)"
    and push: "P ctx \<Longrightarrow> wf_entry entry \<Longrightarrow> length (cn_emergency_queue ctx) < cn_emergency_capacity ctx \<Longrightarrow>
      P (ctx\<lparr> cn_emergency_queue := cn_emergency_queue ctx @ [entry] \<rparr>)"
    and pop: "P ctx \<Longrightarrow> P (ctx\<lparr> cn_emergency_queue := drop n (cn_emergency_queue ctx) \<rparr>)"
    and request: "P ctx \<Longrightarrow>
      server_handle_request (core_sdo_server (cn_core ctx)) bs k (cn_od ctx) now = (r, srv, od) \<Longrightarrow>
      P (ctx\<lparr> cn_core := (cn_core ctx)\<lparr> core_sdo_server := srv, core_od := od \<rparr> \<rparr>)"
    and timeout: "P ctx \<Longrightarrow> server_tick (core_sdo_server (cn_core ctx)) now (cn_od ctx) = (d, srv) \<Longrightarrow>
      P (ctx\<lparr> cn_core := (cn_core ctx)\<lparr> core_sdo_server := srv \<rparr> \<rparr>)"
begin

lemma fields:
  assumes "P ctx"
  shows "P (ctx\<lparr> cn_dll_state_machine := a \<rparr>)" "P (ctx\<lparr> cn_dll_error_manager := b \<rparr>)"
    "P (ctx\<lparr> cn_pending_nmt_requests := c \<rparr>)" "P (ctx\<lparr> cn_heartbeat_consumers := d \<rparr>)"
    "P (ctx\<lparr> cn_last_soc_reception_time_us := e \<rparr>)" "P (ctx\<lparr> cn_soc_timeout_check_active := f \<rparr>)"
    "P (ctx\<lparr> cn_next_tick_us := g \<rparr>)" "P (ctx\<lparr> cn_en_flag := h \<rparr>)" "P (ctx\<lparr> cn_ec_flag := h \<rparr>)"
    "P (ctx\<lparr> cn_error_status_changed := h \<rparr>)"
  by (rule keep [OF assms]; simp add: cn_same_def)+

lemma update_od: "P ctx \<Longrightarrow> (\<And>od. od_sound od \<Longrightarrow> od_sound (f od)) \<Longrightarrow> P (map_od f ctx)"
  unfolding map_od_core by (rule core) (simp_all add: core_evolves_def)

lemma count: "P ctx \<Longrightarrow> P (map_od (\<lambda>od. increment_counter od i s) ctx)"
  by (rule update_od) (simp_all add: increment_counter_sound)

lemma error_register: "P ctx \<Longrightarrow> P (write_error_register v ctx)"
  unfolding write_error_register_def by (rule update_od) (simp_all add: write_internal_sound)

lemma dll_error:
  "handle_dll_error e ctx = (r, ctx') \<Longrightarrow> P ctx \<Longrightarrow> P ctx'"
  by (auto simp: handle_dll_error_def fields split: prod.splits)

lemma queue_emergency: "P ctx \<Longrightarrow> wf_entry e \<Longrightarrow> P (queue_emergency e ctx)"
  by (auto simp: queue_emergency_def intro!: count update_od [of _ "write_error_to_history e"] push
      write_error_to_history_sound)

lemma signal_error: "P ctx \<Longrightarrow> P (signal_error e t ctx)"
  by (simp add: signal_error_def Let_def queue_emergency error_register count fields)

lemma dll_errors: "P ctx \<Longrightarrow> P (snd (handle_dll_errors errors t ctx))"
proof (induction errors t ctx rule: handle_dll_errors.induct)
  case (2 error errors t ctx)
  obtain act sig ctx1 where 1: "handle_dll_error error (count_statistics 1 ctx) = ((act, sig), ctx1)"
    by (metis prod.collapse)
  have "P ctx1" using dll_error [OF 1] count "2.prems" by blast
  then have 2: "P (if sig then signal_error error t ctx1 else ctx1)" by (simp add: signal_error)
  have "P ((raise_nmt NmtEvent.Error c)\<lparr> cn_soc_timeout_check_active := False \<rparr>)" if "P c" for c
    using nmt [OF that] by (simp add: fields)
  with 2 "2.IH" [OF 1 [symmetric] refl refl] show ?case by (simp add: 1 Let_def)
qed simp

lemma dll_event: "P ctx \<Longrightarrow> P (snd (process_dll_event e st t ctx))"
  by (simp add: process_dll_event_def case_prod_unfold Let_def dll_errors fields)

lemma sdo_asnd: "P ctx \<Longrightarrow> P (snd (process_sdo_asnd f t ctx))"
proof -
  assume "P ctx"
  then have c: "P (count_telegram 6 ctx)" by (rule count)
  obtain r srv od where 1: "server_handle_request (core_sdo_server (cn_core (count_telegram 6 ctx))) (asnd_payload f)
      (AsndClient (asnd_source f) (source_mac (asnd_eth_header f))) (cn_od (count_telegram 6 ctx)) t = (r, srv, od)"
    by (metis prod.collapse)
  from request [OF c 1] show ?thesis
    by (simp add: process_sdo_asnd_def Let_def 1 [simplified] count split: sum.split)
qed

lemma soc: "P ctx \<Longrightarrow> P (process_soc t ctx)"
  by (auto simp: process_soc_def schedule_soc_check_def Let_def case_prod_unfold
      intro!: count error_register fields split: option.split)

lemma received: "P ctx \<Longrightarrow> P (count_received f t ctx)"
  by (auto simp: count_received_def Let_def intro!: count fields split: PowerlinkFrame.split)

lemma error_flags:
  assumes "P ctx"
  shows "P (process_error_flags f ctx)"
proof -
  have "P (ctx\<lparr> cn_en_flag := False, cn_emergency_queue := [] \<rparr>)"
    using pop [OF fields(8) [OF assms, of False], of "length (cn_emergency_queue ctx)"] by simp
  then show ?thesis
    using assms by (auto simp: process_error_flags_def Let_def intro!: count fields split: PowerlinkFrame.split)
qed

lemma command:
  assumes "P ctx"
  shows "P (snd (frame_nmt_event f ctx))" "fst (frame_nmt_event f ctx) \<noteq> Some CnConfigurationComplete"
proof -
  have "from_utf8 bs = Some n \<Longrightarrow> wf_value (VisibleString n)" for bs n
    by (auto simp: from_utf8_def split: if_splits)
  then have "P (set_host_name payload ctx)" for payload
    using assms
    by (auto simp: set_host_name_def queue_nmt_service_request_def
        intro!: fields update_od write_internal_sound split: option.split)
  then show "P (snd (frame_nmt_event f ctx))"
    using assms
    by (auto simp: frame_nmt_event_def process_nmt_command_def
        split: PowerlinkFrame.split list.split sum.split NmtManagingCommand.split)
  have "command_event c \<noteq> CnConfigurationComplete" for c by (cases c) simp_all
  then show "fst (frame_nmt_event f ctx) \<noteq> Some CnConfigurationComplete"
    by (auto simp: frame_nmt_event_def process_nmt_command_def
        split: PowerlinkFrame.split list.split sum.split NmtManagingCommand.split)
qed

lemma consume: "consume_frame f ctx = Some ctx' \<Longrightarrow> P ctx \<Longrightarrow> P ctx'"
proof -
  have "cn_consume n payload v rd ctx = Some c \<Longrightarrow> P ctx \<Longrightarrow> P c" for n payload v rd c
    by (auto simp: cn_consume_def intro!: core dest!: consume_evolves intro: fields)
  then show "consume_frame f ctx = Some ctx' \<Longrightarrow> P ctx \<Longrightarrow> P ctx'"
    by (auto simp: consume_frame_def split: PowerlinkFrame.splits if_splits)
qed

lemma status_response:
  assumes "P ctx" "build_status_response a b (cn_od ctx) c d (cn_emergency_queue ctx) e f g = (fr, od, q)"
  shows "P ((map_od (\<lambda>_. od) ctx)\<lparr> cn_emergency_queue := q \<rparr>)"
proof -
  have od: "od_sound (cn_od ctx) \<longrightarrow> od_sound od" and q: "\<exists>n. q = drop n (cn_emergency_queue ctx)"
    using assms(2)
    by (auto simp: build_status_response_def Let_def case_prod_unfold increment_counter_sound split: if_splits)
  have "P (map_od (\<lambda>_. od) ctx)"
    unfolding map_od_core using od by (intro core assms(1)) (simp add: core_evolves_def)
  with pop [of "map_od (\<lambda>_. od) ctx"] q show ?thesis by auto
qed

lemma soa_answer:
  assumes "P ctx"
  shows "P (snd (answer_soa soa ctx))"
proof -
  have c: "P (count_telegram n ctx)" for n by (rule count [OF assms])
  have 1: "P (ctx\<lparr> cn_core := (cn_core ctx)\<lparr> core_sdo_client := x \<rparr> \<rparr>)" for x
    by (rule core [OF assms]) (simp add: core_evolves_def)
  have 2: "\<And>fr od q. build_status_response a b (increment_counter (cn_od ctx) 0x1101 5) d e (cn_emergency_queue ctx) f g h = (fr, od, q) \<Longrightarrow>
      P ((map_od (\<lambda>_. od) (count_telegram 5 ctx))\<lparr> cn_emergency_queue := q \<rparr>)" for a b d e f g h
    by (rule status_response [OF c [of 5]]) simp
  show ?thesis
    using assms c 1
    by (auto simp: answer_soa_def Let_def pop_pending_request_def intro!: count fields 2 split: prod.splits
        RequestedServiceId.split list.split)
qed

lemma response: "P ctx \<Longrightarrow> P (snd (generate_response f ctx))"
proof -
  assume p: "P ctx"
  have "P (snd (build_pres_response c b))" if "P c" for c b
    using core [OF that conjunct1 [OF build_tpdo_evolves]]
    by (auto simp: build_pres_response_def Let_def split: prod.split sum.split)
  with p count [OF p] show ?thesis
    by (auto simp: generate_response_def Let_def case_prod_unfold soa_answer split: PowerlinkFrame.split)
qed

lemma finish:
  assumes "finish_frame f ctx = Some (a, ctx')" "P ctx"
  shows "\<exists>c r. P c \<and> generate_response f c = (r, ctx') \<and>
    a = (case r of Some fr \<Rightarrow> (case serialize_frame_action fr True of Inr action \<Rightarrow> action | Inl _ \<Rightarrow> NoAction)
         | None \<Rightarrow> NoAction)"
proof -
  from assms(1) obtain c where c: "consume_frame f ctx = Some c"
    "(case generate_response f (toggle_en_flag c) of (r, ctx) \<Rightarrow>
       (case r of Some fr \<Rightarrow> (case serialize_frame_action fr True of Inr action \<Rightarrow> action | Inl _ \<Rightarrow> NoAction)
        | None \<Rightarrow> NoAction, ctx)) = (a, ctx')"
    by (auto simp: finish_frame_def)
  have "P (toggle_en_flag c)"
    using consume [OF c(1) assms(2)] by (auto simp: toggle_en_flag_def intro!: count fields)
  with c(2) show ?thesis
    by (cases "generate_response f (toggle_en_flag c)") (auto intro!: exI [of _ "toggle_en_flag c"])
qed

text \<open>A frame that is not an SDO request ends without an action, or with its answer in a state that
  satisfies the invariant.\<close>

lemma plain_frame_cases:
  assumes "process_plain_frame f t ctx = Some (a, ctx')" "P ctx"
  shows "P ctx' \<and> (a = NoAction \<or> (\<exists>c r. P c \<and> generate_response f c = (Some r, ctx') \<and>
    serialize_frame_action r True = Inr a))"
proof -
  define c where "c = process_error_flags f (count_received f t
    (case f of FSoc _ \<Rightarrow> process_soc t ctx | _ \<Rightarrow> ctx))"
  have c: "P c"
    unfolding c_def using assms(2) by (auto intro!: error_flags received soc split: PowerlinkFrame.split)
  obtain e c1 where e: "frame_nmt_event f c = (e, c1)" by fastforce
  define c2 where "c2 = (case e of Some event \<Rightarrow> raise_nmt event c1 | None \<Rightarrow> c1)"
  have "P c2"
    using command [OF c, of f] e nmt unfolding c2_def by (auto split: option.split)
  then have d: "P (snd (process_dll_event (dll_cn_event f) (cn_state c2) t c2))" by (rule dll_event)
  obtain stop c3 where 3: "process_dll_event (dll_cn_event f) (cn_state c2) t c2 = (stop, c3)" by fastforce
  have eq: "process_plain_frame f t ctx = (if stop then Some (NoAction, c3) else finish_frame f c3)"
    using e 3 by (simp add: process_plain_frame_def c_def c2_def Let_def)
  show ?thesis
  proof (cases stop)
    case True
    with eq assms(1) d 3 show ?thesis by auto
  next
    case False
    with eq assms(1) have "finish_frame f c3 = Some (a, ctx')" by simp
    from finish [OF this] d 3 obtain c r where r: "P c" "generate_response f c = (r, ctx')"
      "a = (case r of Some fr \<Rightarrow> (case serialize_frame_action fr True of Inr action \<Rightarrow> action | Inl _ \<Rightarrow> NoAction)
         | None \<Rightarrow> NoAction)" by auto
    moreover have "P ctx'" using response [OF r(1), of f] r(2) by simp
    ultimately show ?thesis by (cases r) (auto split: sum.splits)
  qed
qed

lemmas plain_frame = plain_frame_cases [THEN conjunct1]

lemma frame: "process_frame ctx f t = Some (a, ctx') \<Longrightarrow> P ctx \<Longrightarrow> P ctx'"
  using sdo_asnd [of ctx _ t] plain_frame [of f t _ a ctx'] count [of ctx]
  by (auto simp: process_frame_def split: PowerlinkFrame.splits if_splits) (metis snd_conv)

lemma tick_server: "tick_sdo_server t ctx = (a, ctx') \<Longrightarrow> P ctx \<Longrightarrow> P ctx'"
  using timeout [of ctx t "fst (server_tick (core_sdo_server (cn_core ctx)) t (cn_od ctx))"
      "snd (server_tick (core_sdo_server (cn_core ctx)) t (cn_od ctx))"]
  by (auto simp: tick_sdo_server_def case_prod_unfold Let_def intro!: count
      split: sum.splits option.splits)

lemma heartbeat_errors: "P ctx \<Longrightarrow> P (snd (handle_heartbeat_errors nodes ctx))"
proof (induction nodes ctx rule: handle_heartbeat_errors.induct)
  case (2 n nodes ctx)
  obtain act sig ctx1 where 1: "handle_dll_error (HeartbeatTimeout n) ctx = ((act, sig), ctx1)"
    by (metis prod.collapse)
  have "P ctx1" using dll_error [OF 1] "2.prems" by blast
  moreover have "P ((raise_nmt NmtEvent.Error c)\<lparr> cn_soc_timeout_check_active := False \<rparr>)" if "P c" for c
    using nmt [OF that] by (simp add: fields)
  ultimately show ?case
    using "2.IH" [OF 1 [symmetric] refl refl refl refl refl]
    by (simp add: 1 Let_def fields error_register count)
qed simp

lemma deadlines: "P ctx \<Longrightarrow> P (tick_deadlines t st ctx)"
proof -
  assume p: "P ctx"
  have r: "P (reschedule_soc_check t c)" if "P c" for c
    using that by (auto simp: reschedule_soc_check_def Let_def intro!: fields split: option.split)
  have n: "P ((raise_nmt NmtEvent.Timeout c)\<lparr> cn_soc_timeout_check_active := False \<rparr>)" if "P c" for c
    using nmt [OF that] by (simp add: fields)
  from p show ?thesis
    by (auto simp: tick_deadlines_def Let_def case_prod_unfold intro!: fields r n dll_event
        split: option.split)
qed

lemma tick:
  assumes "process_tick ctx t = (a, ctx')" "P ctx"
  shows "P ctx'"
proof -
  obtain b c where b: "tick_sdo_server t ctx = (b, c)" by fastforce
  then have c: "P c" using tick_server assms(2) by blast
  then have "P (snd (tick_heartbeats t c))"
    by (auto simp: tick_heartbeats_def case_prod_unfold Let_def intro!: heartbeat_errors fields)
  with b c assms(1) deadlines show ?thesis
    by (auto simp: process_tick_def case_prod_unfold Let_def split: option.splits)
qed

lemma malformed: "P ctx \<Longrightarrow> P (process_malformed ctx)"
proof -
  assume p: "P ctx"
  obtain act sig c where 1: "handle_dll_error InvalidFormat ctx = ((act, sig), c)" by (metis prod.collapse)
  have "P c" using dll_error [OF 1 p] .
  then show ?thesis by (simp add: process_malformed_def 1 Let_def nmt error_register fields)
qed

lemma ethernet_frame:
  assumes "process_ethernet_frame ctx bs t = Some (a, ctx')" "P ctx"
  shows "P ctx'"
proof -
  define c where "c = (if cn_state ctx = NmtBasicEthernet then raise_nmt PowerlinkFrameReceived ctx else ctx)"
  have c: "P c" "P (count_telegram 6 c)" using assms(2) by (simp_all add: c_def nmt count)
  with assms(1) show ?thesis
    by (auto simp: process_ethernet_frame_def c_def [symmetric] Let_def malformed intro: frame
        split: sum.splits if_splits)
qed

lemma udp:
  assumes "process_udp_datagram ctx bs ip port t = (a, ctx')" "P ctx"
  shows "P ctx'"
proof (cases "deserialize_sdo_udp_payload bs")
  case (Inr sc)
  obtain s c where sc: "sc = (s, c)" by fastforce
  let ?c = "count_telegram 6 ctx"
  obtain r srv od where 1: "server_handle_request (core_sdo_server (cn_core ?c)) (server_payload (length bs) s c)
      (UdpClient ip port) (cn_od ?c) t = (r, srv, od)" by (metis prod.collapse)
  from request [OF count [OF assms(2)] 1] show ?thesis
    using assms(1) by (simp add: process_udp_datagram_def Inr sc Let_def 1 [simplified] split: sum.splits)
qed (use assms in \<open>simp add: process_udp_datagram_def\<close>)

lemma run_udp_keeps:
  assumes "run_udp ctx dgram t = (a, ctx')" "P ctx"
  shows "P ctx'"
proof -
  have "P (snd (process_udp_datagram ctx x y z t))" for x y z using udp assms(2) by (metis prod.collapse)
  with assms show ?thesis
    by (auto simp: run_udp_def case_prod_unfold Let_def intro!: count split: option.splits NodeAction.splits)
qed

lemma cycle:
  assumes "run_cycle ctx eth dgram t = Some (a, ctx')" "P ctx"
  shows "P ctx'"
proof -
  obtain b c where b: "run_ethernet ctx eth t = Some (b, c)"
    using assms(1) by (auto simp: run_cycle_def bind_eq_Some_conv)
  have c: "P c" using b assms(2) ethernet_frame
    by (auto simp: run_ethernet_def split: option.splits if_splits)
  obtain d g where d: "run_udp c dgram t = (d, g)" by fastforce
  have "P g" by (rule run_udp_keeps [OF d c])
  with assms(1) b c d tick show ?thesis
    by (auto simp: run_cycle_def split: if_splits)
qed

end

subsection \<open>Runs of the node\<close>

text \<open>
  The states a node can be in: created with a sound dictionary, then driven by \<open>run_cycle\<close> on any
  frames, datagrams and times, with requests queued by the application in between.\<close>

inductive cn_reachable :: "(unit, 's) CnContext \<Rightarrow> bool" where
  new: "ControlledNode_new capacity od mac = Inr ctx \<Longrightarrow> od_sound od \<Longrightarrow> 10 \<le> capacity \<Longrightarrow> wf_mac mac \<Longrightarrow>
    cn_reachable ctx"
| cycle: "cn_reachable ctx \<Longrightarrow> run_cycle ctx eth dgram t = Some (a, ctx') \<Longrightarrow> cn_reachable ctx'"
| queue_sdo: "cn_reachable ctx \<Longrightarrow> cn_reachable (cn_queue_sdo_request payload ctx)"
| queue_nmt: "cn_reachable ctx \<Longrightarrow> cn_reachable (cn_queue_nmt_request command target ctx)"
| queue_embedded: "cn_reachable ctx \<Longrightarrow>
    core_queue_embedded_read ch i s (cn_core ctx) = (r, core) \<or>
      core_queue_embedded_write ch i s data (cn_core ctx) = (r, core) \<Longrightarrow>
    cn_reachable (ctx\<lparr> cn_core := core \<rparr>)"

definition booting :: "NmtState set" where
  "booting = {NmtNotActive, NmtPreOperational1, NmtPreOperational2, NmtCsStopped, NmtBasicEthernet}"

definition cn_inv :: "(unit, 's) CnContext \<Rightarrow> bool" where
  "cn_inv ctx \<longleftrightarrow> cn_state ctx \<in> booting \<and> od_sound (cn_od ctx) \<and> wf_mac (core_mac_address (cn_core ctx)) \<and>
     server_ok (core_sdo_server (cn_core ctx)) \<and> srv_ops (core_sdo_server (cn_core ctx)) = DefaultSdoHandler \<and>
     length (cn_emergency_queue ctx) \<le> cn_emergency_capacity ctx \<and> list_all wf_entry (cn_emergency_queue ctx)"

lemma reset_keeps_id:
  "cn_node_id (fst (nmt_reset cn_current_state cn_set_state e mo)) = cn_node_id (fst mo)"
  by (auto simp: nmt_reset_def enter_state_def cn_set_state_def Let_def case_prod_unfold split: option.split)

lemma cn_process_event_id: "cn_node_id (fst (snd (cn_process_event m e od))) = cn_node_id m"
  using reset_keeps_id [of e "(m, od)"]
  by (auto simp: cn_process_event_def Let_def case_prod_unfold split: if_splits)

lemma booting_closed:
  assumes "cn_process_event m e od = (r, m', od')" "cn_current_state m \<in> booting" "e \<noteq> CnConfigurationComplete"
  shows "cn_current_state m' \<in> booting"
proof -
  have "cn_current_state m' = (if is_reset_event e then NmtNotActive
      else unwrap_or (cn_next (cn_current_state m) e) (cn_current_state m))"
    using cn_nmt.proc_state [of m e od] assms(1) by simp
  with assms(2,3) show ?thesis by (cases e) (auto simp: cn_next_def booting_def is_reset_event_def)
qed

lemma raise_nmt_simps [simp]:
  "cn_core (raise_nmt e ctx) = (cn_core ctx)\<lparr> core_od := snd (snd (cn_process_event (cn_nmt_state_machine ctx) e (cn_od ctx))) \<rparr>"
  "cn_nmt_state_machine (raise_nmt e ctx) = fst (snd (cn_process_event (cn_nmt_state_machine ctx) e (cn_od ctx)))"
  "cn_emergency_queue (raise_nmt e ctx) = cn_emergency_queue ctx"
  "cn_emergency_capacity (raise_nmt e ctx) = cn_emergency_capacity ctx"
  by (simp_all add: raise_nmt_def case_prod_unfold Let_def)

interpretation cn: cn_invariant cn_inv
proof
  fix ctx ctx' :: "(unit, 's) CnContext" and core e
  obtain r m od where ev: "cn_process_event (cn_nmt_state_machine ctx) e (cn_od ctx) = (r, m, od)"
    by (metis prod.collapse)
  show "cn_inv ctx \<Longrightarrow> cn_same ctx ctx' \<Longrightarrow> cn_inv ctx'" by (simp add: cn_inv_def cn_same_def)
  show "cn_inv ctx \<Longrightarrow> core_evolves (cn_core ctx) core \<Longrightarrow> cn_inv (ctx\<lparr> cn_core := core \<rparr>)"
    by (simp add: cn_inv_def core_evolves_def)
  show "cn_inv ctx \<Longrightarrow> e \<noteq> CnConfigurationComplete \<Longrightarrow> cn_inv (raise_nmt e ctx)"
    using booting_closed [OF ev] cn_process_event_sound [OF ev] by (simp add: cn_inv_def ev)
next
  fix ctx :: "(unit, 's) CnContext" and entry n
  show "cn_inv ctx \<Longrightarrow> wf_entry entry \<Longrightarrow> length (cn_emergency_queue ctx) < cn_emergency_capacity ctx \<Longrightarrow>
      cn_inv (ctx\<lparr> cn_emergency_queue := cn_emergency_queue ctx @ [entry] \<rparr>)"
    by (simp add: cn_inv_def)
  show "cn_inv ctx \<Longrightarrow> cn_inv (ctx\<lparr> cn_emergency_queue := drop n (cn_emergency_queue ctx) \<rparr>)"
    by (auto simp: cn_inv_def list_all_iff dest: in_set_dropD)
next
  fix ctx :: "(unit, 's) CnContext" and bs k now r srv od
  assume "cn_inv ctx" "server_handle_request (core_sdo_server (cn_core ctx)) bs k (cn_od ctx) now = (r, srv, od)"
  then show "cn_inv (ctx\<lparr> cn_core := (cn_core ctx)\<lparr> core_sdo_server := srv, core_od := od \<rparr> \<rparr>)"
    using default_sdo.server_request_ok [of "core_sdo_server (cn_core ctx)" bs k "cn_od ctx" now r srv od]
    by (auto simp: cn_inv_def intro: od_evolves_sound)
next
  fix ctx :: "(unit, 's) CnContext" and now d srv
  assume "cn_inv ctx" "server_tick (core_sdo_server (cn_core ctx)) now (cn_od ctx) = (d, srv)"
  then show "cn_inv (ctx\<lparr> cn_core := (cn_core ctx)\<lparr> core_sdo_server := srv \<rparr> \<rparr>)"
    using server_tick_ok [of "core_sdo_server (cn_core ctx)" now "cn_od ctx" d srv] by (simp add: cn_inv_def)
qed

text \<open>The node id and the MAC address never change.\<close>

interpretation cn_run:
  cn_invariant "\<lambda>ctx. cn_inv ctx \<and> cn_id ctx = n \<and> core_mac_address (cn_core ctx) = mac"
proof
  fix ctx ctx' :: "(unit, 's) CnContext" and core e entry k bs sk now r srv od d
  let ?P = "\<lambda>ctx. cn_inv ctx \<and> cn_id ctx = n \<and> core_mac_address (cn_core ctx) = mac"
  show "?P ctx \<Longrightarrow> cn_same ctx ctx' \<Longrightarrow> ?P ctx'" using cn.keep [of ctx ctx'] by (simp add: cn_same_def)
  show "?P ctx \<Longrightarrow> core_evolves (cn_core ctx) core \<Longrightarrow> ?P (ctx\<lparr> cn_core := core \<rparr>)"
    using cn.core [of ctx core] by (simp add: core_evolves_def)
  show "?P ctx \<Longrightarrow> e \<noteq> CnConfigurationComplete \<Longrightarrow> ?P (raise_nmt e ctx)"
    using cn.nmt [of ctx e] by (simp add: cn_process_event_id)
  show "?P ctx \<Longrightarrow> wf_entry entry \<Longrightarrow> length (cn_emergency_queue ctx) < cn_emergency_capacity ctx \<Longrightarrow>
      ?P (ctx\<lparr> cn_emergency_queue := cn_emergency_queue ctx @ [entry] \<rparr>)"
    using cn.push [of ctx entry] by simp
  show "?P ctx \<Longrightarrow> ?P (ctx\<lparr> cn_emergency_queue := drop k (cn_emergency_queue ctx) \<rparr>)"
    using cn.pop [of ctx k] by simp
  show "?P ctx \<Longrightarrow> server_handle_request (core_sdo_server (cn_core ctx)) bs sk (cn_od ctx) now = (r, srv, od) \<Longrightarrow>
      ?P (ctx\<lparr> cn_core := (cn_core ctx)\<lparr> core_sdo_server := srv, core_od := od \<rparr> \<rparr>)"
    using cn.request [of ctx bs sk now r srv od] by simp
  show "?P ctx \<Longrightarrow> server_tick (core_sdo_server (cn_core ctx)) now (cn_od ctx) = (d, srv) \<Longrightarrow>
      ?P (ctx\<lparr> cn_core := (cn_core ctx)\<lparr> core_sdo_server := srv \<rparr> \<rparr>)"
    using cn.timeout [of ctx now d srv] by simp
qed

lemma cn_new_inv:
  assumes "ControlledNode_new capacity od mac = Inr ctx" "od_sound od" "wf_mac mac"
  shows "cn_inv ctx"
proof -
  obtain od1 nmt where od1: "od_init od = (Inr (), od1)" and nmt: "CnNmt_from_od od1 = Inr nmt"
    using assms(1) by (cases "od_init od") (auto simp: ControlledNode_new_def rbind_eq_Inr)
  obtain nmt2 od2 where 2: "run_internal_initialisation cn_current_state cn_set_state (nmt, od1) = (nmt2, od2)"
    by fastforce
  have "od_sound od2"
    using run_internal_initialisation_sound [of "(nmt, od1)" cn_current_state cn_set_state]
      od_init_sound [OF od1 assms(2)] 2 by simp
  moreover have "cn_current_state nmt = NmtGsInitialising"
    using nmt by (auto simp: CnNmt_from_od_def rbind_eq_Inr CnNmt_new_def)
  then have "cn_current_state nmt2 = NmtNotActive"
    using 2 cn_nmt.reset_state [of NmtEvent.SwReset "(nmt, od1)"]
    by (simp add: run_internal_initialisation_def is_reset_event_def)
  ultimately show ?thesis
    using assms(1,3) od1 nmt 2
    by (auto simp: ControlledNode_new_def rbind_eq_Inr cn_inv_def booting_def)
qed

lemma cn_reachable_inv: "cn_reachable ctx \<Longrightarrow> cn_inv ctx"
proof (induction rule: cn_reachable.induct)
  case (queue_embedded ctx ch i s r core data)
  then show ?case
    by (auto simp: core_queue_embedded_read_def core_queue_embedded_write_def core_evolves_def
        case_prod_unfold Let_def intro!: cn.core)
qed (auto simp: cn_queue_sdo_request_def cn_queue_nmt_request_def core_queue_sdo_request_def core_evolves_def
    intro: cn_new_inv cn.cycle cn.core cn.fields)

end
