(* ===== verification/Cn_Answers.thy ===== *)
theory Cn_Answers
  imports Cn_Props
begin

section \<open>When a controlled node sends, and what arrives\<close>

text \<open>
  The answers of a reachable node as its peers decode them: every Ethernet frame it sends is an
  answer to a poll, and the payloads of its IdentResponse and StatusResponse arrive as the node
  built them, with one exception.
\<close>

subsection \<open>ASnd frames on the wire\<close>

text \<open>What a receiver gets of a payload.\<close>

definition received_payload :: "bytes \<Rightarrow> bytes" where
  "received_payload payload = (if length payload \<le> 42 then trim_zeros payload else payload)"

lemma trim_zeros_split: "\<exists>n. xs = trim_zeros xs @ replicate n 0"
proof -
  have "rev xs = takeWhile (\<lambda>x. x = 0) (rev xs) @ dropWhile (\<lambda>x. x = 0) (rev xs)" by simp
  then have "xs = trim_zeros xs @ rev (takeWhile (\<lambda>x. x = 0) (rev xs))"
    by (metis trim_zeros_def rev_append rev_rev_ident)
  moreover have "takeWhile (\<lambda>x. x = 0) (rev xs) = replicate (length (takeWhile (\<lambda>x. x = 0) (rev xs))) 0"
    by (metis (mono_tags, lifting) replicate_length_same set_takeWhileD)
  ultimately show ?thesis by (metis rev_replicate)
qed

lemma padded_trim:
  assumes "length xs \<le> n"
  shows "trim_zeros xs @ replicate (n - length (trim_zeros xs)) 0 = xs @ replicate (n - length xs) 0"
proof -
  obtain k where k: "xs = trim_zeros xs @ replicate k 0" using trim_zeros_split by blast
  then have "length xs = length (trim_zeros xs) + k" by (metis length_append length_replicate)
  then have "replicate (n - length (trim_zeros xs)) 0 = replicate k (0 :: u8) @ replicate (n - length xs) 0"
    using assms by (simp add: replicate_add [symmetric])
  with k show ?thesis by (metis append.assoc)
qed

lemma same_asnd_image:
  fixes f :: ASndFrame
  defines "g \<equiv> f\<lparr> asnd_payload := received_payload (asnd_payload f) \<rparr>"
  assumes "asnd_size f \<le> length buf"
  shows "ASndFrame_serialize f buf = ASndFrame_serialize g buf"
proof (cases "length (asnd_payload f) \<le> 42")
  case True
  have size: "asnd_size f = 46" "asnd_size g = 46"
    using True length_trim_zeros [of "asnd_payload f"]
    by (simp_all add: asnd_size_def g_def received_payload_def)
  define a b where "a = snd (ASndFrame_serialize f buf)" and "b = snd (ASndFrame_serialize g buf)"
  note wf = ASndFrame_written [of f buf a, OF _ a_def] and wg = ASndFrame_written [of g buf b, OF _ b_def]
  have "drop 4 (take 46 a) = drop 4 (take 46 b)"
    using wf(6) wg(6) assms(2) size True padded_trim [of "asnd_payload f" 42]
    by (simp add: g_def received_payload_def)
  moreover have "take 4 a = take 4 b"
    using wf(1-5) wg(1-5) assms(2) size
    by (intro nth_equalityI) (auto simp: g_def less_Suc_eq numeral_eq_Suc)
  ultimately have "take 4 (take 46 a) @ drop 4 (take 46 a) = take 4 (take 46 b) @ drop 4 (take 46 b)"
    by simp
  then have "take 46 a = take 46 b" by (simp only: append_take_drop_id)
  moreover have "drop 46 a = drop 46 b"
    using asnd.ser_behind [of f buf] asnd.ser_behind [of g buf] assms(2) size by (simp add: a_def b_def)
  ultimately have "a = b" by (metis append_take_drop_id)
  moreover have "fst (ASndFrame_serialize f buf) = fst (ASndFrame_serialize g buf)"
    using asnd.ser_result [of f buf] asnd.ser_result [of g buf] size by simp
  ultimately show ?thesis unfolding a_def b_def by (simp add: prod_eq_iff)
qed (simp add: g_def received_payload_def)

lemma frame_allowed_asnd [simp]: "frame_allowed is_cn (FASnd a)"
  by (simp add: frame_allowed_def)

lemma asnd_sent_ok:
  assumes "asnd_size a \<le> 1504" "asnd_message_type a = ASnd"
    and eth: "wf_eth (asnd_eth_header a)" "is_powerlink (asnd_eth_header a)"
  shows "\<exists>bs. serialize_frame_action (FASnd a) is_cn = Inr (SendFrame bs) \<and>
    deserialize_frame bs = Inr (FASnd (a\<lparr> asnd_payload := received_payload (asnd_payload a) \<rparr>))"
proof -
  define g where "g = a\<lparr> asnd_payload := received_payload (asnd_payload a) \<rparr>"
  have g: "wf_asnd g" "asnd_size g \<le> 1504" "asnd_eth_header g = asnd_eth_header a"
    using assms(1,2) length_trim_zeros [of "asnd_payload a"] trim_zeros_last [of "asnd_payload a"]
    by (auto simp: g_def wf_asnd_def asnd_size_def received_payload_def)
  have "length (serialize_eth_header (asnd_eth_header a) (replicate 1518 0)) = 1518"
    using eth_header_roundtrip(2) [of _ "replicate 1518 0"] eth(1) by simp
  then have "ASndFrame_serialize a (drop 14 (serialize_eth_header (asnd_eth_header a) (replicate 1518 0)))
      = ASndFrame_serialize g (drop 14 (serialize_eth_header (asnd_eth_header a) (replicate 1518 0)))"
    using assms(1) unfolding g_def by (intro same_asnd_image) simp
  then have "serialize_frame_action (FASnd a) is_cn = serialize_frame_action (FASnd g) is_cn"
    using g(3) by (simp add: serialize_frame_action_def)
  with serialize_frame_action_ok [of "FASnd g" is_cn] g eth
  show ?thesis by (auto simp: g_def [symmetric])
qed

lemma asnd_sent:
  assumes "serialize_frame_action (FASnd a) is_cn = Inr (SendFrame bs)" "asnd_message_type a = ASnd"
    and eth: "wf_eth (asnd_eth_header a)" "is_powerlink (asnd_eth_header a)"
  shows "deserialize_frame bs = Inr (FASnd (a\<lparr> asnd_payload := received_payload (asnd_payload a) \<rparr>))"
proof -
  have "asnd_size a \<le> 1504"
    using serialize_frame_action_too_big [of is_cn "FASnd a"] assms(1) eth
    by fastforce
  from asnd_sent_ok [OF this assms(2) eth, of is_cn] assms(1) show ?thesis by auto
qed

lemma deserialize_soa_eth:
  assumes "deserialize_frame bs = Inr (FSoA s)"
  shows "wf_mac (source_mac (soa_eth_header s))"
proof -
  have "SoAFrame_deserialize e b = Inr s \<Longrightarrow> soa_eth_header s = e" for e b
    by (auto simp: SoAFrame_deserialize_def rbind_eq_Inr Let_def split: if_splits)
  with assms show ?thesis
    by (auto simp: deserialize_frame_def rbind_eq_Inr Let_def deserialize_pl_def map_sum_def
        deserialize_eth_header_def wf_mac_def MAC_ADDRESS_SIZE_def split: if_splits sum.splits MessageType.splits)
qed

subsection \<open>Answers to polls\<close>

primrec service_answer :: "RequestedServiceId \<Rightarrow> ServiceId option" where
  "service_answer NoService = None"
| "service_answer RequestedServiceId.IdentRequest = Some IdentResponse"
| "service_answer RequestedServiceId.StatusRequest = Some StatusResponse"
| "service_answer NmtRequestInvite = Some NmtRequest"
| "service_answer UnspecifiedInvite = Some Sdo"

text \<open>The second frame is the answer of node \<open>n\<close> to the first: a PRes to its PReq, or an ASnd with the
  service that an SoA asked it for.\<close>

definition answers_poll :: "NodeId \<Rightarrow> PowerlinkFrame \<Rightarrow> PowerlinkFrame \<Rightarrow> bool" where
  "answers_poll n f g \<longleftrightarrow>
     (case f of
        FPReq q \<Rightarrow> preq_destination q = n \<and>
          (case g of FPRes p \<Rightarrow> pres_source p = n \<and> \<not> pres_rd (pres_flags p) | _ \<Rightarrow> False)
      | FSoA s \<Rightarrow> soa_target_node_id s = n \<and>
          (case g of
             FASnd a \<Rightarrow> asnd_source a = n \<and> asnd_destination a = C_ADR_MN_DEF_NODE_ID \<and>
               service_answer (soa_req_service_id s) = Some (asnd_service_id a)
           | _ \<Rightarrow> False)
      | _ \<Rightarrow> False)"

lemma EthernetHeader_new_ok [simp]:
  "wf_eth (EthernetHeader_new d s) \<longleftrightarrow> wf_mac d \<and> wf_mac s" "is_powerlink (EthernetHeader_new d s)"
  by (auto simp: wf_eth_def EthernetHeader_new_def is_powerlink_def)

lemma answer_soa_frame:
  assumes "answer_soa soa c = (Some r, c')"
  shows "\<exists>sid payload. r = FASnd (ASndFrame_new (core_mac_address (cn_core c)) (source_mac (soa_eth_header soa))
      C_ADR_MN_DEF_NODE_ID (cn_id c) sid payload) \<and> service_answer (soa_req_service_id soa) = Some sid"
  using assms
  by (cases "soa_req_service_id soa")
    (auto simp: answer_soa_def build_ident_response_def build_status_response_def build_nmt_request_def
      Let_def case_prod_unfold split: if_splits option.splits prod.splits)

lemma apply_tpdo_length:
  "apply_tpdo_mapping_entry e payload core = (Inr p, core') \<Longrightarrow> length p = length payload"
  by (auto simp: apply_tpdo_mapping_entry_def Let_def get_pending_response_def ec_get_pending_request_def
      resize0_def split: option.splits if_splits prod.splits list.splits)

lemma apply_tpdo_entries_length:
  "apply_tpdo_entries es payload core = (Inr p, core') \<Longrightarrow> length p = length payload"
  by (induction es payload core arbitrary: p core' rule: apply_tpdo_entries.induct)
    (auto dest: apply_tpdo_length split: prod.splits sum.splits)

lemma build_tpdo_length:
  "build_tpdo_payload core = (Inr (p, v), core') \<Longrightarrow> length p \<le> 1490"
  by (auto simp: build_tpdo_payload_def Let_def rbind_eq_Inr C_DLL_ISOCHR_MAX_PAYL_def
      dest!: apply_tpdo_entries_length split: if_splits prod.splits)

lemma build_pres_frame:
  assumes "build_pres_response c en = (r, c')" "cn_state c \<noteq> NmtOperational"
  shows "\<exists>p. r = FPRes p \<and> wf_pres p \<and> pres_source p = cn_id c \<and> \<not> pres_rd (pres_flags p) \<and>
    pres_eth_header p = EthernetHeader_new C_DLL_MULTICAST_PRES (core_mac_address (cn_core c))"
proof -
  obtain q core where q: "build_tpdo_payload (cn_core c) = (q, core)" by fastforce
  have len: "q = Inr (pl, v) \<Longrightarrow> length pl < 65536" for pl v using build_tpdo_length [of "cn_core c" pl v core] q by simp
  have lim: "pres_payload_limit od < 65536" for od :: "'b ObjectDictionary"
    using unat_lt_2p [of "unwrap_or (read_u16 od 0x1F98 5) 36"] by (simp add: pres_payload_limit_def)
  from assms len lim show ?thesis
    by (cases q)
      (auto simp: build_pres_response_def q Let_def case_prod_unfold PResFrame_new_def wf_pres_def RSFlag_new_le
        unat_of_nat take_bit_nat_eq_self)
qed

lemma response_received:
  assumes "generate_response f c = (Some r, c')" "cn_inv c" "serialize_frame_action r True = Inr (SendFrame bs)"
    and "deserialize_frame buf = Inr f"
  shows "\<exists>g. deserialize_frame bs = Inr g \<and> answers_poll (cn_id c) f g"
proof (cases f)
  case (FSoA s)
  then obtain c1 where "answer_soa s c = (Some r, c1)" and n: "soa_target_node_id s = cn_id c"
    using assms(1) by (auto simp: generate_response_def split: if_splits)
  from answer_soa_frame [OF this(1)] obtain sid payload
    where r: "r = FASnd (ASndFrame_new (core_mac_address (cn_core c)) (source_mac (soa_eth_header s))
      C_ADR_MN_DEF_NODE_ID (cn_id c) sid payload)" "service_answer (soa_req_service_id s) = Some sid" by blast
  have "wf_mac (source_mac (soa_eth_header s))" using assms(4) FSoA deserialize_soa_eth by blast
  then have "deserialize_frame bs = Inr (FASnd ((ASndFrame_new (core_mac_address (cn_core c))
      (source_mac (soa_eth_header s)) C_ADR_MN_DEF_NODE_ID (cn_id c) sid payload)
        \<lparr> asnd_payload := received_payload payload \<rparr>))"
    using asnd_sent [where is_cn = True] assms(2,3) r(1) by (fastforce simp: ASndFrame_new_def cn_inv_def)
  with r(2) n FSoA show ?thesis by (auto simp: answers_poll_def ASndFrame_new_def)
next
  case (FPReq q)
  then have n: "preq_destination q = cn_id c"
    and b: "build_pres_response (count_telegram 3 c) (cn_en_flag c) = (r, c')"
    using assms(1) by (auto simp: generate_response_def Let_def case_prod_unfold prod_eq_iff split: if_splits)
  have "cn_state c \<noteq> NmtOperational" using assms(2) by (auto simp: cn_inv_def booting_def)
  with build_pres_frame [OF b] obtain p where p: "r = FPRes p" "wf_pres p" "pres_source p = cn_id c"
    "\<not> pres_rd (pres_flags p)"
    "pres_eth_header p = EthernetHeader_new C_DLL_MULTICAST_PRES (core_mac_address (cn_core c))" by auto
  have h: "wf_eth (ethernet_header r)" "is_powerlink (ethernet_header r)" "frame_allowed True r"
    using p assms(2)
    by (auto simp: cn_inv_def frame_allowed_def wf_mac_def MAC_ADDRESS_SIZE_def C_DLL_MULTICAST_PRES_def)
  then have "frame_size r \<le> 1504"
    using serialize_frame_action_too_big [of True r] assms(3) by fastforce
  with serialize_frame_action_ok [of r True] h p assms(3) have "deserialize_frame bs = Inr r" by auto
  with n FPReq p show ?thesis by (simp add: answers_poll_def)
qed (use assms(1) in \<open>auto simp: generate_response_def split: if_splits\<close>)

lemma asnd_reply_fails:
  assumes "data_ok d" "rd_client_info d = AsndClient n m"
  shows "AsndTransport_build_response mac i b d = Inl BufferTooShort"
proof -
  have "wf_command (rd_command d)" using assms(1) by (simp add: data_ok_def response_ok_def)
  then have "serialize_sdo_asnd_payload (rd_seq_header d) (rd_command d) = Inl BufferTooShort"
    using sdo_asnd_too_short by blast
  with assms(2) show ?thesis by (simp add: AsndTransport_build_response_def)
qed

lemma udp_reply_kind: "UdpTransport_build_response d = Inr a \<Longrightarrow> \<exists>ip port bs. a = SendUdp ip port bs"
  by (auto simp: UdpTransport_build_response_def rbind_eq_Inr Let_def case_prod_unfold
      split: SdoClientInfo.splits)

lemma sdo_asnd_silent:
  assumes "cn_inv ctx"
  shows "fst (process_sdo_asnd f t ctx) = NoAction"
proof -
  let ?c = "count_telegram 6 ctx"
  have inv: "cn_inv ?c" by (rule cn.count [OF assms])
  obtain r srv od where 1: "server_handle_request (core_sdo_server (cn_core ?c)) (asnd_payload f)
      (AsndClient (asnd_source f) (source_mac (asnd_eth_header f))) (cn_od ?c) t = (r, srv, od)"
    by (metis prod.collapse)
  have "AsndTransport_build_response mac i b d = Inl BufferTooShort" if "r = Inr d" for d mac i b
    using default_sdo.server_request_ok [OF 1] inv that by (auto simp: cn_inv_def intro!: asnd_reply_fails)
  then show ?thesis
    by (simp add: process_sdo_asnd_def Let_def 1 [simplified] split: sum.split)
qed

lemma tick_no_frame:
  fixes ctx :: "(unit, 's) CnContext"
  assumes "cn_inv ctx"
  shows "fst (process_tick ctx t) \<noteq> SendFrame bs"
proof -
  obtain r srv where 1: "server_tick (core_sdo_server (cn_core ctx)) t (cn_od ctx) = (r, srv)" by fastforce
  have ok: "\<exists>d. r = Inr d \<and> pred_option data_ok d" using server_tick_ok [OF 1] assms by (simp add: cn_inv_def)
  have "data_ok d \<Longrightarrow> build_sdo_response c d \<noteq> Inr (SendFrame bs)" for c :: "(unit, 's) CnContext" and d
    by (auto simp: build_sdo_response_def asnd_reply_fails dest: udp_reply_kind split: SdoClientInfo.splits)
  with ok have "fst (tick_sdo_server t ctx) \<noteq> Some (SendFrame bs)"
    by (auto simp: tick_sdo_server_def 1 Let_def split: option.split sum.splits)
  then show ?thesis
    by (auto simp: process_tick_def case_prod_unfold Let_def prod_eq_iff split: option.splits)
qed

lemma udp_no_frame: "fst (run_udp ctx dgram t) \<noteq> SendFrame bs"
  by (auto simp: run_udp_def process_udp_datagram_def Let_def case_prod_unfold dest!: udp_reply_kind
      split: option.splits sum.splits)

lemma frame_answered:
  assumes "process_frame ctx f t = Some (SendFrame bs, ctx')" "cn_inv ctx" "deserialize_frame buf = Inr f"
  shows "\<exists>g. deserialize_frame bs = Inr g \<and> answers_poll (cn_id ctx) f g"
proof -
  have "process_sdo_asnd a t ctx \<noteq> (SendFrame bs, ctx')" for a
    using sdo_asnd_silent [OF assms(2), of a t] by auto
  then have "\<exists>c. process_plain_frame f t c = Some (SendFrame bs, ctx') \<and> cn_inv c \<and> cn_id c = cn_id ctx"
    using assms(1,2) cn.count [OF assms(2)]
    by (auto simp: process_frame_def split: PowerlinkFrame.splits if_splits)
  then obtain c where c: "process_plain_frame f t c = Some (SendFrame bs, ctx')" "cn_inv c" "cn_id c = cn_id ctx" by blast
  from cn_run.plain_frame_cases [OF c(1), of "cn_id ctx" "core_mac_address (cn_core c)"] c
  obtain d r where d: "cn_inv d" "cn_id d = cn_id ctx" "generate_response f d = (Some r, ctx')"
    "serialize_frame_action r True = Inr (SendFrame bs)" by auto
  from response_received [OF d(3,1,4) assms(3)] d(2) show ?thesis by simp
qed

lemma ethernet_answered:
  assumes "process_ethernet_frame ctx buf t = Some (SendFrame bs, ctx')" "cn_inv ctx"
  shows "\<exists>f g. deserialize_frame buf = Inr f \<and> deserialize_frame bs = Inr g \<and> answers_poll (cn_id ctx) f g"
proof -
  define c where "c = (if cn_state ctx = NmtBasicEthernet then raise_nmt PowerlinkFrameReceived ctx else ctx)"
  have c: "cn_inv c" "cn_id c = cn_id ctx" "cn_inv (count_telegram 6 c)" "cn_id (count_telegram 6 c) = cn_id ctx"
    using assms(2) by (simp_all add: c_def cn.nmt cn.count cn_process_event_id)
  with assms(1) frame_answered show ?thesis
    by (fastforce simp: process_ethernet_frame_def c_def [symmetric] Let_def split: sum.splits if_splits)
qed

lemma cn_cycle_answered:
  assumes inv: "cn_inv ctx" and "run_cycle ctx eth dgram t = Some (SendFrame bs, ctx')"
  shows "\<exists>buf f g. eth = Some buf \<and> deserialize_frame buf = Inr f \<and> deserialize_frame bs = Inr g \<and>
    answers_poll (cn_id ctx) f g"
proof -
  obtain b c where b: "run_ethernet ctx eth t = Some (b, c)"
    using assms(2) by (auto simp: run_cycle_def bind_eq_Some_conv)
  show ?thesis
  proof (cases "b = NoAction")
    case False
    then have "run_ethernet ctx eth t = Some (SendFrame bs, ctx')"
      using assms(2) b by (simp add: run_cycle_def)
    with ethernet_answered inv show ?thesis
      by (fastforce simp: run_ethernet_def split: option.splits if_splits)
  next
    case True
    have "cn_inv c"
      using b inv cn.ethernet_frame by (auto simp: run_ethernet_def split: option.splits if_splits)
    obtain d g where d: "run_udp c dgram t = (d, g)" by fastforce
    have "cn_inv g" using cn.run_udp_keeps [OF d] \<open>cn_inv c\<close> by blast
    with tick_no_frame [of g t bs] udp_no_frame [of c dgram t bs] assms(2) b True d show ?thesis
      by (auto simp: run_cycle_def split: if_splits)
  qed
qed

subsection \<open>Status and identity\<close>

lemma status_without_entries:
  assumes "34 \<le> length buf" "sr_error_entries p = []"
    and "se_specific_errors (sr_static_error_bit_field p) = replicate 7 0"
  shows "length (trim_zeros (take 34 (snd (StatusResponsePayload_serialize p buf)))) < 14"
proof -
  let ?h = "status_header p buf"
  have h: "length ?h = length buf" "sub_slice 6 14 ?h = se_error_register (sr_static_error_bit_field p) # replicate 7 0"
    using status_header_read [of buf p] assms by simp_all
  have "take 34 (snd (StatusResponsePayload_serialize p buf)) = take 14 ?h @ replicate 20 0"
    using status_serialize_eq [of p buf] assms h(1) by (simp add: status_size_def entries_image_def put_def)
  moreover have "take 14 ?h = take 13 ?h @ replicate 1 0"
  proof -
    have "?h ! 13 = sub_slice 6 14 ?h ! 7" using h(1) assms(1) by (simp add: sub_slice_def)
    also have "\<dots> = 0" unfolding h(2) by (simp add: nth_Cons')
    finally show ?thesis using take_Suc_conv_app_nth [of 13 ?h] h(1) assms(1) by simp
  qed
  ultimately have "trim_zeros (take 34 (snd (StatusResponsePayload_serialize p buf))) = trim_zeros (take 13 ?h)"
    by (simp only: trim_zeros_append)
  with length_trim_zeros [of "take 13 ?h"] show ?thesis by simp
qed

subsection \<open>An example\<close>

text \<open>A node with node id 7 and the objects a controlled node must have, polled for its identity.\<close>

definition cn_example_od :: "unit ObjectDictionary" where
  "cn_example_od = fold (\<lambda>(i, obj). od_insert i (mk_entry obj [] Mandatory None None None))
     [(0x1000, Variable (Unsigned32 0x191)), (0x1018, Record [Unsigned32 1, Unsigned32 2]),
      (0x1F82, Variable (Unsigned32 0x45)), (0x1F93, Record [Unsigned8 7]),
      (0x1F99, Variable (Unsigned32 5000000))] (od_new None)"

definition soa_for_7 :: bytes where
  "soa_for_7 = [1, 17, 30, 0, 0, 3, 2, 0, 0, 0, 0, 240, 0x88, 0xAB, 5, 255, 240, 0x1D, 0, 0, 1, 7, 0x20] @ replicate 37 0"

definition example_soa :: SoAFrame where
  "example_soa = SoAFrame_new [2, 0, 0, 0, 0, 240] NmtPreOperational1 \<lparr> soa_ea = False, soa_er = False \<rparr>
     RequestedServiceId.StatusRequest 7 0x20"

lemma cn_example_evaluated:
  "case ControlledNode_new 10 cn_example_od [2, 0, 0, 0, 0, 7] of
     Inr ctx \<Rightarrow> cn_id ctx = 7 \<and> (case run_cycle ctx (Some soa_for_7) None 5 of Some (SendFrame bs, ctx') \<Rightarrow> True | _ \<Rightarrow> False)
   | Inl e \<Rightarrow> False"
  by code_simp

lemma cn_example_sound: "od_sound cn_example_od"
  by (simp add: od_sound_def od_inv_def cn_example_od_def od_insert_def od_new_def mk_entry_def bt_get_def bt_inv_def
      split: if_splits)

lemma cn_example_run:
  "\<exists>ctx ctx' :: (unit, unit) CnContext. \<exists>bs. cn_reachable ctx \<and> cn_reachable ctx' \<and> cn_id ctx = 7 \<and>
     run_cycle ctx (Some soa_for_7) None 5 = Some (SendFrame bs, ctx')"
proof -
  obtain ctx bs ctx' where c: "ControlledNode_new 10 cn_example_od [2, 0, 0, 0, 0, 7] = Inr ctx" "cn_id ctx = 7"
    "run_cycle ctx (Some soa_for_7) None 5 = Some (SendFrame bs, ctx')"
    using cn_example_evaluated by (auto split: sum.splits option.splits NodeAction.splits)
  have "cn_reachable ctx"
    by (rule cn_reachable.new [OF c(1) cn_example_sound]) (simp_all add: wf_mac_def MAC_ADDRESS_SIZE_def)
  with c cn_reachable.cycle show ?thesis by blast
qed

lemma ident_response_sent:
  assumes "od_sound od" "wf_mac mac" "wf_mac (source_mac (soa_eth_header soa))"
    and "length (ir_host_name (IdentResponsePayload_new od)) \<le> 32" "0 \<notin> set (ir_host_name (IdentResponsePayload_new od))"
  shows "\<exists>bs a. serialize_frame_action (build_ident_response mac n od soa client pending) True = Inr (SendFrame bs) \<and>
    deserialize_frame bs = Inr (FASnd a) \<and> asnd_service_id a = IdentResponse \<and> asnd_source a = n \<and> source_mac (asnd_eth_header a) = mac \<and>
    IdentResponsePayload_deserialize (asnd_payload a) =
      Inr ((IdentResponsePayload_new od)\<lparr> ir_pr := snd (request_flags pending client),
        ir_rs := RSFlag_new (fst (request_flags pending client)) \<rparr>)"
proof -
  define p where "p = (IdentResponsePayload_new od)\<lparr> ir_pr := snd (request_flags pending client),
    ir_rs := RSFlag_new (fst (request_flags pending client)) \<rparr>"
  have "utf8_valid (ir_host_name (IdentResponsePayload_new od))"
    using od_read_wf [OF assms(1), where i = "0x1F9A" and s = 0]
    by (auto simp: IdentResponsePayload_new_def Let_def split: option.split ObjectValue.split)
  with assms(4,5) have wf: "wf_ident p"
    using RSFlag_new_le by (simp add: p_def wf_ident_def) (simp add: IdentResponsePayload_new_def Let_def)
  obtain out where out: "IdentResponsePayload_serialize p (replicate 256 0) = (Inr 158, out)"
    "length out = 256" "\<forall>rest. IdentResponsePayload_deserialize (take 158 out @ rest) = Inr p"
    using ident.written [OF wf, of "replicate 256 0"] by auto
  define a where "a = ASndFrame_new mac (source_mac (soa_eth_header soa)) C_ADR_MN_DEF_NODE_ID n IdentResponse
    (take 158 out)"
  have f: "build_ident_response mac n od soa client pending = FASnd a"
    using out(1) by (simp add: build_ident_response_def a_def p_def Let_def case_prod_unfold)
  have "asnd_size a \<le> 1504" using out(2) by (simp add: asnd_size_def a_def ASndFrame_new_def)
  with asnd_sent_ok [of a True] assms(2,3) obtain bs where "serialize_frame_action (FASnd a) True = Inr (SendFrame bs)"
    "deserialize_frame bs = Inr (FASnd (a\<lparr> asnd_payload := received_payload (asnd_payload a) \<rparr>))"
    by (auto simp: a_def ASndFrame_new_def)
  moreover have "received_payload (asnd_payload a) = take 158 out"
    using out(2) by (simp add: received_payload_def a_def ASndFrame_new_def)
  ultimately show ?thesis
    using spec [OF out(3), of "[]"] f by (auto simp: p_def a_def ASndFrame_new_def EthernetHeader_new_def)
qed

subsection \<open>Properties\<close>

text \<open>
  C28: the answer to a status request carries the oldest entries of the emergency queue, as many as
  the configured MTU allows, and removes exactly these from the queue. The managing node decodes
  the flags, the state and the entries as the node put them, if there is at least one entry; a
  StatusResponse without entries loses the zero octets at its end on the way and is rejected.\<close>

theorem status_response_received:
  assumes "build_status_response mac n od en ec queue soa client pending = (f, od', queue')"
    and "list_all wf_entry queue" "wf_mac mac" "wf_mac (source_mac (soa_eth_header soa))"
    and "38 \<le> async_mtu od" "async_mtu od \<le> 1500"
  shows "\<exists>sent bs a. queue = sent @ queue' \<and> length sent = min (length queue) ((async_mtu od - 38) div 20) \<and>
    serialize_frame_action f True = Inr (SendFrame bs) \<and> deserialize_frame bs = Inr (FASnd a) \<and>
    asnd_service_id a = StatusResponse \<and> asnd_source a = n \<and>
    StatusResponsePayload_deserialize (asnd_payload a) =
      (if sent = [] then Inl BufferTooShort
       else Inr (StatusResponsePayload_new en ec (snd (request_flags pending client))
         (RSFlag_new (fst (request_flags pending client))) (reported_state od) (StaticErrorBitField_new od) sent))"
proof -
  define sent where "sent = take ((async_mtu od - 4 - (14 + 20)) div 20) queue"
  define p where "p = StatusResponsePayload_new en ec (snd (request_flags pending client))
    (RSFlag_new (fst (request_flags pending client))) (reported_state od) (StaticErrorBitField_new od) sent"
  define buf :: bytes where "buf = replicate (async_mtu od - 4) 0"
  have wf: "wf_status p"
    using assms(2) RSFlag_new_le
    by (auto simp: p_def wf_status_def StatusResponsePayload_new_def StaticErrorBitField_new_def sent_def list_all_iff
        dest: in_set_takeD)
  have fits: "status_size p \<le> length buf"
    using assms(5) by (simp add: p_def status_size_def StatusResponsePayload_new_def sent_def buf_def)
  obtain out where out: "StatusResponsePayload_serialize p buf = (Inr (status_size p), out)"
    "length out = length buf" "\<forall>rest. StatusResponsePayload_deserialize (take (status_size p) out @ rest) = Inr p"
    using status.written [OF wf fits] by blast
  define a where "a = ASndFrame_new mac (source_mac (soa_eth_header soa)) C_ADR_MN_DEF_NODE_ID n StatusResponse
    (take (status_size p) out)"
  have f: "f = FASnd a" "queue' = drop ((async_mtu od - 4 - (14 + 20)) div 20) queue"
    using assms(1) out(1)
    by (auto simp: build_status_response_def a_def p_def sent_def buf_def Let_def case_prod_unfold split: if_splits)
  have len: "length (asnd_payload a) = status_size p" using out(2) fits by (simp add: a_def ASndFrame_new_def)
  then have "asnd_size a \<le> 1504" using fits assms(6) by (simp add: asnd_size_def buf_def)
  with asnd_sent_ok [of a True] assms(3,4) obtain bs where bs: "serialize_frame_action f True = Inr (SendFrame bs)"
    "deserialize_frame bs = Inr (FASnd (a\<lparr> asnd_payload := received_payload (asnd_payload a) \<rparr>))"
    by (auto simp: f a_def ASndFrame_new_def)
  have "StatusResponsePayload_deserialize (received_payload (asnd_payload a)) =
      (if sent = [] then Inl BufferTooShort else Inr p)"
  proof (cases "sent = []")
    case True
    then have "status_size p = 34" "sr_error_entries p = []"
      "se_specific_errors (sr_static_error_bit_field p) = replicate 7 0"
      by (simp_all add: p_def status_size_def StatusResponsePayload_new_def StaticErrorBitField_new_def)
    moreover from this(1) len have "received_payload (asnd_payload a) = trim_zeros (take 34 out)"
      by (simp add: received_payload_def) (simp add: a_def ASndFrame_new_def)
    ultimately show ?thesis
      using status_without_entries [of buf p] fits out(1) True
      by (simp add: StatusResponsePayload_deserialize_def)
  next
    case False
    then have "status_size p \<ge> 54" by (cases sent) (simp_all add: p_def status_size_def StatusResponsePayload_new_def)
    with spec [OF out(3), of "[]"] len False show ?thesis
      by (simp add: received_payload_def a_def ASndFrame_new_def)
  qed
  with bs show ?thesis
    by (intro exI [of _ sent] exI [of _ bs] exI [of _ "a\<lparr> asnd_payload := received_payload (asnd_payload a) \<rparr>"])
      (simp add: f(2) sent_def [symmetric] p_def a_def ASndFrame_new_def, simp add: sent_def)
qed

theorem status_response_received_witness:
  "\<exists>queue' bs a. deserialize_frame bs = Inr (FASnd a) \<and> queue' = [] \<and>
    StatusResponsePayload_deserialize (asnd_payload a) = Inr (StatusResponsePayload_new True False PrioGenericRequest 0
      NmtNotActive (StaticErrorBitField_new (od_new None :: unit ObjectDictionary)) [new_error_entry LossOfSoc 1000001])"
proof -
  let ?od = "od_new None :: unit ObjectDictionary" and ?e = "new_error_entry LossOfSoc 1000001"
  have m: "async_mtu ?od = 300" "reported_state ?od = NmtNotActive" "request_flags [] SdoClient_new = (0, PrioGenericRequest)"
    by (simp_all add: async_mtu_def read_u16_def od_read_def od_new_def bt_get_def unwrap_or_def reported_state_def
        read_u8_def request_flags_def pending_request_count_and_priority_def SdoClient_new_def)
  obtain f od' queue' where "build_status_response [2, 0, 0, 0, 0, 7] 7 ?od True False [?e] example_soa SdoClient_new [] =
      (f, od', queue')" by (metis prod.collapse)
  from status_response_received [OF this] m obtain sent bs a where s: "[?e] = sent @ queue'" "length sent = 1"
    "deserialize_frame bs = Inr (FASnd a)" "StatusResponsePayload_deserialize (asnd_payload a) =
      (if sent = [] then Inl BufferTooShort else Inr (StatusResponsePayload_new True False PrioGenericRequest (RSFlag_new 0)
        NmtNotActive (StaticErrorBitField_new ?od) sent))"
    by (auto simp: wf_mac_def MAC_ADDRESS_SIZE_def example_soa_def SoAFrame_new_def EthernetHeader_new_def)
  then have "sent = [?e]" "queue' = []" by (cases sent; simp)+
  with s show ?thesis by (auto simp: RSFlag_new_def)
qed

text \<open>
  C21: a controlled node never becomes operational. Along every run of a node, from its creation
  through any frames, datagrams, time-outs and requests of the application, the NMT state is never
  ReadyToOperate nor Operational: the event that the configuration is complete is nowhere raised.\<close>

theorem cn_never_operational:
  assumes "cn_reachable ctx"
  shows "cn_state ctx \<notin> {NmtReadyToOperate, NmtOperational}"
  using cn_reachable_inv [OF assms] by (auto simp: cn_inv_def booting_def)

theorem cn_never_operational_witness:
  "\<exists>ctx ctx' :: (unit, unit) CnContext. \<exists>bs. run_cycle ctx (Some soa_for_7) None 5 = Some (SendFrame bs, ctx') \<and>
     cn_state ctx' \<notin> {NmtReadyToOperate, NmtOperational}"
proof -
  obtain ctx ctx' :: "(unit, unit) CnContext" and bs
    where c: "cn_reachable ctx'" "run_cycle ctx (Some soa_for_7) None 5 = Some (SendFrame bs, ctx')"
    using cn_example_run by blast
  with cn_never_operational [OF c(1)] show ?thesis by blast
qed

text \<open>
  C1: a controlled node sends an Ethernet frame only when it is polled: the frame it received is a PReq
  or an SoA for this node, and what it sends is decoded by its peers as the PRes of this node, always
  without valid process data, or as the ASnd of this node to the managing node with the service it
  was asked for. Time-outs, datagrams, SDO requests in ASnd frames and foreign frames never make it
  send one.\<close>

theorem cn_sends_only_when_polled:
  assumes "cn_reachable ctx" "run_cycle ctx eth dgram t = Some (SendFrame bs, ctx')"
  shows "\<exists>buf f g. eth = Some buf \<and> deserialize_frame buf = Inr f \<and> deserialize_frame bs = Inr g \<and>
    answers_poll (cn_id ctx) f g"
  by (rule cn_cycle_answered [OF cn_reachable_inv [OF assms(1)] assms(2)])

theorem cn_sends_only_when_polled_witness:
  "\<exists>f g. deserialize_frame soa_for_7 = Inr f \<and> answers_poll 7 f g"
proof -
  obtain ctx ctx' :: "(unit, unit) CnContext" and bs where c: "cn_reachable ctx" "cn_id ctx = 7"
    "run_cycle ctx (Some soa_for_7) None 5 = Some (SendFrame bs, ctx')"
    using cn_example_run by blast
  from cn_sends_only_when_polled [OF c(1,3)] c(2) show ?thesis by auto
qed

end
