(* ===== verification/Pdo_Transfer.thy ===== *)
theory Pdo_Transfer
  imports Pdo_Props
begin

section \<open>Transfer of process data\<close>

text \<open>
  The payload that one node builds along its transmit mapping and that another consumes along its
  receive mapping carries the mapped objects from the dictionary of the first to the dictionary of the
  second. The receiver writes through the interface \<open>object_store\<close>.
\<close>

subsection \<open>Mapping entries\<close>

definition entry_off :: "PdoMappingEntry \<Rightarrow> nat" where
  "entry_off e = unat (pm_offset_bits e) div 8"

definition entry_len :: "PdoMappingEntry \<Rightarrow> nat" where
  "entry_len e = unat (pm_length_bits e) div 8"

definition aligned :: "PdoMappingEntry \<Rightarrow> bool" where
  "aligned e \<longleftrightarrow> byte_offset e = Some (entry_off e) \<and> byte_length e = Some (entry_len e)"

definition disjoint_slots :: "PdoMappingEntry \<Rightarrow> PdoMappingEntry \<Rightarrow> bool" where
  "disjoint_slots e f \<longleftrightarrow> entry_off e + entry_len e \<le> entry_off f \<or> entry_off f + entry_len f \<le> entry_off e"

definition entry_cell :: "PdoMappingEntry \<Rightarrow> u16 \<times> u8" where
  "entry_cell e = (pm_index e, pm_sub_index e)"

text \<open>An entry that maps a data object and lies within a payload of \<open>n\<close> octets.\<close>

definition data_entry :: "nat \<Rightarrow> PdoMappingEntry \<Rightarrow> bool" where
  "data_entry n e \<longleftrightarrow> aligned e \<and> \<not> (0x1200 \<le> pm_index e \<and> pm_index e \<le> 0x12FF) \<and>
     entry_off e + entry_len e \<le> n"

lemma data_entry_index:
  "data_entry n e \<Longrightarrow> \<not> (0x1200 \<le> pm_index e \<and> pm_index e \<le> 0x127F) \<and> \<not> (0x1280 \<le> pm_index e \<and> pm_index e \<le> 0x12FF)"
  by (auto simp: data_entry_def word_le_nat_alt)

subsection \<open>Sending\<close>

definition sends :: "'s ObjectDictionary \<Rightarrow> nat \<Rightarrow> PdoMappingEntry \<Rightarrow> ObjectValue \<Rightarrow> bool" where
  "sends od n e v \<longleftrightarrow> data_entry n e \<and> od_read od (pm_index e) (pm_sub_index e) = Some v \<and>
     length (value_serialize v) = entry_len e"

lemma apply_tpdo_data:
  assumes "sends (core_od core) (length payload) e v"
  shows "apply_tpdo_mapping_entry e payload core = (Inr (put (entry_off e) (value_serialize v) payload), core)"
  using assms data_entry_index [of "length payload" e]
  by (auto simp: apply_tpdo_mapping_entry_def sends_def data_entry_def aligned_def Let_def)

lemma tpdo_fill:
  assumes "list_all2 (sends (core_od core) n) es vs" "sorted_wrt disjoint_slots es" "length payload = n"
  shows "\<exists>p. apply_tpdo_entries es payload core = (Inr p, core) \<and> length p = length payload \<and>
    list_all2 (\<lambda>e v. sub_slice (entry_off e) (entry_off e + entry_len e) p = value_serialize v) es vs \<and>
    (\<forall>e. entry_off e + entry_len e \<le> length payload \<longrightarrow> (\<forall>f \<in> set es. disjoint_slots e f) \<longrightarrow>
       sub_slice (entry_off e) (entry_off e + entry_len e) p =
       sub_slice (entry_off e) (entry_off e + entry_len e) payload)"
  using assms
proof (induction es vs arbitrary: payload rule: list_all2_induct)
  case (Cons e es v vs)
  let ?q = "put (entry_off e) (value_serialize v) payload"
  have e: "entry_off e + entry_len e \<le> length payload" "length (value_serialize v) = entry_len e"
    using Cons.hyps(1) Cons.prems(2) by (auto simp: sends_def data_entry_def)
  then have l: "length ?q = length payload" by simp
  obtain p where p: "apply_tpdo_entries es ?q core = (Inr p, core)" "length p = length ?q"
    "list_all2 (\<lambda>e v. sub_slice (entry_off e) (entry_off e + entry_len e) p = value_serialize v) es vs"
    "\<forall>f. entry_off f + entry_len f \<le> length ?q \<longrightarrow> (\<forall>g \<in> set es. disjoint_slots f g) \<longrightarrow>
       sub_slice (entry_off f) (entry_off f + entry_len f) p = sub_slice (entry_off f) (entry_off f + entry_len f) ?q"
    using Cons.IH [of ?q] Cons.hyps(2) Cons.prems l by (auto simp del: length_put)
  have own: "sub_slice (entry_off e) (entry_off e + entry_len e) p = value_serialize v"
    using p(4) e l Cons.prems(1) by (simp add: slice_put_in)
  have other: "sub_slice (entry_off f) (entry_off f + entry_len f) ?q =
      sub_slice (entry_off f) (entry_off f + entry_len f) payload"
    if "disjoint_slots f e" "entry_off f + entry_len f \<le> length payload" for f
    using that e by (intro slice_put_out) (auto simp: disjoint_slots_def)
  show ?case
    using p own other l apply_tpdo_data [of core payload e v] Cons.hyps(1) Cons.prems(2) by (intro exI [of _ p]) auto
qed simp

subsection \<open>Receiving\<close>

text \<open>An entry whose object can take the value: a stored cell of the same type.\<close>

definition accepts :: "'s ObjectDictionary \<Rightarrow> u16 \<times> u8 \<Rightarrow> ObjectValue \<Rightarrow> bool" where
  "accepts od c v \<longleftrightarrow> od_stored od (fst c) (snd c) \<and>
     (case od_read od (fst c) (snd c) of Some t \<Rightarrow> discriminant t = discriminant v | None \<Rightarrow> False)"

lemma accepted_write:
  assumes "accepts od (i, s) v"
  shows "\<exists>od'. write_internal od i s v False = (Inr (), od')"
proof -
  obtain e t where e: "bt_get (entries od) i = Some e" "object_read (oe_object e) s = Some t"
    "discriminant t = discriminant v"
    using assms by (auto simp: accepts_def od_read_def bind_eq_Some_conv split: option.splits)
  have "s = 0 \<longrightarrow> obj_kind (oe_object e) = 0"
    using assms e(1) by (auto simp: accepts_def od_stored_def read_object_def)
  with e show ?thesis
    by (cases "oe_object e")
      (auto simp: write_internal_def object_write_def write_elems_def object_read_def vec_get_def split: if_splits)
qed

lemma accepts_after:
  assumes "od_inv od" "wf_value w" "c \<noteq> (i, s)"
  shows "accepts (snd (write_internal od i s w False)) c v \<longleftrightarrow> accepts od c v"
  using odi.rd_other [OF assms(1), of "fst c" "snd c" i s w] odi.stored_wr [OF assms(1), of i s w] assms(3)
  by (cases c) (auto simp: accepts_def)

lemma accepts_after_all:
  assumes "list_all2 (\<lambda>q. accepts od (entry_cell q)) rs vs" "od_inv od" "wf_value w" "(i, s) \<notin> entry_cell ` set rs"
  shows "list_all2 (\<lambda>q. accepts (snd (write_internal od i s w False)) (entry_cell q)) rs vs"
proof (rule list.rel_mono_strong [OF assms(1)])
  fix q v assume "q \<in> set rs" "accepts od (entry_cell q) v"
  moreover from this(1) assms(4) have "entry_cell q \<noteq> (i, s)" by force
  ultimately show "accepts (snd (write_internal od i s w False)) (entry_cell q) v"
    using accepts_after [OF assms(2,3)] by simp
qed

definition receives :: "nat \<Rightarrow> bytes \<Rightarrow> PdoMappingEntry \<Rightarrow> ObjectValue \<Rightarrow> bool" where
  "receives n p r v \<longleftrightarrow> data_entry n r \<and> wf_value v \<and>
     sub_slice (entry_off r) (entry_off r + entry_len r) p = value_serialize v"

lemma apply_rpdo_data:
  assumes "receives (length p) p r v" "accepts (core_od core) (entry_cell r) v"
  shows "apply_rpdo_mapping_entry handle r p src (m, core) = Some (True, m, core\<lparr> core_od :=
    snd (write_internal (core_od core) (pm_index r) (pm_sub_index r) v False) \<rparr>)"
proof -
  obtain t where t: "od_read (core_od core) (pm_index r) (pm_sub_index r) = Some t" "discriminant t = discriminant v"
    using assms(2) by (auto simp: accepts_def entry_cell_def split: option.splits)
  have "value_deserialize (value_serialize v) t = Inr v"
    using value_roundtrip_self [of v] value_deserialize_template [OF t(2)] assms(1) by (simp add: receives_def)
  moreover have "data_entry (length p) r" "sub_slice (entry_off r) (entry_off r + entry_len r) p = value_serialize v"
    using assms(1) by (simp_all add: receives_def)
  ultimately show ?thesis
    using t data_entry_index [of "length p" r]
    by (auto simp: apply_rpdo_mapping_entry_def data_entry_def aligned_def Let_def)
qed

definition cell_writes :: "PdoMappingEntry list \<Rightarrow> ObjectValue list \<Rightarrow> (u16 \<times> u8 \<times> ObjectValue) list" where
  "cell_writes rs vs = map (\<lambda>(r, v). (pm_index r, pm_sub_index r, v)) (zip rs vs)"

lemma cell_writes_mem:
  "(j, t, x) \<in> set (cell_writes rs vs) \<Longrightarrow> (j, t) \<in> entry_cell ` set rs \<and> x \<in> set vs"
  by (auto simp: cell_writes_def entry_cell_def dest: set_zip_leftD set_zip_rightD intro: rev_image_eqI)

lemma rpdo_apply:
  assumes "list_all2 (receives (length p) p) rs vs"
    and "list_all2 (\<lambda>r. accepts (core_od core) (entry_cell r)) rs vs"
    and "distinct (map entry_cell rs)" "od_inv (core_od core)"
  shows "apply_rpdo_entries handle rs p src (m, core) =
    Some (m, core\<lparr> core_od := odi.write_all (cell_writes rs vs) (core_od core) \<rparr>)"
  using assms
proof (induction rs vs arbitrary: core rule: list_all2_induct)
  case (Cons r rs v vs)
  let ?od = "snd (write_internal (core_od core) (pm_index r) (pm_sub_index r) v False)"
  have v: "wf_value v" using Cons.hyps(1) by (simp add: receives_def)
  have "list_all2 (\<lambda>q. accepts ?od (entry_cell q)) rs vs"
    using Cons.prems(1,2) by (intro accepts_after_all [OF _ Cons.prems(3) v]) (simp_all add: entry_cell_def)
  moreover have "od_inv ?od" by (rule odi.inv_wr [OF Cons.prems(3) v])
  moreover have "apply_rpdo_mapping_entry handle r p src (m, core) = Some (True, m, core\<lparr> core_od := ?od \<rparr>)"
    using Cons.prems(1) by (intro apply_rpdo_data [OF Cons.hyps(1)]) simp
  ultimately show ?case
    using Cons.IH [of "core\<lparr> core_od := ?od \<rparr>"] Cons.prems(1,2) by (simp add: cell_writes_def)
qed (simp add: cell_writes_def)

lemma cells_written:
  assumes "list_all2 (\<lambda>r. accepts od (entry_cell r)) rs vs" "\<forall>v \<in> set vs. wf_value v"
    and "distinct (map entry_cell rs)" "od_inv od"
  shows "list_all2 (\<lambda>r v. od_read (odi.write_all (cell_writes rs vs) od) (pm_index r) (pm_sub_index r) = Some v) rs vs"
  using assms
proof (induction rs arbitrary: vs od)
  case (Cons r rs us)
  obtain v vs where us: "us = v # vs" "accepts od (entry_cell r) v" "list_all2 (\<lambda>r. accepts od (entry_cell r)) rs vs"
    using Cons.prems(1) by (auto simp: list_all2_Cons1)
  obtain od' where w: "write_internal od (pm_index r) (pm_sub_index r) v False = (Inr (), od')"
    using accepted_write [OF us(2) [unfolded entry_cell_def]] by blast
  have v: "wf_value v" using Cons.prems(2) us(1) by simp
  have "list_all2 (\<lambda>q. accepts od' (entry_cell q)) rs vs"
    using accepts_after_all [OF us(3) Cons.prems(4) v, of "pm_index r" "pm_sub_index r"] Cons.prems(3) w
    by (simp add: entry_cell_def)
  moreover have "od_inv od'" using odi.inv_wr [OF Cons.prems(4) v] w by (metis snd_conv)
  ultimately have "list_all2 (\<lambda>r v. od_read (odi.write_all (cell_writes rs vs) od') (pm_index r) (pm_sub_index r) = Some v) rs vs"
    using Cons.IH [of od' vs] Cons.prems us(1) by simp
  moreover have "od_read (odi.write_all (cell_writes rs vs) od') (pm_index r) (pm_sub_index r) = Some v"
  proof (rule odi.last_write_wins [OF Cons.prems(4) w _ v])
    show "od_stored od (pm_index r) (pm_sub_index r)" using us(2) by (simp add: accepts_def entry_cell_def)
    show "\<forall>(j, t, x) \<in> set (cell_writes rs vs). wf_value x \<and> (j, t) \<noteq> (pm_index r, pm_sub_index r)"
      using Cons.prems(2,3) us(1) by (auto simp: entry_cell_def [of r] dest!: cell_writes_mem)
  qed
  ultimately show ?case using w us(1) by (simp add: cell_writes_def)
qed simp

subsection \<open>From dictionary to dictionary\<close>

text \<open>
  Two dictionaries are linked by their mappings, for data from node \<open>src\<close>: the receiver has a
  channel for this node and accepts the version of the sender's mapping, the entries of the
  two mappings have the same places in the payload, each entry of the sender maps an object whose
  value has the mapped length, the corresponding entry of the receiver a stored object of the same
  type, the places do not overlap and the receiving objects are different.
\<close>

definition linked_entries :: "nat \<Rightarrow> 's ObjectDictionary \<Rightarrow> 't ObjectDictionary \<Rightarrow> PdoMappingEntry \<Rightarrow> PdoMappingEntry \<Rightarrow> bool" where
  "linked_entries n od od2 e r \<longleftrightarrow>
     data_entry n e \<and> data_entry n r \<and> entry_off e = entry_off r \<and> entry_len e = entry_len r \<and>
     (case od_read od (pm_index e) (pm_sub_index e) of
        Some v \<Rightarrow> length (value_serialize v) = entry_len e \<and> accepts od2 (entry_cell r) v
      | None \<Rightarrow> False)"

definition tpdo_of :: "'s ObjectDictionary \<Rightarrow> PdoMappingEntry list" where
  "tpdo_of od = (case od_read od 0x1A00 0 of Some (Unsigned8 n) \<Rightarrow> tpdo_entries od 0x1A00 n | _ \<Rightarrow> [])"

definition rpdo_of :: "'s ObjectDictionary \<Rightarrow> nat \<Rightarrow> PdoMappingEntry list" where
  "rpdo_of od i = (case od_read od (0x1600 + of_nat i) 0 of
     Some (Unsigned8 n) \<Rightarrow> rpdo_entries od (0x1600 + of_nat i) n | _ \<Rightarrow> [])"

definition tpdo_version :: "'s ObjectDictionary \<Rightarrow> u8" where
  "tpdo_version od = unwrap_or (read_u8 od 0x1800 2) 0"

definition tpdo_size :: "'s ObjectDictionary \<Rightarrow> nat" where
  "tpdo_size od = min (pres_payload_limit od) (unat C_DLL_ISOCHR_MAX_PAYL)"

definition pdo_linked :: "'s ObjectDictionary \<Rightarrow> NodeId \<Rightarrow> 't ObjectDictionary \<Rightarrow> nat \<Rightarrow> bool" where
  "pdo_linked od src od2 i \<longleftrightarrow>
     find (rpdo_matches od2 src) [0..<256] = Some i \<and>
     pdo_version_ok (unwrap_or (read_u8 od2 (0x1400 + of_nat i) 2) 0) (tpdo_version od) \<and>
     list_all2 (linked_entries (tpdo_size od) od od2) (tpdo_of od) (rpdo_of od2 i) \<and>
     sorted_wrt disjoint_slots (tpdo_of od) \<and> distinct (map entry_cell (rpdo_of od2 i))"

lemma build_tpdo_eq:
  "build_tpdo_payload core = (case apply_tpdo_entries (tpdo_of (core_od core)) (replicate (tpdo_size (core_od core)) 0) core of
     (r, core) \<Rightarrow> (rbind r (\<lambda>p. Inr (p, tpdo_version (core_od core))), core))"
proof -
  have od: "apply_tpdo_entries es p core = (r, core') \<Longrightarrow> core_od core' = core_od core" for es p r core'
    using apply_tpdo_entries_evolves by blast
  have e: "tpdo_entries (core_od core) 0x1A00 0 = []" by (simp add: tpdo_entries_def)
  show ?thesis
    by (auto simp: build_tpdo_payload_def tpdo_of_def tpdo_size_def tpdo_version_def Let_def e od word_gt_0
        split: option.split ObjectValue.split prod.split)
qed

lemma consume_eq:
  fixes core :: "('h, 'd) CoreNodeContext"
  assumes "find (rpdo_matches (core_od core) src) [0..<256] = Some i"
    and "pdo_version_ok (unwrap_or (read_u8 (core_od core) (0x1400 + of_nat i) 2) 0) ver"
  shows "consume_pdo_payload handle src payload ver True (m, core) =
    apply_rpdo_entries handle (rpdo_of (core_od core) i) payload src (m, core)"
proof -
  have "rpdo_entries od x 0 = []" for od :: "'d ObjectDictionary" and x by (simp add: rpdo_entries_def)
  then show ?thesis
    using assms
    by (auto simp: consume_pdo_payload_def rpdo_of_def Let_def split: option.split ObjectValue.split)
qed

text \<open>
  C3: process data reach their destination. If the mappings of a sending and a receiving node are
  linked, the sender can build its payload, the receiver consumes it without an error, afterwards
  every receiving object has the value of the object it is linked to, and all other objects of the
  receiver are as before.\<close>

theorem pdo_transfer:
  assumes "pdo_linked (core_od core) src (core_od core2) i" "od_sound (core_od core)" "od_inv (core_od core2)"
  shows "\<exists>payload core2'. build_tpdo_payload core = (Inr (payload, tpdo_version (core_od core)), core) \<and>
    consume_pdo_payload handle src payload (tpdo_version (core_od core)) True (m, core2) = Some (m, core2') \<and>
    list_all2 (\<lambda>e r. od_read (core_od core2') (pm_index r) (pm_sub_index r) =
        od_read (core_od core) (pm_index e) (pm_sub_index e)) (tpdo_of (core_od core)) (rpdo_of (core_od core2) i) \<and>
    (\<forall>j t. (j, t) \<notin> entry_cell ` set (rpdo_of (core_od core2) i) \<longrightarrow>
       od_read (core_od core2') j t = od_read (core_od core2) j t)"
proof -
  let ?od = "core_od core" and ?od2 = "core_od core2" and ?n = "tpdo_size (core_od core)"
  let ?es = "tpdo_of ?od" and ?rs = "rpdo_of ?od2 i"
  define val where "val e = the (od_read ?od (pm_index e) (pm_sub_index e))" for e :: PdoMappingEntry
  define vs where "vs = map val ?es"
  have link: "list_all2 (linked_entries ?n ?od ?od2) ?es ?rs" "sorted_wrt disjoint_slots ?es" "distinct (map entry_cell ?rs)"
    using assms(1) by (simp_all add: pdo_linked_def)
  have le: "linked_entries ?n ?od ?od2 e r \<Longrightarrow> sends ?od ?n e (val e) \<and> accepts ?od2 (entry_cell r) (val e) \<and>
      wf_value (val e) \<and> data_entry ?n r \<and> entry_off e = entry_off r \<and> entry_len e = entry_len r" for e r
    using od_read_wf [OF assms(2)] by (auto simp: linked_entries_def sends_def val_def split: option.splits)
  have len: "length ?es = length ?rs" "length vs = length ?rs"
    using list_all2_lengthD [OF link(1)] by (simp_all add: vs_def)
  note nth = list_all2_nthD2 [OF link(1)]
  have sends: "list_all2 (sends ?od ?n) ?es vs"
    using nth le len by (auto simp: list_all2_conv_all_nth vs_def)
  obtain p where p: "apply_tpdo_entries ?es (replicate ?n 0) core = (Inr p, core)" "length p = ?n"
    "list_all2 (\<lambda>e v. sub_slice (entry_off e) (entry_off e + entry_len e) p = value_serialize v) ?es vs"
    using tpdo_fill [OF sends link(2), of "replicate ?n 0"] by auto
  have rec: "list_all2 (receives (length p) p) ?rs vs"
    unfolding list_all2_conv_all_nth
  proof (intro conjI allI impI)
    fix k assume k: "k < length ?rs"
    with p(3) len have "sub_slice (entry_off (?es ! k)) (entry_off (?es ! k) + entry_len (?es ! k)) p = value_serialize (vs ! k)"
      by (simp add: list_all2_conv_all_nth)
    then show "receives (length p) p (?rs ! k) (vs ! k)"
      using le [OF nth [OF k]] len k p(2) by (simp add: vs_def receives_def)
  qed (use len in simp)
  have acc: "list_all2 (\<lambda>r. accepts ?od2 (entry_cell r)) ?rs vs"
    using nth le len by (auto simp: list_all2_conv_all_nth vs_def)
  have wf: "\<forall>v \<in> set vs. wf_value v"
    using nth le len by (fastforce simp: vs_def in_set_conv_nth)
  let ?new = "odi.write_all (cell_writes ?rs vs) ?od2"
  have "list_all2 (\<lambda>r v. od_read ?new (pm_index r) (pm_sub_index r) = Some v) ?rs vs"
    by (rule cells_written [OF acc wf link(3) assms(3)])
  then have "list_all2 (\<lambda>e r. od_read ?new (pm_index r) (pm_sub_index r) = od_read ?od (pm_index e) (pm_sub_index e)) ?es ?rs"
    using sends len by (auto simp: list_all2_conv_all_nth sends_def)
  moreover have "od_read ?new j t = od_read ?od2 j t" if "(j, t) \<notin> entry_cell ` set ?rs" for j t
    by (rule odi.write_all_other [OF assms(3)])
      (use that wf in \<open>auto dest!: cell_writes_mem\<close>)
  moreover have "consume_pdo_payload handle src p (tpdo_version ?od) True (m, core2) =
      Some (m, core2\<lparr> core_od := ?new \<rparr>)"
    using assms(1) rpdo_apply [OF rec acc link(3) assms(3)]
    by (subst consume_eq [of core2 src i]) (simp_all add: pdo_linked_def)
  moreover have "build_tpdo_payload core = (Inr (p, tpdo_version ?od), core)"
    using p(1) by (simp add: build_tpdo_eq)
  ultimately show ?thesis by (intro exI [of _ p] exI [of _ "core2\<lparr> core_od := ?new \<rparr>"]) simp
qed

definition pdo_example_od :: "(u16 \<times> Object) list \<Rightarrow> unit ObjectDictionary" where
  "pdo_example_od objs = fold (\<lambda>(i, obj). od_insert i (mk_entry obj [] Mandatory None None None)) objs (od_new None)"

definition pdo_source :: "unit ObjectDictionary" where
  "pdo_source = pdo_example_od [(0x1A00, Array [Unsigned64 0x0008000000016000, Unsigned64 0x0010000800006001]),
     (0x6000, Array [Unsigned8 0x2A]), (0x6001, Variable (Unsigned16 0x1234))]"

definition pdo_target :: "unit ObjectDictionary" where
  "pdo_target = pdo_example_od [(0x1400, Record [Unsigned8 7, Unsigned8 0]),
     (0x1600, Array [Unsigned64 0x0008000000026200, Unsigned64 0x0010000800016200]),
     (0x6200, Record [Unsigned16 0, Unsigned8 0])]"

definition pdo_core :: "unit ObjectDictionary \<Rightarrow> (unit, unit) CoreNodeContext" where
  "pdo_core od = \<lparr> core_od = od, core_mac_address = replicate 6 2, core_sdo_server = SdoServer_new,
     core_sdo_client = SdoClient_new, core_embedded_sdo_server = [], core_embedded_sdo_client = [] \<rparr>"

theorem pdo_transfer_witness:
  "\<exists>payload core2'. build_tpdo_payload (pdo_core pdo_source) = (Inr (payload, 0), pdo_core pdo_source) \<and>
     consume_pdo_payload (\<lambda>e m. m) 7 payload 0 True ((), pdo_core pdo_target) = Some ((), core2') \<and>
     od_read (core_od core2') 0x6200 1 = Some (Unsigned16 0x1234) \<and>
     od_read (core_od core2') 0x6200 2 = Some (Unsigned8 0x2A)"
proof -
  have l: "pdo_linked pdo_source 7 pdo_target 0" by code_simp
  have e: "tpdo_version pdo_source = 0" "map entry_cell (tpdo_of pdo_source) = [(0x6000, 1), (0x6001, 0)]"
    "map entry_cell (rpdo_of pdo_target 0) = [(0x6200, 2), (0x6200, 1)]"
    "od_read pdo_source 0x6000 1 = Some (Unsigned8 0x2A)" "od_read pdo_source 0x6001 0 = Some (Unsigned16 0x1234)"
    by code_simp+
  have s: "od_sound pdo_source" "od_inv pdo_target"
    by (simp_all add: od_sound_def od_inv_def pdo_source_def pdo_target_def pdo_example_od_def od_insert_def od_new_def
        mk_entry_def bt_get_def bt_inv_def split: if_splits)
  have c: "core_od (pdo_core od) = od" for od by (simp add: pdo_core_def)
  from pdo_transfer [of "pdo_core pdo_source" 7 "pdo_core pdo_target" 0 "\<lambda>e m. m" "()"] l s c
  obtain payload core2' where t: "build_tpdo_payload (pdo_core pdo_source) = (Inr (payload, tpdo_version pdo_source), pdo_core pdo_source)"
    "consume_pdo_payload (\<lambda>e m. m) 7 payload (tpdo_version pdo_source) True ((), pdo_core pdo_target) = Some ((), core2')"
    "list_all2 (\<lambda>e r. od_read (core_od core2') (pm_index r) (pm_sub_index r) = od_read pdo_source (pm_index e) (pm_sub_index e))
      (tpdo_of pdo_source) (rpdo_of pdo_target 0)" by auto
  from t(3) have "list_all2 (\<lambda>a b. od_read (core_od core2') (fst b) (snd b) = od_read pdo_source (fst a) (snd a))
      (map entry_cell (tpdo_of pdo_source)) (map entry_cell (rpdo_of pdo_target 0))"
    by (simp add: list.rel_map entry_cell_def)
  with t(1,2) e show ?thesis by (intro exI [of _ payload] exI [of _ core2']) simp
qed

end
