(* ===== verification/Binary_Heap.thy ===== *)
theory Binary_Heap
  imports PL_Prelude "HOL-Library.Multiset"
begin

section \<open>Binary heaps\<close>

text \<open>
  \<^verbatim>\<open>alloc::collections::BinaryHeap\<close>, in which the managing node keeps the asynchronous requests of
  the controlled nodes: a max-heap in an array. \<^verbatim>\<open>push\<close> appends and sifts up; \<^verbatim>\<open>pop\<close> puts the last
  element at the root, lets it sink to the bottom along the greater children and sifts it up again.
  Elements are compared by a key, as \<^verbatim>\<open>Ord\<close> of the requests compares only priorities. What a client
  may rely on is the locale \<open>max_queue\<close>: which of several elements of the same key comes first is
  a matter of the array.
\<close>

locale max_queue =
  fixes key :: "'a \<Rightarrow> 'k::linorder"
    and empty :: 'q
    and push :: "'a \<Rightarrow> 'q \<Rightarrow> 'q"
    and pop :: "'q \<Rightarrow> 'a option \<times> 'q"
    and elems :: "'q \<Rightarrow> 'a multiset"
    and inv :: "'q \<Rightarrow> bool"
  assumes inv_empty: "inv empty" "elems empty = {#}"
    and inv_push: "inv q \<Longrightarrow> inv (push x q)"
    and elems_push: "inv q \<Longrightarrow> elems (push x q) = add_mset x (elems q)"
    and pop_None: "inv q \<Longrightarrow> pop q = (None, q') \<Longrightarrow> elems q = {#} \<and> q' = q"
    and pop_Some: "inv q \<Longrightarrow> pop q = (Some x, q') \<Longrightarrow>
      inv q' \<and> elems q = add_mset x (elems q') \<and> (\<forall>y \<in># elems q. key y \<le> key x)"
begin

text \<open>The elements in the order in which they leave the queue.\<close>

fun drain :: "nat \<Rightarrow> 'q \<Rightarrow> 'a list" where
  "drain 0 q = []"
| "drain (Suc n) q = (case pop q of (None, q') \<Rightarrow> [] | (Some x, q') \<Rightarrow> x # drain n q')"

lemma drain_sorted:
  "inv q \<Longrightarrow> size (elems q) \<le> n \<Longrightarrow> mset (drain n q) = elems q \<and> sorted_wrt (\<lambda>x y. key y \<le> key x) (drain n q)"
proof (induction n arbitrary: q)
  case (Suc n)
  show ?case
  proof (cases "pop q")
    case (Pair r q')
    show ?thesis
    proof (cases r)
      case None
      with Pair pop_None Suc.prems show ?thesis by simp
    next
      case (Some x)
      with Pair Suc.prems pop_Some have p: "inv q'" "elems q = add_mset x (elems q')"
        "\<forall>y \<in># elems q. key y \<le> key x" by blast+
      then have ih: "mset (drain n q') = elems q'" "sorted_wrt (\<lambda>x y. key y \<le> key x) (drain n q')"
        using Suc by auto
      then have "set (drain n q') = set_mset (elems q')" by (metis set_mset_mset)
      with ih p Pair Some show ?thesis by simp
    qed
  qed
qed simp

end

subsection \<open>The array\<close>

definition swap_at :: "nat \<Rightarrow> nat \<Rightarrow> 'a list \<Rightarrow> 'a list" where
  "swap_at i j xs = xs[i := xs ! j, j := xs ! i]"

fun sift_up :: "('a \<Rightarrow> 'k::linorder) \<Rightarrow> nat \<Rightarrow> 'a list \<Rightarrow> 'a list" where
  "sift_up key pos xs =
     (if pos = 0 then xs
      else
        let parent = (pos - 1) div 2
        in if key (xs ! pos) \<le> key (xs ! parent) then xs
           else sift_up key parent (swap_at pos parent xs))"

declare sift_up.simps [simp del]

lemma length_swap_at [simp]: "length (swap_at i j xs) = length xs"
  by (simp add: swap_at_def)

function sift_to_bottom :: "('a \<Rightarrow> 'k::linorder) \<Rightarrow> nat \<Rightarrow> 'a list \<Rightarrow> nat \<times> 'a list" where
  "sift_to_bottom key pos xs =
     (let end = length xs; child = 2 * pos + 1
      in if child \<le> end - 2 then
           (let child = (if key (xs ! child) \<le> key (xs ! (child + 1)) then child + 1 else child)
            in sift_to_bottom key child (swap_at pos child xs))
         else if child = end - 1 then (child, swap_at pos child xs)
         else (pos, xs))"
  by pat_completeness auto

termination
  by (relation "measure (\<lambda>(key, pos, xs). length xs - pos)") auto

declare sift_to_bottom.simps [simp del]

definition heap_push :: "('a \<Rightarrow> 'k::linorder) \<Rightarrow> 'a \<Rightarrow> 'a list \<Rightarrow> 'a list" where
  "heap_push key item data = sift_up key (length data) (data @ [item])"

definition heap_pop :: "('a \<Rightarrow> 'k::linorder) \<Rightarrow> 'a list \<Rightarrow> 'a option \<times> 'a list" where
  "heap_pop key data =
     (if data = [] then (None, [])
      else
        let item = last data; data = butlast data
        in if data = [] then (Some item, [])
           else
             let top = data ! 0; (pos, data) = sift_to_bottom key 0 (data[0 := item])
             in (Some top, sift_up key pos data))"

subsection \<open>The heap property\<close>

abbreviation parent :: "nat \<Rightarrow> nat" where
  "parent i \<equiv> (i - 1) div 2"

definition heap_inv :: "('a \<Rightarrow> 'k::linorder) \<Rightarrow> 'a list \<Rightarrow> bool" where
  "heap_inv key xs \<longleftrightarrow> (\<forall>i < length xs. 0 < i \<longrightarrow> key (xs ! i) \<le> key (xs ! parent i))"

text \<open>The heap but for the element at \<open>i\<close>, which may be greater than its parent; with a hole at
  \<open>i\<close> it may also be smaller than its children.\<close>

definition heap_up :: "('a \<Rightarrow> 'k::linorder) \<Rightarrow> nat \<Rightarrow> 'a list \<Rightarrow> bool" where
  "heap_up key i xs \<longleftrightarrow> (\<forall>x < length xs. 0 < x \<longrightarrow>
     (x \<noteq> i \<longrightarrow> key (xs ! x) \<le> key (xs ! parent x)) \<and>
     (parent x = i \<longrightarrow> 0 < i \<longrightarrow> key (xs ! x) \<le> key (xs ! parent i)))"

definition heap_hole :: "('a \<Rightarrow> 'k::linorder) \<Rightarrow> nat \<Rightarrow> 'a list \<Rightarrow> bool" where
  "heap_hole key i xs \<longleftrightarrow> (\<forall>x < length xs. 0 < x \<longrightarrow>
     (x \<noteq> i \<longrightarrow> parent x \<noteq> i \<longrightarrow> key (xs ! x) \<le> key (xs ! parent x)) \<and>
     (parent x = i \<longrightarrow> 0 < i \<longrightarrow> key (xs ! x) \<le> key (xs ! parent i)))"

lemma parent_lt: "0 < i \<Longrightarrow> parent i < i"
  by linarith

lemma nth_swap_at:
  "i < length xs \<Longrightarrow> j < length xs \<Longrightarrow> k < length xs \<Longrightarrow>
    swap_at i j xs ! k = (if k = j then xs ! i else if k = i then xs ! j else xs ! k)"
  by (simp add: swap_at_def nth_list_update)

lemma mset_swap_at: "i < length xs \<Longrightarrow> j < length xs \<Longrightarrow> mset (swap_at i j xs) = mset xs"
  by (simp add: swap_at_def mset_swap)

lemma sift_up_correct:
  "heap_up key pos xs \<Longrightarrow> pos < length xs \<Longrightarrow>
    heap_inv key (sift_up key pos xs) \<and> mset (sift_up key pos xs) = mset xs"
proof (induction key pos xs rule: sift_up.induct)
  case (1 key pos xs)
  show ?case
  proof (cases "pos = 0 \<or> key (xs ! pos) \<le> key (xs ! parent pos)")
    case True
    with 1 have "heap_inv key xs" by (auto simp: heap_up_def heap_inv_def)
    with True show ?thesis by (subst (1 2) sift_up.simps) (auto simp: Let_def)
  next
    case False
    let ?p = "parent pos" and ?xs = "swap_at pos (parent pos) xs"
    have p: "?p < pos" "?p < length xs" using False 1 parent_lt [of pos] by auto
    have "heap_up key ?p ?xs"
      unfolding heap_up_def
    proof (intro allI impI conjI)
      fix x assume x: "x < length ?xs" "0 < x"
      have px: "parent x < length xs" "parent x < x" using x parent_lt [of x] by auto
      have h: "x \<noteq> pos \<longrightarrow> key (xs ! x) \<le> key (xs ! parent x)"
        "parent x = pos \<longrightarrow> key (xs ! x) \<le> key (xs ! ?p)"
        using 1(2) x False by (auto simp: heap_up_def)
      show "key (?xs ! x) \<le> key (?xs ! parent x)" if "x \<noteq> ?p"
        using h that p px x False 1(3) by (auto simp: nth_swap_at not_le dest: order.trans)
      show "key (?xs ! x) \<le> key (?xs ! parent ?p)" if "parent x = ?p" "0 < ?p"
      proof -
        have g: "parent ?p < ?p" using parent_lt that(2) by blast
        have "key (xs ! ?p) \<le> key (xs ! parent ?p)"
          using 1(2) p that(2) by (auto simp: heap_up_def)
        with h that g p px x 1(3) show ?thesis by (auto simp: nth_swap_at dest: order.trans)
      qed
    qed
    then have "heap_inv key (sift_up key ?p ?xs) \<and> mset (sift_up key ?p ?xs) = mset ?xs"
      using 1(1) False p by simp
    moreover have "sift_up key pos xs = sift_up key ?p ?xs"
      using False by (subst sift_up.simps) (simp add: Let_def)
    ultimately show ?thesis using mset_swap_at [of pos xs ?p] p 1(3) by simp
  qed
qed

lemma heap_hole_step:
  assumes "heap_hole key i xs" "parent c = i" "0 < c" "c < length xs"
    and "\<And>d. 0 < d \<Longrightarrow> parent d = i \<Longrightarrow> d < length xs \<Longrightarrow> key (xs ! d) \<le> key (xs ! c)"
  shows "heap_hole key c (swap_at i c xs)"
  unfolding heap_hole_def
proof (intro allI impI conjI)
  let ?xs = "swap_at i c xs"
  fix x assume x: "x < length ?xs" "0 < x"
  have i: "i < c" "i < length xs" using parent_lt [of c] assms by auto
  have px: "parent x < length xs" "parent x < x" using x parent_lt [of x] by auto
  have h: "x \<noteq> i \<Longrightarrow> parent x \<noteq> i \<Longrightarrow> key (xs ! x) \<le> key (xs ! parent x)"
    "y < length xs \<Longrightarrow> 0 < y \<Longrightarrow> parent y = i \<Longrightarrow> 0 < i \<Longrightarrow> key (xs ! y) \<le> key (xs ! parent i)" for y
    using assms(1) x by (auto simp: heap_hole_def)
  note n = nth_swap_at [OF i(2) assms(4)]
  show "key (?xs ! x) \<le> key (?xs ! parent x)" if "x \<noteq> c" "parent x \<noteq> c"
  proof -
    consider "x = i" | "x \<noteq> i" "parent x = i" | "x \<noteq> i" "parent x \<noteq> i" by blast
    then show ?thesis
    proof cases
      case 1
      with h(2) [OF assms(4,3,2)] x px that show ?thesis by (simp add: n)
    next
      case 2
      with assms(5) [of x] x px that i show ?thesis by (simp add: n)
    next
      case 3
      with h(1) x px that show ?thesis by (simp add: n)
    qed
  qed
  show "key (?xs ! x) \<le> key (?xs ! parent c)" if "parent x = c"
  proof -
    have "x \<noteq> i" "x \<noteq> c" "parent x \<noteq> i" using that px i by auto
    with h(1) that x px i assms(2) show ?thesis by (simp add: n)
  qed
qed

lemma sift_to_bottom_correct:
  "heap_hole key pos xs \<Longrightarrow> pos < length xs \<Longrightarrow> sift_to_bottom key pos xs = (pos', xs') \<Longrightarrow>
    heap_up key pos' xs' \<and> pos' < length xs' \<and> mset xs' = mset xs"
proof (induction key pos xs rule: sift_to_bottom.induct)
  case (1 key pos xs)
  let ?l = "2 * pos + 1"
  let ?c = "if key (xs ! ?l) \<le> key (xs ! (?l + 1)) then ?l + 1 else ?l"
  have children: "0 < d \<Longrightarrow> parent d = pos \<Longrightarrow> d = ?l \<or> d = ?l + 1" for d by auto
  consider "?l \<le> length xs - 2" | "\<not> ?l \<le> length xs - 2" "?l = length xs - 1"
    | "\<not> ?l \<le> length xs - 2" "?l \<noteq> length xs - 1" by blast
  then show ?case
  proof cases
    case 1
    have "key (xs ! d) \<le> key (xs ! ?c)" if "0 < d" "parent d = pos" for d
      using children [OF that] by auto
    then have "heap_hole key ?c (swap_at pos ?c xs)"
      using 1 by (intro heap_hole_step "1.prems") auto
    moreover have "sift_to_bottom key ?c (swap_at pos ?c xs) = (pos', xs')"
      using "1.prems"(3) 1 by (subst (asm) sift_to_bottom.simps) (simp only: Let_def if_True)
    moreover have "?c < length xs" using 1 by auto
    ultimately show ?thesis
      using "1.IH" [OF refl refl 1 refl] mset_swap_at [OF "1.prems"(2), of ?c] by simp
  next
    case 2
    then have l: "?l < length xs" "\<not> ?l + 1 < length xs" using "1.prems"(2) by auto
    have eq: "pos' = ?l" "xs' = swap_at pos ?l xs"
      using "1.prems"(3) 2 by (subst (asm) sift_to_bottom.simps, simp add: Let_def)+
    have "heap_hole key ?l xs'"
      unfolding eq using l by (intro heap_hole_step "1.prems") (auto dest!: children)
    then have "heap_up key ?l xs'"
      using l by (auto simp: heap_hole_def heap_up_def eq)
    with l eq mset_swap_at [OF "1.prems"(2) l(1)] show ?thesis by simp
  next
    case 3
    then have "\<not> ?l < length xs" using "1.prems"(2) by auto
    moreover have "pos' = pos" "xs' = xs"
      using "1.prems"(3) 3 by (subst (asm) sift_to_bottom.simps, simp add: Let_def)+
    ultimately show ?thesis
      using "1.prems" children by (fastforce simp: heap_hole_def heap_up_def)
  qed
qed

lemma heap_inv_root:
  assumes "heap_inv key xs" "i < length xs"
  shows "key (xs ! i) \<le> key (xs ! 0)"
  using assms(2)
proof (induction i rule: less_induct)
  case (less i)
  show ?case
  proof (cases "i = 0")
    case False
    then have "parent i < i" by (simp add: parent_lt)
    with less have "key (xs ! parent i) \<le> key (xs ! 0)" by simp
    moreover have "key (xs ! i) \<le> key (xs ! parent i)"
      using assms(1) less(2) False by (simp add: heap_inv_def)
    ultimately show ?thesis by simp
  qed simp
qed

lemma heap_push_correct:
  "heap_inv key xs \<Longrightarrow> heap_inv key (heap_push key x xs) \<and> mset (heap_push key x xs) = add_mset x (mset xs)"
proof -
  assume h: "heap_inv key xs"
  have "heap_up key (length xs) (xs @ [x])"
    unfolding heap_up_def
  proof (intro allI impI conjI)
    fix i assume i: "i < length (xs @ [x])" "0 < i"
    have p: "parent i < i" using i(2) by (rule parent_lt)
    show "key ((xs @ [x]) ! i) \<le> key ((xs @ [x]) ! parent i)" if "i \<noteq> length xs"
      using h i p that by (simp add: heap_inv_def nth_append)
    show "key ((xs @ [x]) ! i) \<le> key ((xs @ [x]) ! parent (length xs))" if "parent i = length xs"
      using i p that by simp
  qed
  from sift_up_correct [OF this] show ?thesis by (simp add: heap_push_def)
qed

lemma heap_pop_correct:
  assumes "heap_inv key xs" "heap_pop key xs = (Some x, ys)"
  shows "heap_inv key ys \<and> mset xs = add_mset x (mset ys) \<and> (\<forall>y \<in># mset xs. key y \<le> key x)"
proof -
  have ne: "xs \<noteq> []" using assms(2) by (auto simp: heap_pop_def)
  have bl: "butlast xs ! i = xs ! i" "i < length xs" if "i < length (butlast xs)" for i
    using that by (simp_all add: nth_butlast)
  have x: "x = xs ! 0 \<and> heap_inv key ys \<and> mset xs = add_mset x (mset ys)"
  proof (cases "butlast xs = []")
    case True
    with ne obtain y where "xs = [y]" by (cases xs) (auto split: if_splits)
    with assms(2) show ?thesis by (simp add: heap_pop_def heap_inv_def)
  next
    case False
    define d where "d = (butlast xs)[0 := last xs]"
    obtain pos d' where s: "sift_to_bottom key 0 d = (pos, d')" by fastforce
    have ys: "x = butlast xs ! 0" "ys = sift_up key pos d'"
      using assms(2) ne False s by (auto simp: heap_pop_def Let_def d_def)
    have "heap_hole key 0 d"
      unfolding heap_hole_def
    proof (intro allI impI conjI)
      fix i assume "i < length d" "0 < i" "parent i \<noteq> 0"
      then show "key (d ! i) \<le> key (d ! parent i)"
        using assms(1) bl [of i] bl [of "parent i"] parent_lt [of i]
        by (auto simp: heap_inv_def d_def nth_list_update)
    qed simp
    moreover have "0 < length d" using False by (simp add: d_def del: length_butlast)
    ultimately have "heap_up key pos d' \<and> pos < length d' \<and> mset d' = mset d"
      using s by (rule sift_to_bottom_correct)
    then have b: "heap_up key pos d'" "pos < length d'" "mset d' = mset d" by simp_all
    have "mset d = add_mset (last xs) (mset (butlast xs) - {#butlast xs ! 0#})"
      unfolding d_def using False by (cases "butlast xs") simp_all
    moreover have "butlast xs ! 0 \<in># mset (butlast xs)" using False by (cases "butlast xs") auto
    ultimately have "add_mset x (mset d) = mset (butlast xs @ [last xs])"
      by (simp add: ys add_mset_commute)
    then have "mset xs = add_mset x (mset ys)"
      using sift_up_correct [OF b(1,2)] b(3) ys ne by simp
    moreover have "x = xs ! 0" using False ys bl [of 0] by (simp del: length_butlast)
    ultimately show ?thesis using sift_up_correct [OF b(1,2)] ys(2) by simp
  qed
  moreover have "key y \<le> key (xs ! 0)" if "y \<in> set xs" for y
    using that heap_inv_root [OF assms(1)] by (auto simp: in_set_conv_nth)
  ultimately show ?thesis by (metis set_mset_mset)
qed

interpretation heap: max_queue key "[]" "heap_push key" "heap_pop key" mset "heap_inv key"
proof
  fix q q' :: "'a list" and x
  show "heap_inv key []" by (simp add: heap_inv_def)
  show "heap_inv key (heap_push key x q)" if "heap_inv key q"
    using heap_push_correct [OF that] by simp
  show "mset (heap_push key x q) = add_mset x (mset q)" if "heap_inv key q"
    using heap_push_correct [OF that] by simp
  show "mset q = {#} \<and> q' = q" if "heap_pop key q = (None, q')"
    using that by (cases "q = []") (simp_all add: heap_pop_def Let_def case_prod_unfold split: if_splits)
  show "heap_inv key q' \<and> mset q = add_mset x (mset q') \<and> (\<forall>y \<in># mset q. key y \<le> key x)"
    if "heap_inv key q" "heap_pop key q = (Some x, q')"
    using that by (rule heap_pop_correct)
qed simp

end
