(* ===== verification/Mn_State.thy ===== *)
theory Mn_State
  imports Pdo_Handler Asnd_Payloads Nmt_Machines Dll_Machines Binary_Heap
begin

section \<open>The state of a managing node\<close>

text \<open>
  \<^verbatim>\<open>node/mn/state.rs\<close>, \<^verbatim>\<open>node/mn/config.rs\<close> and \<^verbatim>\<open>node/mn/validation.rs\<close>: what the managing node keeps
  about the controlled nodes, how it reads the node lists from its dictionary, and the checks of the
  boot-up. The configuration manager of the application (\<^verbatim>\<open>trait ConfigurationInterface\<close>) is a
  record of functions.
\<close>

subsection \<open>Nodes\<close>

datatype CnState = Unknown | Identified | PreOperational | Operational | Stopped | Missing

text \<open>The derived \<^verbatim>\<open>PartialOrd\<close> follows the order of the variants.\<close>

primrec CnState_rank :: "CnState \<Rightarrow> nat" where
  "CnState_rank Unknown = 0"
| "CnState_rank Identified = 1"
| "CnState_rank PreOperational = 2"
| "CnState_rank Operational = 3"
| "CnState_rank Stopped = 4"
| "CnState_rank Missing = 5"

lemma CnState_rank_inj: "CnState_rank a = CnState_rank b \<longleftrightarrow> a = b"
  by (cases a; cases b) simp_all

instantiation CnState :: linorder
begin

definition less_eq_CnState :: "CnState \<Rightarrow> CnState \<Rightarrow> bool" where
  "less_eq_CnState a b \<longleftrightarrow> CnState_rank a \<le> CnState_rank b"

definition less_CnState :: "CnState \<Rightarrow> CnState \<Rightarrow> bool" where
  "less_CnState a b \<longleftrightarrow> CnState_rank a < CnState_rank b"

instance
  by standard (auto simp: less_eq_CnState_def less_CnState_def CnState_rank_inj)

end

lemmas cn_state_order = less_eq_CnState_def less_CnState_def

record CnIdentity =
  id_device_type :: u32
  id_vendor_id :: u32
  id_product_code :: u32
  id_revision_no :: u32
  id_serial_no :: u32

datatype SdoState = Idle | InProgress | Done

record CnInfo =
  ci_state :: CnState
  ci_nmt_state :: NmtState
  ci_en_flag :: bool
  ci_ea_flag :: bool
  ci_communication_ok :: bool
  ci_last_pres_time_us :: u64
  ci_dll_errors :: u32
  ci_identity :: "CnIdentity option"
  ci_sdo_state :: SdoState

definition CnInfo_default :: CnInfo where
  "CnInfo_default =
     \<lparr> ci_state = Unknown, ci_nmt_state = NmtNotActive, ci_en_flag = False, ci_ea_flag = False,
       ci_communication_ok = False, ci_last_pres_time_us = 0, ci_dll_errors = 0, ci_identity = None,
       ci_sdo_state = SdoState.Idle \<rparr>"

subsection \<open>The context\<close>

text \<open>The data of an NMT managing command; a host name is the octets of its string.\<close>

datatype NmtCommandData = NoData | HostName bytes | FlushArp NodeId

datatype CyclePhase =
  Idle | SoCSent | IsochronousPReq | IsochronousDone | AsynchronousSoA | AwaitingMnAsyncSend

record AsyncRequest =
  ar_node_id :: NodeId
  ar_priority :: u8

abbreviation async_push :: "AsyncRequest \<Rightarrow> AsyncRequest list \<Rightarrow> AsyncRequest list" where
  "async_push \<equiv> heap_push ar_priority"

abbreviation async_pop :: "AsyncRequest list \<Rightarrow> AsyncRequest option \<times> AsyncRequest list" where
  "async_pop \<equiv> heap_pop ar_priority"

record ConfigurationInterface =
  cfg_get_configuration :: "u8 \<Rightarrow> bytes result"
  cfg_is_software_update_required :: "u8 \<Rightarrow> u32 \<Rightarrow> u32 \<Rightarrow> bool"

record ('h, 's) MnContext =
  mn_core :: "('h, 's) CoreNodeContext"
  mn_configuration_interface :: "ConfigurationInterface option"
  mn_nmt_state_machine :: MnNmtStateMachine
  mn_dll_state_machine :: DllMsStateMachine
  mn_dll_error_manager :: "(MnErrorCounters, unit) DllErrorManager"
  mn_cycle_time_us :: u64
  mn_multiplex_cycle_len :: u8
  mn_multiplex_assign :: "(NodeId, u8) btree"
  mn_publish_config :: "(u8, ServiceId) btree"
  mn_current_multiplex_cycle :: u8
  mn_node_info :: "(NodeId, CnInfo) btree"
  mn_mandatory_nodes :: "NodeId list"
  mn_isochronous_nodes :: "NodeId list"
  mn_async_only_nodes :: "NodeId list"
  mn_arp_cache :: "(IpAddress, MacAddress) btree"
  mn_next_isoch_node_idx :: nat
  mn_current_phase :: CyclePhase
  mn_current_polled_cn :: "NodeId option"
  mn_async_request_queue :: "AsyncRequest list"
  mn_pending_er_requests :: "NodeId list"
  mn_pending_status_requests :: "NodeId list"
  mn_pending_nmt_commands :: "(MnNmtCommandRequest \<times> NodeId \<times> NmtCommandData) list"
  mn_async_send_queue :: "PowerlinkFrame list"
  mn_sdo_client_manager :: SdoClientManager
  mn_last_ident_poll_node_id :: NodeId
  mn_last_status_poll_node_id :: NodeId
  mn_next_tick_us :: "u64 option"
  mn_pending_timeout_event :: "DllMsEvent option"
  mn_current_cycle_start_time_us :: u64
  mn_initial_operational_actions_done :: bool

abbreviation mn_od :: "('h, 's) MnContext \<Rightarrow> 's ObjectDictionary" where
  "mn_od ctx \<equiv> core_od (mn_core ctx)"

abbreviation mn_state :: "('h, 's) MnContext \<Rightarrow> NmtState" where
  "mn_state ctx \<equiv> mn_current_state (mn_nmt_state_machine ctx)"

abbreviation mn_id :: "('h, 's) MnContext \<Rightarrow> NodeId" where
  "mn_id ctx \<equiv> mn_node_id (mn_nmt_state_machine ctx)"

abbreviation mn_mac :: "('h, 's) MnContext \<Rightarrow> MacAddress" where
  "mn_mac ctx \<equiv> core_mac_address (mn_core ctx)"

definition mn_map_od :: "('s ObjectDictionary \<Rightarrow> 's ObjectDictionary) \<Rightarrow> ('h, 's) MnContext \<Rightarrow> ('h, 's) MnContext" where
  "mn_map_od f ctx = ctx\<lparr> mn_core := (mn_core ctx)\<lparr> core_od := f (mn_od ctx) \<rparr> \<rparr>"

abbreviation mn_count_telegram :: "u8 \<Rightarrow> ('h, 's) MnContext \<Rightarrow> ('h, 's) MnContext" where
  "mn_count_telegram sub \<equiv> mn_map_od (\<lambda>od. increment_counter od 0x1101 sub)"

definition mn_raise_nmt :: "NmtEvent \<Rightarrow> ('h, 's) MnContext \<Rightarrow> ('h, 's) MnContext" where
  "mn_raise_nmt event ctx =
     (let (_, m, od) = mn_process_event (mn_nmt_state_machine ctx) event (mn_od ctx)
      in (mn_map_od (\<lambda>_. od) ctx)\<lparr> mn_nmt_state_machine := m \<rparr>)"

text \<open>\<^verbatim>\<open>node_info.get_mut(&node_id)\<close> with an update in place.\<close>

definition update_info :: "NodeId \<Rightarrow> (CnInfo \<Rightarrow> CnInfo) \<Rightarrow> ('h, 's) MnContext \<Rightarrow> ('h, 's) MnContext" where
  "update_info n f ctx = ctx\<lparr> mn_node_info := bt_update n f (mn_node_info ctx) \<rparr>"

definition queue_command ::
  "MnNmtCommandRequest \<Rightarrow> NodeId \<Rightarrow> NmtCommandData \<Rightarrow> ('h, 's) MnContext \<Rightarrow> ('h, 's) MnContext" where
  "queue_command c n d ctx = ctx\<lparr> mn_pending_nmt_commands := mn_pending_nmt_commands ctx @ [(c, n, d)] \<rparr>"

text \<open>\<^verbatim>\<open>Vec::pop\<close>.\<close>

definition vec_pop :: "'a list \<Rightarrow> 'a option \<times> 'a list" where
  "vec_pop xs = (if xs = [] then (None, []) else (Some (last xs), butlast xs))"

definition ip_from_node_id :: "NodeId \<Rightarrow> IpAddress" where
  "ip_from_node_id n = [192, 168, 100, n]"

definition get_cn_mac_address :: "('h, 's) MnContext \<Rightarrow> NodeId \<Rightarrow> MacAddress option" where
  "get_cn_mac_address ctx n = bt_get (mn_arp_cache ctx) (ip_from_node_id n)"

definition node_state :: "(NodeId, CnInfo) btree \<Rightarrow> NodeId \<Rightarrow> CnState" where
  "node_state info n = (case bt_get info n of Some i \<Rightarrow> ci_state i | None \<Rightarrow> Unknown)"

subsection \<open>Configuration\<close>

record NodeLists =
  nl_node_info :: "(NodeId, CnInfo) btree"
  nl_mandatory_nodes :: "NodeId list"
  nl_isochronous_nodes :: "NodeId list"
  nl_async_only_nodes :: "NodeId list"
  nl_multiplex_assign :: "(NodeId, u8) btree"

definition add_node :: "'s ObjectDictionary \<Rightarrow> NodeId \<Rightarrow> u32 \<Rightarrow> NodeLists \<Rightarrow> NodeLists" where
  "add_node od n assignment l =
     (let l = l\<lparr> nl_node_info := bt_insert n CnInfo_default (nl_node_info l) \<rparr>;
          l = (if assignment AND 8 \<noteq> 0
               then l\<lparr> nl_mandatory_nodes := nl_mandatory_nodes l @ [n] \<rparr> else l)
      in if assignment AND 256 = 0 then
           l\<lparr> nl_isochronous_nodes := nl_isochronous_nodes l @ [n],
              nl_multiplex_assign := bt_insert n (unwrap_or (read_u8 od 0x1F9B n) 0) (nl_multiplex_assign l) \<rparr>
         else l\<lparr> nl_async_only_nodes := nl_async_only_nodes l @ [n] \<rparr>)"

definition parse_node_entry :: "'s ObjectDictionary \<Rightarrow> nat \<times> ObjectValue \<Rightarrow> NodeLists \<Rightarrow> NodeLists" where
  "parse_node_entry od e l =
     (let (i, entry) = e; sub_index = (of_nat i :: u8) + 1
      in case entry of
           Unsigned32 assignment \<Rightarrow>
             if assignment AND 1 \<noteq> 0 then
               (case NodeId_try_from sub_index of Inr n \<Rightarrow> add_node od n assignment l | Inl _ \<Rightarrow> l)
             else l
         | _ \<Rightarrow> l)"

definition parse_mn_node_lists :: "'s ObjectDictionary \<Rightarrow> NodeLists result" where
  "parse_mn_node_lists od =
     (case read_object od 0x1F81 of
        Some (Array vals) \<Rightarrow>
          Inr (fold (parse_node_entry od) (enumerate 0 vals)
            \<lparr> nl_node_info = [], nl_mandatory_nodes = [], nl_isochronous_nodes = [], nl_async_only_nodes = [],
              nl_multiplex_assign = [] \<rparr>)
      | _ \<Rightarrow> Inl (ValidationError ''Missing 0x1F81 NMT_NodeAssignment_AU32''))"

definition parse_publish_entry :: "ObjectValue \<Rightarrow> (u8, ServiceId) btree \<Rightarrow> (u8, ServiceId) btree" where
  "parse_publish_entry entry m =
     (case entry of
        Unsigned32 config_val \<Rightarrow>
          (let service_id_byte = (ucast (config_val AND 0xFF) :: u8);
               cycle_num = (ucast (drop_bit 8 config_val AND 0xFF) :: u8)
           in if cycle_num > 0 \<and> service_id_byte > 0 then
                (case ServiceId_try_from service_id_byte of
                   Inr service_id \<Rightarrow> bt_insert cycle_num service_id m
                 | Inl _ \<Rightarrow> m)
              else m)
      | _ \<Rightarrow> m)"

definition parse_publish_config :: "'s ObjectDictionary \<Rightarrow> (u8, ServiceId) btree" where
  "parse_publish_config od =
     (case read_object od 0x1F9E of Some (Array vals) \<Rightarrow> fold parse_publish_entry vals [] | _ \<Rightarrow> [])"

subsection \<open>Validation\<close>

definition expected_value :: "'s ObjectDictionary \<Rightarrow> u16 \<Rightarrow> NodeId \<Rightarrow> u32" where
  "expected_value od index n = unwrap_or (read_u32 od index n) 0"

definition check_identification :: "'s ObjectDictionary \<Rightarrow> NodeId \<Rightarrow> IdentResponsePayload \<Rightarrow> bool" where
  "check_identification od n payload =
     (let differs = (\<lambda>index received. expected_value od index n \<noteq> 0 \<and> received \<noteq> expected_value od index n)
      in \<not> differs 0x1F84 (ir_device_type payload) \<and> \<not> differs 0x1F85 (ir_vendor_id payload) \<and>
         \<not> differs 0x1F86 (ir_product_code payload) \<and> \<not> differs 0x1F87 (ir_revision_number payload))"

definition software_update_required :: "('h, 's) MnContext \<Rightarrow> NodeId \<Rightarrow> IdentResponsePayload \<Rightarrow> bool" where
  "software_update_required ctx n payload =
     (case mn_configuration_interface ctx of
        Some cfg_if \<Rightarrow> cfg_is_software_update_required cfg_if n (ir_app_sw_date payload) (ir_app_sw_time payload)
      | None \<Rightarrow>
          expected_value (mn_od ctx) 0x1F53 n \<noteq> 0 \<and>
          (ir_app_sw_date payload \<noteq> expected_value (mn_od ctx) 0x1F53 n \<or>
           ir_app_sw_time payload \<noteq> expected_value (mn_od ctx) 0x1F54 n))"

definition config_mismatch :: "'s ObjectDictionary \<Rightarrow> NodeId \<Rightarrow> IdentResponsePayload \<Rightarrow> bool" where
  "config_mismatch od n payload \<longleftrightarrow>
     expected_value od 0x1F26 n \<noteq> 0 \<and>
     (ir_verify_conf_date payload \<noteq> expected_value od 0x1F26 n \<or>
      ir_verify_conf_time payload \<noteq> expected_value od 0x1F27 n)"

text \<open>The download of the configuration that the application provides.\<close>

definition remediate :: "NodeId \<Rightarrow> u64 \<Rightarrow> ('h, 's) MnContext \<Rightarrow> ('h, 's) MnContext" where
  "remediate n current_time_us ctx =
     (case mn_configuration_interface ctx of
        None \<Rightarrow> ctx
      | Some cfg_if \<Rightarrow>
          (case cfg_get_configuration cfg_if n of
             Inl _ \<Rightarrow> ctx
           | Inr concise_dcf \<Rightarrow>
               let (r, m) = start_configuration_download (mn_sdo_client_manager ctx) n concise_dcf
                              current_time_us (mn_od ctx);
                   ctx = ctx\<lparr> mn_sdo_client_manager := m \<rparr>
               in case r of
                    Inr _ \<Rightarrow> update_info n (\<lambda>i. i\<lparr> ci_sdo_state := InProgress \<rparr>) ctx
                  | Inl _ \<Rightarrow> ctx))"

definition validate_boot_step1_checks ::
  "('h, 's) MnContext \<Rightarrow> NodeId \<Rightarrow> IdentResponsePayload \<Rightarrow> u64 \<Rightarrow> bool \<times> ('h, 's) MnContext" where
  "validate_boot_step1_checks ctx n payload current_time_us =
     (let startup_flags = unwrap_or (read_u32 (mn_od ctx) 0x1F80 0) 0
      in if \<not> check_identification (mn_od ctx) n payload then (False, ctx)
         else if startup_flags AND 0x400 \<noteq> 0 \<and> software_update_required ctx n payload then (False, ctx)
         else if startup_flags AND 0x800 \<noteq> 0 \<and> config_mismatch (mn_od ctx) n payload
         then (False, remediate n current_time_us ctx)
         else (True, ctx))"

definition check_all_mandatory_identified :: "NodeId list \<Rightarrow> (NodeId, CnInfo) btree \<Rightarrow> bool" where
  "check_all_mandatory_identified mandatory info \<longleftrightarrow>
     list_all (\<lambda>n. Identified \<le> node_state info n \<and> node_state info n \<le> Operational) mandatory"

definition check_all_mandatory_preop :: "NodeId list \<Rightarrow> (NodeId, CnInfo) btree \<Rightarrow> bool" where
  "check_all_mandatory_preop mandatory info \<longleftrightarrow>
     list_all (\<lambda>n. PreOperational \<le> node_state info n \<and> node_state info n \<le> Operational) mandatory"

definition check_all_mandatory_comm_verified :: "NodeId list \<Rightarrow> (NodeId, CnInfo) btree \<Rightarrow> bool" where
  "check_all_mandatory_comm_verified mandatory info \<longleftrightarrow>
     list_all (\<lambda>n. case bt_get info n of Some i \<Rightarrow> ci_communication_ok i | None \<Rightarrow> False) mandatory"

end
