(* ===== verification/Mn_Payload.thy ===== *)
theory Mn_Payload
  imports Mn_State
begin

section \<open>The frames a managing node sends\<close>

text \<open>
  \<^verbatim>\<open>node/mn/payload.rs\<close>: SoC, PReq with the process data for the polled node, SoA, and the ASnd
  frames with NMT commands, NMT information and SDO requests.
\<close>

subsection \<open>SoC and PReq\<close>

definition cycle_net_time :: "('h, 's) MnContext \<Rightarrow> NetTime" where
  "cycle_net_time ctx =
     \<lparr> nt_seconds = ucast (mn_current_cycle_start_time_us ctx div 1000000),
       nt_nanoseconds = ucast ((mn_current_cycle_start_time_us ctx mod 1000000) * 1000) \<rparr>"

definition build_soc_frame :: "('h, 's) MnContext \<Rightarrow> u8 \<Rightarrow> u8 \<Rightarrow> PowerlinkFrame" where
  "build_soc_frame ctx current_multiplex_cycle multiplex_cycle_len =
     FSoc (SocFrame_new (mn_mac ctx)
       \<lparr> soc_mc = (multiplex_cycle_len > 0 \<and> current_multiplex_cycle = 0), soc_ps = False \<rparr>
       (cycle_net_time ctx) \<lparr> rt_seconds = 0, rt_nanoseconds = 0 \<rparr>)"

text \<open>The frame that is returned when a frame cannot be built.\<close>

definition dummy_soc :: "MacAddress \<Rightarrow> PowerlinkFrame" where
  "dummy_soc mac = FSoc (SocFrame_new mac \<lparr> soc_mc = False, soc_ps = False \<rparr>
     \<lparr> nt_seconds = 0, nt_nanoseconds = 0 \<rparr> \<lparr> rt_seconds = 0, rt_nanoseconds = 0 \<rparr>)"

text \<open>One entry of the mapping; a value of another length is cut or leaves the rest of its field zero.\<close>

definition mn_apply_tpdo_entry ::
  "nat \<Rightarrow> PdoMappingEntry \<Rightarrow> bytes \<Rightarrow> ('h, 's) CoreNodeContext \<Rightarrow> bytes result \<times> ('h, 's) CoreNodeContext" where
  "mn_apply_tpdo_entry payload_limit entry payload core =
     (case (byte_offset entry, byte_length entry) of
        (Some offset, Some len) \<Rightarrow>
          if offset + len > payload_limit then (Inl PdoMapOverrun, core)
          else if 0x1200 \<le> pm_index entry \<and> pm_index entry \<le> 0x127F then
            (let (response_payload, srv) =
                   get_pending_response (core_embedded_sdo_server core) (pm_index entry) len
             in (Inr (put offset response_payload payload), core\<lparr> core_embedded_sdo_server := srv \<rparr>))
          else if 0x1280 \<le> pm_index entry \<and> pm_index entry \<le> 0x12FF then
            (let (request_payload, cl) =
                   ec_get_pending_request (core_embedded_sdo_client core) (pm_index entry) len
             in (Inr (put offset request_payload payload), core\<lparr> core_embedded_sdo_client := cl \<rparr>))
          else
            (case od_read (core_od core) (pm_index entry) (pm_sub_index entry) of
               None \<Rightarrow> (Inr payload, core)
             | Some v \<Rightarrow>
                 let serialized_data = value_serialize v;
                     copy_len = min (length serialized_data) len
                 in (Inr (put offset (take copy_len serialized_data) payload), core))
      | _ \<Rightarrow> (Inr payload, core))"

fun mn_apply_tpdo_entries ::
  "nat \<Rightarrow> PdoMappingEntry list \<Rightarrow> bytes \<Rightarrow> ('h, 's) CoreNodeContext \<Rightarrow> bytes result \<times> ('h, 's) CoreNodeContext" where
  "mn_apply_tpdo_entries payload_limit [] payload core = (Inr payload, core)"
| "mn_apply_tpdo_entries payload_limit (e # es) payload core =
     (case mn_apply_tpdo_entry payload_limit e payload core of
        (Inl err, core) \<Rightarrow> (Inl err, core)
      | (Inr payload, core) \<Rightarrow> mn_apply_tpdo_entries payload_limit es payload core)"

text \<open>The readable 64-bit entries of a mapping object, in order.\<close>

definition mn_tpdo_entries :: "'s ObjectDictionary \<Rightarrow> u16 \<Rightarrow> u8 \<Rightarrow> PdoMappingEntry list" where
  "mn_tpdo_entries od mapping_index num_entries =
     List.map_filter (\<lambda>i. case od_read od mapping_index (of_nat i) of
        Some (Unsigned64 raw_mapping) \<Rightarrow> Some (PdoMappingEntry_from_u64 raw_mapping)
      | _ \<Rightarrow> None) [1..<Suc (unat num_entries)]"

definition preq_payload_limit :: "'s ObjectDictionary \<Rightarrow> NodeId \<Rightarrow> nat" where
  "preq_payload_limit od n = min (unat (unwrap_or (read_u16 od 0x1F8B n) 36)) (unat C_DLL_ISOCHR_MAX_PAYL)"

definition mn_build_tpdo_payload ::
  "u8 \<Rightarrow> ('h, 's) CoreNodeContext \<Rightarrow> (bytes \<times> PDOVersion) result \<times> ('h, 's) CoreNodeContext" where
  "mn_build_tpdo_payload channel_index core =
     (let comm_param_index = 0x1800 + ucast channel_index;
          mapping_index = 0x1A00 + ucast channel_index;
          od = core_od core;
          target_node_id = unwrap_or (read_u8 od comm_param_index 1) 0;
          pdo_version = unwrap_or (read_u8 od comm_param_index 2) 0;
          payload_limit = preq_payload_limit od target_node_id;
          payload = replicate payload_limit 0;
          num_entries = (case od_read od mapping_index 0 of Some (Unsigned8 num) \<Rightarrow> num | _ \<Rightarrow> 0);
          (r, core) = mn_apply_tpdo_entries payload_limit (mn_tpdo_entries od mapping_index num_entries) payload core
      in (rbind r (\<lambda>payload. Inr (payload, pdo_version)), core))"

text \<open>The transmit channel that is configured for a node.\<close>

definition tpdo_channel :: "'s ObjectDictionary \<Rightarrow> NodeId \<Rightarrow> nat option" where
  "tpdo_channel od n = find (\<lambda>i. read_u8 od (0x1800 + of_nat i) 1 = Some n) [0..<256]"

definition build_preq_frame :: "NodeId \<Rightarrow> bool \<Rightarrow> ('h, 's) MnContext \<Rightarrow> PowerlinkFrame \<times> ('h, 's) MnContext" where
  "build_preq_frame n is_multiplexed ctx =
     (case get_cn_mac_address ctx n of
        None \<Rightarrow> (dummy_soc (mn_mac ctx), ctx)
      | Some dest_mac \<Rightarrow>
          let (r, core) = (case tpdo_channel (mn_od ctx) n of
                 None \<Rightarrow> (Inr ([], 0), mn_core ctx)
               | Some channel \<Rightarrow> mn_build_tpdo_payload (of_nat channel) (mn_core ctx));
              ctx = ctx\<lparr> mn_core := core \<rparr>
          in case r of
               Inr (payload, pdo_version) \<Rightarrow>
                 let flags = \<lparr> preq_ms = is_multiplexed,
                       preq_ea = (case bt_get (mn_node_info ctx) n of Some info \<Rightarrow> ci_ea_flag info | None \<Rightarrow> False),
                       preq_rd = (mn_state ctx = NmtOperational) \<rparr>
                 in (FPReq (PReqFrame_new (mn_mac ctx) dest_mac n flags pdo_version payload), ctx)
             | Inl _ \<Rightarrow> (dummy_soc (mn_mac ctx), ctx))"

subsection \<open>SoA\<close>

definition build_soa_frame :: "('h, 's) MnContext \<Rightarrow> RequestedServiceId \<Rightarrow> NodeId \<Rightarrow> bool \<Rightarrow> PowerlinkFrame" where
  "build_soa_frame ctx req_service target_node set_er_flag =
     FSoA (SoAFrame_new (mn_mac ctx) (mn_state ctx) \<lparr> soa_ea = False, soa_er = set_er_flag \<rparr> req_service target_node
       (unwrap_or (read_u8 (mn_od ctx) 0x1F83 0) 0x15))"

subsection \<open>ASnd\<close>

primrec nmt_command_payload :: "u8 \<Rightarrow> NmtCommandData \<Rightarrow> bytes" where
  "nmt_command_payload command_u8 NoData = [command_u8, 0]"
| "nmt_command_payload command_u8 (HostName hostname) =
     (let payload = [command_u8, 0] @ take (min (length hostname) 32) hostname
      in payload @ replicate (34 - length payload) 0)"
| "nmt_command_payload command_u8 (FlushArp flush_target_node) = [command_u8, 0, flush_target_node]"

definition build_nmt_command_frame ::
  "('h, 's) MnContext \<Rightarrow> MnNmtCommandRequest \<Rightarrow> NodeId \<Rightarrow> NmtCommandData \<Rightarrow> PowerlinkFrame" where
  "build_nmt_command_frame ctx command target_node_id command_data =
     (case (if target_node_id = C_ADR_BROADCAST_NODE_ID then Some C_DLL_MULTICAST_ASND
            else get_cn_mac_address ctx target_node_id) of
        None \<Rightarrow> dummy_soc (mn_mac ctx)
      | Some dest_mac \<Rightarrow>
          FASnd (ASndFrame_new (mn_mac ctx) dest_mac target_node_id C_ADR_MN_DEF_NODE_ID NmtCommand
            (nmt_command_payload (MnNmtCommandRequest_as_u8 command) command_data)))"

definition build_publish_time_payload :: "('h, 's) MnContext \<Rightarrow> bytes" where
  "build_publish_time_payload ctx =
     le32 (nt_seconds (cycle_net_time ctx)) @ le32 (nt_nanoseconds (cycle_net_time ctx))"

definition build_node_state_payload :: "('h, 's) MnContext \<Rightarrow> bytes" where
  "build_node_state_payload ctx =
     fold (\<lambda>(n, info) payload.
         let idx = unat (n - 1)
         in if idx < length payload then payload[idx := NmtState_u8 (ci_nmt_state info)] else payload)
       (mn_node_info ctx) (replicate 239 0)"

definition set_node_bit :: "NodeId \<Rightarrow> bytes \<Rightarrow> bytes" where
  "set_node_bit n bs =
     (if n = 0 \<or> n > 254 then bs
      else
        let byte_index = unat (n - 1) div 8; bit_index = unat (n - 1) mod 8
        in if byte_index < length bs then bs[byte_index := bs ! byte_index OR push_bit bit_index 1] else bs)"

definition build_node_list_payload :: "('h, 's) MnContext \<Rightarrow> (CnInfo \<Rightarrow> bool) \<Rightarrow> bytes" where
  "build_node_list_payload ctx p =
     (let bs = fold (\<lambda>(n, info) bs. if p info then set_node_bit n bs else bs) (mn_node_info ctx) (replicate 32 0)
      in if mn_state ctx \<ge> NmtPreOperational1 \<and> p (CnInfo_default\<lparr> ci_state := Operational \<rparr>)
         then set_node_bit (mn_id ctx) bs else bs)"

definition nmt_info_payload :: "('h, 's) MnContext \<Rightarrow> ServiceId \<Rightarrow> bytes" where
  "nmt_info_payload ctx service_id =
     (case service_id of
        NMTPublishTime \<Rightarrow> build_publish_time_payload ctx
      | NMTPublishNMTState \<Rightarrow> [NmtState_u8 (mn_state ctx)]
      | NMTPublishNodeState \<Rightarrow> build_node_state_payload ctx
      | NMTPublishNodeList \<Rightarrow> build_node_list_payload ctx (\<lambda>info. Identified \<le> ci_state info)
      | NMTPublishActiveNodes \<Rightarrow> build_node_list_payload ctx (\<lambda>info. ci_state info = Operational)
      | NMTPublishEmergNew \<Rightarrow> build_node_list_payload ctx ci_en_flag
      | NMTPublishHeartbeat \<Rightarrow> replicate 32 0
      | _ \<Rightarrow> [])"

definition build_nmt_info_frame :: "('h, 's) MnContext \<Rightarrow> ServiceId \<Rightarrow> PowerlinkFrame" where
  "build_nmt_info_frame ctx service_id =
     FASnd (ASndFrame_new (mn_mac ctx) C_DLL_MULTICAST_ASND C_ADR_BROADCAST_NODE_ID C_ADR_MN_DEF_NODE_ID service_id
       (nmt_info_payload ctx service_id))"

definition build_sdo_asnd_request ::
  "('h, 's) MnContext \<Rightarrow> NodeId \<Rightarrow> SequenceLayerHeader \<Rightarrow> SdoCommand \<Rightarrow> PowerlinkFrame result" where
  "build_sdo_asnd_request ctx target_node_id seq_header cmd =
     (case get_cn_mac_address ctx target_node_id of
        None \<Rightarrow> Inl (InternalError ''Missing CN MAC address'')
      | Some dest_mac \<Rightarrow>
          rbind (serialize_sdo_asnd_payload seq_header cmd) (\<lambda>sdo_payload.
            Inr (FASnd (ASndFrame_new (mn_mac ctx) dest_mac target_node_id C_ADR_MN_DEF_NODE_ID Sdo sdo_payload))))"

end
