(* ===== verification/Mn_Scheduler.thy ===== *)
theory Mn_Scheduler
  imports Mn_Payload
begin

section \<open>The scheduler of the managing node\<close>

text \<open>
  \<^verbatim>\<open>node/mn/scheduler.rs\<close>: who is polled next in the isochronous phase, who gets the asynchronous
  slot, and when the boot-up goes on. The search for a node to identify is a loop that need not end;
  a call that does not return, by this loop or by a panic of the SDO client, is \<open>None\<close>.
\<close>

subsection \<open>Searches\<close>

definition unidentified :: "(NodeId, CnInfo) btree \<Rightarrow> NodeId \<Rightarrow> bool" where
  "unidentified info n =
     (case bt_get info n of Some i \<Rightarrow> ci_state i = Unknown \<or> ci_state i = Missing | None \<Rightarrow> False)"

partial_function (option) identify_loop ::
  "(NodeId, CnInfo) btree \<Rightarrow> u8 \<Rightarrow> bool \<Rightarrow> u8 \<Rightarrow> NodeId option option" where
  "identify_loop info start_node_id_val wrapped_around current =
     (let current = (if current = 0 \<or> current > 239 then 1 else current)
      in if current = start_node_id_val \<and> wrapped_around then Some None
         else if unidentified info current then Some (Some current)
         else identify_loop info start_node_id_val
                (wrapped_around \<or> current = start_node_id_val) (current + 1))"

declare identify_loop.simps [code]

definition find_next_node_to_identify :: "('h, 's) MnContext \<Rightarrow> (NodeId option \<times> ('h, 's) MnContext) option" where
  "find_next_node_to_identify ctx =
     (let start_node_id_val = mn_last_ident_poll_node_id ctx + 1
      in map_option (\<lambda>r. (r, case r of Some n \<Rightarrow> ctx\<lparr> mn_last_ident_poll_node_id := n \<rparr> | None \<Rightarrow> ctx))
           (identify_loop (mn_node_info ctx) start_node_id_val False start_node_id_val))"

text \<open>\<^verbatim>\<open>iter().position(p)\<close>.\<close>

fun position :: "('a \<Rightarrow> bool) \<Rightarrow> 'a list \<Rightarrow> nat option" where
  "position p [] = None"
| "position p (x # xs) = (if p x then Some 0 else map_option Suc (position p xs))"

definition find_next_async_only_to_poll :: "('h, 's) MnContext \<Rightarrow> NodeId option \<times> ('h, 's) MnContext" where
  "find_next_async_only_to_poll ctx =
     (let nodes = mn_async_only_nodes ctx
      in if nodes = [] then (None, ctx)
         else
           let start_idx = (case position (\<lambda>n. n = mn_last_status_poll_node_id ctx) nodes of
                  None \<Rightarrow> 0 | Some i \<Rightarrow> (i + 1) mod length nodes);
               pollable = (\<lambda>n. case bt_get (mn_node_info ctx) n of
                  Some info \<Rightarrow> ci_state info \<noteq> Missing | None \<Rightarrow> False)
           in case find pollable (map (\<lambda>i. nodes ! ((start_idx + i) mod length nodes)) [0..<length nodes]) of
                Some n \<Rightarrow> (Some n, ctx\<lparr> mn_last_status_poll_node_id := n \<rparr>)
              | None \<Rightarrow> (None, ctx))"

subsection \<open>The isochronous phase\<close>

definition assigned_cycle :: "('h, 's) MnContext \<Rightarrow> NodeId \<Rightarrow> u8" where
  "assigned_cycle ctx n = unwrap_or (bt_get (mn_multiplex_assign ctx) n) 0"

definition should_poll :: "('h, 's) MnContext \<Rightarrow> u8 \<Rightarrow> NodeId \<Rightarrow> bool" where
  "should_poll ctx current_multiplex_cycle n \<longleftrightarrow>
     assigned_cycle ctx n = 0 \<or>
     mn_multiplex_cycle_len ctx > 0 \<and> assigned_cycle ctx n = current_multiplex_cycle + 1"

definition isochronous_state :: "('h, 's) MnContext \<Rightarrow> NodeId \<Rightarrow> bool" where
  "isochronous_state ctx n \<longleftrightarrow>
     PreOperational \<le> node_state (mn_node_info ctx) n \<and> node_state (mn_node_info ctx) n \<noteq> Stopped"

function get_next_isochronous_node_to_poll ::
  "('h, 's) MnContext \<Rightarrow> u8 \<Rightarrow> NodeId option \<times> ('h, 's) MnContext" where
  "get_next_isochronous_node_to_poll ctx current_multiplex_cycle =
     (if mn_next_isoch_node_idx ctx < length (mn_isochronous_nodes ctx) then
        (let n = mn_isochronous_nodes ctx ! mn_next_isoch_node_idx ctx;
             ctx = ctx\<lparr> mn_next_isoch_node_idx := mn_next_isoch_node_idx ctx + 1 \<rparr>
         in if should_poll ctx current_multiplex_cycle n \<and> isochronous_state ctx n then (Some n, ctx)
            else get_next_isochronous_node_to_poll ctx current_multiplex_cycle)
      else (None, ctx))"
  by pat_completeness auto

termination
  by (relation "measure (\<lambda>(ctx, _). length (mn_isochronous_nodes ctx) - mn_next_isoch_node_idx ctx)") auto

declare get_next_isochronous_node_to_poll.simps [simp del]

definition has_more_isochronous_nodes :: "('h, 's) MnContext \<Rightarrow> u8 \<Rightarrow> bool" where
  "has_more_isochronous_nodes ctx current_multiplex_cycle \<longleftrightarrow>
     list_ex (\<lambda>idx. let n = mn_isochronous_nodes ctx ! idx
         in should_poll ctx current_multiplex_cycle n \<and> isochronous_state ctx n)
       [mn_next_isoch_node_idx ctx ..< length (mn_isochronous_nodes ctx)]"

definition schedule_timeout :: "u64 \<Rightarrow> DllMsEvent \<Rightarrow> ('h, 's) MnContext \<Rightarrow> ('h, 's) MnContext" where
  "schedule_timeout deadline_us event ctx =
     (let ctx = ctx\<lparr> mn_pending_timeout_event := Some event \<rparr>
      in case mn_next_tick_us ctx of
           Some existing_deadline \<Rightarrow>
             if deadline_us < existing_deadline then ctx\<lparr> mn_next_tick_us := Some deadline_us \<rparr> else ctx
         | None \<Rightarrow> ctx\<lparr> mn_next_tick_us := Some deadline_us \<rparr>)"

subsection \<open>The asynchronous slot\<close>

type_synonym async_action = "RequestedServiceId \<times> NodeId \<times> bool"

abbreviation invite_self :: async_action where
  "invite_self \<equiv> (UnspecifiedInvite, C_ADR_MN_DEF_NODE_ID, False)"

text \<open>The headers are written into the empty slice of a new vector: both calls fail, and their
  errors are dropped.\<close>

definition scheduled_sdo_payload :: "SequenceLayerHeader \<Rightarrow> SdoCommand \<Rightarrow> bytes" where
  "scheduled_sdo_payload s cmd =
     (let (_, buf) = SequenceLayerHeader_serialize s []; (_, buf) = SdoCommand_serialize cmd buf in buf)"

definition schedule_sdo_request ::
  "NodeId \<Rightarrow> SequenceLayerHeader \<Rightarrow> SdoCommand \<Rightarrow> ('h, 's) MnContext \<Rightarrow> ('h, 's) MnContext" where
  "schedule_sdo_request target_node_id s cmd ctx =
     (let dest_mac = unwrap_or (get_cn_mac_address ctx target_node_id) C_DLL_MULTICAST_ASND
      in ctx\<lparr> mn_async_send_queue := mn_async_send_queue ctx @
           [FASnd (ASndFrame_new (mn_mac ctx) dest_mac target_node_id C_ADR_MN_DEF_NODE_ID Sdo
              (scheduled_sdo_payload s cmd))] \<rparr>)"

text \<open>The last priorities: an announcement of the managing node, a request of a controlled node.\<close>

definition background_action :: "('h, 's) MnContext \<Rightarrow> async_action \<times> ('h, 's) MnContext" where
  "background_action ctx =
     (case (if mn_async_send_queue ctx = [] then bt_get (mn_publish_config ctx) (mn_current_multiplex_cycle ctx)
            else None) of
        Some service_id \<Rightarrow>
          (invite_self,
           ctx\<lparr> mn_async_send_queue := mn_async_send_queue ctx @ [build_nmt_info_frame ctx service_id] \<rparr>)
      | None \<Rightarrow>
          (case async_pop (mn_async_request_queue ctx) of
             (Some request, q) \<Rightarrow>
               ((if ar_priority request = 7 then NmtRequestInvite else UnspecifiedInvite, ar_node_id request, False),
                ctx\<lparr> mn_async_request_queue := q \<rparr>)
           | (None, _) \<Rightarrow> ((NoService, 0, False), ctx)))"

definition poll_action :: "('h, 's) MnContext \<Rightarrow> (async_action \<times> ('h, 's) MnContext) option" where
  "poll_action ctx =
     (case find_next_node_to_identify ctx of
        None \<Rightarrow> None
      | Some (Some n, ctx) \<Rightarrow> Some ((RequestedServiceId.IdentRequest, n, False), ctx)
      | Some (None, ctx) \<Rightarrow>
          (case find_next_async_only_to_poll ctx of
             (Some n, ctx) \<Rightarrow> Some ((RequestedServiceId.StatusRequest, n, False), ctx)
           | (None, ctx) \<Rightarrow> Some (background_action ctx)))"

definition determine_next_async_action ::
  "('h, 's) MnContext \<Rightarrow> (async_action \<times> ('h, 's) MnContext) option" where
  "determine_next_async_action ctx =
     (case vec_pop (mn_pending_er_requests ctx) of
        (Some n, q) \<Rightarrow> Some ((RequestedServiceId.StatusRequest, n, True), ctx\<lparr> mn_pending_er_requests := q \<rparr>)
      | (None, _) \<Rightarrow>
          (case vec_pop (mn_pending_status_requests ctx) of
             (Some n, q) \<Rightarrow>
               Some ((RequestedServiceId.StatusRequest, n, False), ctx\<lparr> mn_pending_status_requests := q \<rparr>)
           | (None, _) \<Rightarrow>
               if mn_pending_nmt_commands ctx \<noteq> [] \<or> mn_async_send_queue ctx \<noteq> [] then Some (invite_self, ctx)
               else
                 (case cm_get_pending_request (mn_sdo_client_manager ctx) (mn_current_cycle_start_time_us ctx)
                         (mn_od ctx) of
                    None \<Rightarrow> None
                  | Some (Some (target_node_id, s, cmd), m) \<Rightarrow>
                      Some (invite_self, schedule_sdo_request target_node_id s cmd
                        (ctx\<lparr> mn_sdo_client_manager := m \<rparr>))
                  | Some (None, m) \<Rightarrow> poll_action (ctx\<lparr> mn_sdo_client_manager := m \<rparr>))))"

subsection \<open>Boot-up\<close>

definition queue_ready_commands :: "('h, 's) MnContext \<Rightarrow> ('h, 's) MnContext" where
  "queue_ready_commands ctx =
     ctx\<lparr> mn_pending_nmt_commands := mn_pending_nmt_commands ctx @
        List.map_filter (\<lambda>(n, info). if ci_state info = Identified
           then Some (State NmtStateCommand.EnableReadyToOperate, n, NoData) else None) (mn_node_info ctx) \<rparr>"

definition check_bootup_state :: "('h, 's) MnContext \<Rightarrow> ('h, 's) MnContext" where
  "check_bootup_state ctx =
     (let startup_flags = mn_startup_flags (mn_nmt_state_machine ctx)
      in if mn_state ctx = NmtPreOperational1 then
           (if check_all_mandatory_identified (mn_mandatory_nodes ctx) (mn_node_info ctx)
            then queue_ready_commands (mn_raise_nmt AllCnsIdentified ctx) else ctx)
         else if mn_state ctx = NmtPreOperational2 then
           (if check_all_mandatory_preop (mn_mandatory_nodes ctx) (mn_node_info ctx) \<and> startup_flags AND 0x100 = 0
            then mn_raise_nmt ConfigurationCompleteCnsReady ctx else ctx)
         else if mn_state ctx = NmtReadyToOperate then
           (if check_all_mandatory_comm_verified (mn_mandatory_nodes ctx) (mn_node_info ctx) \<and> startup_flags AND 4 = 0
            then mn_raise_nmt AllMandatoryCnsOperational ctx else ctx)
         else ctx)"

end
