(* ===== verification/Mn_Node.thy ===== *)
theory Mn_Node
  imports Mn_Scheduler Cn_Node
begin

section \<open>The managing node\<close>

text \<open>
  \<^verbatim>\<open>node/mn/events.rs\<close>, \<^verbatim>\<open>node/mn/cycle.rs\<close>, \<^verbatim>\<open>node/mn/tick.rs\<close> and \<^verbatim>\<open>node/mn/main.rs\<close>: received frames,
  the phases of the cycle, the timers and the interface to the application. Times are 64-bit words with
  wrapping arithmetic, as in a release build. A call that does not return is \<open>None\<close>.
\<close>

definition send :: "PowerlinkFrame \<Rightarrow> NodeAction" where
  "send frame = (case serialize_frame_action frame False of Inr action \<Rightarrow> action | Inl _ \<Rightarrow> NoAction)"

subsection \<open>Events of the DLL\<close>

definition mn_log_handle ::
  "DllError \<Rightarrow> (MnErrorCounters, unit) DllErrorManager \<Rightarrow>
     (NmtAction \<times> bool) \<times> (MnErrorCounters, unit) DllErrorManager" where
  "mn_log_handle error m = manager_handle_error (mn_handle_error (\<lambda>h e. h)) m error"

definition mn_handle_dll_error :: "NodeId \<Rightarrow> DllError \<Rightarrow> ('h, 's) MnContext \<Rightarrow> ('h, 's) MnContext" where
  "mn_handle_dll_error reporting_node_id error ctx =
     (let error_with_node = (case error of LossOfPres _ \<Rightarrow> LossOfPres reporting_node_id | _ \<Rightarrow> error);
          ((nmt_action, _), m) = mn_log_handle error_with_node (mn_dll_error_manager ctx);
          ctx = ctx\<lparr> mn_dll_error_manager := m \<rparr>
      in case nmt_action of
           NmtAction.ResetNode n \<Rightarrow>
             queue_command (State NmtStateCommand.ResetNode) n NoData
               (update_info n (\<lambda>info. info\<lparr> ci_state := Missing \<rparr>) ctx)
         | NmtAction.ResetCommunication \<Rightarrow> (mn_raise_nmt NmtEvent.Error ctx)\<lparr> mn_current_phase := CyclePhase.Idle \<rparr>
         | None' \<Rightarrow> ctx)"

definition mn_handle_dll_event :: "DllMsEvent \<Rightarrow> PowerlinkFrame \<Rightarrow> ('h, 's) MnContext \<Rightarrow> ('h, 's) MnContext" where
  "mn_handle_dll_event event frame_context ctx =
     (let reporting_node_id = (case frame_context of
            FPRes f \<Rightarrow> pres_source f
          | FASnd f \<Rightarrow> asnd_source f
          | _ \<Rightarrow> unwrap_or (mn_current_polled_cn ctx) 0);
          flags = \<lparr> response_expected = (event = DllMsEvent.Pres \<or> event = DllMsEvent.Asnd),
                    async_in = (mn_async_request_queue ctx \<noteq> []), async_out = (mn_async_send_queue ctx \<noteq> []),
                    isochr = (has_more_isochronous_nodes ctx (mn_current_multiplex_cycle ctx) \<or>
                              mn_current_phase ctx = IsochronousPReq),
                    isochr_out = False, dest_node_id = reporting_node_id \<rparr>;
          (m, errors) = ms_process_event (mn_dll_state_machine ctx) event (mn_state ctx) flags
      in fold (mn_handle_dll_error reporting_node_id) (unwrap_or errors []) (ctx\<lparr> mn_dll_state_machine := m \<rparr>))"

subsection \<open>The cycle\<close>

text \<open>The isochronous branch of \<^verbatim>\<open>advance_cycle_phase\<close>.\<close>

definition poll_node :: "NodeId \<Rightarrow> u64 \<Rightarrow> ('h, 's) MnContext \<Rightarrow> NodeAction \<times> ('h, 's) MnContext" where
  "poll_node n current_time_us ctx =
     (let ctx = ctx\<lparr> mn_current_polled_cn := Some n, mn_current_phase := IsochronousPReq \<rparr>;
          timeout_ns = (ucast (unwrap_or (read_u32 (mn_od ctx) 0x1F92 n) 25000) :: u64);
          ctx = schedule_timeout (current_time_us + timeout_ns div 1000) PresTimeout ctx;
          (frame, ctx) = build_preq_frame n (assigned_cycle ctx n > 0) ctx
      in (send frame, mn_count_telegram 3 ctx))"

text \<open>The SoA that grants the asynchronous slot.\<close>

definition grant_slot :: "async_action \<Rightarrow> u64 \<Rightarrow> ('h, 's) MnContext \<Rightarrow> NodeAction \<times> ('h, 's) MnContext" where
  "grant_slot act current_time_us ctx =
     (let (req_service, target_node, set_er_flag) = act;
          ctx = (if target_node \<noteq> C_ADR_MN_DEF_NODE_ID \<and> req_service \<noteq> NoService then
                   (let timeout_ns = (ucast (unwrap_or (read_u32 (mn_od ctx) 0x1F8A 2) 100000) :: u64)
                    in schedule_timeout (current_time_us + timeout_ns div 1000) AsndTimeout
                         (ctx\<lparr> mn_current_phase := AsynchronousSoA \<rparr>))
                 else if target_node = C_ADR_MN_DEF_NODE_ID then ctx\<lparr> mn_current_phase := AwaitingMnAsyncSend \<rparr>
                 else ctx\<lparr> mn_current_phase := CyclePhase.Idle \<rparr>);
          ctx = mn_count_telegram 5 ctx;
          ctx = (if req_service = RequestedServiceId.StatusRequest then mn_count_telegram 8 ctx else ctx)
      in (send (build_soa_frame ctx req_service target_node set_er_flag), ctx))"

definition asynchronous_phase :: "u64 \<Rightarrow> ('h, 's) MnContext \<Rightarrow> (NodeAction \<times> ('h, 's) MnContext) option" where
  "asynchronous_phase current_time_us ctx =
     (let ctx = ctx\<lparr> mn_current_polled_cn := None, mn_current_phase := IsochronousDone \<rparr>
      in case bt_get (mn_publish_config ctx) (mn_current_multiplex_cycle ctx + 1) of
           Some service_id \<Rightarrow>
             (let ctx = mn_count_telegram 5 (ctx\<lparr> mn_current_phase := CyclePhase.Idle \<rparr>)
              in Some (send (build_nmt_info_frame ctx service_id), ctx))
         | None \<Rightarrow>
             map_option (\<lambda>(act, ctx). grant_slot act current_time_us ctx) (determine_next_async_action ctx))"

definition advance_cycle_phase :: "u64 \<Rightarrow> ('h, 's) MnContext \<Rightarrow> (NodeAction \<times> ('h, 's) MnContext) option" where
  "advance_cycle_phase current_time_us ctx =
     (case (if mn_state ctx \<ge> NmtPreOperational2
            then get_next_isochronous_node_to_poll ctx (mn_current_multiplex_cycle ctx) else (None, ctx)) of
        (Some n, ctx) \<Rightarrow> Some (poll_node n current_time_us ctx)
      | (None, ctx) \<Rightarrow> asynchronous_phase current_time_us ctx)"

definition start_cycle :: "u64 \<Rightarrow> ('h, 's) MnContext \<Rightarrow> NodeAction \<times> ('h, 's) MnContext" where
  "start_cycle current_time_us ctx =
     (let ctx = ctx\<lparr> mn_current_cycle_start_time_us := current_time_us \<rparr>;
          ctx = (if mn_multiplex_cycle_len ctx > 0
                 then ctx\<lparr> mn_current_multiplex_cycle :=
                        (mn_current_multiplex_cycle ctx + 1) mod mn_multiplex_cycle_len ctx \<rparr>
                 else ctx);
          ctx = ctx\<lparr> mn_next_isoch_node_idx := 0 \<rparr>;
          soc_frame = build_soc_frame ctx (mn_current_multiplex_cycle ctx) (mn_multiplex_cycle_len ctx);
          ctx = mn_handle_dll_event SocTrig soc_frame ctx;
          ctx = mn_count_telegram 1 (ctx\<lparr> mn_current_phase := SoCSent \<rparr>)
      in (send soc_frame, ctx))"

text \<open>The commands of the node when it has entered Operational; \<open>Some\<close> ends the tick.\<close>

definition operational_actions :: "('h, 's) MnContext \<Rightarrow> NodeAction option \<times> ('h, 's) MnContext" where
  "operational_actions ctx =
     (if mn_state ctx = NmtOperational \<and> \<not> mn_initial_operational_actions_done ctx then
        (let ctx = ctx\<lparr> mn_initial_operational_actions_done := True \<rparr>
         in if mn_startup_flags (mn_nmt_state_machine ctx) AND 2 \<noteq> 0 then
              (let ctx = mn_count_telegram 5 ctx
               in (Some (send (build_nmt_command_frame ctx (State NmtStateCommand.StartNode)
                     C_ADR_BROADCAST_NODE_ID NoData)), ctx))
            else
              (None, case mn_mandatory_nodes ctx of
                 n # _ \<Rightarrow> queue_command (State NmtStateCommand.StartNode) n NoData ctx | [] \<Rightarrow> ctx))
      else if mn_state ctx < NmtOperational then (None, ctx\<lparr> mn_initial_operational_actions_done := False \<rparr>)
      else (None, ctx))"

text \<open>What the node sends in the slot it has granted itself.\<close>

definition send_queued :: "('h, 's) MnContext \<Rightarrow> NodeAction \<times> ('h, 's) MnContext" where
  "send_queued ctx =
     (case vec_pop (mn_async_send_queue ctx) of
        (Some frame, q) \<Rightarrow> (send frame, mn_count_telegram 5 (ctx\<lparr> mn_async_send_queue := q \<rparr>))
      | (None, _) \<Rightarrow> (NoAction, ctx))"

definition send_async :: "u64 \<Rightarrow> ('h, 's) MnContext \<Rightarrow> (NodeAction \<times> ('h, 's) MnContext) option" where
  "send_async current_time_us ctx =
     (let ctx = ctx\<lparr> mn_current_phase := CyclePhase.Idle \<rparr>
      in case vec_pop (mn_pending_nmt_commands ctx) of
           (Some (command_req, target_node_id, command_data), q) \<Rightarrow>
             (let ctx = mn_count_telegram 5 (ctx\<lparr> mn_pending_nmt_commands := q \<rparr>)
              in Some (send (build_nmt_command_frame ctx command_req target_node_id command_data), ctx))
         | (None, _) \<Rightarrow>
             (case cm_get_pending_request (mn_sdo_client_manager ctx) current_time_us (mn_od ctx) of
                None \<Rightarrow> None
              | Some (None, m) \<Rightarrow> Some (send_queued (ctx\<lparr> mn_sdo_client_manager := m \<rparr>))
              | Some (Some (target_node_id, s, cmd), m) \<Rightarrow>
                  let ctx = ctx\<lparr> mn_sdo_client_manager := m \<rparr>
                  in (case build_sdo_asnd_request ctx target_node_id s cmd of
                        Inr frame \<Rightarrow> Some (send frame, mn_count_telegram 7 ctx)
                      | Inl _ \<Rightarrow> Some (send_queued ctx))))"

definition mn_cycle_tick :: "u64 \<Rightarrow> ('h, 's) MnContext \<Rightarrow> (NodeAction \<times> ('h, 's) MnContext) option" where
  "mn_cycle_tick current_time_us ctx =
     (let current_nmt_state = mn_state ctx
      in case operational_actions ctx of
           (Some action, ctx) \<Rightarrow> Some (action, ctx)
         | (None, ctx) \<Rightarrow>
             (case mn_current_phase ctx of
                AwaitingMnAsyncSend \<Rightarrow> send_async current_time_us ctx
              | SoCSent \<Rightarrow> advance_cycle_phase current_time_us ctx
              | _ \<Rightarrow>
                  if current_nmt_state = NmtNotActive \<and> mn_next_tick_us ctx = None then
                    (let timeout_us = (ucast (mn_wait_not_active_timeout (mn_nmt_state_machine ctx)) :: u64)
                     in Some (NoAction, ctx\<lparr> mn_next_tick_us := Some (current_time_us + timeout_us) \<rparr>))
                  else Some (NoAction, ctx)))"

subsection \<open>Received frames\<close>

definition cn_state_of :: "NmtState \<Rightarrow> CnState \<Rightarrow> CnState" where
  "cn_state_of reported current =
     (case reported of
        NmtPreOperational1 \<Rightarrow> Identified
      | NmtPreOperational2 \<Rightarrow> PreOperational
      | NmtReadyToOperate \<Rightarrow> PreOperational
      | NmtOperational \<Rightarrow> Operational
      | NmtCsStopped \<Rightarrow> Stopped
      | _ \<Rightarrow> current)"

definition update_cn_state :: "NodeId \<Rightarrow> NmtState \<Rightarrow> ('h, 's) MnContext \<Rightarrow> ('h, 's) MnContext" where
  "update_cn_state n reported ctx =
     (case bt_get (mn_node_info ctx) n of
        None \<Rightarrow> ctx
      | Some current_info \<Rightarrow>
          let new_state = cn_state_of reported (ci_state current_info)
          in if ci_state current_info \<noteq> new_state then
               check_bootup_state (update_info n (\<lambda>info.
                   let info = info\<lparr> ci_state := new_state \<rparr>
                   in if new_state < PreOperational then info\<lparr> ci_communication_ok := False \<rparr> else info) ctx)
             else ctx)"

definition check_communication :: "PResFrame \<Rightarrow> ('h, 's) MnContext \<Rightarrow> ('h, 's) MnContext" where
  "check_communication pres ctx =
     (let expected_payload_size = unat (unwrap_or (read_u16 (mn_od ctx) 0x1F8D (pres_source pres)) 0)
      in if length (pres_payload pres) \<le> expected_payload_size
         then check_bootup_state (update_info (pres_source pres) (\<lambda>info. info\<lparr> ci_communication_ok := True \<rparr>) ctx)
         else ctx)"

definition handle_pres_frame :: "PResFrame \<Rightarrow> ('h, 's) MnContext \<Rightarrow> ('h, 's) MnContext" where
  "handle_pres_frame pres ctx =
     (let ctx = (if pres_rs (pres_flags pres) > 0
            then ctx\<lparr> mn_async_request_queue := async_push
                   \<lparr> ar_node_id = pres_source pres, ar_priority = PRFlag_u8 (pres_pr (pres_flags pres)) \<rparr>
                   (mn_async_request_queue ctx) \<rparr>
            else ctx)
      in case bt_get (mn_node_info ctx) (pres_source pres) of
           None \<Rightarrow> ctx
         | Some info \<Rightarrow>
             let ctx = update_info (pres_source pres) (\<lambda>info. info\<lparr> ci_en_flag := pres_en (pres_flags pres) \<rparr>) ctx;
                 ctx = (if pres_en (pres_flags pres) \<noteq> ci_ea_flag info \<and>
                           pres_source pres \<notin> set (mn_pending_status_requests ctx)
                        then ctx\<lparr> mn_pending_status_requests := mn_pending_status_requests ctx @ [pres_source pres] \<rparr>
                        else ctx)
             in if mn_state ctx = NmtReadyToOperate \<and> \<not> ci_communication_ok info
                then check_communication pres ctx else ctx)"

definition identify_node ::
  "NodeId \<Rightarrow> MacAddress \<Rightarrow> IdentResponsePayload \<Rightarrow> ('h, 's) MnContext \<Rightarrow> ('h, 's) MnContext" where
  "identify_node n cn_mac payload ctx =
     check_bootup_state
       (update_info n (\<lambda>info. info\<lparr> ci_state := Identified, ci_identity := Some
            \<lparr> id_device_type = ir_device_type payload, id_vendor_id = ir_vendor_id payload,
              id_product_code = ir_product_code payload, id_revision_no = ir_revision_number payload,
              id_serial_no = ir_serial_number payload \<rparr> \<rparr>)
         (ctx\<lparr> mn_arp_cache := bt_insert (ip_from_node_id n) cn_mac (mn_arp_cache ctx) \<rparr>))"

definition handle_ident_response :: "ASndFrame \<Rightarrow> u64 \<Rightarrow> ('h, 's) MnContext \<Rightarrow> ('h, 's) MnContext" where
  "handle_ident_response frame current_time_us ctx =
     (let n = asnd_source frame
      in if unidentified (mn_node_info ctx) n then
           (case IdentResponsePayload_deserialize (asnd_payload frame) of
              Inl _ \<Rightarrow> ctx
            | Inr payload \<Rightarrow>
                (case validate_boot_step1_checks ctx n payload current_time_us of
                   (True, ctx) \<Rightarrow> identify_node n (source_mac (asnd_eth_header frame)) payload ctx
                 | (False, ctx) \<Rightarrow> ctx))
         else ctx)"

definition handle_status_response :: "ASndFrame \<Rightarrow> ('h, 's) MnContext \<Rightarrow> ('h, 's) MnContext" where
  "handle_status_response frame ctx =
     (let n = asnd_source frame
      in if bt_contains (mn_node_info ctx) n then
           (let ctx = update_info n (\<lambda>info. info\<lparr> ci_ea_flag := ci_en_flag info \<rparr>) ctx
            in case StatusResponsePayload_deserialize (asnd_payload frame) of
                 Inr payload \<Rightarrow> update_cn_state n (sr_nmt_state payload) ctx
               | Inl _ \<Rightarrow> ctx)
         else ctx)"

definition handle_asnd_frame :: "ASndFrame \<Rightarrow> u64 \<Rightarrow> ('h, 's) MnContext \<Rightarrow> ('h, 's) MnContext" where
  "handle_asnd_frame frame current_time_us ctx =
     (case asnd_service_id frame of
        IdentResponse \<Rightarrow> handle_ident_response frame current_time_us ctx
      | StatusResponse \<Rightarrow> handle_status_response frame ctx
      | _ \<Rightarrow> ctx)"

definition mn_consume :: "PResFrame \<Rightarrow> ('h, 's) MnContext \<Rightarrow> ('h, 's) MnContext option" where
  "mn_consume f ctx =
     map_option (\<lambda>(m, core). ctx\<lparr> mn_dll_error_manager := m, mn_core := core \<rparr>)
       (consume_pdo_payload (\<lambda>e m. snd (mn_log_handle e m)) (pres_source f) (pres_payload f) (pres_pdo_version f)
          (pres_rd (pres_flags f)) (mn_dll_error_manager ctx, mn_core ctx))"

text \<open>The action of \<^verbatim>\<open>advance_cycle_phase\<close> after an expected PRes is dropped.\<close>

definition process_pres :: "PResFrame \<Rightarrow> u64 \<Rightarrow> ('h, 's) MnContext \<Rightarrow> ('h, 's) MnContext option" where
  "process_pres f current_time_us ctx =
     (let ctx = mn_count_telegram 2 ctx;
          ctx = (if bt_contains (mn_node_info ctx) (pres_source f)
                 then update_cn_state (pres_source f) (pres_nmt_state f)
                        (update_info (pres_source f) (\<lambda>info. info\<lparr> ci_nmt_state := pres_nmt_state f,
                           ci_last_pres_time_us := current_time_us, ci_dll_errors := 0 \<rparr>) ctx)
                 else ctx)
      in if mn_current_phase ctx = IsochronousPReq \<and> mn_current_polled_cn ctx = Some (pres_source f) then
           Option.bind (mn_consume f (ctx\<lparr> mn_pending_timeout_event := None \<rparr>)) (\<lambda>ctx.
             map_option snd (advance_cycle_phase current_time_us (handle_pres_frame f ctx)))
         else Some (handle_pres_frame f ctx))"

definition process_asnd :: "ASndFrame \<Rightarrow> u64 \<Rightarrow> ('h, 's) MnContext \<Rightarrow> ('h, 's) MnContext" where
  "process_asnd f current_time_us ctx =
     (let ctx = mn_count_telegram 4 ctx
      in if mn_current_phase ctx = AsynchronousSoA
         then (handle_asnd_frame f current_time_us (ctx\<lparr> mn_pending_timeout_event := None \<rparr>))
                \<lparr> mn_current_phase := CyclePhase.Idle \<rparr>
         else handle_asnd_frame f current_time_us ctx)"

definition mn_process_frame :: "PowerlinkFrame \<Rightarrow> u64 \<Rightarrow> ('h, 's) MnContext \<Rightarrow> ('h, 's) MnContext option" where
  "mn_process_frame frame current_time_us ctx =
     (let ctx = (case nmt_event frame of
            Some event \<Rightarrow> if mn_state ctx \<noteq> NmtNotActive then mn_raise_nmt event ctx else ctx
          | None \<Rightarrow> ctx);
          ctx = mn_handle_dll_event (dll_mn_event frame) frame ctx
      in case frame of
           FPRes f \<Rightarrow> process_pres f current_time_us ctx
         | FASnd f \<Rightarrow> Some (process_asnd f current_time_us ctx)
         | _ \<Rightarrow> Some ctx)"

subsection \<open>SDO\<close>

definition mn_server_request ::
  "bytes \<Rightarrow> SdoClientInfo \<Rightarrow> u64 \<Rightarrow> ('h, 's) MnContext \<Rightarrow> SdoResponseData result \<times> ('h, 's) MnContext" where
  "mn_server_request sdo_payload client_info current_time_us ctx =
     (let (r, srv, od) = server_handle_request (core_sdo_server (mn_core ctx)) sdo_payload client_info
            (mn_od ctx) current_time_us
      in (r, ctx\<lparr> mn_core := (mn_core ctx)\<lparr> core_sdo_server := srv, core_od := od \<rparr> \<rparr>))"

definition handle_sdo_server_request ::
  "bytes \<Rightarrow> SdoClientInfo \<Rightarrow> u64 \<Rightarrow> ('h, 's) MnContext \<Rightarrow> NodeAction \<times> ('h, 's) MnContext" where
  "handle_sdo_server_request sdo_payload client_info current_time_us ctx =
     (case mn_server_request sdo_payload client_info current_time_us ctx of
        (Inr data, ctx) \<Rightarrow>
          (case AsndTransport_build_response (mn_mac ctx) (mn_id ctx) False data of
             Inr action \<Rightarrow> (action, mn_count_telegram 7 ctx)
           | Inl _ \<Rightarrow> (NoAction, ctx))
      | (Inl _, ctx) \<Rightarrow> (NoAction, ctx))"

definition handle_sdo_response :: "ASndFrame \<Rightarrow> ('h, 's) MnContext \<Rightarrow> ('h, 's) MnContext option" where
  "handle_sdo_response f ctx =
     (let payload = asnd_payload f
      in if length payload < 8 then Some ctx
         else
           case SequenceLayerHeader_deserialize (sub_slice 0 4 payload) of
             Inl _ \<Rightarrow> Some ctx
           | Inr seq_header \<Rightarrow>
               (case SdoCommand_deserialize (drop 4 payload) of
                  Inl _ \<Rightarrow> Some ctx
                | Inr cmd \<Rightarrow>
                    map_option (\<lambda>m. ctx\<lparr> mn_sdo_client_manager := m \<rparr>)
                      (cm_handle_response (mn_sdo_client_manager ctx) (asnd_source f) seq_header cmd)))"

definition process_asnd_frame :: "ASndFrame \<Rightarrow> u64 \<Rightarrow> ('h, 's) MnContext \<Rightarrow> (NodeAction \<times> ('h, 's) MnContext) option" where
  "process_asnd_frame f current_time_us ctx =
     (if asnd_service_id f = Sdo \<and> asnd_destination f = mn_id ctx then
        map_option (Pair NoAction) (handle_sdo_response f (mn_count_telegram 6 ctx))
      else if asnd_service_id f = Sdo \<and> asnd_destination f = C_ADR_MN_DEF_NODE_ID then
        Some (handle_sdo_server_request (asnd_payload f)
          (AsndClient (asnd_source f) (source_mac (asnd_eth_header f))) current_time_us (mn_count_telegram 6 ctx))
      else map_option (Pair NoAction) (mn_process_frame (FASnd f) current_time_us ctx))"

definition process_powerlink_frame ::
  "PowerlinkFrame \<Rightarrow> u64 \<Rightarrow> ('h, 's) MnContext \<Rightarrow> (NodeAction \<times> ('h, 's) MnContext) option" where
  "process_powerlink_frame frame current_time_us ctx =
     (case frame of
        FPRes _ \<Rightarrow> map_option (Pair NoAction) (mn_process_frame frame current_time_us ctx)
      | FASnd f \<Rightarrow> process_asnd_frame f current_time_us ctx
      | _ \<Rightarrow> Some (NoAction, ctx))"

definition mn_process_ethernet_frame ::
  "bytes \<Rightarrow> u64 \<Rightarrow> ('h, 's) MnContext \<Rightarrow> (NodeAction \<times> ('h, 's) MnContext) option" where
  "mn_process_ethernet_frame frame_bytes current_time_us ctx =
     (if mn_state ctx = NmtGsResetCommunication then Some (NoAction, mn_raise_nmt NmtEvent.Error ctx)
      else
        case deserialize_frame frame_bytes of
          Inr frame \<Rightarrow> process_powerlink_frame frame current_time_us ctx
        | Inl _ \<Rightarrow> Some (NoAction, ctx))"

definition mn_process_udp_datagram ::
  "bytes \<Rightarrow> IpAddress \<Rightarrow> u16 \<Rightarrow> u64 \<Rightarrow> ('h, 's) MnContext \<Rightarrow> NodeAction \<times> ('h, 's) MnContext" where
  "mn_process_udp_datagram payload source_ip source_port current_time_us ctx =
     (case deserialize_sdo_udp_payload payload of
        Inl _ \<Rightarrow> (NoAction, ctx)
      | Inr (seq_header, cmd) \<Rightarrow>
          (case mn_server_request (server_payload (length payload) seq_header cmd)
                  (UdpClient source_ip source_port) current_time_us (mn_count_telegram 6 ctx) of
             (Inr data, ctx) \<Rightarrow>
               (case UdpTransport_build_response data of Inr action \<Rightarrow> (action, ctx) | Inl _ \<Rightarrow> (NoAction, ctx))
           | (Inl _, ctx) \<Rightarrow> (NoAction, ctx)))"

subsection \<open>Timers\<close>

text \<open>\<open>Some\<close> ends the tick with this action.\<close>

definition tick_sdo_client :: "u64 \<Rightarrow> ('h, 's) MnContext \<Rightarrow> (NodeAction option \<times> ('h, 's) MnContext) option" where
  "tick_sdo_client current_time_us ctx =
     (case cm_tick (mn_sdo_client_manager ctx) current_time_us (mn_od ctx) of
        None \<Rightarrow> None
      | Some (None, m) \<Rightarrow> Some (None, ctx\<lparr> mn_sdo_client_manager := m \<rparr>)
      | Some (Some (target_node_id, s, cmd), m) \<Rightarrow>
          let ctx = ctx\<lparr> mn_sdo_client_manager := m \<rparr>
          in (case build_sdo_asnd_request ctx target_node_id s cmd of
                Inr frame \<Rightarrow> Some (Some (send frame), mn_count_telegram 7 ctx)
              | Inl _ \<Rightarrow> Some (None, ctx)))"

definition mn_build_sdo_response :: "('h, 's) MnContext \<Rightarrow> SdoResponseData \<Rightarrow> NodeAction result" where
  "mn_build_sdo_response ctx data =
     (case rd_client_info data of
        AsndClient _ _ \<Rightarrow> AsndTransport_build_response (mn_mac ctx) (mn_id ctx) False data
      | UdpClient _ _ \<Rightarrow> UdpTransport_build_response data)"

definition mn_tick_sdo_server :: "u64 \<Rightarrow> ('h, 's) MnContext \<Rightarrow> NodeAction option \<times> ('h, 's) MnContext" where
  "mn_tick_sdo_server current_time_us ctx =
     (case next_action_time (core_sdo_server (mn_core ctx)) of
        None \<Rightarrow> (None, ctx)
      | Some deadline \<Rightarrow>
          if current_time_us \<ge> deadline then
            (let (r, srv) = server_tick (core_sdo_server (mn_core ctx)) current_time_us (mn_od ctx);
                 ctx = ctx\<lparr> mn_core := (mn_core ctx)\<lparr> core_sdo_server := srv \<rparr> \<rparr>
             in case r of
                  Inr (Some data) \<Rightarrow>
                    (let ctx = mn_count_telegram 7 ctx
                     in case mn_build_sdo_response ctx data of
                          Inr action \<Rightarrow> (Some action, ctx)
                        | Inl _ \<Rightarrow> (None, ctx))
                | _ \<Rightarrow> (None, ctx))
          else (None, ctx))"

text \<open>The last part of the tick, after the deadlines.\<close>

definition tick_phase :: "bool \<Rightarrow> bool \<Rightarrow> u64 \<Rightarrow> ('h, 's) MnContext \<Rightarrow> (NodeAction \<times> ('h, 's) MnContext) option" where
  "tick_phase deadline_passed is_bootstrapping current_time_us ctx =
     (if mn_state ctx = NmtPreOperational1 \<and> mn_current_phase ctx = SoCSent
      then advance_cycle_phase current_time_us ctx
      else if \<not> deadline_passed \<and> \<not> is_bootstrapping \<and> mn_current_phase ctx = CyclePhase.Idle
      then Some (NoAction, ctx)
      else mn_cycle_tick current_time_us ctx)"

definition mn_tick_deadlines :: "u64 \<Rightarrow> ('h, 's) MnContext \<Rightarrow> (NodeAction \<times> ('h, 's) MnContext) option" where
  "mn_tick_deadlines current_time_us ctx =
     (let is_bootstrapping = (mn_state ctx = NmtNotActive \<and> mn_next_tick_us ctx = None);
          deadline_passed = (case mn_next_tick_us ctx of Some deadline \<Rightarrow> current_time_us \<ge> deadline | None \<Rightarrow> False)
      in if deadline_passed then
           (let ctx = ctx\<lparr> mn_next_tick_us := None \<rparr>
            in if mn_state ctx = NmtNotActive then Some (NoAction, mn_raise_nmt NmtEvent.Timeout ctx)
               else
                 case mn_pending_timeout_event ctx of
                   Some event \<Rightarrow>
                     advance_cycle_phase current_time_us
                       (mn_handle_dll_event event (dummy_soc (replicate 6 0))
                          (ctx\<lparr> mn_pending_timeout_event := None \<rparr>))
                 | None \<Rightarrow> tick_phase True is_bootstrapping current_time_us ctx)
         else tick_phase False is_bootstrapping current_time_us ctx)"

definition handle_tick :: "u64 \<Rightarrow> ('h, 's) MnContext \<Rightarrow> (NodeAction \<times> ('h, 's) MnContext) option" where
  "handle_tick current_time_us ctx =
     (let time_since_last_cycle =
            (if current_time_us < mn_current_cycle_start_time_us ctx then 0
             else current_time_us - mn_current_cycle_start_time_us ctx)
      in if time_since_last_cycle \<ge> mn_cycle_time_us ctx \<and> mn_state ctx \<ge> NmtPreOperational1 \<and>
            mn_current_phase ctx = CyclePhase.Idle
         then Some (start_cycle current_time_us ctx)
         else
           case tick_sdo_client current_time_us ctx of
             None \<Rightarrow> None
           | Some (Some action, ctx) \<Rightarrow> Some (action, ctx)
           | Some (None, ctx) \<Rightarrow>
               (case mn_tick_sdo_server current_time_us ctx of
                  (Some action, ctx) \<Rightarrow> Some (action, ctx)
                | (None, ctx) \<Rightarrow> mn_tick_deadlines current_time_us ctx))"

subsection \<open>The node\<close>

text \<open>\<^verbatim>\<open>ManagingNode::new\<close>.\<close>

definition ManagingNode_new ::
  "'s ObjectDictionary \<Rightarrow> MacAddress \<Rightarrow> ConfigurationInterface option \<Rightarrow> (unit, 's) MnContext result" where
  "ManagingNode_new od mac_address configuration_interface =
     (let (r, od) = od_init od
      in rbind r (\<lambda>_. rbind (validate_mandatory_objects od True) (\<lambda>_. rbind (MnNmt_from_od od) (\<lambda>nmt.
         rbind (ok_or (read_u32 od 0x1006 0) (ValidationError ''Failed to read 0x1006 NMT_CycleLen_U32'')) (\<lambda>cycle_time_us.
         rbind (parse_mn_node_lists od) (\<lambda>lists.
           let (nmt, od') = run_internal_initialisation mn_current_state mn_set_state (nmt, od)
           in Inr \<lparr> mn_core = \<lparr> core_od = od', core_mac_address = mac_address, core_sdo_server = SdoServer_new,
                        core_sdo_client = SdoClient_new, core_embedded_sdo_server = [],
                        core_embedded_sdo_client = [] \<rparr>,
                    mn_configuration_interface = configuration_interface,
                    mn_nmt_state_machine = nmt, mn_dll_state_machine = DllMsStateMachine_new,
                    mn_dll_error_manager = \<lparr> counters = MnErrorCounters_new, handler = () \<rparr>,
                    mn_cycle_time_us = ucast cycle_time_us, mn_multiplex_cycle_len = 8,
                    mn_multiplex_assign = nl_multiplex_assign lists, mn_publish_config = parse_publish_config od,
                    mn_current_multiplex_cycle = 0, mn_node_info = nl_node_info lists,
                    mn_mandatory_nodes = nl_mandatory_nodes lists,
                    mn_isochronous_nodes = nl_isochronous_nodes lists,
                    mn_async_only_nodes = nl_async_only_nodes lists, mn_arp_cache = [],
                    mn_next_isoch_node_idx = 0, mn_current_phase = CyclePhase.Idle, mn_current_polled_cn = None,
                    mn_async_request_queue = [], mn_pending_er_requests = [], mn_pending_status_requests = [],
                    mn_pending_nmt_commands = [], mn_async_send_queue = [],
                    mn_sdo_client_manager = SdoClientManager_new, mn_last_ident_poll_node_id = 0,
                    mn_last_status_poll_node_id = 0, mn_next_tick_us = None, mn_pending_timeout_event = None,
                    mn_current_cycle_start_time_us = 0, mn_initial_operational_actions_done = False \<rparr>))))))"

definition queue_nmt_state_command :: "NmtStateCommand \<Rightarrow> NodeId \<Rightarrow> ('h, 's) MnContext \<Rightarrow> ('h, 's) MnContext" where
  "queue_nmt_state_command command target ctx = queue_command (State command) target NoData ctx"

definition set_hostname :: "NodeId \<Rightarrow> bytes \<Rightarrow> ('h, 's) MnContext \<Rightarrow> unit result \<times> ('h, 's) MnContext" where
  "set_hostname target hostname ctx =
     (if length hostname > 32 then (Inl (ValidationError ''Hostname exceeds 32 characters''), ctx)
      else if target = C_ADR_BROADCAST_NODE_ID then (Inl (ValidationError ''NmtNetHostNameSet must be unicast''), ctx)
      else (Inr (), queue_command (Managing NmtNetHostNameSet) target (HostName hostname) ctx))"

definition flush_arp_entry :: "NodeId \<Rightarrow> ('h, 's) MnContext \<Rightarrow> ('h, 's) MnContext" where
  "flush_arp_entry target ctx =
     queue_command (Managing NmtFlushArpEntry) C_ADR_BROADCAST_NODE_ID (FlushArp target) ctx"

definition mn_read_object ::
  "NodeId \<Rightarrow> u16 \<Rightarrow> u8 \<Rightarrow> u64 \<Rightarrow> ('h, 's) MnContext \<Rightarrow> unit result \<times> ('h, 's) MnContext" where
  "mn_read_object target index sub_index current_time_us ctx =
     (let (r, m) = read_object_by_index (mn_sdo_client_manager ctx) target index sub_index current_time_us (mn_od ctx)
      in (r, ctx\<lparr> mn_sdo_client_manager := m \<rparr>))"

definition mn_write_object ::
  "NodeId \<Rightarrow> u16 \<Rightarrow> u8 \<Rightarrow> bytes \<Rightarrow> u64 \<Rightarrow> ('h, 's) MnContext \<Rightarrow> unit result \<times> ('h, 's) MnContext" where
  "mn_write_object target index sub_index data current_time_us ctx =
     (let (r, m) = write_object_by_index (mn_sdo_client_manager ctx) target index sub_index data current_time_us
            (mn_od ctx)
      in (r, ctx\<lparr> mn_sdo_client_manager := m \<rparr>))"

text \<open>\<^verbatim>\<open>run_cycle\<close> with the feature \<^verbatim>\<open>sdo-udp\<close>.\<close>

definition mn_run_ethernet ::
  "bytes option \<Rightarrow> u64 \<Rightarrow> ('h, 's) MnContext \<Rightarrow> (NodeAction \<times> ('h, 's) MnContext) option" where
  "mn_run_ethernet ethernet_frame current_time_us ctx =
     (case ethernet_frame of
        Some buffer \<Rightarrow>
          if length buffer \<ge> 14 \<and> sub_slice 12 14 buffer = be16 C_DLL_ETHERTYPE_EPL
          then mn_process_ethernet_frame buffer current_time_us ctx
          else Some (NoAction, ctx)
      | None \<Rightarrow> Some (NoAction, ctx))"

definition mn_run_udp ::
  "(bytes \<times> IpAddress \<times> u16) option \<Rightarrow> u64 \<Rightarrow> ('h, 's) MnContext \<Rightarrow> NodeAction \<times> ('h, 's) MnContext" where
  "mn_run_udp udp_datagram current_time_us ctx =
     (case udp_datagram of
        Some (buffer, ip, port) \<Rightarrow>
          (let (action, ctx) = mn_process_udp_datagram buffer ip port current_time_us ctx
           in (action, case action of SendUdp _ _ _ \<Rightarrow> mn_count_telegram 7 ctx | _ \<Rightarrow> ctx))
      | None \<Rightarrow> (NoAction, ctx))"

definition mn_run_cycle ::
  "('h, 's) MnContext \<Rightarrow> bytes option \<Rightarrow> (bytes \<times> IpAddress \<times> u16) option \<Rightarrow> u64 \<Rightarrow>
     (NodeAction \<times> ('h, 's) MnContext) option" where
  "mn_run_cycle ctx ethernet_frame udp_datagram current_time_us =
     Option.bind (mn_run_ethernet ethernet_frame current_time_us ctx) (\<lambda>(action, ctx).
       if action \<noteq> NoAction then Some (action, ctx)
       else
         let (action, ctx) = mn_run_udp udp_datagram current_time_us ctx
         in if action \<noteq> NoAction then Some (action, ctx)
            else handle_tick current_time_us ctx)"

definition mn_next_action_time :: "('h, 's) MnContext \<Rightarrow> u64 option" where
  "mn_next_action_time ctx =
     (if mn_current_phase ctx = SoCSent \<or> mn_current_phase ctx = AwaitingMnAsyncSend
      then Some (mn_current_cycle_start_time_us ctx)
      else if mn_state ctx = NmtNotActive \<and> mn_next_tick_us ctx = None then Some 0
      else
        let cycle_start_time =
              (if mn_state ctx \<ge> NmtPreOperational2 \<and> mn_current_phase ctx = CyclePhase.Idle
               then Some (mn_current_cycle_start_time_us ctx + mn_cycle_time_us ctx) else None)
        in case List.map_filter id [next_action_time (core_sdo_server (mn_core ctx)),
                  cm_next_action_time (mn_sdo_client_manager ctx), mn_next_tick_us ctx, cycle_start_time] of
             [] \<Rightarrow> None
           | t # ts \<Rightarrow> Some (fold min ts t))"

end
