(* ===== verification/Mn_Sched_Props.thy ===== *)
theory Mn_Sched_Props
  imports Mn_Node
begin

section \<open>Properties of the scheduler\<close>

text \<open>
  The searches of the scheduler against their reference: the nodes in the order in which they are
  looked at, filtered.
\<close>

subsection \<open>Nodes to identify\<close>

lemma find_append: "find P (xs @ ys) = (case find P xs of Some x \<Rightarrow> Some x | None \<Rightarrow> find P ys)"
  by (induction xs) auto

lemma identify_step:
  assumes "1 \<le> c" "c < 240" "s < 256"
  shows "identify_loop info (of_nat s) w (of_nat c) =
    (if c = s \<and> w then Some None
     else if unidentified info (of_nat c) then Some (Some (of_nat c))
     else identify_loop info (of_nat s) (w \<or> c = s) (of_nat (Suc c)))"
proof -
  have u: "unat (of_nat k :: u8) = k" if "k < 256" for k
    using that by (simp add: unat_of_nat take_bit_nat_eq_self)
  have c: "c < 256" using assms by simp
  have "(of_nat c :: u8) = of_nat s \<longleftrightarrow> c = s"
    using u [OF assms(3)] u [OF c] by metis
  moreover have "(of_nat c :: u8) \<noteq> 0" "\<not> (of_nat c :: u8) > 239"
    using u [of c] assms by (simp_all add: word_unat_eq_iff word_less_nat_alt)
  ultimately show ?thesis
    by (subst identify_loop.simps) (simp add: Let_def add.commute)
qed

lemma identify_wrap: "identify_loop info s w 240 = identify_loop info s w 1"
  by (subst (1 2) identify_loop.simps) simp

lemma identify_walk:
  assumes "1 \<le> c" "c \<le> d" "d \<le> 240" "s < 256" "\<And>k. c \<le> k \<Longrightarrow> k < d \<Longrightarrow> k \<noteq> s"
  shows "identify_loop info (of_nat s) w (of_nat c) =
    (case find (unidentified info) (map of_nat [c..<d]) of
       Some n \<Rightarrow> Some (Some n)
     | None \<Rightarrow> identify_loop info (of_nat s) w (of_nat d))"
  using assms
proof (induction "d - c" arbitrary: c)
  case (Suc k)
  have "identify_loop info (of_nat s) w (of_nat c) =
    (if unidentified info (of_nat c) then Some (Some (of_nat c))
     else identify_loop info (of_nat s) w (of_nat (Suc c)))"
    using identify_step [of c s info w] Suc.prems Suc.hyps(2) by simp
  moreover have "[c..<d] = c # [Suc c..<d]" using Suc.hyps(2) by (simp add: upt_conv_Cons)
  ultimately show ?case
    using Suc.hyps(1) [of "Suc c"] Suc.hyps(2) Suc.prems by simp
qed simp

lemma identify_diverges:
  assumes "\<And>k. 1 \<le> k \<Longrightarrow> k \<le> 239 \<Longrightarrow> \<not> unidentified info k"
  shows "identify_loop info 240 w c = None"
proof -
  have "s = 240 \<longrightarrow> (\<forall>k. 1 \<le> k \<longrightarrow> k \<le> 239 \<longrightarrow> \<not> unidentified i k) \<longrightarrow> False"
    if "identify_loop i s w c = Some r" for i s w c r
    using that
  proof (induction rule: identify_loop.raw_induct [rotated, consumes 1, case_names loop])
    case (loop f i s w c r)
    define x where "x = (if c = 0 \<or> 239 < c then 1 else c)"
    have x: "1 \<le> x" "x \<le> 239" "x \<noteq> 240"
      by (auto simp: x_def word_le_nat_alt word_less_nat_alt word_unat_eq_iff)
    show ?case
      using loop x unfolding x_def [symmetric] by (auto simp: Let_def split: if_splits)
  qed
  with assms show ?thesis by (cases "identify_loop info 240 w c") blast+
qed

text \<open>The order of the search after the node \<open>l\<close>.\<close>

definition ident_order :: "NodeId \<Rightarrow> NodeId list" where
  "ident_order l = map of_nat ([Suc (unat l)..<240] @ [1..<Suc (unat l)])"

lemma identify_loop_order:
  assumes "unat l \<le> 239"
  shows "identify_loop info (l + 1) False (l + 1) =
    (case find (unidentified info) (ident_order l) of
       Some n \<Rightarrow> Some (Some n)
     | None \<Rightarrow> if l = 239 then None else Some None)"
proof (cases "unat l = 239")
  case True
  then have last: "l = 239" by (simp add: word_unat_eq_iff)
  define xs :: "NodeId list" where "xs = map of_nat [1..<240]"
  have o: "ident_order l = xs" by (simp only: ident_order_def True xs_def) simp
  have walk: "identify_loop info 240 False 1 = (case find (unidentified info) xs of
      Some n \<Rightarrow> Some (Some n) | None \<Rightarrow> identify_loop info 240 False 240)"
    unfolding xs_def using identify_walk [of 1 240 240 info False, unfolded of_nat_numeral of_nat_1] by fastforce
  have "identify_loop info 240 False 240 = None" if "find (unidentified info) xs = None"
  proof (rule identify_diverges)
    fix k :: u8 assume k: "1 \<le> k" "k \<le> 239"
    then have "k = of_nat (unat k)" "unat k \<in> {1..<240}" by (auto simp: word_le_nat_alt)
    then have "k \<in> set xs" unfolding xs_def by (metis atLeastLessThan_upt image_eqI set_map)
    with that show "\<not> unidentified info k" by (auto simp: find_None_iff)
  qed
  with walk show ?thesis
    unfolding o unfolding last by (cases "find (unidentified info) xs") (simp_all add: identify_wrap)
next
  case False
  define s where "s = Suc (unat l)"
  have s: "1 \<le> s" "s < 240" using False assms by (simp_all add: s_def)
  have "l \<noteq> 239" using False by auto
  then have last: "l + 1 = of_nat s" "l \<noteq> 239" by (simp_all add: s_def add.commute)
  have o: "ident_order l = of_nat s # map of_nat [Suc s..<240] @ map of_nat [1..<s]"
    using s by (simp add: ident_order_def s_def upt_conv_Cons)
  have "identify_loop info (of_nat s) True (of_nat (Suc s)) =
      (case find (unidentified info) (map of_nat [Suc s..<240]) of Some n \<Rightarrow> Some (Some n)
       | None \<Rightarrow> identify_loop info (of_nat s) True 1)"
    using identify_walk [of "Suc s" 240 s info True, unfolded of_nat_numeral identify_wrap] s by simp
  moreover have "identify_loop info (of_nat s) True 1 =
      (case find (unidentified info) (map of_nat [1..<s]) of Some n \<Rightarrow> Some (Some n) | None \<Rightarrow> Some None)"
    using identify_walk [of 1 s s info True] identify_step [of s s info True] s by (simp split: option.split)
  ultimately show ?thesis
    using identify_step [of s s info False] s
    by (simp add: last o find_append split: option.split)
qed

lemma find_next_exact:
  assumes "unat (mn_last_ident_poll_node_id ctx) \<le> 239"
  shows "find_next_node_to_identify ctx =
    (case find (unidentified (mn_node_info ctx)) (ident_order (mn_last_ident_poll_node_id ctx)) of
       Some n \<Rightarrow> Some (Some n, ctx\<lparr> mn_last_ident_poll_node_id := n \<rparr>)
     | None \<Rightarrow> if mn_last_ident_poll_node_id ctx = 239 then None else Some (None, ctx))"
  using identify_loop_order [OF assms, of "mn_node_info ctx"]
  by (simp add: find_next_node_to_identify_def split: option.split)

lemma set_ident_order:
  assumes "unat l \<le> 239"
  shows "set (ident_order l) = {n. 1 \<le> n \<and> n \<le> 239}" "distinct (ident_order l)"
proof -
  let ?ks = "[Suc (unat l)..<240] @ [1..<Suc (unat l)]"
  have ks: "set ?ks = {1..<240}" "distinct ?ks" using assms by auto
  have "inj_on (of_nat :: nat \<Rightarrow> u8) {1..<240}"
    by (rule inj_on_inverseI [of _ unat]) (simp add: unat_of_nat take_bit_nat_eq_self)
  with ks show "distinct (ident_order l)" unfolding ident_order_def by (simp only: distinct_map)
  have "n \<in> (of_nat :: nat \<Rightarrow> u8) ` {1..<240} \<longleftrightarrow> 1 \<le> n \<and> n \<le> 239" for n
  proof
    assume "1 \<le> n \<and> n \<le> 239"
    then have "unat n \<in> {1..<240}" by (auto simp: word_le_nat_alt)
    then show "n \<in> (of_nat :: nat \<Rightarrow> u8) ` {1..<240}" by (intro image_eqI [of n _ "unat n"]) simp_all
  qed (auto simp: word_le_nat_alt unat_of_nat take_bit_nat_eq_self)
  with ks(1) show "set (ident_order l) = {n. 1 \<le> n \<and> n \<le> 239}" unfolding ident_order_def set_map by auto
qed

text \<open>The search can be evaluated where the loop does not end, too.\<close>

lemma find_next_code [code]:
  "find_next_node_to_identify ctx =
    (if mn_last_ident_poll_node_id ctx = 239 \<and>
        list_all (\<lambda>(k, _). k = 0 \<or> k > 239 \<or> \<not> unidentified (mn_node_info ctx) k) (mn_node_info ctx)
     then None
     else
       let start_node_id_val = mn_last_ident_poll_node_id ctx + 1
       in map_option (\<lambda>r. (r, case r of Some n \<Rightarrow> ctx\<lparr> mn_last_ident_poll_node_id := n \<rparr> | None \<Rightarrow> ctx))
            (identify_loop (mn_node_info ctx) start_node_id_val False start_node_id_val))"
proof -
  let ?info = "mn_node_info ctx"
  have "find_next_node_to_identify ctx = None"
    if l: "mn_last_ident_poll_node_id ctx = 239" and a: "list_all (\<lambda>(k, _). k = 0 \<or> k > 239 \<or> \<not> unidentified ?info k) ?info"
  proof -
    have "unat (mn_last_ident_poll_node_id ctx) \<le> 239" by (simp add: l)
    note n = this
    have "\<not> unidentified ?info k" if "1 \<le> k" "k \<le> 239" for k
    proof
      assume u: "unidentified ?info k"
      then obtain i where "(k, i) \<in> set ?info"
        by (auto simp: unidentified_def bt_get_def dest: map_of_SomeD split: option.splits)
      with a u that show False by (auto simp: list_all_iff word_le_nat_alt word_less_nat_alt)
    qed
    then have "find (unidentified ?info) (ident_order (mn_last_ident_poll_node_id ctx)) = None"
      using set_ident_order(1) [OF n] by (auto simp: find_None_iff)
    then show ?thesis unfolding find_next_exact [OF n] by (simp only: option.case if_P [OF l])
  qed
  then show ?thesis by (auto simp: find_next_node_to_identify_def)
qed

subsection \<open>Isochronous polls\<close>

definition poll_due :: "('h, 's) MnContext \<Rightarrow> u8 \<Rightarrow> NodeId \<Rightarrow> bool" where
  "poll_due ctx c n \<longleftrightarrow> should_poll ctx c n \<and> isochronous_state ctx n"

definition polls_left :: "('h, 's) MnContext \<Rightarrow> u8 \<Rightarrow> NodeId list" where
  "polls_left ctx c = filter (poll_due ctx c) (drop (mn_next_isoch_node_idx ctx) (mn_isochronous_nodes ctx))"

lemma due_idx [simp]:
  "should_poll (ctx\<lparr> mn_next_isoch_node_idx := i \<rparr>) c n = should_poll ctx c n"
  "isochronous_state (ctx\<lparr> mn_next_isoch_node_idx := i \<rparr>) n = isochronous_state ctx n"
  "poll_due (ctx\<lparr> mn_next_isoch_node_idx := i \<rparr>) c = poll_due ctx c"
  by (simp_all add: poll_due_def should_poll_def isochronous_state_def assigned_cycle_def fun_eq_iff)

lemma has_more_iff: "has_more_isochronous_nodes ctx c \<longleftrightarrow> polls_left ctx c \<noteq> []"
proof -
  have "drop i xs = map ((!) xs) [i..<length xs]" for i and xs :: "NodeId list"
    by (metis drop_map drop_upt map_nth add_0)
  then show ?thesis
    by (simp add: has_more_isochronous_nodes_def polls_left_def list_ex_iff filter_empty_conv poll_due_def Let_def)
qed

lemma next_poll:
  "get_next_isochronous_node_to_poll ctx c = (r, ctx') \<Longrightarrow>
    (\<exists>i. ctx' = ctx\<lparr> mn_next_isoch_node_idx := i \<rparr> \<and> mn_next_isoch_node_idx ctx \<le> i) \<and>
    (case r of None \<Rightarrow> polls_left ctx c = [] \<and> polls_left ctx' c = []
     | Some n \<Rightarrow> polls_left ctx c = n # polls_left ctx' c \<and>
         mn_next_isoch_node_idx ctx < mn_next_isoch_node_idx ctx' \<and>
         mn_next_isoch_node_idx ctx' \<le> length (mn_isochronous_nodes ctx) \<and>
         n \<in> set (mn_isochronous_nodes ctx) \<and> poll_due ctx c n)"
proof (induction ctx c arbitrary: r ctx' rule: get_next_isochronous_node_to_poll.induct)
  case (1 ctx c)
  let ?i = "mn_next_isoch_node_idx ctx" and ?xs = "mn_isochronous_nodes ctx"
  define ctx1 where "ctx1 = ctx\<lparr> mn_next_isoch_node_idx := ?i + 1 \<rparr>"
  show ?case
  proof (cases "?i < length ?xs")
    case False
    with "1.prems" show ?thesis
      by (subst (asm) get_next_isochronous_node_to_poll.simps) (auto simp: polls_left_def intro!: exI [of _ ?i])
  next
    case True
    let ?n = "?xs ! ?i"
    have due: "should_poll ctx1 c n \<and> isochronous_state ctx1 n \<longleftrightarrow> poll_due ctx c n" for n
      by (simp add: poll_due_def ctx1_def)
    have left: "polls_left ctx c = (if poll_due ctx c ?n then ?n # polls_left ctx1 c else polls_left ctx1 c)"
      using True by (simp add: polls_left_def ctx1_def Cons_nth_drop_Suc [symmetric])
    have eq: "get_next_isochronous_node_to_poll ctx c =
        (if poll_due ctx c ?n then (Some ?n, ctx1) else get_next_isochronous_node_to_poll ctx1 c)"
      using True due by (subst get_next_isochronous_node_to_poll.simps) (simp add: Let_def ctx1_def)
    show ?thesis
    proof (cases "poll_due ctx c ?n")
      case due1: True
      with "1.prems" eq have "r = Some ?n" "ctx' = ctx1" by auto
      with left due1 True show ?thesis by (auto simp: ctx1_def)
    next
      case False
      with "1.prems" eq have g: "get_next_isochronous_node_to_poll ctx1 c = (r, ctx')" by simp
      have ih: "(\<exists>i. ctx' = ctx1\<lparr> mn_next_isoch_node_idx := i \<rparr> \<and> mn_next_isoch_node_idx ctx1 \<le> i) \<and>
        (case r of None \<Rightarrow> polls_left ctx1 c = [] \<and> polls_left ctx' c = []
         | Some n \<Rightarrow> polls_left ctx1 c = n # polls_left ctx' c \<and>
             mn_next_isoch_node_idx ctx1 < mn_next_isoch_node_idx ctx' \<and>
             mn_next_isoch_node_idx ctx' \<le> length (mn_isochronous_nodes ctx1) \<and>
             n \<in> set (mn_isochronous_nodes ctx1) \<and> poll_due ctx1 c n)"
        by (rule "1.IH" [OF True refl refl, folded ctx1_def, unfolded due, OF False g])
      then obtain i where i: "ctx' = ctx\<lparr> mn_next_isoch_node_idx := i \<rparr>" "Suc ?i \<le> i" by (auto simp: ctx1_def)
      have "mn_isochronous_nodes ctx1 = ?xs" "poll_due ctx1 c = poll_due ctx c" "mn_next_isoch_node_idx ctx1 = Suc ?i"
        by (simp_all add: ctx1_def)
      note this [simp]
      have "case r of None \<Rightarrow> polls_left ctx c = [] \<and> polls_left ctx' c = []
       | Some n \<Rightarrow> polls_left ctx c = n # polls_left ctx' c \<and> ?i < mn_next_isoch_node_idx ctx' \<and>
           mn_next_isoch_node_idx ctx' \<le> length ?xs \<and> n \<in> set ?xs \<and> poll_due ctx c n"
        using conjunct2 [OF ih] left False by (cases r) simp_all
      moreover have "?i \<le> i" using i(2) by simp
      ultimately show ?thesis using i(1) by blast
    qed
  qed
qed

text \<open>The nodes that repeated calls in one cycle return.\<close>

function poll_order :: "('h, 's) MnContext \<Rightarrow> u8 \<Rightarrow> NodeId list" where
  "poll_order ctx c =
     (case get_next_isochronous_node_to_poll ctx c of
        (None, _) \<Rightarrow> []
      | (Some n, ctx) \<Rightarrow> n # poll_order ctx c)"
  by pat_completeness auto

termination
  by (relation "measure (\<lambda>(ctx, c). length (mn_isochronous_nodes ctx) - mn_next_isoch_node_idx ctx)")
    (auto dest!: next_poll [OF sym])

declare poll_order.simps [simp del]

lemma poll_order_left: "poll_order ctx c = polls_left ctx c"
proof (induction ctx c rule: poll_order.induct)
  case (1 ctx c)
  obtain r ctx' where g: "get_next_isochronous_node_to_poll ctx c = (r, ctx')" by fastforce
  show ?case
    using next_poll [OF g] 1 [OF g [symmetric]] by (subst poll_order.simps) (auto simp: g split: option.splits)
qed

subsection \<open>Status requests\<close>

text \<open>No asynchronous node is left to poll.\<close>

lemma rotation_covers:
  assumes "x \<in> set xs"
  shows "x \<in> set (map (\<lambda>i. xs ! ((k + i) mod length xs)) [0..<length xs])"
proof -
  obtain j where j: "j < length xs" "xs ! j = x" using assms by (auto simp: in_set_conv_nth)
  define i where "i = (j + (length xs - k mod length xs)) mod length xs"
  have "i < length xs" using j(1) unfolding i_def by (intro mod_less_divisor) linarith
  moreover have "(k + i) mod length xs = j"
  proof -
    have l: "k mod length xs < length xs" using j(1) by (intro mod_less_divisor) linarith
    have "(k + i) mod length xs = (k mod length xs + (j + (length xs - k mod length xs))) mod length xs"
      unfolding i_def by (simp add: mod_simps)
    also have "\<dots> = (j + length xs) mod length xs" using l by simp
    finally show ?thesis using j(1) by simp
  qed
  ultimately show ?thesis using j(2) by force
qed

lemma async_only_none:
  assumes "find_next_async_only_to_poll ctx = (None, c)" "n \<in> set (mn_async_only_nodes ctx)"
    "bt_get (mn_node_info ctx) n = Some i"
  shows "ci_state i = Missing"
proof -
  let ?xs = "mn_async_only_nodes ctx"
  obtain k where "find (\<lambda>n. case bt_get (mn_node_info ctx) n of Some info \<Rightarrow> ci_state info \<noteq> Missing | None \<Rightarrow> False)
      (map (\<lambda>i. ?xs ! ((k + i) mod length ?xs)) [0..<length ?xs]) = None"
    using assms(1,2) by (auto simp: find_next_async_only_to_poll_def Let_def split: if_splits option.splits)
  with rotation_covers [OF assms(2), of k] assms(3) show ?thesis by (auto simp: find_None_iff)
qed

end
