(* ===== verification/Mn_Props.thy ===== *)
theory Mn_Props
  imports Mn_Sched_Props Cn_Answers
begin

section \<open>Invariants of the managing node\<close>

text \<open>
  Like a controlled node, a managing node changes its state through few operations. The locale
  \<open>mn_invariant\<close> asks of a predicate on states that each of them keeps it, as long as the frames the
  node receives satisfy a predicate too; then \<open>mn_run_cycle\<close> keeps it, and every frame
  that is sent is one that \<open>mn_sends\<close> allows in a state that satisfies it.
\<close>

subsection \<open>The parts of the state\<close>

lemma mn_map_od_core: "mn_map_od f ctx = ctx\<lparr> mn_core := (mn_core ctx)\<lparr> core_od := f (mn_od ctx) \<rparr> \<rparr>"
  by (simp add: mn_map_od_def)

text \<open>Two states that agree on all but the timers, the error counters, the DLL machine, the queue of
  commands, the SDO client and the positions of the searches that no invariant mentions.\<close>

definition mn_same :: "('h, 's) MnContext \<Rightarrow> ('h, 's) MnContext \<Rightarrow> bool" where
  "mn_same ctx ctx' \<longleftrightarrow>
     mn_core ctx' = mn_core ctx \<and> mn_nmt_state_machine ctx' = mn_nmt_state_machine ctx \<and>
     mn_node_info ctx' = mn_node_info ctx \<and> mn_arp_cache ctx' = mn_arp_cache ctx \<and>
     mn_mandatory_nodes ctx' = mn_mandatory_nodes ctx \<and> mn_isochronous_nodes ctx' = mn_isochronous_nodes ctx \<and>
     mn_async_only_nodes ctx' = mn_async_only_nodes ctx \<and> mn_multiplex_assign ctx' = mn_multiplex_assign ctx \<and>
     mn_multiplex_cycle_len ctx' = mn_multiplex_cycle_len ctx \<and>
     mn_current_multiplex_cycle ctx' = mn_current_multiplex_cycle ctx \<and>
     mn_async_request_queue ctx' = mn_async_request_queue ctx \<and>
     mn_async_send_queue ctx' = mn_async_send_queue ctx \<and>
     mn_pending_er_requests ctx' = mn_pending_er_requests ctx \<and>
     mn_pending_status_requests ctx' = mn_pending_status_requests ctx \<and>
     mn_last_ident_poll_node_id ctx' = mn_last_ident_poll_node_id ctx \<and>
     mn_pending_timeout_event ctx' = mn_pending_timeout_event ctx"

text \<open>An ASnd frame as the managing node sends it.\<close>

definition asnd_ok :: "PowerlinkFrame \<Rightarrow> bool" where
  "asnd_ok f \<longleftrightarrow> (\<exists>a. f = FASnd a \<and> asnd_message_type a = ASnd \<and> wf_eth (asnd_eth_header a) \<and>
     is_powerlink (asnd_eth_header a))"

text \<open>The frames that the node sends in a state.\<close>

definition mn_sends :: "('h, 's) MnContext \<Rightarrow> PowerlinkFrame \<Rightarrow> bool" where
  "mn_sends ctx f \<longleftrightarrow> wf_eth (ethernet_header f) \<and> is_powerlink (ethernet_header f) \<and>
     (case f of
        FSoc s \<Rightarrow> wf_soc s
      | FPReq q \<Rightarrow> wf_preq q \<and> mn_state ctx \<ge> NmtPreOperational2 \<and>
          preq_destination q \<in> set (mn_isochronous_nodes ctx) \<and>
          poll_due ctx (mn_current_multiplex_cycle ctx) (preq_destination q)
      | FSoA s \<Rightarrow> wf_soa s \<and>
          (soa_req_service_id s = RequestedServiceId.StatusRequest \<longrightarrow>
             soa_target_node_id s \<in> set (mn_pending_er_requests ctx) \<union> set (mn_pending_status_requests ctx) \<union>
               set (mn_async_only_nodes ctx)) \<and>
          (soa_req_service_id s = RequestedServiceId.IdentRequest \<longrightarrow>
             unidentified (mn_node_info ctx) (soa_target_node_id s))
      | FASnd a \<Rightarrow> asnd_message_type a = ASnd
      | FPRes _ \<Rightarrow> False)"

lemma mn_sends_asnd: "asnd_ok f \<Longrightarrow> mn_sends ctx f"
  by (auto simp: asnd_ok_def mn_sends_def)

lemma mn_sends_soc: "wf_mac m \<Longrightarrow> mn_sends ctx (FSoc (SocFrame_new m fl nt rt))"
  by (simp add: mn_sends_def SocFrame_new_def wf_soc_def)

lemma asnd_ok_new: "wf_mac m \<Longrightarrow> wf_mac d \<Longrightarrow> asnd_ok (FASnd (ASndFrame_new m d n src sid payload))"
  by (simp add: asnd_ok_def ASndFrame_new_def)

lemma update_info_simps [simp]:
  "mn_core (update_info n f ctx) = mn_core ctx" "mn_nmt_state_machine (update_info n f ctx) = mn_nmt_state_machine ctx"
  "mn_isochronous_nodes (update_info n f ctx) = mn_isochronous_nodes ctx"
  "mn_mandatory_nodes (update_info n f ctx) = mn_mandatory_nodes ctx"
  "mn_async_only_nodes (update_info n f ctx) = mn_async_only_nodes ctx"
  "mn_node_info (update_info n f ctx) = bt_update n f (mn_node_info ctx)"
  "mn_current_phase (update_info n f ctx) = mn_current_phase ctx"
  by (simp_all add: update_info_def)

subsection \<open>Process data\<close>

lemma mn_apply_tpdo_entry_evolves:
  "mn_apply_tpdo_entry l e payload core = (r, core') \<Longrightarrow> core_evolves core core' \<and> core_od core' = core_od core \<and>
    (\<forall>p. r = Inr p \<longrightarrow> length payload \<le> 1490 \<longrightarrow> length payload = l \<longrightarrow> length p = length payload)"
  by (auto simp: mn_apply_tpdo_entry_def Let_def core_evolves_def get_pending_response_def
      ec_get_pending_request_def resize0_def split: option.splits if_splits prod.splits list.splits)

lemma mn_apply_tpdo_entries_evolves:
  "mn_apply_tpdo_entries l es payload core = (r, core') \<Longrightarrow> core_evolves core core' \<and> core_od core' = core_od core \<and>
    (\<forall>p. r = Inr p \<longrightarrow> length payload \<le> 1490 \<longrightarrow> length payload = l \<longrightarrow> length p = length payload)"
proof (induction l es payload core rule: mn_apply_tpdo_entries.induct)
  case (2 l e es payload core)
  obtain q core1 where 1: "mn_apply_tpdo_entry l e payload core = (q, core1)" by fastforce
  from mn_apply_tpdo_entry_evolves [OF this] "2.IH" [OF this [symmetric]] "2.prems" 1 core_evolves_trans
  show ?case by (auto split: sum.splits)
qed auto

lemma mn_build_tpdo_evolves:
  assumes "mn_build_tpdo_payload c core = (r, core')"
  shows "core_evolves core core' \<and> (\<forall>p v. r = Inr (p, v) \<longrightarrow> length p \<le> 1490)"
proof -
  have "preq_payload_limit od n \<le> 1490" for od :: "'b ObjectDictionary" and n
    by (simp add: preq_payload_limit_def C_DLL_ISOCHR_MAX_PAYL_def)
  then show ?thesis
    using assms
    by (auto simp: mn_build_tpdo_payload_def Let_def rbind_eq_Inr dest!: mn_apply_tpdo_entries_evolves
        split: prod.splits)
qed

lemma build_preq_cases:
  assumes "build_preq_frame n b ctx = (f, ctx')"
  shows "(\<exists>core. ctx' = ctx\<lparr> mn_core := core \<rparr> \<and> core_evolves (mn_core ctx) core) \<and>
    (f = dummy_soc (mn_mac ctx) \<or>
     (\<exists>q dest. f = FPReq q \<and> wf_preq q \<and> preq_destination q = n \<and> get_cn_mac_address ctx n = Some dest \<and>
        preq_eth_header q = EthernetHeader_new dest (mn_mac ctx)))"
proof (cases "get_cn_mac_address ctx n")
  case None
  with assms show ?thesis by (auto simp: build_preq_frame_def intro!: exI [of _ "mn_core ctx"])
next
  case (Some dest)
  define rc where "rc = (case tpdo_channel (mn_od ctx) n of None \<Rightarrow> (Inr ([], 0), mn_core ctx)
    | Some channel \<Rightarrow> mn_build_tpdo_payload (of_nat channel) (mn_core ctx))"
  obtain r core where rc1: "rc = (r, core)" by fastforce
  have ev: "core_evolves (mn_core ctx) core" "\<And>p v. r = Inr (p, v) \<Longrightarrow> length p \<le> 1490"
    using mn_build_tpdo_evolves [of _ "mn_core ctx" r core] rc1 unfolding rc_def by (auto split: option.splits)
  then have mac: "core_mac_address core = mn_mac ctx" by (simp add: core_evolves_def)
  have "wf_preq (PReqFrame_new a d n fl v p)" if "length p \<le> 1490" for a d fl v p
    using that by (simp add: wf_preq_def PReqFrame_new_def unat_of_nat take_bit_nat_eq_self)
  with ev assms mac show ?thesis
    unfolding build_preq_frame_def Some option.case rc_def [symmetric] rc1
    by (auto simp: Let_def PReqFrame_new_def split: sum.splits)
qed

subsection \<open>Events of the DLL\<close>

fun is_loss :: "DllError \<Rightarrow> bool" where
  "is_loss (LossOfPres _) = True"
| "is_loss (LatePres _) = True"
| "is_loss (LossOfStatusRes _) = True"
| "is_loss _ = False"

lemma mn_reset_node_loss:
  "mn_log_handle e m = ((NmtAction.ResetNode n, b), m') \<Longrightarrow> is_loss e"
  by (cases e) (auto simp: mn_log_handle_def manager_handle_error_def mn_handle_error_def Let_def
      split: prod.splits if_splits option.splits)

lemma ms_errors_no_loss:
  assumes "ms_process_event m e st fl = (m', errs)" "e \<noteq> PresTimeout" "x \<in> set (unwrap_or errs [])"
  shows "\<not> is_loss x"
  using assms
  by (auto simp: ms_process_event_def ms_next_preop1_def ms_next_cyclic_def ms_unexpected_def Let_def
      split: if_splits prod.splits bool.splits)

lemma identify_found:
  "identify_loop info s w c = Some (Some n) \<Longrightarrow> unidentified info n \<and> 1 \<le> unat n \<and> unat n \<le> 239"
proof -
  have "\<forall>n. r = Some n \<longrightarrow> unidentified i n \<and> 1 \<le> unat n \<and> unat n \<le> 239"
    if "identify_loop i s w c = Some r" for i s w c r
    using that
  proof (induction rule: identify_loop.raw_induct [rotated, consumes 1, case_names loop])
    case (loop f i s w c r)
    define x where "x = (if c = 0 \<or> 239 < c then 1 else c)"
    have x: "1 \<le> unat x" "unat x \<le> 239"
      by (auto simp: x_def word_le_nat_alt word_less_nat_alt word_unat_eq_iff)
    show ?case
      using loop x unfolding x_def [symmetric] by (auto simp: Let_def split: if_splits)
  qed
  then show "identify_loop info s w c = Some (Some n) \<Longrightarrow> unidentified info n \<and> 1 \<le> unat n \<and> unat n \<le> 239" by blast
qed

lemma async_only_found:
  assumes "find_next_async_only_to_poll ctx = (Some n, d)"
  shows "n \<in> set (mn_async_only_nodes ctx)"
proof -
  let ?xs = "mn_async_only_nodes ctx"
  have member: "find p (map (\<lambda>i. ?xs ! ((k + i) mod length ?xs)) [0..<length ?xs]) = Some n \<Longrightarrow>
      n \<in> set ?xs" if "?xs \<noteq> []" for p k
  proof -
    assume "find p (map (\<lambda>i. ?xs ! ((k + i) mod length ?xs)) [0..<length ?xs]) = Some n"
    then have "n \<in> set (map (\<lambda>i. ?xs ! ((k + i) mod length ?xs)) [0..<length ?xs])"
      by (metis find_Some_iff nth_mem)
    with that show "n \<in> set ?xs" by auto
  qed
  with assms show ?thesis
    by (auto simp: find_next_async_only_to_poll_def Let_def split: if_splits option.splits)
qed

lemma deserialize_asnd_eth:
  assumes "deserialize_frame bs = Inr (FASnd f)"
  shows "wf_mac (source_mac (asnd_eth_header f))"
proof -
  have "ASndFrame_deserialize e b = Inr f \<Longrightarrow> asnd_eth_header f = e" for e b
    by (auto simp: ASndFrame_deserialize_def rbind_eq_Inr Let_def split: if_splits)
  with assms show ?thesis
    by (auto simp: deserialize_frame_def rbind_eq_Inr Let_def deserialize_pl_def map_sum_def
        deserialize_eth_header_def wf_mac_def MAC_ADDRESS_SIZE_def split: if_splits sum.splits MessageType.splits)
qed

subsection \<open>Invariants\<close>

locale mn_invariant =
  fixes P :: "('h, 's) MnContext \<Rightarrow> bool" and R :: "PowerlinkFrame \<Rightarrow> bool"
  assumes keep: "P ctx \<Longrightarrow> mn_same ctx ctx' \<Longrightarrow> P ctx'"
    and core: "P ctx \<Longrightarrow> core_evolves (mn_core ctx) core \<Longrightarrow> P (ctx\<lparr> mn_core := core \<rparr>)"
    and request: "P ctx \<Longrightarrow>
      server_handle_request (core_sdo_server (mn_core ctx)) bs k (mn_od ctx) now = (r, srv, od) \<Longrightarrow>
      P (ctx\<lparr> mn_core := (mn_core ctx)\<lparr> core_sdo_server := srv, core_od := od \<rparr> \<rparr>) \<and> (\<forall>d. r = Inr d \<longrightarrow> data_ok d)"
    and timeout: "P ctx \<Longrightarrow> server_tick (core_sdo_server (mn_core ctx)) now (mn_od ctx) = (d, srv) \<Longrightarrow>
      P (ctx\<lparr> mn_core := (mn_core ctx)\<lparr> core_sdo_server := srv \<rparr> \<rparr>) \<and> (\<forall>x. d = Inr (Some x) \<longrightarrow> data_ok x)"
    and nmt: "P ctx \<Longrightarrow> e = NmtEvent.Timeout \<or> e = NmtEvent.Error \<Longrightarrow> P (mn_raise_nmt e ctx)"
    and boot: "P ctx \<Longrightarrow> P (check_bootup_state ctx)"
    and mux: "P ctx \<Longrightarrow> 0 < mn_multiplex_cycle_len ctx \<Longrightarrow>
      P (ctx\<lparr> mn_current_multiplex_cycle := (mn_current_multiplex_cycle ctx + 1) mod mn_multiplex_cycle_len ctx \<rparr>)"
    and info: "P ctx \<Longrightarrow>
      (\<And>i. ci_state (g i) = ci_state i \<and> ci_communication_ok (g i) = ci_communication_ok i) \<Longrightarrow>
      P (update_info n g ctx)"
    and identify: "P ctx \<Longrightarrow> R (FASnd f) \<Longrightarrow> asnd_service_id f = IdentResponse \<Longrightarrow>
      unidentified (mn_node_info ctx) (asnd_source f) \<Longrightarrow> wf_mac m \<Longrightarrow>
      P (update_info (asnd_source f) (\<lambda>i. i\<lparr> ci_state := Identified, ci_identity := Some identity \<rparr>)
        (ctx\<lparr> mn_arp_cache := bt_insert (ip_from_node_id (asnd_source f)) m (mn_arp_cache ctx) \<rparr>))"
    and status: "P ctx \<Longrightarrow> R (FASnd f) \<Longrightarrow> asnd_service_id f = StatusResponse \<Longrightarrow>
      (\<And>i. ci_communication_ok (g i) \<Longrightarrow> ci_communication_ok i) \<Longrightarrow> P (update_info (asnd_source f) g ctx)"
    and pres: "P ctx \<Longrightarrow> R (FPRes p) \<Longrightarrow> P (update_info (pres_source p) g ctx)"
    and pres_request: "P ctx \<Longrightarrow> R (FPRes p) \<Longrightarrow> P (ctx\<lparr> mn_async_request_queue :=
      async_push \<lparr> ar_node_id = pres_source p, ar_priority = prio \<rparr> (mn_async_request_queue ctx) \<rparr>)"
    and pres_status: "P ctx \<Longrightarrow> R (FPRes p) \<Longrightarrow>
      P (ctx\<lparr> mn_pending_status_requests := mn_pending_status_requests ctx @ [pres_source p] \<rparr>)"
    and pop_request: "P ctx \<Longrightarrow> async_pop (mn_async_request_queue ctx) = (Some x, q) \<Longrightarrow>
      P (ctx\<lparr> mn_async_request_queue := q \<rparr>)"
    and pop_status: "P ctx \<Longrightarrow> P (ctx\<lparr> mn_pending_status_requests := butlast (mn_pending_status_requests ctx) \<rparr>)"
    and pop_er: "P ctx \<Longrightarrow> P (ctx\<lparr> mn_pending_er_requests := butlast (mn_pending_er_requests ctx) \<rparr>)"
    and push_frame: "P ctx \<Longrightarrow> asnd_ok f' \<Longrightarrow> P (ctx\<lparr> mn_async_send_queue := mn_async_send_queue ctx @ [f'] \<rparr>)"
    and pop_frame: "P ctx \<Longrightarrow> P (ctx\<lparr> mn_async_send_queue := butlast (mn_async_send_queue ctx) \<rparr>)"
    and queued: "P ctx \<Longrightarrow> f' \<in> set (mn_async_send_queue ctx) \<Longrightarrow> asnd_ok f'"
    and ident: "P ctx \<Longrightarrow> 1 \<le> unat n \<Longrightarrow> unat n \<le> 239 \<Longrightarrow> P (ctx\<lparr> mn_last_ident_poll_node_id := n \<rparr>)"
    and poll: "P ctx \<Longrightarrow> mn_state ctx \<ge> NmtPreOperational2 \<Longrightarrow> n \<in> set (mn_isochronous_nodes ctx) \<Longrightarrow>
      poll_due ctx (mn_current_multiplex_cycle ctx) n \<Longrightarrow> P (ctx\<lparr> mn_pending_timeout_event := Some PresTimeout \<rparr>)"
    and event: "P ctx \<Longrightarrow> ev \<noteq> Some PresTimeout \<Longrightarrow> P (ctx\<lparr> mn_pending_timeout_event := ev \<rparr>)"
    and lost: "P ctx0 \<Longrightarrow> mn_pending_timeout_event ctx0 = Some PresTimeout \<Longrightarrow> P ctx \<Longrightarrow>
      P (update_info n (\<lambda>i. i\<lparr> ci_state := Missing \<rparr>) ctx)"
    and macs: "P ctx \<Longrightarrow> wf_mac (mn_mac ctx)" "P ctx \<Longrightarrow> get_cn_mac_address ctx n = Some m \<Longrightarrow> wf_mac m"
begin

definition emits :: "NodeAction \<Rightarrow> bool" where
  "emits a \<longleftrightarrow> (\<forall>bs. a = SendFrame bs \<longrightarrow> (\<exists>c f. P c \<and> mn_sends c f \<and> send f = SendFrame bs))"

lemma emits_simps [simp]: "emits NoAction" "emits (SendUdp ip port bs)"
  by (simp_all add: emits_def)

lemma emits_send: "P c \<Longrightarrow> mn_sends c f \<Longrightarrow> emits (send f)"
  by (auto simp: emits_def)

lemma fields:
  assumes "P ctx"
  shows "P (ctx\<lparr> mn_dll_state_machine := a \<rparr>)" "P (ctx\<lparr> mn_dll_error_manager := b \<rparr>)"
    "P (ctx\<lparr> mn_pending_nmt_commands := c \<rparr>)" "P (ctx\<lparr> mn_sdo_client_manager := d \<rparr>)"
    "P (ctx\<lparr> mn_next_tick_us := e \<rparr>)" "P (ctx\<lparr> mn_current_cycle_start_time_us := t \<rparr>)"
    "P (ctx\<lparr> mn_last_status_poll_node_id := n \<rparr>)" "P (ctx\<lparr> mn_initial_operational_actions_done := h \<rparr>)"
    "P (ctx\<lparr> mn_next_isoch_node_idx := i \<rparr>)" "P (ctx\<lparr> mn_current_phase := ph \<rparr>)"
    "P (ctx\<lparr> mn_current_polled_cn := cn \<rparr>)"
  by (rule keep [OF assms]; simp add: mn_same_def)+

lemma count: "P ctx \<Longrightarrow> P (mn_count_telegram s ctx)"
  unfolding mn_map_od_core by (rule core) (simp_all add: core_evolves_def increment_counter_sound)

lemma command: "P ctx \<Longrightarrow> P (queue_command c n d ctx)"
  by (simp add: queue_command_def fields)

text \<open>An error of the DLL; only a lost PRes, after its time-out, makes the node give up another node.\<close>

lemma dll_error:
  assumes "P ctx" "is_loss e \<Longrightarrow> \<exists>c0. P c0 \<and> mn_pending_timeout_event c0 = Some PresTimeout"
  shows "P (mn_handle_dll_error n e ctx)"
proof -
  define e' where "e' = (case e of LossOfPres _ \<Rightarrow> LossOfPres n | _ \<Rightarrow> e)"
  obtain act b m where h: "mn_log_handle e' (mn_dll_error_manager ctx) = ((act, b), m)" by (metis prod.collapse)
  have c: "P (ctx\<lparr> mn_dll_error_manager := m \<rparr>)" by (rule fields(2) [OF assms(1)])
  have loss: "is_loss e' = is_loss e" by (cases e) (simp_all add: e'_def)
  show ?thesis
  proof (cases act)
    case (ResetNode k)
    then obtain c0 where "P c0" "mn_pending_timeout_event c0 = Some PresTimeout"
      using mn_reset_node_loss h loss assms(2) by blast
    from lost [OF this c] ResetNode h show ?thesis
      by (simp add: mn_handle_dll_error_def e'_def [symmetric] command)
  qed (use c h nmt fields in \<open>simp_all add: mn_handle_dll_error_def e'_def [symmetric]\<close>)
qed

lemma dll_event:
  assumes "P ctx" "ev = PresTimeout \<Longrightarrow> \<exists>c0. P c0 \<and> mn_pending_timeout_event c0 = Some PresTimeout"
  shows "P (mn_handle_dll_event ev f ctx)"
proof -
  define L where "L \<longleftrightarrow> (\<exists>c0. P c0 \<and> mn_pending_timeout_event c0 = Some PresTimeout)"
  have errors: "P (fold (mn_handle_dll_error n) errs c)" if "P c" "\<forall>x \<in> set errs. is_loss x \<longrightarrow> L" for n errs c
    using that
  proof (induction errs arbitrary: c)
    case (Cons x errs)
    then have "P (mn_handle_dll_error n x c)" by (intro dll_error) (auto simp: L_def)
    with Cons show ?case by simp
  qed simp
  have loss: "\<forall>x \<in> set (unwrap_or (snd (ms_process_event m ev st fl)) []). is_loss x \<longrightarrow> L" for m st fl
    using ms_errors_no_loss [of m ev st fl, OF prod.collapse [symmetric]] assms(2)
    by (cases "ev = PresTimeout") (simp_all add: L_def)
  show ?thesis
    unfolding mn_handle_dll_event_def Let_def case_prod_unfold by (intro errors fields assms(1) loss)
qed

lemma schedule: "P ctx \<Longrightarrow> e \<noteq> PresTimeout \<Longrightarrow> P (schedule_timeout d e ctx)"
  by (auto simp: schedule_timeout_def Let_def intro!: fields event split: option.split)

lemma poll_node:
  assumes "P ctx" "mn_state ctx \<ge> NmtPreOperational2" "n \<in> set (mn_isochronous_nodes ctx)"
    "poll_due ctx (mn_current_multiplex_cycle ctx) n" "poll_node n t ctx = (a, ctx')"
  shows "P ctx' \<and> emits a"
proof -
  define c where "c = ctx\<lparr> mn_current_polled_cn := Some n, mn_current_phase := IsochronousPReq \<rparr>"
  have due: "poll_due (x\<lparr> mn_pending_timeout_event := ev \<rparr>) k = poll_due x k"
    "poll_due (x\<lparr> mn_next_tick_us := tk \<rparr>) k = poll_due x k"
    "poll_due (x\<lparr> mn_current_phase := ph \<rparr>) k = poll_due x k"
    "poll_due (x\<lparr> mn_current_polled_cn := cn \<rparr>) k = poll_due x k" for x :: "('h, 's) MnContext" and ev k tk ph cn
    by (simp_all add: poll_due_def should_poll_def isochronous_state_def assigned_cycle_def fun_eq_iff)
  have c: "P c" "mn_state c \<ge> NmtPreOperational2" "n \<in> set (mn_isochronous_nodes c)"
    "poll_due c (mn_current_multiplex_cycle c) n"
    using assms by (simp_all add: c_def fields due)
  obtain d where d: "P d" "mn_state d \<ge> NmtPreOperational2" "n \<in> set (mn_isochronous_nodes d)"
    "poll_due d (mn_current_multiplex_cycle d) n"
    "d = schedule_timeout (t + ucast (unwrap_or (read_u32 (mn_od c) 0x1F92 n) 25000) div 1000) PresTimeout c"
    using poll [OF c] c by (auto simp: schedule_timeout_def Let_def due fields split: option.split)
  obtain f e where b: "build_preq_frame n (assigned_cycle d n > 0) d = (f, e)" by fastforce
  have "P e" using build_preq_cases [OF b] core [OF d(1)] by blast
  have "mn_sends d f"
    using build_preq_cases [OF b] macs [OF d(1)] d(2-4)
    by (auto simp: dummy_soc_def mn_sends_soc) (auto simp: mn_sends_def)
  with d(1) have "emits (send f)" by (rule emits_send)
  with \<open>P e\<close> assms(5) b d(5) show ?thesis
    by (auto simp: poll_node_def Let_def c_def [symmetric] count)
qed

lemma soa_sent:
  assumes "P c" "wf_mac (mn_mac d)"
    and "svc = RequestedServiceId.StatusRequest \<Longrightarrow> n \<in> set (mn_pending_er_requests c) \<union>
      set (mn_pending_status_requests c) \<union> set (mn_async_only_nodes c)"
    and "svc = RequestedServiceId.IdentRequest \<Longrightarrow> unidentified (mn_node_info c) n"
  shows "emits (send (build_soa_frame d svc n er))"
  by (rule emits_send [OF assms(1)])
    (use assms in \<open>auto simp: mn_sends_def build_soa_frame_def SoAFrame_new_def wf_soa_def\<close>)

text \<open>What the scheduler decides for the asynchronous slot, justified in a state with the invariant.\<close>

definition justified :: "async_action \<Rightarrow> bool" where
  "justified act \<longleftrightarrow> (case act of (svc, n, _) \<Rightarrow> \<exists>c. P c \<and>
     (svc = RequestedServiceId.StatusRequest \<longrightarrow> n \<in> set (mn_pending_er_requests c) \<union>
        set (mn_pending_status_requests c) \<union> set (mn_async_only_nodes c)) \<and>
     (svc = RequestedServiceId.IdentRequest \<longrightarrow> unidentified (mn_node_info c) n))"

lemma justified_other:
  "P c \<Longrightarrow> svc \<noteq> RequestedServiceId.StatusRequest \<Longrightarrow> svc \<noteq> RequestedServiceId.IdentRequest \<Longrightarrow> justified (svc, n, er)"
  by (auto simp: justified_def)

lemma background:
  assumes "background_action ctx = (act, ctx')" "P ctx"
  shows "P ctx' \<and> justified act"
proof -
  have "asnd_ok (build_nmt_info_frame ctx sid)" for sid
    using macs(1) [OF assms(2)] by (simp add: build_nmt_info_frame_def asnd_ok_new)
  then have "P (ctx\<lparr> mn_async_send_queue := [build_nmt_info_frame ctx sid] \<rparr>)" if "mn_async_send_queue ctx = []" for sid
    using push_frame [OF assms(2), of "build_nmt_info_frame ctx sid"] that by simp
  with assms show ?thesis
    by (auto simp: background_action_def intro: pop_request justified_other [OF assms(2)]
        split: option.splits prod.splits if_splits)
qed

lemma poll_act:
  assumes "poll_action ctx = Some (act, ctx')" "P ctx"
  shows "P ctx' \<and> justified act"
proof -
  obtain r c where f: "find_next_node_to_identify ctx = Some (r, c)"
    using assms(1) by (auto simp: poll_action_def split: option.splits)
  show ?thesis
  proof (cases r)
    case (Some n)
    then have n: "unidentified (mn_node_info ctx) n" "1 \<le> unat n" "unat n \<le> 239" "c = ctx\<lparr> mn_last_ident_poll_node_id := n \<rparr>"
      using f by (auto simp: find_next_node_to_identify_def Let_def dest!: identify_found)
    have "act = (RequestedServiceId.IdentRequest, n, False)" "ctx' = c"
      using assms(1) f Some by (auto simp: poll_action_def)
    with n ident [OF assms(2) n(2,3)] assms(2) show ?thesis by (auto simp: justified_def)
  next
    case None
    then have c: "c = ctx" using f by (auto simp: find_next_node_to_identify_def Let_def split: option.splits)
    obtain q d where g: "find_next_async_only_to_poll ctx = (q, d)" by fastforce
    have d: "P d" using g assms(2) by (auto simp: find_next_async_only_to_poll_def Let_def fields split: if_splits option.splits)
    show ?thesis
    proof (cases q)
      case (Some n)
      then have "n \<in> set (mn_async_only_nodes ctx)"
        using async_only_found g by blast
      moreover have "act = (RequestedServiceId.StatusRequest, n, False)" "ctx' = d"
        using assms(1) f None c g Some by (auto simp: poll_action_def)
      ultimately show ?thesis using d assms(2) by (auto simp: justified_def)
    next
      case q: None
      then have "background_action d = (act, ctx')" using assms(1) f None c g by (auto simp: poll_action_def)
      with background d show ?thesis by blast
    qed
  qed
qed

lemma determine:
  assumes "determine_next_async_action ctx = Some (act, ctx')" "P ctx"
  shows "P ctx' \<and> justified act"
proof -
  have sdo: "P (schedule_sdo_request n s cmd c)" if "P c" for n s cmd c
  proof -
    have "wf_mac (unwrap_or (get_cn_mac_address c n) C_DLL_MULTICAST_ASND)"
      using macs(2) [OF that, of n] by (cases "get_cn_mac_address c n") auto
    then show ?thesis
      using macs(1) [OF that] by (auto simp: schedule_sdo_request_def Let_def intro!: push_frame that asnd_ok_new)
  qed
  have er: "justified (RequestedServiceId.StatusRequest, last (mn_pending_er_requests ctx), True)"
    if "mn_pending_er_requests ctx \<noteq> []"
    using that assms(2) by (auto simp: justified_def)
  have st: "justified (RequestedServiceId.StatusRequest, last (mn_pending_status_requests ctx), False)"
    if "mn_pending_status_requests ctx \<noteq> []"
    using that assms(2) by (auto simp: justified_def)
  have self: "justified invite_self" by (rule justified_other [OF assms(2)]) simp_all
  have poll: "poll_action (ctx\<lparr> mn_sdo_client_manager := m \<rparr>) = Some (act, ctx') \<Longrightarrow> P ctx' \<and> justified act" for m
    by (rule poll_act [OF _ fields(4) [OF assms(2)]])
  show ?thesis
    using assms
    by (auto simp: determine_next_async_action_def vec_pop_def pop_er pop_status er st self
        intro!: sdo fields dest: poll split: if_splits option.splits prod.splits)
qed

lemma grant:
  assumes "grant_slot act t ctx = (a, ctx')" "P ctx" "justified act"
  shows "P ctx' \<and> emits a"
proof -
  obtain svc n er where act: "act = (svc, n, er)" by (metis prod.collapse)
  from assms(3) obtain c where c: "P c"
    "svc = RequestedServiceId.StatusRequest \<longrightarrow> n \<in> set (mn_pending_er_requests c) \<union>
       set (mn_pending_status_requests c) \<union> set (mn_async_only_nodes c)"
    "svc = RequestedServiceId.IdentRequest \<longrightarrow> unidentified (mn_node_info c) n"
    unfolding act justified_def by blast
  have s: "wf_mac (mn_mac d) \<Longrightarrow> emits (send (build_soa_frame d svc n er))" for d :: "('h, 's) MnContext"
    by (rule soa_sent [OF c(1)]) (use c in simp_all)
  define c1 where "c1 = (if n \<noteq> C_ADR_MN_DEF_NODE_ID \<and> svc \<noteq> NoService then
      schedule_timeout (t + ucast (unwrap_or (read_u32 (mn_od ctx) 0x1F8A 2) 100000) div 1000) AsndTimeout
        (ctx\<lparr> mn_current_phase := AsynchronousSoA \<rparr>)
    else if n = C_ADR_MN_DEF_NODE_ID then ctx\<lparr> mn_current_phase := AwaitingMnAsyncSend \<rparr>
    else ctx\<lparr> mn_current_phase := CyclePhase.Idle \<rparr>)"
  define c2 where "c2 = (if svc = RequestedServiceId.StatusRequest then mn_count_telegram 8 (mn_count_telegram 5 c1)
    else mn_count_telegram 5 c1)"
  have "P c1" by (simp add: c1_def schedule fields assms(2))
  then have "P c2" by (simp add: c2_def count)
  moreover have "grant_slot act t ctx = (send (build_soa_frame c2 svc n er), c2)"
    unfolding grant_slot_def act Let_def c1_def c2_def prod.case ..
  then have "a = send (build_soa_frame c2 svc n er)" "ctx' = c2" using assms(1) by simp_all
  ultimately show ?thesis using s macs(1) by blast
qed

lemma async_phase:
  assumes "asynchronous_phase t ctx = Some (a, ctx')" "P ctx"
  shows "P ctx' \<and> emits a"
proof -
  define c where "c = ctx\<lparr> mn_current_polled_cn := None, mn_current_phase := IsochronousDone \<rparr>"
  have c: "P c" by (simp add: c_def fields assms(2))
  show ?thesis
  proof (cases "bt_get (mn_publish_config c) (mn_current_multiplex_cycle c + 1)")
    case (Some sid)
    define d where "d = mn_count_telegram 5 (c\<lparr> mn_current_phase := CyclePhase.Idle \<rparr>)"
    have d: "P d" unfolding d_def by (intro count fields c)
    then have "asnd_ok (build_nmt_info_frame d sid)"
      using macs(1) by (simp add: build_nmt_info_frame_def asnd_ok_new)
    then have "emits (send (build_nmt_info_frame d sid))" by (intro emits_send [OF d] mn_sends_asnd)
    with d assms(1) Some show ?thesis by (auto simp: asynchronous_phase_def c_def [symmetric] d_def [symmetric] Let_def)
  next
    case None
    then obtain act d where "determine_next_async_action c = Some (act, d)" "grant_slot act t d = (a, ctx')"
      using assms(1) by (auto simp: asynchronous_phase_def c_def [symmetric] Let_def)
    with determine [OF _ c] grant show ?thesis by blast
  qed
qed

lemma advance:
  assumes "advance_cycle_phase t ctx = Some (a, ctx')" "P ctx"
  shows "P ctx' \<and> emits a"
proof (cases "mn_state ctx \<ge> NmtPreOperational2")
  case True
  obtain r c where g: "get_next_isochronous_node_to_poll ctx (mn_current_multiplex_cycle ctx) = (r, c)" by fastforce
  note n = next_poll [OF g]
  then obtain i where i: "c = ctx\<lparr> mn_next_isoch_node_idx := i \<rparr>" by blast
  then have c: "P c" by (simp add: fields assms(2))
  show ?thesis
  proof (cases r)
    case (Some k)
    then have p: "poll_node k t c = (a, ctx')" using assms(1) g True by (simp add: advance_cycle_phase_def)
    show ?thesis by (rule poll_node [OF c _ _ _ p]) (use n Some i True in auto)
  next
    case None
    with assms(1) g True c async_phase show ?thesis by (simp add: advance_cycle_phase_def)
  qed
qed (use assms async_phase in \<open>simp add: advance_cycle_phase_def\<close>)

lemma start:
  assumes "start_cycle t ctx = (a, ctx')" "P ctx"
  shows "P ctx' \<and> emits a"
proof -
  define c where "c = ctx\<lparr> mn_current_cycle_start_time_us := t \<rparr>"
  define d where "d = (if mn_multiplex_cycle_len c > 0 then c\<lparr> mn_current_multiplex_cycle :=
      (mn_current_multiplex_cycle c + 1) mod mn_multiplex_cycle_len c \<rparr> else c)\<lparr> mn_next_isoch_node_idx := 0 \<rparr>"
  have "P c" by (simp add: c_def fields assms(2))
  then have d: "P d" by (auto simp: d_def intro!: fields mux)
  have "mn_sends d (build_soc_frame d x y)" for x y
    using macs(1) [OF d] by (simp add: build_soc_frame_def mn_sends_soc)
  then have "emits (send (build_soc_frame d x y))" for x y by (rule emits_send [OF d])
  moreover have "P (mn_count_telegram 1 ((mn_handle_dll_event SocTrig f d)\<lparr> mn_current_phase := SoCSent \<rparr>))" for f
    by (intro count fields dll_event d) simp
  ultimately show ?thesis
    using assms(1) by (auto simp: start_cycle_def Let_def c_def [symmetric] d_def [symmetric])
qed

end

end
