(* ===== verification/Mn_Run.thy ===== *)
theory Mn_Run
  imports Mn_Props
begin

section \<open>Runs of the managing node\<close>

text \<open>
  Frames, datagrams and ticks keep every invariant of the managing node, and what they send is
  allowed by it. The locale is interpreted for the invariant \<open>mn_inv\<close> of the states that a node can
  reach.
\<close>

subsection \<open>The rest of the operations\<close>

context mn_invariant
begin

lemma command_frame:
  assumes "P c"
  shows "emits (send (build_nmt_command_frame c cmd n d))"
proof (rule emits_send [OF assms])
  have "wf_mac m" if "(if n = C_ADR_BROADCAST_NODE_ID then Some C_DLL_MULTICAST_ASND else get_cn_mac_address c n) = Some m" for m
    using that macs(2) [OF assms] by (auto split: if_splits)
  then show "mn_sends c (build_nmt_command_frame c cmd n d)"
    using macs(1) [OF assms]
    by (auto simp: build_nmt_command_frame_def dummy_soc_def mn_sends_soc intro!: mn_sends_asnd asnd_ok_new
        split: option.split)
qed

lemma sdo_frame: "P c \<Longrightarrow> build_sdo_asnd_request c n s cmd = Inr f \<Longrightarrow> emits (send f)"
  using macs [of c]
  by (auto simp: build_sdo_asnd_request_def rbind_eq_Inr intro!: emits_send [of c] mn_sends_asnd asnd_ok_new
      split: option.splits)

lemma operational:
  assumes "operational_actions ctx = (a, ctx')" "P ctx"
  shows "P ctx' \<and> pred_option emits a"
  using assms command_frame [OF count [OF fields(8) [OF assms(2)]]] count [OF fields(8) [OF assms(2)]]
    fields(8) [OF assms(2)]
  by (auto simp: operational_actions_def Let_def intro!: command split: if_splits list.splits)

lemma queued_frames:
  assumes "send_queued ctx = (a, ctx')" "P ctx"
  shows "P ctx' \<and> emits a"
  using assms count [OF pop_frame [OF assms(2)]] queued [OF assms(2)]
  by (auto simp: send_queued_def vec_pop_def intro!: emits_send [of ctx] mn_sends_asnd split: if_splits)

lemma async_send:
  assumes "send_async t ctx = Some (a, ctx')" "P ctx"
  shows "P ctx' \<and> emits a"
proof -
  define c where "c = ctx\<lparr> mn_current_phase := CyclePhase.Idle \<rparr>"
  have c: "P c" by (simp add: c_def fields assms(2))
  show ?thesis
  proof (cases "mn_pending_nmt_commands c = []")
    case False
    obtain cmd n d where l: "last (mn_pending_nmt_commands c) = (cmd, n, d)" by (metis prod.collapse)
    have p: "P (mn_count_telegram 5 (c\<lparr> mn_pending_nmt_commands := butlast (mn_pending_nmt_commands c) \<rparr>))"
      by (intro count fields c)
    from p command_frame [OF p] assms(1) False l show ?thesis
      by (auto simp: send_async_def c_def [symmetric] Let_def vec_pop_def)
  next
    case True
    obtain r m where r: "cm_get_pending_request (mn_sdo_client_manager c) t (mn_od c) = Some (r, m)"
      using assms(1) True by (auto simp: send_async_def c_def [symmetric] Let_def vec_pop_def split: option.splits)
    have d: "P (c\<lparr> mn_sdo_client_manager := m \<rparr>)" by (rule fields(4) [OF c])
    from assms(1) True r queued_frames [OF _ d] count [OF d] sdo_frame [OF d] show ?thesis
      by (auto simp: send_async_def c_def [symmetric] Let_def vec_pop_def split: option.splits sum.splits)
  qed
qed

lemma cycle_tick:
  assumes "mn_cycle_tick t ctx = Some (a, ctx')" "P ctx"
  shows "P ctx' \<and> emits a"
proof -
  obtain r c where r: "operational_actions ctx = (r, c)" by fastforce
  with operational assms(2) have c: "P c" "pred_option emits r" by blast+
  show ?thesis
    using assms(1) r c fields(5) [OF c(1)] async_send [OF _ c(1)] advance [OF _ c(1)]
    by (auto simp: mn_cycle_tick_def Let_def split: option.splits CyclePhase.splits if_splits)
qed

text \<open>Received frames.\<close>

lemma report:
  assumes "P ctx"
    "\<And>c g. P c \<Longrightarrow> (\<And>i. ci_communication_ok (g i) \<Longrightarrow> ci_communication_ok i) \<Longrightarrow> P (update_info n g c)"
  shows "P (update_cn_state n st ctx)"
proof -
  have "P (update_info n (\<lambda>i. let i = i\<lparr> ci_state := s \<rparr>
      in if s < PreOperational then i\<lparr> ci_communication_ok := False \<rparr> else i) ctx)" for s
    by (rule assms(2) [OF assms(1)]) (simp add: Let_def split: if_splits)
  with assms(1) show ?thesis
    unfolding update_cn_state_def by (auto simp: Let_def [of "cn_state_of _ _"] intro!: boot split: option.split)
qed

lemma pres_frame:
  assumes "P ctx" "R (FPRes p)"
  shows "P (handle_pres_frame p ctx)"
proof -
  define c where "c = (if pres_rs (pres_flags p) > 0
    then ctx\<lparr> mn_async_request_queue := async_push
           \<lparr> ar_node_id = pres_source p, ar_priority = PRFlag_u8 (pres_pr (pres_flags p)) \<rparr>
           (mn_async_request_queue ctx) \<rparr> else ctx)"
  have c: "P c" using assms by (simp add: c_def pres_request)
  have "P (check_communication p d)" if "P d" for d
    using that by (auto simp: check_communication_def Let_def intro!: boot pres assms(2))
  then show ?thesis
    unfolding handle_pres_frame_def c_def [symmetric] Let_def
    using c by (auto intro!: pres_status pres assms(2) split: option.split)
qed

lemma asnd_frame:
  assumes "P ctx" "R (FASnd f)" "wf_mac (source_mac (asnd_eth_header f))"
  shows "P (handle_asnd_frame f t ctx)"
proof -
  have r: "P (remediate n t ctx)" for n
    using assms(1) by (auto simp: remediate_def Let_def intro!: info fields split: option.split sum.split prod.split)
  have i: "P (handle_ident_response f t ctx)" if "asnd_service_id f = IdentResponse"
    using assms r identify [OF _ assms(2) that]
    by (auto simp: handle_ident_response_def validate_boot_step1_checks_def identify_node_def Let_def
        intro!: boot split: sum.split)
  have s: "P (handle_status_response f ctx)" if "asnd_service_id f = StatusResponse"
  proof -
    define c where "c = update_info (asnd_source f) (\<lambda>i. i\<lparr> ci_ea_flag := ci_en_flag i \<rparr>) ctx"
    have c: "P c" unfolding c_def by (rule info [OF assms(1)]) simp
    have g: "P x \<Longrightarrow> (\<And>i. ci_communication_ok (g i) \<Longrightarrow> ci_communication_ok i) \<Longrightarrow> P (update_info (asnd_source f) g x)" for x g
      by (rule status [OF _ assms(2) that])
    have "P (update_cn_state (asnd_source f) st c)" for st by (rule report [OF c g])
    with c assms(1) show ?thesis
      unfolding handle_status_response_def Let_def c_def [symmetric] by (simp split: sum.split)
  qed
  from i s assms(1) show ?thesis by (simp add: handle_asnd_frame_def split: ServiceId.split)
qed

lemma asnd_processed:
  assumes "P ctx" "R (FASnd f)" "wf_mac (source_mac (asnd_eth_header f))"
  shows "P (process_asnd f t ctx)"
proof -
  have "P (handle_asnd_frame f t ((mn_count_telegram 4 ctx)\<lparr> mn_pending_timeout_event := None \<rparr>))"
    by (intro asnd_frame event count assms) simp
  then show ?thesis
    using asnd_frame [OF count [OF assms(1)] assms(2,3)] by (simp add: process_asnd_def Let_def fields)
qed

lemma pres_processed:
  assumes "process_pres f t ctx = Some ctx'" "P ctx" "R (FPRes f)"
  shows "P ctx'"
proof -
  define c where "c = (let ctx = mn_count_telegram 2 ctx
    in if bt_contains (mn_node_info ctx) (pres_source f)
       then update_cn_state (pres_source f) (pres_nmt_state f)
              (update_info (pres_source f) (\<lambda>info. info\<lparr> ci_nmt_state := pres_nmt_state f,
                 ci_last_pres_time_us := t, ci_dll_errors := 0 \<rparr>) ctx)
       else ctx)"
  have c: "P c"
    unfolding c_def Let_def by (auto intro!: report pres count assms(2,3))
  have m: "P d" if "mn_consume f c' = Some d" "P c'" for c' d
    using that by (auto simp: mn_consume_def dest!: consume_evolves intro!: core fields)
  have e: "P (c\<lparr> mn_pending_timeout_event := None \<rparr>)" by (intro event c) simp
  from assms(1) show ?thesis
    unfolding process_pres_def Let_def c_def [unfolded Let_def, symmetric]
    using pres_frame [OF c assms(3)] pres_frame [OF m [OF _ e] assms(3)] advance
    by (fastforce simp: bind_eq_Some_conv split: if_splits)
qed

lemma frame:
  assumes "mn_process_frame f t ctx = Some ctx'" "P ctx" "R f" "nmt_event f = None"
    "\<And>a. f = FASnd a \<Longrightarrow> wf_mac (source_mac (asnd_eth_header a))"
  shows "P ctx'"
proof -
  have d: "P (mn_handle_dll_event (dll_mn_event f) f ctx)"
    by (rule dll_event [OF assms(2)]) (cases f; simp)
  show ?thesis
    using assms d pres_processed [OF _ d] asnd_processed [OF d]
    by (cases f) (auto simp: mn_process_frame_def Let_def)
qed

text \<open>SDO.\<close>

lemma server_request:
  assumes "mn_server_request bs k t ctx = (r, ctx')" "P ctx"
  shows "P ctx' \<and> (\<forall>d. r = Inr d \<longrightarrow> data_ok d)"
  using assms request [OF assms(2), of bs k t] by (auto simp: mn_server_request_def Let_def split: prod.splits)

lemma asnd_request:
  assumes "handle_sdo_server_request bs (AsndClient n m) t ctx = (a, ctx')" "P ctx"
  shows "P ctx' \<and> emits a"
proof -
  obtain r c where r: "mn_server_request bs (AsndClient n m) t ctx = (r, c)" by fastforce
  note c = server_request [OF r assms(2)]
  have "AsndTransport_build_response (mn_mac c) (mn_id c) False d = Inr a \<Longrightarrow> False \<or> \<not> (\<exists>bs. a = SendFrame bs)" if "data_ok d" for d
  proof (cases "rd_client_info d")
    case (AsndClient n m)
    then show "AsndTransport_build_response (mn_mac c) (mn_id c) False d = Inr a \<Longrightarrow> False \<or> \<not> (\<exists>bs. a = SendFrame bs)"
      using asnd_reply_fails [OF that] by simp
  qed (simp add: AsndTransport_build_response_def)
  then have "AsndTransport_build_response (mn_mac c) (mn_id c) False d = Inr a \<Longrightarrow> emits a" if "data_ok d" for d
    using that by (cases a) auto
  with c r assms(1) count show ?thesis
    by (auto simp: handle_sdo_server_request_def split: sum.splits)
qed

lemma asnd:
  assumes "process_asnd_frame f t ctx = Some (a, ctx')" "P ctx" "R (FASnd f)" "wf_mac (source_mac (asnd_eth_header f))"
  shows "P ctx' \<and> emits a"
proof -
  have r: "handle_sdo_response f c = Some d \<Longrightarrow> P c \<Longrightarrow> P d" for c d
    by (auto simp: handle_sdo_response_def Let_def intro!: fields split: if_splits sum.splits)
  show ?thesis
    using assms r count [OF assms(2)] frame [of "FASnd f" t ctx ctx'] asnd_request
    by (auto simp: process_asnd_frame_def split: if_splits)
qed

lemma ethernet:
  assumes "mn_process_ethernet_frame bs t ctx = Some (a, ctx')" "P ctx"
    and "\<And>f. deserialize_frame bs = Inr f \<Longrightarrow> R f"
  shows "P ctx' \<and> emits a"
  using assms nmt [OF assms(2), of NmtEvent.Error] asnd [OF _ assms(2)] frame [of "FPRes _" t ctx ctx']
    deserialize_asnd_eth [of bs]
  by (auto simp: mn_process_ethernet_frame_def process_powerlink_frame_def
      split: if_splits sum.splits PowerlinkFrame.splits)

lemma udp_datagram:
  assumes "mn_run_udp dgram t ctx = (a, ctx')" "P ctx"
  shows "P ctx' \<and> emits a"
proof -
  have u: "P (snd (mn_process_udp_datagram bs ip port t ctx)) \<and> emits (fst (mn_process_udp_datagram bs ip port t ctx))" for bs ip port
    using assms(2) server_request [OF _ count [OF assms(2)]]
    by (auto simp: mn_process_udp_datagram_def dest!: udp_reply_kind split: sum.split prod.split)
  show ?thesis
  proof (cases dgram)
    case (Some x)
    obtain bs ip port where x: "x = (bs, ip, port)" by (metis prod.collapse)
    obtain b c where "mn_process_udp_datagram bs ip port t ctx = (b, c)" by fastforce
    with u [of bs ip port] assms Some x show ?thesis
      by (auto simp: mn_run_udp_def intro!: count split: NodeAction.splits)
  qed (use assms in \<open>simp add: mn_run_udp_def\<close>)
qed

text \<open>Timers.\<close>

lemma client_tick:
  assumes "tick_sdo_client t ctx = Some (a, ctx')" "P ctx"
  shows "P ctx' \<and> pred_option emits a"
proof -
  obtain r m where r: "cm_tick (mn_sdo_client_manager ctx) t (mn_od ctx) = Some (r, m)"
    using assms(1) by (auto simp: tick_sdo_client_def split: option.splits)
  have d: "P (ctx\<lparr> mn_sdo_client_manager := m \<rparr>)" by (rule fields(4) [OF assms(2)])
  from assms(1) r d count [OF d] sdo_frame [OF d] show ?thesis
    by (auto simp: tick_sdo_client_def Let_def split: option.splits sum.splits)
qed

lemma server_timeout:
  assumes "mn_tick_sdo_server t ctx = (a, ctx')" "P ctx"
  shows "P ctx' \<and> pred_option emits a"
proof -
  obtain r srv where 1: "server_tick (core_sdo_server (mn_core ctx)) t (mn_od ctx) = (r, srv)" by fastforce
  define c where "c = ctx\<lparr> mn_core := (mn_core ctx)\<lparr> core_sdo_server := srv \<rparr> \<rparr>"
  note c = timeout [OF assms(2) 1, folded c_def]
  have "data_ok d \<Longrightarrow> mn_build_sdo_response x d = Inr b \<Longrightarrow> emits b" for x :: "('h, 's) MnContext" and d b
    by (auto simp: mn_build_sdo_response_def asnd_reply_fails dest!: udp_reply_kind split: SdoClientInfo.splits)
  with c count show ?thesis
    using assms unfolding mn_tick_sdo_server_def 1
    by (auto simp: Let_def c_def [symmetric] split: option.splits if_splits sum.splits)
qed

lemma phase_tick: "tick_phase x y t ctx = Some (a, ctx') \<Longrightarrow> P ctx \<Longrightarrow> P ctx' \<and> emits a"
  using advance cycle_tick by (auto simp: tick_phase_def split: if_splits)

lemma deadline_tick:
  assumes "mn_tick_deadlines t ctx = Some (a, ctx')" "P ctx"
  shows "P ctx' \<and> emits a"
proof -
  define c where "c = ctx\<lparr> mn_next_tick_us := None \<rparr>"
  have c: "P c" by (simp add: c_def fields assms(2))
  have e: "P (mn_handle_dll_event ev f (c\<lparr> mn_pending_timeout_event := None \<rparr>))"
    if "mn_pending_timeout_event c = Some ev" for ev f
    by (rule dll_event) (use c that in \<open>auto intro!: event\<close>)
  show ?thesis
    using assms nmt [OF c] phase_tick [OF _ c] phase_tick [OF _ assms(2)] advance [OF _ e]
    unfolding mn_tick_deadlines_def Let_def c_def [symmetric]
    by (auto split: if_splits option.splits)
qed

lemma tick:
  assumes "handle_tick t ctx = Some (a, ctx')" "P ctx"
  shows "P ctx' \<and> emits a"
proof (cases "tick_sdo_client t ctx")
  case None
  with assms start show ?thesis by (fastforce simp: handle_tick_def Let_def split: if_splits)
next
  case (Some x)
  obtain r c where x: "x = (r, c)" by fastforce
  have c: "P c" "pred_option emits r" using client_tick Some x assms(2) by blast+
  obtain q d where q: "mn_tick_sdo_server t c = (q, d)" by fastforce
  have d: "P d" "pred_option emits q" using server_timeout [OF q c(1)] by blast+
  show ?thesis
    using assms start [OF _ assms(2)] c d deadline_tick [OF _ d(1)] Some x q
    by (auto simp: handle_tick_def Let_def split: if_splits option.splits)
qed

lemma cycle:
  assumes "mn_run_cycle ctx eth dgram t = Some (a, ctx')" "P ctx"
    and "\<And>bs f. eth = Some bs \<Longrightarrow> deserialize_frame bs = Inr f \<Longrightarrow> R f"
  shows "P ctx' \<and> emits a"
proof -
  obtain b c where b: "mn_run_ethernet eth t ctx = Some (b, c)"
    using assms(1) by (auto simp: mn_run_cycle_def bind_eq_Some_conv)
  have c: "P c \<and> emits b"
    using b assms(2,3) ethernet by (fastforce simp: mn_run_ethernet_def split: option.splits if_splits)
  obtain d g where d: "mn_run_udp dgram t c = (d, g)" by fastforce
  have "P g \<and> emits d" using udp_datagram [OF d] c by blast
  with assms(1) b c d tick show ?thesis by (auto simp: mn_run_cycle_def split: if_splits)
qed

end

end
