(* ===== verification/Mn_Inv.thy ===== *)
theory Mn_Inv
  imports Mn_Run
begin

section \<open>The reachable states of the managing node\<close>

subsection \<open>The invariant\<close>

definition mn_states :: "NmtState set" where
  "mn_states = {NmtNotActive, NmtBasicEthernet, NmtPreOperational1, NmtPreOperational2, NmtReadyToOperate, NmtOperational}"

definition mn_inv :: "(unit, 's) MnContext \<Rightarrow> bool" where
  "mn_inv ctx \<longleftrightarrow> mn_state ctx \<in> mn_states \<and> mn_id ctx = C_ADR_MN_DEF_NODE_ID \<and>
     od_sound (mn_od ctx) \<and> wf_mac (mn_mac ctx) \<and>
     server_ok (core_sdo_server (mn_core ctx)) \<and> srv_ops (core_sdo_server (mn_core ctx)) = DefaultSdoHandler \<and>
     bt_inv (mn_node_info ctx) \<and> bt_inv (mn_arp_cache ctx) \<and>
     (\<forall>ip m. bt_get (mn_arp_cache ctx) ip = Some m \<longrightarrow> wf_mac m) \<and>
     heap_inv ar_priority (mn_async_request_queue ctx) \<and> list_all asnd_ok (mn_async_send_queue ctx) \<and>
     unat (mn_last_ident_poll_node_id ctx) \<le> 239 \<and>
     mn_multiplex_cycle_len ctx = 8 \<and> mn_current_multiplex_cycle ctx < 8"

lemma mn_reset_keeps_id:
  "mn_node_id (fst (nmt_reset mn_current_state mn_set_state e mo)) = mn_node_id (fst mo)"
  by (auto simp: nmt_reset_def enter_state_def mn_set_state_def Let_def case_prod_unfold split: option.split)

lemma mn_process_event_id: "mn_node_id (fst (snd (mn_process_event m e od))) = mn_node_id m"
  using mn_reset_keeps_id [of e "(m, od)"]
  by (auto simp: mn_process_event_def Let_def case_prod_unfold split: if_splits)

lemma mn_process_event_sound:
  assumes "mn_process_event m e od = (r, m', od')" "od_sound od"
  shows "od_sound od'"
  using assms nmt_reset_sound [of "(m, od)" mn_current_state mn_set_state e]
  by (auto simp: mn_process_event_def Let_def case_prod_unfold update_od_state_sound split: if_splits)

lemma mn_raise_nmt_simps [simp]:
  "mn_core (mn_raise_nmt e ctx) = (mn_core ctx)\<lparr> core_od := snd (snd (mn_process_event (mn_nmt_state_machine ctx) e (mn_od ctx))) \<rparr>"
  "mn_nmt_state_machine (mn_raise_nmt e ctx) = fst (snd (mn_process_event (mn_nmt_state_machine ctx) e (mn_od ctx)))"
  "mn_node_info (mn_raise_nmt e ctx) = mn_node_info ctx" "mn_arp_cache (mn_raise_nmt e ctx) = mn_arp_cache ctx"
  "mn_mandatory_nodes (mn_raise_nmt e ctx) = mn_mandatory_nodes ctx"
  "mn_isochronous_nodes (mn_raise_nmt e ctx) = mn_isochronous_nodes ctx"
  "mn_async_only_nodes (mn_raise_nmt e ctx) = mn_async_only_nodes ctx"
  "mn_async_request_queue (mn_raise_nmt e ctx) = mn_async_request_queue ctx"
  "mn_async_send_queue (mn_raise_nmt e ctx) = mn_async_send_queue ctx"
  "mn_pending_er_requests (mn_raise_nmt e ctx) = mn_pending_er_requests ctx"
  "mn_pending_status_requests (mn_raise_nmt e ctx) = mn_pending_status_requests ctx"
  "mn_last_ident_poll_node_id (mn_raise_nmt e ctx) = mn_last_ident_poll_node_id ctx"
  "mn_pending_timeout_event (mn_raise_nmt e ctx) = mn_pending_timeout_event ctx"
  "mn_multiplex_cycle_len (mn_raise_nmt e ctx) = mn_multiplex_cycle_len ctx"
  "mn_current_multiplex_cycle (mn_raise_nmt e ctx) = mn_current_multiplex_cycle ctx"
  by (simp_all add: mn_raise_nmt_def mn_map_od_def case_prod_unfold Let_def)

lemma mn_raise_state: "\<not> is_reset_event e \<Longrightarrow>
    mn_current_state (fst (snd (mn_process_event m e od))) = mn_next (mn_startup_flags m) (mn_current_state m) e"
  by (simp add: mn_process_event_def Let_def case_prod_unfold split: if_splits)

text \<open>The checks of the boot-up change the NMT state and the queue of commands only, and raise an event only when
  all mandatory nodes have got as far as it says.\<close>

definition boot_event :: "NmtEvent \<Rightarrow> ('h, 's) MnContext \<Rightarrow> bool" where
  "boot_event e ctx \<longleftrightarrow>
     e = AllCnsIdentified \<and> mn_state ctx = NmtPreOperational1 \<and>
       check_all_mandatory_identified (mn_mandatory_nodes ctx) (mn_node_info ctx) \<or>
     e = ConfigurationCompleteCnsReady \<and> mn_state ctx = NmtPreOperational2 \<and>
       check_all_mandatory_preop (mn_mandatory_nodes ctx) (mn_node_info ctx) \<or>
     e = AllMandatoryCnsOperational \<and> mn_state ctx = NmtReadyToOperate \<and>
       check_all_mandatory_comm_verified (mn_mandatory_nodes ctx) (mn_node_info ctx)"

lemma check_bootup_cases:
  obtains "check_bootup_state ctx = ctx"
  | e cmds where "boot_event e ctx" "check_bootup_state ctx = (mn_raise_nmt e ctx)\<lparr> mn_pending_nmt_commands := cmds \<rparr>"
proof -
  have raised: "boot_event e ctx \<Longrightarrow> check_bootup_state ctx = mn_raise_nmt e ctx \<Longrightarrow> thesis" for e
    using that(2) [of e "mn_pending_nmt_commands (mn_raise_nmt e ctx)"] by simp
  show thesis
  proof (cases "mn_state ctx = NmtPreOperational1")
    case True
    show ?thesis
    proof (cases "check_all_mandatory_identified (mn_mandatory_nodes ctx) (mn_node_info ctx)")
      case c: True
      with True show ?thesis
        by (intro that(2) [of AllCnsIdentified])
          (simp_all add: boot_event_def check_bootup_state_def queue_ready_commands_def)
    qed (use True that(1) in \<open>simp add: check_bootup_state_def\<close>)
  next
    case False
    then have "check_bootup_state ctx = ctx \<or> (\<exists>e. boot_event e ctx \<and> check_bootup_state ctx = mn_raise_nmt e ctx)"
      by (auto simp: boot_event_def check_bootup_state_def Let_def)
    with that(1) raised show ?thesis by blast
  qed
qed

lemma mn_inv_raise:
  assumes "mn_inv ctx" "\<not> is_reset_event e"
  shows "mn_inv (mn_raise_nmt e ctx)"
proof -
  obtain r m od where ev: "mn_process_event (mn_nmt_state_machine ctx) e (mn_od ctx) = (r, m, od)" by (metis prod.collapse)
  have "mn_next fl st e \<in> mn_states" if "st \<in> mn_states" for fl st
    using that by (auto simp: mn_next_def mn_states_def split: NmtEvent.split)
  with assms show ?thesis
    using mn_process_event_sound [OF ev] mn_raise_state [OF assms(2), of "mn_nmt_state_machine ctx" "mn_od ctx"]
      mn_process_event_id [of "mn_nmt_state_machine ctx" e "mn_od ctx"] ev
    by (simp add: mn_inv_def)
qed

lemma mn_inv_core:
  "mn_inv ctx \<Longrightarrow> od_sound (core_od core) \<Longrightarrow> core_mac_address core = mn_mac ctx \<Longrightarrow> server_ok (core_sdo_server core) \<Longrightarrow>
    srv_ops (core_sdo_server core) = DefaultSdoHandler \<Longrightarrow> mn_inv (ctx\<lparr> mn_core := core \<rparr>)"
  by (simp add: mn_inv_def)

lemma bt_update_inv [simp]: "bt_inv m \<Longrightarrow> bt_inv (bt_update k f m)"
  by (auto simp: bt_update_def bt.inv_insert split: option.split)

lemma bt_update_get: "bt_inv m \<Longrightarrow> bt_get (bt_update k f m) j = (if j = k then map_option f (bt_get m j) else bt_get m j)"
  by (auto simp: bt_update_def bt.get_insert split: option.split)

lemma mn_inv_info: "mn_inv ctx \<Longrightarrow> mn_inv (update_info n g ctx)"
  by (simp add: mn_inv_def update_info_def)

interpretation mn: mn_invariant mn_inv "\<lambda>_. True"
proof
  fix ctx ctx' :: "(unit, 's) MnContext" and core
  show "mn_inv ctx \<Longrightarrow> mn_same ctx ctx' \<Longrightarrow> mn_inv ctx'" by (simp add: mn_inv_def mn_same_def)
  show "mn_inv ctx \<Longrightarrow> core_evolves (mn_core ctx) core \<Longrightarrow> mn_inv (ctx\<lparr> mn_core := core \<rparr>)"
    by (simp add: mn_inv_def core_evolves_def)
next
  fix ctx :: "(unit, 's) MnContext" and bs k now r srv od
  assume a: "mn_inv ctx" "server_handle_request (core_sdo_server (mn_core ctx)) bs k (mn_od ctx) now = (r, srv, od)"
  then show "mn_inv (ctx\<lparr> mn_core := (mn_core ctx)\<lparr> core_sdo_server := srv, core_od := od \<rparr> \<rparr>) \<and> (\<forall>d. r = Inr d \<longrightarrow> data_ok d)"
    using default_sdo.server_request_ok [OF a(2)] by (auto simp: mn_inv_def intro: od_evolves_sound)
next
  fix ctx :: "(unit, 's) MnContext" and now d srv
  assume a: "mn_inv ctx" "server_tick (core_sdo_server (mn_core ctx)) now (mn_od ctx) = (d, srv)"
  then show "mn_inv (ctx\<lparr> mn_core := (mn_core ctx)\<lparr> core_sdo_server := srv \<rparr> \<rparr>) \<and> (\<forall>x. d = Inr (Some x) \<longrightarrow> data_ok x)"
    using server_tick_ok [OF a(2)] by (auto simp: mn_inv_def)
next
  fix ctx :: "(unit, 's) MnContext" and e
  show "mn_inv ctx \<Longrightarrow> e = Timeout \<or> e = Error \<Longrightarrow> mn_inv (mn_raise_nmt e ctx)"
    by (rule mn_inv_raise) (auto simp: is_reset_event_def)
  show "mn_inv ctx \<Longrightarrow> mn_inv (check_bootup_state ctx)"
  proof -
    assume a: "mn_inv ctx"
    have r: "mn_inv (mn_raise_nmt e ctx)" if "boot_event e ctx" for e
      by (rule mn_inv_raise [OF a]) (use that in \<open>auto simp: is_reset_event_def boot_event_def\<close>)
    have c: "mn_inv (x\<lparr> mn_pending_nmt_commands := cmds \<rparr>)" if "mn_inv x" for x :: "(unit, 's) MnContext" and cmds
      using that by (simp add: mn_inv_def)
    show "mn_inv (check_bootup_state ctx)" by (rule check_bootup_cases [of ctx]) (simp_all add: a r c)
  qed
next
  fix ctx :: "(unit, 's) MnContext"
  assume "mn_inv ctx" "0 < mn_multiplex_cycle_len ctx"
  then show "mn_inv (ctx\<lparr> mn_current_multiplex_cycle := (mn_current_multiplex_cycle ctx + 1) mod mn_multiplex_cycle_len ctx \<rparr>)"
    by (simp add: mn_inv_def word_less_nat_alt unat_mod)
next
  fix ctx :: "(unit, 's) MnContext" and q x
  assume "mn_inv ctx" "async_pop (mn_async_request_queue ctx) = (Some x, q)"
  then show "mn_inv (ctx\<lparr> mn_async_request_queue := q \<rparr>)"
    using heap.pop_Some by (fastforce simp: mn_inv_def)
next
  fix ctx :: "(unit, 's) MnContext" and f m identity
  let ?n = "asnd_source f"
  assume "mn_inv ctx" "wf_mac m"
  then have "mn_inv (ctx\<lparr> mn_arp_cache := bt_insert (ip_from_node_id ?n) m (mn_arp_cache ctx) \<rparr>)"
    by (simp add: mn_inv_def bt.inv_insert bt.get_insert)
  then show "mn_inv (update_info ?n (\<lambda>i. i\<lparr> ci_state := Identified, ci_identity := Some identity \<rparr>)
      (ctx\<lparr> mn_arp_cache := bt_insert (ip_from_node_id ?n) m (mn_arp_cache ctx) \<rparr>))" by (rule mn_inv_info)
qed (simp_all add: mn_inv_info, auto simp: mn_inv_def heap.inv_push list_all_iff get_cn_mac_address_def dest: in_set_butlastD)

end
