(* ===== verification/Mn_Reach.thy ===== *)
theory Mn_Reach
  imports Mn_Inv
begin

section \<open>Runs of the managing node\<close>

subsection \<open>The configured nodes\<close>

lemma parse_node_entry_info:
  "bt_inv (nl_node_info l) \<Longrightarrow> bt_inv (nl_node_info (parse_node_entry od e l))"
  by (auto simp: parse_node_entry_def add_node_def Let_def case_prod_unfold bt.inv_insert
      split: ObjectValue.split sum.split)

lemma fold_node_entries_info:
  "bt_inv (nl_node_info l) \<Longrightarrow> bt_inv (nl_node_info (fold (parse_node_entry od) es l))"
  by (induction es arbitrary: l) (simp_all add: parse_node_entry_info)

subsection \<open>Reachable states\<close>

text \<open>The node is created from a sound dictionary, its cycle function is called with arbitrary frames, datagrams
  and times, and the application calls its interface. The first argument is the list of the frames that the node has
  received, the latest first.\<close>

definition decoded :: "bytes option \<Rightarrow> PowerlinkFrame list" where
  "decoded eth = (case eth of None \<Rightarrow> [] | Some bs \<Rightarrow> (case deserialize_frame bs of Inr f \<Rightarrow> [f] | Inl _ \<Rightarrow> []))"

inductive mn_reachable :: "PowerlinkFrame list \<Rightarrow> (unit, 's) MnContext \<Rightarrow> bool" where
  new: "ManagingNode_new od mac cfg = Inr ctx \<Longrightarrow> od_sound od \<Longrightarrow> wf_mac mac \<Longrightarrow> mn_reachable [] ctx"
| cycle: "mn_reachable h ctx \<Longrightarrow> mn_run_cycle ctx eth dgram t = Some (a, ctx') \<Longrightarrow> mn_reachable (decoded eth @ h) ctx'"
| queue_command: "mn_reachable h ctx \<Longrightarrow> mn_reachable h (queue_nmt_state_command command target ctx)"
| hostname: "mn_reachable h ctx \<Longrightarrow> mn_reachable h (snd (set_hostname target name ctx))"
| flush_arp: "mn_reachable h ctx \<Longrightarrow> mn_reachable h (flush_arp_entry target ctx)"
| read_object: "mn_reachable h ctx \<Longrightarrow> mn_reachable h (snd (mn_read_object target i s t ctx))"
| write_object: "mn_reachable h ctx \<Longrightarrow> mn_reachable h (snd (mn_write_object target i s data t ctx))"

text \<open>The interface to the application changes the queue of commands and the SDO client only.\<close>

lemma mn_interface_same:
  "mn_same ctx (queue_nmt_state_command command target ctx)" "mn_same ctx (snd (set_hostname target name ctx))"
  "mn_same ctx (flush_arp_entry target ctx)" "mn_same ctx (snd (mn_read_object target i s t ctx))"
  "mn_same ctx (snd (mn_write_object target i s data t ctx))"
  by (simp_all add: mn_same_def queue_nmt_state_command_def queue_command_def set_hostname_def flush_arp_entry_def
      mn_read_object_def mn_write_object_def case_prod_unfold Let_def)

lemma mn_new_inv:
  assumes "ManagingNode_new od mac cfg = Inr ctx" "od_sound od" "wf_mac mac"
  shows "mn_inv ctx \<and> mn_state ctx = NmtNotActive"
proof -
  obtain od1 nmt where od1: "od_init od = (Inr (), od1)" and nmt: "MnNmt_from_od od1 = Inr nmt"
    using assms(1) by (cases "od_init od") (auto simp: ManagingNode_new_def rbind_eq_Inr)
  obtain nmt2 od2 where 2: "run_internal_initialisation mn_current_state mn_set_state (nmt, od1) = (nmt2, od2)"
    by fastforce
  have "od_sound od2"
    using run_internal_initialisation_sound [of "(nmt, od1)" mn_current_state mn_set_state]
      od_init_sound [OF od1 assms(2)] 2 by simp
  moreover have i: "mn_current_state nmt = NmtGsInitialising" "mn_node_id nmt = C_ADR_MN_DEF_NODE_ID"
    using nmt by (auto simp: MnNmt_from_od_def rbind_eq_Inr MnNmt_new_def)
  then have "mn_current_state nmt2 = NmtNotActive" "mn_node_id nmt2 = C_ADR_MN_DEF_NODE_ID"
    using 2 mn_nmt.reset_state [of NmtEvent.SwReset "(nmt, od1)"] mn_reset_keeps_id [of NmtEvent.SwReset "(nmt, od1)"]
    by (auto simp add: run_internal_initialisation_def is_reset_event_def)
  moreover have "bt_inv (nl_node_info l)" if "parse_mn_node_lists x = Inr l" for x :: "'s ObjectDictionary" and l
    using that by (auto simp: parse_mn_node_lists_def intro!: fold_node_entries_info split: option.splits Object.splits)
  ultimately show ?thesis
    using assms(1,3) od1 nmt 2
    by (auto simp: ManagingNode_new_def rbind_eq_Inr mn_inv_def mn_states_def heap_inv_def)
qed

lemma mn_reachable_rule [consumes 1, case_names new cycle same]:
  assumes "mn_reachable h ctx"
    and "\<And>od mac cfg ctx. ManagingNode_new od mac cfg = Inr ctx \<Longrightarrow> od_sound od \<Longrightarrow> wf_mac mac \<Longrightarrow> Q [] ctx"
    and "\<And>h ctx eth dgram t a ctx'. Q h ctx \<Longrightarrow> mn_run_cycle ctx eth dgram t = Some (a, ctx') \<Longrightarrow> Q (decoded eth @ h) ctx'"
    and same: "\<And>h ctx ctx'. Q h ctx \<Longrightarrow> mn_same ctx ctx' \<Longrightarrow> Q h ctx'"
  shows "Q h ctx"
  using assms(1)
proof induction
  case (new od mac cfg ctx)
  then show ?case by (rule assms(2))
next
  case (cycle h ctx eth dgram t a ctx')
  then show ?case by (intro assms(3))
qed (erule same, rule mn_interface_same)+

lemma mn_reachable_inv: "mn_reachable h ctx \<Longrightarrow> mn_inv ctx"
proof (induction rule: mn_reachable_rule)
  case (new od mac cfg ctx)
  then show ?case using mn_new_inv by blast
next
  case (cycle h ctx eth dgram t a ctx')
  then show ?case using mn.cycle by blast
next
  case (same h ctx ctx')
  then show ?case by (rule mn.keep)
qed

subsection \<open>Sent frames\<close>

text \<open>What a receiver decodes from the octets of a frame of the managing node.\<close>

definition on_wire :: "PowerlinkFrame \<Rightarrow> PowerlinkFrame" where
  "on_wire f = (case f of FASnd a \<Rightarrow> FASnd (a\<lparr> asnd_payload := received_payload (asnd_payload a) \<rparr>) | _ \<Rightarrow> f)"

lemma mn_sent_received:
  assumes "mn_sends ctx f" "send f = SendFrame bs"
  shows "deserialize_frame bs = Inr (on_wire f)"
proof -
  have s: "serialize_frame_action f False = Inr (SendFrame bs)"
    using assms(2) by (auto simp: send_def split: sum.splits)
  have h: "wf_eth (ethernet_header f)" "is_powerlink (ethernet_header f)" using assms(1) by (simp_all add: mn_sends_def)
  show ?thesis
  proof (cases "\<exists>a. f = FASnd a")
    case True
    with asnd_sent s h assms(1) show ?thesis by (auto simp: on_wire_def mn_sends_def)
  next
    case False
    then have wf: "wf_frame f" "frame_allowed False f" "on_wire f = f"
      using assms(1) by (auto simp: mn_sends_def frame_allowed_def on_wire_def split: PowerlinkFrame.splits)
    then have "frame_size f \<le> 1504"
      using serialize_frame_action_too_big [of False f] s h by fastforce
    with serialize_frame_action_ok [of f False] wf h s show ?thesis by auto
  qed
qed

end
