(* ===== verification/Mn_Boot.thy ===== *)
theory Mn_Boot
  imports Mn_Reach
begin

section \<open>The boot-up of the managing node\<close>

text \<open>
  The managing node leaves a state of its boot-up only when its mandatory nodes have reported. The frames
  that it has received so far are the history of the run.
\<close>

subsection \<open>What the nodes have reported\<close>

definition sent_pres :: "PowerlinkFrame list \<Rightarrow> NodeId \<Rightarrow> bool" where
  "sent_pres h n \<longleftrightarrow> (\<exists>p. FPRes p \<in> set h \<and> pres_source p = n)"

definition sent_asnd :: "ServiceId \<Rightarrow> PowerlinkFrame list \<Rightarrow> NodeId \<Rightarrow> bool" where
  "sent_asnd sid h n \<longleftrightarrow> (\<exists>a. FASnd a \<in> set h \<and> asnd_service_id a = sid \<and> asnd_source a = n)"

definition reported_nmt_state :: "PowerlinkFrame list \<Rightarrow> NodeId \<Rightarrow> bool" where
  "reported_nmt_state h n \<longleftrightarrow> sent_pres h n \<or> sent_asnd StatusResponse h n"

definition heard :: "PowerlinkFrame list \<Rightarrow> NodeId \<Rightarrow> bool" where
  "heard h n \<longleftrightarrow> reported_nmt_state h n \<or> sent_asnd IdentResponse h n"

lemma pres_sent: "FPRes p \<in> set h \<Longrightarrow> sent_pres h (pres_source p)"
  by (auto simp: sent_pres_def)

lemma asnd_service_sent: "FASnd a \<in> set h \<Longrightarrow> sent_asnd (asnd_service_id a) h (asnd_source a)"
  by (auto simp: sent_asnd_def)

lemma heard_mono:
  "sent_pres h n \<Longrightarrow> sent_pres (g @ h) n" "reported_nmt_state h n \<Longrightarrow> reported_nmt_state (g @ h) n" "heard h n \<Longrightarrow> heard (g @ h) n"
  by (auto simp: sent_pres_def sent_asnd_def reported_nmt_state_def heard_def)

lemma heard_sent: "sent_pres h n \<Longrightarrow> reported_nmt_state h n" "reported_nmt_state h n \<Longrightarrow> heard h n"
  by (simp_all add: reported_nmt_state_def heard_def)

text \<open>The record of a node, and the NMT state of the managing node, follow from what was received.\<close>

definition info_heard :: "PowerlinkFrame list \<Rightarrow> NodeId \<Rightarrow> CnInfo \<Rightarrow> bool" where
  "info_heard h n i \<longleftrightarrow>
     (ci_state i \<notin> {Unknown, Missing} \<longrightarrow> heard h n) \<and>
     (ci_state i \<in> {PreOperational, Operational, Stopped} \<longrightarrow> reported_nmt_state h n) \<and>
     (ci_communication_ok i \<longrightarrow> sent_pres h n)"

definition state_heard :: "PowerlinkFrame list \<Rightarrow> NodeId list \<Rightarrow> NmtState \<Rightarrow> bool" where
  "state_heard h mandatory st \<longleftrightarrow>
     (st \<in> {NmtPreOperational2, NmtReadyToOperate, NmtOperational} \<longrightarrow> list_all (heard h) mandatory) \<and>
     (st \<in> {NmtReadyToOperate, NmtOperational} \<longrightarrow> list_all (reported_nmt_state h) mandatory) \<and>
     (st = NmtOperational \<longrightarrow> list_all (sent_pres h) mandatory)"

text \<open>The configuration of the node, which no operation changes.\<close>

definition mn_config :: "('h, 's) MnContext \<Rightarrow> NodeId list \<times> NodeId list \<times> NodeId list \<times> (NodeId, u8) btree \<times> (NodeId \<Rightarrow> bool)" where
  "mn_config ctx = (mn_isochronous_nodes ctx, mn_async_only_nodes ctx, mn_mandatory_nodes ctx, mn_multiplex_assign ctx,
     bt_contains (mn_node_info ctx))"

text \<open>A status is requested for a node that has announced an error in a PRes; no request for a reset of the
  error signalling is ever queued.\<close>

definition mn_heard :: "PowerlinkFrame list \<Rightarrow> (unit, 's) MnContext \<Rightarrow> (unit, 's) MnContext \<Rightarrow> bool" where
  "mn_heard h ctx0 ctx \<longleftrightarrow> mn_inv ctx \<and> mn_config ctx = mn_config ctx0 \<and>
     mn_pending_er_requests ctx = [] \<and> list_all (sent_pres h) (mn_pending_status_requests ctx) \<and>
     list_all (sent_pres h) (map ar_node_id (mn_async_request_queue ctx)) \<and>
     state_heard h (mn_mandatory_nodes ctx) (mn_state ctx) \<and>
     (\<forall>n i. bt_get (mn_node_info ctx) n = Some i \<longrightarrow> info_heard h n i)"

lemma mn_heard_mono: "mn_heard h ctx0 ctx \<Longrightarrow> mn_heard (g @ h) ctx0 ctx"
  using heard_mono [of h _ g]
  by (auto simp: mn_heard_def state_heard_def info_heard_def list_all_iff)

lemma bt_contains_update [simp]: "bt_inv m \<Longrightarrow> bt_contains (bt_update k f m) = bt_contains m"
  by (auto simp: bt_contains_def fun_eq_iff bt_update_get)

lemma mn_heard_info:
  assumes "mn_heard h ctx0 ctx" "\<And>i. info_heard h n i \<Longrightarrow> info_heard h n (g i)"
  shows "mn_heard h ctx0 (update_info n g ctx)"
proof -
  have "bt_inv (mn_node_info ctx)" using assms(1) by (simp add: mn_heard_def mn_inv_def)
  moreover have "mn_multiplex_assign (update_info n g ctx) = mn_multiplex_assign ctx"
    "mn_pending_er_requests (update_info n g ctx) = mn_pending_er_requests ctx"
    "mn_pending_status_requests (update_info n g ctx) = mn_pending_status_requests ctx"
    "mn_async_request_queue (update_info n g ctx) = mn_async_request_queue ctx"
    by (simp_all add: update_info_def)
  ultimately show ?thesis
    using assms by (auto simp: mn_heard_def mn_config_def mn_inv_info bt_update_get split: if_splits)
qed

lemma cn_state_ranges:
  "Identified \<le> st \<and> st \<le> Operational \<longleftrightarrow> st \<in> {Identified, PreOperational, Operational}"
  "PreOperational \<le> st \<and> st \<le> Operational \<longleftrightarrow> st \<in> {PreOperational, Operational}"
  by (cases st; simp add: cn_state_order)+

lemma mandatory_heard:
  assumes "\<And>n i. bt_get info n = Some i \<Longrightarrow> info_heard h n i"
  shows "check_all_mandatory_identified ns info \<Longrightarrow> list_all (heard h) ns"
    "check_all_mandatory_preop ns info \<Longrightarrow> list_all (reported_nmt_state h) ns"
    "check_all_mandatory_comm_verified ns info \<Longrightarrow> list_all (sent_pres h) ns"
proof -
  have "node_state info n \<in> {Identified, PreOperational, Operational} \<Longrightarrow> heard h n"
    "node_state info n \<in> {PreOperational, Operational} \<Longrightarrow> reported_nmt_state h n" for n
    using assms [of n] by (auto simp: node_state_def info_heard_def split: option.splits)
  then show "check_all_mandatory_identified ns info \<Longrightarrow> list_all (heard h) ns"
    "check_all_mandatory_preop ns info \<Longrightarrow> list_all (reported_nmt_state h) ns"
    unfolding check_all_mandatory_identified_def check_all_mandatory_preop_def cn_state_ranges list_all_iff by blast+
  show "check_all_mandatory_comm_verified ns info \<Longrightarrow> list_all (sent_pres h) ns"
    using assms by (fastforce simp: check_all_mandatory_comm_verified_def list_all_iff info_heard_def split: option.splits)
qed

lemma mn_raise_assign [simp]: "mn_multiplex_assign (mn_raise_nmt e ctx) = mn_multiplex_assign ctx"
  by (simp add: mn_raise_nmt_def mn_map_od_def case_prod_unfold Let_def)

lemma mn_raise_config [simp]: "mn_config (mn_raise_nmt e ctx) = mn_config ctx"
  by (simp add: mn_config_def)

lemma mn_inv_er: "mn_inv ctx \<Longrightarrow> mn_inv (ctx\<lparr> mn_pending_er_requests := ns \<rparr>)"
  by (simp add: mn_inv_def)

lemma mn_heard_boot:
  assumes "mn_heard h ctx0 ctx"
  shows "mn_heard h ctx0 (check_bootup_state ctx)"
proof (rule check_bootup_cases [of ctx])
  fix e cmds
  assume e: "boot_event e ctx" "check_bootup_state ctx = (mn_raise_nmt e ctx)\<lparr> mn_pending_nmt_commands := cmds \<rparr>"
  have "\<not> is_reset_event e" using e(1) by (auto simp: boot_event_def is_reset_event_def)
  then have s: "mn_state (mn_raise_nmt e ctx) = mn_next (mn_startup_flags (mn_nmt_state_machine ctx)) (mn_state ctx) e"
    by (simp add: mn_raise_state)
  have i: "mn_inv (check_bootup_state ctx)" using assms mn.boot by (auto simp: mn_heard_def)
  have "state_heard h (mn_mandatory_nodes ctx) (mn_state (mn_raise_nmt e ctx))"
    using e(1) assms mandatory_heard [of "mn_node_info ctx" h "mn_mandatory_nodes ctx"] unfolding s
    by (auto simp: boot_event_def mn_heard_def state_heard_def mn_next_def)
  with assms i e(2) show ?thesis by (auto simp: mn_heard_def mn_config_def)
qed (use assms in simp)

interpretation mn_hist: mn_invariant "mn_heard h (ctx0 :: (unit, 's) MnContext)" "\<lambda>f. f \<in> set h"
proof
  fix ctx ctx' :: "(unit, 's) MnContext" and core
  show "mn_heard h ctx0 ctx \<Longrightarrow> mn_same ctx ctx' \<Longrightarrow> mn_heard h ctx0 ctx'"
    using mn.keep [of ctx ctx'] by (auto simp: mn_heard_def mn_same_def mn_config_def)
  show "mn_heard h ctx0 ctx \<Longrightarrow> core_evolves (mn_core ctx) core \<Longrightarrow> mn_heard h ctx0 (ctx\<lparr> mn_core := core \<rparr>)"
    using mn.core [of ctx core] by (auto simp: mn_heard_def mn_config_def)
next
  fix ctx :: "(unit, 's) MnContext" and bs k now r srv od
  assume a: "mn_heard h ctx0 ctx" "server_handle_request (core_sdo_server (mn_core ctx)) bs k (mn_od ctx) now = (r, srv, od)"
  then show "mn_heard h ctx0 (ctx\<lparr> mn_core := (mn_core ctx)\<lparr> core_sdo_server := srv, core_od := od \<rparr> \<rparr>) \<and> (\<forall>d. r = Inr d \<longrightarrow> data_ok d)"
    using mn.request [OF _ a(2)] by (auto simp: mn_heard_def mn_config_def)
next
  fix ctx :: "(unit, 's) MnContext" and now d srv
  assume a: "mn_heard h ctx0 ctx" "server_tick (core_sdo_server (mn_core ctx)) now (mn_od ctx) = (d, srv)"
  then show "mn_heard h ctx0 (ctx\<lparr> mn_core := (mn_core ctx)\<lparr> core_sdo_server := srv \<rparr> \<rparr>) \<and> (\<forall>x. d = Inr (Some x) \<longrightarrow> data_ok x)"
    using mn.timeout [OF _ a(2)] by (auto simp: mn_heard_def mn_config_def)
next
  fix ctx :: "(unit, 's) MnContext" and e
  assume a: "mn_heard h ctx0 ctx" "e = NmtEvent.Timeout \<or> e = NmtEvent.Error"
  then have "mn_state (mn_raise_nmt e ctx) \<in> {mn_state ctx, NmtPreOperational1, NmtBasicEthernet}"
    by (auto simp: mn_raise_state is_reset_event_def mn_next_def split: NmtState.splits if_splits)
  moreover have "mn_inv (mn_raise_nmt e ctx)" using a mn.nmt by (auto simp: mn_heard_def)
  ultimately show "mn_heard h ctx0 (mn_raise_nmt e ctx)"
    using a(1) unfolding mn_heard_def by (auto simp: state_heard_def)
next
  fix ctx :: "(unit, 's) MnContext"
  show "mn_heard h ctx0 ctx \<Longrightarrow> mn_heard h ctx0 (check_bootup_state ctx)" by (rule mn_heard_boot)
next
  fix ctx :: "(unit, 's) MnContext" and n and g :: "CnInfo \<Rightarrow> CnInfo"
  assume "mn_heard h ctx0 ctx" "\<And>i. ci_state (g i) = ci_state i \<and> ci_communication_ok (g i) = ci_communication_ok i"
  then show "mn_heard h ctx0 (update_info n g ctx)" by (intro mn_heard_info) (simp_all add: info_heard_def)
next
  fix ctx :: "(unit, 's) MnContext" and f :: ASndFrame and m identity
  let ?n = "asnd_source f"
  assume a: "mn_heard h ctx0 ctx" "FASnd f \<in> set h" "asnd_service_id f = IdentResponse" "wf_mac m"
    "unidentified (mn_node_info ctx) ?n"
  define c where "c = ctx\<lparr> mn_arp_cache := bt_insert (ip_from_node_id ?n) m (mn_arp_cache ctx) \<rparr>"
  have "mn_heard h ctx0 c" using a(1,4) by (auto simp: c_def mn_heard_def mn_config_def mn_inv_def bt.inv_insert bt.get_insert)
  moreover have "heard h ?n" using asnd_service_sent [OF a(2)] a(3) by (simp add: heard_def)
  ultimately show "mn_heard h ctx0 (update_info ?n (\<lambda>i. i\<lparr> ci_state := Identified, ci_identity := Some identity \<rparr>)
      (ctx\<lparr> mn_arp_cache := bt_insert (ip_from_node_id ?n) m (mn_arp_cache ctx) \<rparr>))"
    unfolding c_def [symmetric] by (intro mn_heard_info) (simp_all add: info_heard_def)
next
  fix ctx :: "(unit, 's) MnContext" and f :: ASndFrame and g :: "CnInfo \<Rightarrow> CnInfo"
  assume a: "mn_heard h ctx0 ctx" "FASnd f \<in> set h" "asnd_service_id f = StatusResponse"
    "\<And>i. ci_communication_ok (g i) \<Longrightarrow> ci_communication_ok i"
  have "reported_nmt_state h (asnd_source f)" using asnd_service_sent [OF a(2)] a(3) by (simp add: reported_nmt_state_def)
  with a(1,4) show "mn_heard h ctx0 (update_info (asnd_source f) g ctx)"
    by (intro mn_heard_info) (auto simp: info_heard_def heard_sent)
next
  fix ctx :: "(unit, 's) MnContext" and p :: PResFrame and g :: "CnInfo \<Rightarrow> CnInfo"
  assume a: "mn_heard h ctx0 ctx" "FPRes p \<in> set h"
  then show "mn_heard h ctx0 (update_info (pres_source p) g ctx)"
    using pres_sent [OF a(2)] by (intro mn_heard_info) (simp_all add: info_heard_def heard_sent)
next
  fix ctx0 ctx :: "(unit, 's) MnContext" and n
  assume "mn_heard h ctx0 ctx"
  then show "mn_heard h ctx0 (update_info n (\<lambda>i. i\<lparr> ci_state := Missing \<rparr>) ctx)"
    by (rule mn_heard_info) (simp add: info_heard_def)
next
  fix ctx :: "(unit, 's) MnContext"
  assume "mn_heard h ctx0 ctx" "0 < mn_multiplex_cycle_len ctx"
  then show "mn_heard h ctx0 (ctx\<lparr> mn_current_multiplex_cycle := (mn_current_multiplex_cycle ctx + 1) mod mn_multiplex_cycle_len ctx \<rparr>)"
    using mn.mux [of ctx] by (auto simp: mn_heard_def mn_config_def)
next
  fix ctx :: "(unit, 's) MnContext" and p :: PResFrame and prio
  let ?r = "\<lparr> ar_node_id = pres_source p, ar_priority = prio \<rparr>"
  assume a: "mn_heard h ctx0 ctx" "FPRes p \<in> set h"
  then have "set (async_push ?r (mn_async_request_queue ctx)) = insert ?r (set (mn_async_request_queue ctx))"
    using heap.elems_push [of ar_priority "mn_async_request_queue ctx" ?r]
    by (metis mn_heard_def mn_inv_def set_mset_add_mset_insert set_mset_mset)
  with a pres_sent [OF a(2)] mn.pres_request [of ctx p prio]
  show "mn_heard h ctx0 (ctx\<lparr> mn_async_request_queue := async_push ?r (mn_async_request_queue ctx) \<rparr>)"
    by (auto simp: mn_heard_def mn_config_def list_all_iff)
next
  fix ctx :: "(unit, 's) MnContext" and x q
  assume a: "mn_heard h ctx0 ctx" "async_pop (mn_async_request_queue ctx) = (Some x, q)"
  then have "mset (mn_async_request_queue ctx) = add_mset x (mset q)"
    using heap.pop_Some by (fastforce simp: mn_heard_def mn_inv_def)
  then have "set q \<subseteq> set (mn_async_request_queue ctx)"
    by (metis set_mset_add_mset_insert set_mset_mset subset_insertI)
  with a mn.pop_request [OF _ a(2)] show "mn_heard h ctx0 (ctx\<lparr> mn_async_request_queue := q \<rparr>)"
    by (auto simp: mn_heard_def mn_config_def list_all_iff)
qed (auto simp: mn_heard_def mn_config_def list_all_iff pres_sent dest: in_set_butlastD
    intro: mn.queued mn.pres_status mn.pop_status mn_inv_er mn.push_frame mn.pop_frame mn.ident mn.poll mn.event mn.macs)

lemma parse_node_entry_default:
  "(\<And>n i. bt_get (nl_node_info l) n = Some i \<Longrightarrow> i = CnInfo_default) \<Longrightarrow> bt_inv (nl_node_info l) \<Longrightarrow>
    bt_get (nl_node_info (parse_node_entry od e l)) n = Some i \<Longrightarrow> i = CnInfo_default"
  by (auto simp: parse_node_entry_def add_node_def Let_def case_prod_unfold bt.get_insert
      split: ObjectValue.splits sum.splits if_splits)

lemma fold_node_entries_default:
  "(\<And>n i. bt_get (nl_node_info l) n = Some i \<Longrightarrow> i = CnInfo_default) \<Longrightarrow> bt_inv (nl_node_info l) \<Longrightarrow>
    bt_get (nl_node_info (fold (parse_node_entry od) es l)) n = Some i \<Longrightarrow> i = CnInfo_default"
proof (induction es arbitrary: l)
  case (Cons e es)
  show ?case
    by (rule Cons.IH [of "parse_node_entry od e l"])
      (use Cons.prems parse_node_entry_default [OF Cons.prems(1,2)] in \<open>simp_all add: parse_node_entry_info\<close>)
qed simp

lemma mn_new_info:
  fixes ctx :: "(unit, 's) MnContext"
  assumes "ManagingNode_new od mac cfg = Inr ctx" "bt_get (mn_node_info ctx) n = Some i"
  shows "i = CnInfo_default"
proof -
  obtain x :: "'s ObjectDictionary" and l where "parse_mn_node_lists x = Inr l" "mn_node_info ctx = nl_node_info l"
    using assms(1) by (auto simp: ManagingNode_new_def rbind_eq_Inr case_prod_unfold Let_def)
  then obtain vals where "mn_node_info ctx = nl_node_info (fold (parse_node_entry x) (enumerate 0 vals)
      \<lparr> nl_node_info = [], nl_mandatory_nodes = [], nl_isochronous_nodes = [], nl_async_only_nodes = [],
        nl_multiplex_assign = [] \<rparr>)"
    by (auto simp: parse_mn_node_lists_def split: option.splits Object.splits)
  with assms(2) show ?thesis by (intro fold_node_entries_default [of _ x _ n i]) (simp_all only:, simp_all)
qed

lemma mn_reachable_heard: "mn_reachable h ctx \<Longrightarrow> mn_heard h ctx ctx"
proof (induction rule: mn_reachable_rule)
  case (new od mac cfg ctx)
  have "info_heard [] n CnInfo_default" for n by (simp add: info_heard_def CnInfo_default_def)
  moreover have "mn_pending_er_requests ctx = [] \<and> mn_pending_status_requests ctx = [] \<and> mn_async_request_queue ctx = []"
    using new(1) by (auto simp: ManagingNode_new_def rbind_eq_Inr case_prod_unfold Let_def)
  ultimately show ?case
    using mn_new_inv [OF new] mn_new_info [OF new(1)] unfolding mn_heard_def by (auto simp: state_heard_def)
next
  case (cycle h ctx eth dgram t a ctx')
  have "mn_heard (decoded eth @ h) ctx ctx'"
    using mn_hist.cycle [OF cycle(2) mn_heard_mono [OF cycle(1)]] by (fastforce simp: decoded_def)
  then show ?case by (simp add: mn_heard_def)
next
  case (same h ctx ctx')
  then have "mn_heard h ctx ctx'" by (rule mn_hist.keep)
  then show ?case by (simp add: mn_heard_def)
qed

end
