(* ===== verification/Mn_Example.thy ===== *)
theory Mn_Example
  imports Mn_Boot
begin

section \<open>A run of the managing node\<close>

text \<open>
  A managing node, and the frames that take it through its boot-up if node 1 is a mandatory isochronous node.
\<close>

text \<open>A node that is fed with frames (or none) at given times.\<close>

fun mn_feed :: "(bytes option \<times> u64) list \<Rightarrow> ('h, 's) MnContext \<Rightarrow> (NodeAction list \<times> ('h, 's) MnContext) option" where
  "mn_feed [] ctx = Some ([], ctx)"
| "mn_feed ((eth, t) # xs) ctx =
     (case mn_run_cycle ctx eth None t of
        None \<Rightarrow> None
      | Some (a, ctx) \<Rightarrow> map_option (\<lambda>(as, ctx). (a # as, ctx)) (mn_feed xs ctx))"

lemma mn_feed_reachable:
  "mn_feed xs ctx = Some (as, ctx') \<Longrightarrow> mn_reachable h ctx \<Longrightarrow> mn_reachable (concat (rev (map (decoded \<circ> fst) xs)) @ h) ctx'"
proof (induction xs arbitrary: ctx h as)
  case (Cons x xs)
  obtain eth t where x: "x = (eth, t)" by fastforce
  from Cons.prems(1) obtain a c as' where c: "mn_run_cycle ctx eth None t = Some (a, c)" "mn_feed xs c = Some (as', ctx')"
    by (auto simp: x split: option.splits)
  from Cons.IH [OF c(2) mn_reachable.cycle [OF Cons.prems(2) c(1)]] show ?case by (simp add: x)
qed simp

definition mn_example_od :: "u32 list \<Rightarrow> unit ObjectDictionary" where
  "mn_example_od assignments = fold (\<lambda>(i, obj). od_insert i (mk_entry obj [] Mandatory None None None))
     [(0x1000, Variable (Unsigned32 0x191)), (0x1006, Variable (Unsigned32 1000)),
      (0x1018, Record [Unsigned32 1, Unsigned32 2]), (0x1F80, Variable (Unsigned32 0)),
      (0x1F81, Array (map Unsigned32 assignments)), (0x1F82, Variable (Unsigned32 0x45)),
      (0x1F89, Record [Unsigned32 10])] (od_new None)"

abbreviation mn_example_mac :: MacAddress where
  "mn_example_mac \<equiv> [2, 0, 0, 0, 0, 240]"

definition from_node :: "NodeId \<Rightarrow> bytes \<Rightarrow> bytes" where
  "from_node n bs = [2, 0, 0, 0, 0, 240, 2, 0, 0, 0, 0, n, 0x88, 0xAB] @ bs"

definition ident_of :: "NodeId \<Rightarrow> bytes" where
  "ident_of n = from_node n ([6, 240, n, 1, 0, 0, 0x1D] @ replicate 155 0)"

definition status_of_1 :: bytes where
  "status_of_1 = from_node 1 ([6, 240, 1, 2, 0, 0, 0x5D] @ replicate 60 0)"

text \<open>A PRes with a number of requests for the asynchronous slot.\<close>

definition pres_of :: "NodeId \<Rightarrow> u8 \<Rightarrow> bytes" where
  "pres_of n rs = from_node n ([4, 255, n, 0x6D, 0, rs, 0, 0, 0, 0] @ replicate 36 0)"

definition boot_frames :: "(bytes option \<times> u64) list" where
  "boot_frames = [(None, 0), (None, 20), (Some (ident_of 1), 21), (Some status_of_1, 22), (Some (pres_of 1 0), 23)]"

lemma mn_example_sound: "od_sound (mn_example_od assignments)"
  by (simp add: od_sound_def od_inv_def mn_example_od_def od_insert_def od_new_def mk_entry_def bt_get_def bt_inv_def
      list_all_iff split: if_splits)

lemma mn_example_reachable:
  assumes "ManagingNode_new (mn_example_od assignments) mn_example_mac None = Inr c" "mn_feed xs c = Some (as, ctx)"
  shows "mn_reachable (concat (rev (map (decoded \<circ> fst) xs))) ctx"
proof -
  have "mn_reachable [] c"
    by (rule mn_reachable.new [OF assms(1) mn_example_sound]) (simp add: wf_mac_def MAC_ADDRESS_SIZE_def)
  with mn_feed_reachable [OF assms(2)] show ?thesis by fastforce
qed

text \<open>The boot-up, a SoC, and a poll of node 1.\<close>

lemma mn_example_evaluated:
  "case ManagingNode_new (mn_example_od [9]) mn_example_mac None of
     Inr ctx \<Rightarrow> (case mn_feed (boot_frames @ [(None, 1500)]) ctx of
       Some (as, c) \<Rightarrow> mn_state c = NmtOperational \<and> mn_mandatory_nodes c = [1] \<and> mn_isochronous_nodes c = [1] \<and>
         (case mn_run_cycle c None None 1501 of Some (SendFrame bs, _) \<Rightarrow> bs ! 14 = 3 | _ \<Rightarrow> False)
     | None \<Rightarrow> False)
   | Inl e \<Rightarrow> False"
  by code_simp

definition boot_history :: "PowerlinkFrame list" where
  "boot_history = concat (rev (map (decoded \<circ> fst) (boot_frames @ [(None, 1500)])))"

lemma mn_example_run:
  obtains ctx :: "(unit, unit) MnContext" and bs ctx' where "mn_reachable boot_history ctx" "mn_state ctx = NmtOperational"
    "mn_mandatory_nodes ctx = [1]" "mn_isochronous_nodes ctx = [1]"
    "mn_run_cycle ctx None None 1501 = Some (SendFrame bs, ctx')" "bs ! 14 = 3"
proof -
  obtain c as ctx bs ctx' where c: "ManagingNode_new (mn_example_od [9]) mn_example_mac None = Inr c"
    "mn_feed (boot_frames @ [(None, 1500)]) c = Some (as, ctx)" "mn_state ctx = NmtOperational"
    "mn_mandatory_nodes ctx = [1]" "mn_isochronous_nodes ctx = [1]"
    "mn_run_cycle ctx None None 1501 = Some (SendFrame bs, ctx')" "bs ! 14 = 3"
    using mn_example_evaluated
    by (auto simp: case_prod_unfold split: sum.split_asm option.split_asm NodeAction.split_asm)
  from mn_example_reachable [OF c(1,2)] have "mn_reachable boot_history ctx" by (simp only: boot_history_def)
  with c(3-) that show ?thesis by blast
qed

text \<open>Node 1 reports its state in a PRes that asks for the asynchronous slot.\<close>

lemma mn_request_evaluated:
  "case ManagingNode_new (mn_example_od [1]) mn_example_mac None of
     Inr ctx \<Rightarrow> (case mn_run_cycle ctx (Some (pres_of 1 3)) None 0 of
       Some (a, c) \<Rightarrow> (case determine_next_async_action c of
           Some ((svc, n, er), c') \<Rightarrow> n = 1 \<and> mn_async_request_queue c' \<noteq> mn_async_request_queue c
         | None \<Rightarrow> False)
     | None \<Rightarrow> False)
   | Inl e \<Rightarrow> False"
  by code_simp

lemma mn_request_run:
  obtains h and ctx ctx' :: "(unit, unit) MnContext" and svc er where "mn_reachable h ctx"
    "determine_next_async_action ctx = Some ((svc, 1, er), ctx')" "mn_async_request_queue ctx' \<noteq> mn_async_request_queue ctx"
proof -
  obtain c a ctx svc er ctx' where c: "ManagingNode_new (mn_example_od [1]) mn_example_mac None = Inr c"
    "mn_run_cycle c (Some (pres_of 1 3)) None 0 = Some (a, ctx)"
    "determine_next_async_action ctx = Some ((svc, 1, er), ctx')" "mn_async_request_queue ctx' \<noteq> mn_async_request_queue ctx"
    using mn_request_evaluated by (auto simp: case_prod_unfold split: sum.split_asm option.split_asm)
  from mn_example_reachable [OF c(1), of "[(Some (pres_of 1 3), 0)]" "[a]" ctx] c(2-) that show ?thesis by auto
qed

text \<open>Node 239 is the only node, and it has been asked for its identity and has reported its state: the next search
  does not return.\<close>

definition hang_frames :: "(bytes option \<times> u64) list" where
  "hang_frames = [(None, 0), (None, 20), (None, 2000), (None, 2001), (Some (pres_of 239 0), 2002)]"

lemma mn_hang_evaluated:
  "case ManagingNode_new (mn_example_od (replicate 238 0 @ [257])) mn_example_mac None of
     Inr ctx \<Rightarrow> (case mn_feed hang_frames ctx of
       Some (as, c) \<Rightarrow> mn_run_cycle c None None 2200 = None \<and> mn_last_ident_poll_node_id c = 239 \<and>
         list_all (\<lambda>(k, _). \<not> unidentified (mn_node_info c) k) (mn_node_info c)
     | None \<Rightarrow> False)
   | Inl e \<Rightarrow> False"
  by code_simp

lemma mn_hang_run:
  obtains h and ctx :: "(unit, unit) MnContext" where "mn_reachable h ctx" "mn_run_cycle ctx None None 2200 = None"
    "mn_last_ident_poll_node_id ctx = 239" "\<And>k. \<not> unidentified (mn_node_info ctx) k"
proof -
  obtain c as ctx where c: "ManagingNode_new (mn_example_od (replicate 238 0 @ [257])) mn_example_mac None = Inr c"
    "mn_feed hang_frames c = Some (as, ctx)" "mn_run_cycle ctx None None 2200 = None" "mn_last_ident_poll_node_id ctx = 239"
    "list_all (\<lambda>(k, _). \<not> unidentified (mn_node_info ctx) k) (mn_node_info ctx)"
    using mn_hang_evaluated by (auto split: sum.split_asm option.split_asm)
  have "\<not> unidentified (mn_node_info ctx) k" for k
  proof
    assume u: "unidentified (mn_node_info ctx) k"
    then obtain i where "map_of (mn_node_info ctx) k = Some i"
      by (auto simp: unidentified_def bt_get_def split: option.splits)
    from map_of_SomeD [OF this] c(5) u show False by (auto simp: list_all_iff)
  qed
  with mn_example_reachable [OF c(1,2)] c(3,4) that show ?thesis by blast
qed

end
