(* ===== verification/Mn_Theorems.thy ===== *)
theory Mn_Theorems
  imports Mn_Example
begin

section \<open>Properties of the managing node\<close>

text \<open>
  What the invariants of the runs say, and what the scheduler does in a cycle. The helper lemmas are in the theories of
  the invariant and of the scheduler.
\<close>

text \<open>
  C4: the managing node goes through its boot-up only on reports of its mandatory nodes. In every run,
  whatever frames arrive: it is in PreOperational2 or later only if each mandatory node has sent an
  IdentResponse, a StatusResponse or a PRes; in ReadyToOperate or later only if each has reported its
  NMT state in a StatusResponse or a PRes; in Operational only if each has sent a PRes.\<close>

theorem mn_boot_justified:
  assumes "mn_reachable h ctx"
  shows "(mn_state ctx \<in> {NmtPreOperational2, NmtReadyToOperate, NmtOperational} \<longrightarrow>
      list_all (heard h) (mn_mandatory_nodes ctx)) \<and>
    (mn_state ctx \<in> {NmtReadyToOperate, NmtOperational} \<longrightarrow> list_all (reported_nmt_state h) (mn_mandatory_nodes ctx)) \<and>
    (mn_state ctx = NmtOperational \<longrightarrow> list_all (sent_pres h) (mn_mandatory_nodes ctx))"
  using mn_reachable_heard [OF assms] by (simp add: mn_heard_def state_heard_def)

theorem mn_boot_justified_witness:
  "\<exists>ctx :: (unit, unit) MnContext. mn_reachable boot_history ctx \<and> mn_state ctx = NmtOperational \<and>
     mn_mandatory_nodes ctx = [1] \<and> sent_pres boot_history 1"
proof (rule mn_example_run)
  fix ctx :: "(unit, unit) MnContext"
  assume "mn_reachable boot_history ctx" "mn_state ctx = NmtOperational" "mn_mandatory_nodes ctx = [1]"
  with mn_boot_justified [of boot_history ctx] show ?thesis by auto
qed



subsection \<open>The scheduler\<close>

text \<open>
  C7: the search for the next node to identify is the first unidentified node in the cyclic order of the
  node ids 1 to 239 that starts behind the node found last, each id exactly once. It finds a node whenever one is
  unidentified. If none is, it returns without a node, but not if node 239 was the node found last: then it does not
  return.\<close>

theorem ident_search_exact:
  assumes "mn_reachable h ctx"
  shows "find_next_node_to_identify ctx =
      (case find (unidentified (mn_node_info ctx)) (ident_order (mn_last_ident_poll_node_id ctx)) of
         Some n \<Rightarrow> Some (Some n, ctx\<lparr> mn_last_ident_poll_node_id := n \<rparr>)
       | None \<Rightarrow> if mn_last_ident_poll_node_id ctx = 239 then None else Some (None, ctx)) \<and>
    distinct (ident_order (mn_last_ident_poll_node_id ctx)) \<and>
    set (ident_order (mn_last_ident_poll_node_id ctx)) = {n. 1 \<le> n \<and> n \<le> 239}"
proof -
  have "unat (mn_last_ident_poll_node_id ctx) \<le> 239" using mn_reachable_inv [OF assms] by (simp add: mn_inv_def)
  then show ?thesis by (intro conjI find_next_exact set_ident_order)
qed

theorem ident_search_exact_witness:
  "\<exists>h (ctx :: (unit, unit) MnContext). mn_reachable h ctx \<and> (\<forall>k. \<not> unidentified (mn_node_info ctx) k) \<and>
     find_next_node_to_identify ctx = None \<and> mn_run_cycle ctx None None 2200 = None"
proof (rule mn_hang_run)
  fix h and ctx :: "(unit, unit) MnContext"
  assume c: "mn_reachable h ctx" "mn_run_cycle ctx None None 2200 = None" "mn_last_ident_poll_node_id ctx = 239"
    "\<And>k. \<not> unidentified (mn_node_info ctx) k"
  have "find (unidentified (mn_node_info ctx)) ks = None" for ks using c(4) by (auto simp: find_None_iff)
  with ident_search_exact [OF c(1)] c(3) have "find_next_node_to_identify ctx = None" by simp
  with c show ?thesis by blast
qed

lemma card_below_8: "card {k :: u8. k < 8} = 8"
proof -
  have "{k :: u8. k < 8} = {0, 1, 2, 3, 4, 5, 6, 7}"
  proof (intro set_eqI iffI)
    fix k :: u8
    assume "k \<in> {k. k < 8}"
    then have "unat k < 8" by (simp add: word_less_nat_alt)
    then have "unat k \<in> {0, 1, 2, 3, 4, 5, 6, 7}" by auto
    then show "k \<in> {0, 1, 2, 3, 4, 5, 6, 7}" by (auto simp: word_unat_eq_iff)
  qed auto
  then show ?thesis by simp
qed

lemma multiplex_slots:
  fixes a :: u8
  assumes "a \<noteq> 0"
  shows "{k. k < 8 \<and> a = k + 1} = (if a \<le> 8 then {a - 1} else {})"
proof -
  have "k < 8 \<and> a = k + 1 \<longleftrightarrow> a \<le> 8 \<and> k = a - 1" for k
  proof (cases "k = - 1")
    case True
    with assms show ?thesis by (auto simp: word_less_nat_alt)
  next
    case False
    then have "unat (k + 1) = unat k + 1"
      using unatSuc [of k] by (simp add: add.commute eq_neg_iff_add_eq_0)
    then show ?thesis by (auto simp: word_less_nat_alt word_le_nat_alt)
  qed
  then show ?thesis by auto
qed

lemma background_request:
  assumes "background_action c = ((svc, n, er), c')" "mn_async_request_queue c' \<noteq> mn_async_request_queue c"
  shows "(mn_async_send_queue c = [] \<longrightarrow> bt_get (mn_publish_config c) (mn_current_multiplex_cycle c) = None) \<and>
    (\<exists>r q. async_pop (mn_async_request_queue c) = (Some r, q) \<and> mn_async_request_queue c' = q \<and> n = ar_node_id r \<and>
       svc = (if ar_priority r = 7 then NmtRequestInvite else UnspecifiedInvite))"
proof -
  define p where "p = (if mn_async_send_queue c = [] then bt_get (mn_publish_config c) (mn_current_multiplex_cycle c) else None)"
  have p: "p = None" using assms by (cases p) (auto simp: background_action_def p_def [symmetric])
  obtain r q where q: "async_pop (mn_async_request_queue c) = (r, q)" by fastforce
  then obtain x where "r = Some x" using assms p by (cases r) (auto simp: background_action_def p_def [symmetric])
  with assms(1) p q show ?thesis by (auto simp: background_action_def p_def [symmetric]) (simp add: p_def)
qed

lemma poll_action_request:
  assumes "poll_action c = Some (act, c')" "mn_async_request_queue c' \<noteq> mn_async_request_queue c"
    and "unat (mn_last_ident_poll_node_id c) \<le> 239"
  shows "find (unidentified (mn_node_info c)) (ident_order (mn_last_ident_poll_node_id c)) = None \<and>
    (\<forall>k i. k \<in> set (mn_async_only_nodes c) \<longrightarrow> bt_get (mn_node_info c) k = Some i \<longrightarrow> ci_state i = Missing) \<and>
    background_action c = (act, c')"
proof -
  obtain r d where r: "find_next_node_to_identify c = Some (r, d)"
    using assms(1) by (cases "find_next_node_to_identify c") (auto simp: poll_action_def)
  have d: "mn_async_request_queue d = mn_async_request_queue c"
    "r = None \<Longrightarrow> d = c \<and> find (unidentified (mn_node_info c)) (ident_order (mn_last_ident_poll_node_id c)) = None"
    using r unfolding find_next_exact [OF assms(3)] by (auto split: option.splits if_splits)
  have "r = None" using assms(1,2) r d by (cases r) (auto simp: poll_action_def)
  with d r have f: "find (unidentified (mn_node_info c)) (ident_order (mn_last_ident_poll_node_id c)) = None"
    "find_next_node_to_identify c = Some (None, c)" by simp_all
  obtain q d where g: "find_next_async_only_to_poll c = (q, d)" by fastforce
  have keep: "mn_async_request_queue d = mn_async_request_queue c" "q = None \<Longrightarrow> d = c"
    using g by (auto simp: find_next_async_only_to_poll_def Let_def split: option.splits if_splits)
  have "q = None" using assms(1,2) f(2) g keep by (cases q) (auto simp: poll_action_def)
  with keep have "q = None" "d = c" by simp_all
  with assms(1) f g async_only_none [of c d] show ?thesis by (auto simp: poll_action_def)
qed

text \<open>
  C9: the asynchronous slot is given to a controlled node that has asked for it only when nothing else is to be
  sent: no status request, no command, no queued frame, no SDO request, no announcement, no configured node that is
  unidentified, and no asynchronous node that is not missing. The request that is served has the highest
  priority of all queued ones, and it alone leaves the queue. So as long as one asynchronous node of the configuration
  is alive, no request of a controlled node is ever served.\<close>

theorem async_slot_priority:
  assumes "mn_reachable h ctx" "determine_next_async_action ctx = Some ((svc, n, er), ctx')"
    and "mn_async_request_queue ctx' \<noteq> mn_async_request_queue ctx"
  shows "mn_pending_status_requests ctx = [] \<and> mn_pending_nmt_commands ctx = [] \<and> mn_async_send_queue ctx = [] \<and>
    (\<exists>m. cm_get_pending_request (mn_sdo_client_manager ctx) (mn_current_cycle_start_time_us ctx) (mn_od ctx) = Some (None, m)) \<and>
    (\<forall>k. 1 \<le> k \<and> k \<le> 239 \<longrightarrow> \<not> unidentified (mn_node_info ctx) k) \<and>
    (\<forall>k i. k \<in> set (mn_async_only_nodes ctx) \<longrightarrow> bt_get (mn_node_info ctx) k = Some i \<longrightarrow> ci_state i = Missing) \<and>
    bt_get (mn_publish_config ctx) (mn_current_multiplex_cycle ctx) = None \<and>
    (\<exists>r. n = ar_node_id r \<and> svc = (if ar_priority r = 7 then NmtRequestInvite else UnspecifiedInvite) \<and>
       mset (mn_async_request_queue ctx) = add_mset r (mset (mn_async_request_queue ctx')) \<and>
       (\<forall>x \<in> set (mn_async_request_queue ctx). ar_priority x \<le> ar_priority r))"
proof -
  have inv: "mn_inv ctx" by (rule mn_reachable_inv [OF assms(1)])
  have q: "mn_pending_status_requests ctx = []" "mn_pending_nmt_commands ctx = []" "mn_async_send_queue ctx = []"
    and "\<exists>m. cm_get_pending_request (mn_sdo_client_manager ctx) (mn_current_cycle_start_time_us ctx) (mn_od ctx) = Some (None, m) \<and>
      poll_action (ctx\<lparr> mn_sdo_client_manager := m \<rparr>) = Some ((svc, n, er), ctx')"
    using assms(2,3)
    by (auto simp: determine_next_async_action_def vec_pop_def schedule_sdo_request_def split: if_splits option.splits)
  then obtain m where m: "cm_get_pending_request (mn_sdo_client_manager ctx) (mn_current_cycle_start_time_us ctx) (mn_od ctx) = Some (None, m)"
    "poll_action (ctx\<lparr> mn_sdo_client_manager := m \<rparr>) = Some ((svc, n, er), ctx')" by blast
  have l: "unat (mn_last_ident_poll_node_id ctx) \<le> 239" using inv by (simp add: mn_inv_def)
  from poll_action_request [OF m(2)] assms(3) l
  have p: "find (unidentified (mn_node_info ctx)) (ident_order (mn_last_ident_poll_node_id ctx)) = None"
    "\<forall>k i. k \<in> set (mn_async_only_nodes ctx) \<longrightarrow> bt_get (mn_node_info ctx) k = Some i \<longrightarrow> ci_state i = Missing"
    "background_action (ctx\<lparr> mn_sdo_client_manager := m \<rparr>) = ((svc, n, er), ctx')" by simp_all
  from background_request [OF p(3)] assms(3) q(3) obtain r where
    r: "bt_get (mn_publish_config ctx) (mn_current_multiplex_cycle ctx) = None"
    "async_pop (mn_async_request_queue ctx) = (Some r, mn_async_request_queue ctx')" "n = ar_node_id r"
    "svc = (if ar_priority r = 7 then NmtRequestInvite else UnspecifiedInvite)" by auto
  have "mset (mn_async_request_queue ctx) = add_mset r (mset (mn_async_request_queue ctx'))"
    "\<forall>x \<in> set (mn_async_request_queue ctx). ar_priority x \<le> ar_priority r"
    using heap.pop_Some [OF _ r(2), unfolded set_mset_mset] inv unfolding mn_inv_def by blast+
  moreover have "\<forall>k. 1 \<le> k \<and> k \<le> 239 \<longrightarrow> \<not> unidentified (mn_node_info ctx) k"
    using p(1) set_ident_order(1) [OF l] by (auto simp: find_None_iff)
  ultimately show ?thesis using q m(1) p(2) r by blast
qed

theorem async_slot_priority_witness:
  "\<exists>h (ctx :: (unit, unit) MnContext) svc er ctx'. mn_reachable h ctx \<and>
     determine_next_async_action ctx = Some ((svc, 1, er), ctx') \<and> mn_async_send_queue ctx = [] \<and>
     \<not> unidentified (mn_node_info ctx) 1 \<and>
     (\<exists>r. 1 = ar_node_id r \<and> mset (mn_async_request_queue ctx) = add_mset r (mset (mn_async_request_queue ctx')))"
proof (rule mn_request_run)
  fix h svc er and ctx ctx' :: "(unit, unit) MnContext"
  assume c: "mn_reachable h ctx" "determine_next_async_action ctx = Some ((svc, 1, er), ctx')"
    "mn_async_request_queue ctx' \<noteq> mn_async_request_queue ctx"
  note p = async_slot_priority [OF c]
  then have "\<not> unidentified (mn_node_info ctx) 1" by simp
  with p c show ?thesis by blast
qed

text \<open>
  C8: in one cycle the isochronous nodes are polled exactly once each, in the order of the configuration, if they are due: the
  repeated calls of the scheduler return the nodes from the current position on whose multiplexed slot has come and that
  have left the identification, and \<^verbatim>\<open>has_more_isochronous_nodes\<close> says whether one is left. Over the eight
  multiplexed cycles a node that is assigned to no cycle has eight slots, a node that is assigned to one of the cycles 1 to
  8 has one, and a node that is assigned to a later cycle has none.\<close>

theorem cycle_polls_exactly:
  assumes "mn_reachable h ctx"
  shows "poll_order ctx c = filter (poll_due ctx c) (drop (mn_next_isoch_node_idx ctx) (mn_isochronous_nodes ctx)) \<and>
    (has_more_isochronous_nodes ctx c \<longleftrightarrow> poll_order ctx c \<noteq> []) \<and>
    card {k. k < mn_multiplex_cycle_len ctx \<and> should_poll ctx k n} =
      (if assigned_cycle ctx n = 0 then 8 else if assigned_cycle ctx n \<le> 8 then 1 else 0)"
proof -
  have len: "mn_multiplex_cycle_len ctx = 8" using mn_reachable_inv [OF assms] by (simp add: mn_inv_def)
  then have "{k. k < mn_multiplex_cycle_len ctx \<and> should_poll ctx k n} =
      (if assigned_cycle ctx n = 0 then {k. k < 8} else if assigned_cycle ctx n \<le> 8 then {assigned_cycle ctx n - 1} else {})"
    using multiplex_slots [of "assigned_cycle ctx n"] by (simp add: should_poll_def)
  then show ?thesis
    by (simp add: poll_order_left polls_left_def has_more_iff card_below_8)
qed

theorem cycle_polls_exactly_witness:
  "\<exists>ctx :: (unit, unit) MnContext. mn_reachable boot_history ctx \<and>
     poll_order ctx 0 = filter (poll_due ctx 0) (drop (mn_next_isoch_node_idx ctx) [1])"
proof (rule mn_example_run)
  fix ctx :: "(unit, unit) MnContext"
  assume "mn_reachable boot_history ctx" "mn_isochronous_nodes ctx = [1]"
  with cycle_polls_exactly [of boot_history ctx 0] show ?thesis by auto
qed

end
