(* ===== verification/Network.thy ===== *)
theory Network
  imports Mn_Example
begin

section \<open>A network of a managing node and controlled nodes\<close>

text \<open>
  A managing node and any number of controlled nodes on one segment. The frames that have been sent are kept, those of the
  managing node and those of the controlled nodes apart: a frame may arrive at any later time, any number of times, or
  never, and a node does not hear itself or, if it is the managing node, any other managing node. Datagrams and times are
  arbitrary, and the applications may call the interfaces of their nodes.
\<close>

subsection \<open>The steps\<close>

inductive mn_call :: "('h, 's) MnContext \<Rightarrow> ('h, 's) MnContext \<Rightarrow> bool" where
  command: "mn_call ctx (queue_nmt_state_command command target ctx)"
| hostname: "mn_call ctx (snd (set_hostname target name ctx))"
| flush: "mn_call ctx (flush_arp_entry target ctx)"
| read: "mn_call ctx (snd (mn_read_object target i s t ctx))"
| writes: "mn_call ctx (snd (mn_write_object target i s data t ctx))"

inductive cn_call :: "('h, 's) CnContext \<Rightarrow> ('h, 's) CnContext \<Rightarrow> bool" where
  sdo: "cn_call ctx (cn_queue_sdo_request payload ctx)"
| nmt: "cn_call ctx (cn_queue_nmt_request command target ctx)"
| embedded_read: "core_queue_embedded_read ch i s (cn_core ctx) = (r, core) \<Longrightarrow> cn_call ctx (ctx\<lparr> cn_core := core \<rparr>)"
| embedded_write: "core_queue_embedded_write ch i s data (cn_core ctx) = (r, core) \<Longrightarrow> cn_call ctx (ctx\<lparr> cn_core := core \<rparr>)"

fun sent :: "NodeAction \<Rightarrow> bytes set" where
  "sent (SendFrame bs) = {bs}"
| "sent _ = {}"

record ('s, 'c) network =
  net_mn :: "(unit, 's) MnContext"
  net_cns :: "(unit, 'c) CnContext list"
  net_mn_frames :: "bytes set"
  net_cn_frames :: "bytes set"

inductive net_reachable :: "('s, 'c) network \<Rightarrow> bool" where
  start: "ManagingNode_new od mac cfg = Inr mn \<Longrightarrow> od_sound od \<Longrightarrow> wf_mac mac \<Longrightarrow>
    set (mn_isochronous_nodes mn) \<inter> set (mn_async_only_nodes mn) = {} \<Longrightarrow>
    (\<And>cn. cn \<in> set cns \<Longrightarrow> \<exists>k o' m. ControlledNode_new k o' m = Inr cn \<and> od_sound o' \<and> 10 \<le> k \<and> wf_mac m) \<Longrightarrow>
    net_reachable \<lparr> net_mn = mn, net_cns = cns, net_mn_frames = {}, net_cn_frames = {} \<rparr>"
| mn_cycle: "net_reachable net \<Longrightarrow> mn_run_cycle (net_mn net) eth dgram t = Some (a, mn) \<Longrightarrow>
    set_option eth \<subseteq> net_cn_frames net \<Longrightarrow>
    net_reachable (net\<lparr> net_mn := mn, net_mn_frames := net_mn_frames net \<union> sent a \<rparr>)"
| cn_cycle: "net_reachable net \<Longrightarrow> i < length (net_cns net) \<Longrightarrow>
    run_cycle (net_cns net ! i) eth dgram t = Some (a, cn) \<Longrightarrow>
    set_option eth \<subseteq> net_mn_frames net \<union> net_cn_frames net \<Longrightarrow>
    net_reachable (net\<lparr> net_cns := (net_cns net)[i := cn], net_cn_frames := net_cn_frames net \<union> sent a \<rparr>)"
| mn_app: "net_reachable net \<Longrightarrow> mn_call (net_mn net) mn \<Longrightarrow> net_reachable (net\<lparr> net_mn := mn \<rparr>)"
| cn_app: "net_reachable net \<Longrightarrow> i < length (net_cns net) \<Longrightarrow> cn_call (net_cns net ! i) cn \<Longrightarrow>
    net_reachable (net\<lparr> net_cns := (net_cns net)[i := cn] \<rparr>)"

lemma mn_call_same: "mn_call ctx ctx' \<Longrightarrow> mn_same ctx ctx'"
  by (induction rule: mn_call.induct) (rule mn_interface_same)+

lemma cn_call_inv: "cn_call ctx ctx' \<Longrightarrow> cn_inv ctx \<Longrightarrow> cn_inv ctx'"
proof (induction rule: cn_call.induct)
  case (embedded_read ch i s ctx r core)
  then show ?case
    by (auto simp: core_queue_embedded_read_def core_evolves_def case_prod_unfold Let_def intro!: cn.core)
next
  case (embedded_write ch i s data ctx r core)
  then show ?case
    by (auto simp: core_queue_embedded_write_def core_evolves_def case_prod_unfold Let_def intro!: cn.core)
qed (auto simp: cn_queue_sdo_request_def cn_queue_nmt_request_def core_queue_sdo_request_def core_evolves_def
    intro: cn.core cn.fields)

subsection \<open>Quiet networks\<close>

text \<open>What a controlled node among the nodes \<open>I\<close> does not send, unless it is polled.\<close>

definition silent :: "NodeId set \<Rightarrow> PowerlinkFrame \<Rightarrow> bool" where
  "silent I f \<longleftrightarrow> (case f of FPRes _ \<Rightarrow> False
     | FASnd a \<Rightarrow> asnd_service_id a = StatusResponse \<longrightarrow> asnd_source a \<notin> I
     | FPReq _ \<Rightarrow> False | FSoA _ \<Rightarrow> False | FSoc _ \<Rightarrow> False)"

text \<open>A frame of the managing node that polls none of the nodes \<open>I\<close> for process data or its status.\<close>

definition no_poll :: "NodeId set \<Rightarrow> PowerlinkFrame \<Rightarrow> bool" where
  "no_poll I f \<longleftrightarrow> (case f of FPReq _ \<Rightarrow> False
     | FSoA s \<Rightarrow> soa_req_service_id s = RequestedServiceId.StatusRequest \<longrightarrow> soa_target_node_id s \<notin> I
     | _ \<Rightarrow> True)"

definition quiet_mn :: "NodeId set \<Rightarrow> (unit, 's) MnContext \<Rightarrow> bool" where
  "quiet_mn I ctx \<longleftrightarrow> mn_inv ctx \<and> set (mn_isochronous_nodes ctx) = I \<and> set (mn_async_only_nodes ctx) \<inter> I = {} \<and>
     (\<forall>n \<in> I. \<forall>i. bt_get (mn_node_info ctx) n = Some i \<longrightarrow> ci_state i \<in> {Unknown, Identified}) \<and>
     mn_pending_timeout_event ctx \<noteq> Some PresTimeout \<and> mn_pending_er_requests ctx = [] \<and>
     set (mn_pending_status_requests ctx) \<inter> I = {} \<and>
     (set (mn_mandatory_nodes ctx) \<inter> I \<noteq> {} \<longrightarrow> mn_state ctx \<notin> {NmtReadyToOperate, NmtOperational})"

lemma quiet_info:
  assumes "quiet_mn I ctx" "\<And>i. n \<in> I \<Longrightarrow> ci_state i \<in> {Unknown, Identified} \<Longrightarrow> ci_state (g i) \<in> {Unknown, Identified}"
  shows "quiet_mn I (update_info n g ctx)"
proof -
  have "bt_inv (mn_node_info ctx)" using assms(1) by (simp add: quiet_mn_def mn_inv_def)
  moreover have "mn_pending_timeout_event (update_info n g ctx) = mn_pending_timeout_event ctx"
    "mn_pending_er_requests (update_info n g ctx) = mn_pending_er_requests ctx"
    "mn_pending_status_requests (update_info n g ctx) = mn_pending_status_requests ctx"
    by (simp_all add: update_info_def)
  ultimately show ?thesis
    using assms unfolding quiet_mn_def by (auto simp: mn_inv_info bt_update_get split: if_splits)
qed

lemma quiet_node_state:
  assumes "quiet_mn I ctx" "n \<in> I"
  shows "\<not> PreOperational \<le> node_state (mn_node_info ctx) n"
proof -
  have "node_state (mn_node_info ctx) n \<in> {Unknown, Identified}"
    using assms by (auto simp: quiet_mn_def node_state_def split: option.split)
  then show ?thesis by (auto simp: cn_state_order)
qed

lemma quiet_not_due: "quiet_mn I ctx \<Longrightarrow> n \<in> set (mn_isochronous_nodes ctx) \<Longrightarrow> \<not> poll_due ctx c n"
  using quiet_node_state [of I ctx n] by (auto simp: quiet_mn_def poll_due_def isochronous_state_def)

lemma quiet_boot:
  assumes "quiet_mn I ctx"
  shows "quiet_mn I (check_bootup_state ctx)"
proof (rule check_bootup_cases [of ctx])
  fix e cmds
  assume e: "boot_event e ctx" "check_bootup_state ctx = (mn_raise_nmt e ctx)\<lparr> mn_pending_nmt_commands := cmds \<rparr>"
  have "\<not> is_reset_event e" using e(1) by (auto simp: boot_event_def is_reset_event_def)
  then have s: "mn_state (mn_raise_nmt e ctx) = mn_next (mn_startup_flags (mn_nmt_state_machine ctx)) (mn_state ctx) e"
    by (simp add: mn_raise_state)
  have i: "mn_inv (check_bootup_state ctx)" using assms mn.boot by (auto simp: quiet_mn_def)
  have "\<not> check_all_mandatory_preop (mn_mandatory_nodes ctx) (mn_node_info ctx)" if "set (mn_mandatory_nodes ctx) \<inter> I \<noteq> {}"
    using that quiet_node_state [OF assms] by (auto simp: check_all_mandatory_preop_def list_all_iff)
  then have "set (mn_mandatory_nodes ctx) \<inter> I \<noteq> {} \<Longrightarrow> mn_state (mn_raise_nmt e ctx) \<notin> {NmtReadyToOperate, NmtOperational}"
    using e(1) assms unfolding s by (auto simp: boot_event_def quiet_mn_def mn_next_def)
  with assms i e(2) show ?thesis by (simp add: quiet_mn_def)
qed (use assms in simp)

interpretation quiet: mn_invariant "quiet_mn I" "silent I"
proof
  fix ctx ctx' :: "(unit, 's) MnContext" and core
  show "quiet_mn I ctx \<Longrightarrow> mn_same ctx ctx' \<Longrightarrow> quiet_mn I ctx'"
    using mn.keep [of ctx ctx'] by (auto simp: quiet_mn_def mn_same_def)
  show "quiet_mn I ctx \<Longrightarrow> core_evolves (mn_core ctx) core \<Longrightarrow> quiet_mn I (ctx\<lparr> mn_core := core \<rparr>)"
    using mn.core [of ctx core] by (simp add: quiet_mn_def)
next
  fix ctx :: "(unit, 's) MnContext" and bs k now r srv od
  assume a: "quiet_mn I ctx" "server_handle_request (core_sdo_server (mn_core ctx)) bs k (mn_od ctx) now = (r, srv, od)"
  then show "quiet_mn I (ctx\<lparr> mn_core := (mn_core ctx)\<lparr> core_sdo_server := srv, core_od := od \<rparr> \<rparr>) \<and> (\<forall>d. r = Inr d \<longrightarrow> data_ok d)"
    using mn.request [OF _ a(2)] by (simp add: quiet_mn_def)
next
  fix ctx :: "(unit, 's) MnContext" and now d srv
  assume a: "quiet_mn I ctx" "server_tick (core_sdo_server (mn_core ctx)) now (mn_od ctx) = (d, srv)"
  then show "quiet_mn I (ctx\<lparr> mn_core := (mn_core ctx)\<lparr> core_sdo_server := srv \<rparr> \<rparr>) \<and> (\<forall>x. d = Inr (Some x) \<longrightarrow> data_ok x)"
    using mn.timeout [OF _ a(2)] by (simp add: quiet_mn_def)
next
  fix ctx :: "(unit, 's) MnContext" and e
  assume a: "quiet_mn I ctx" "e = NmtEvent.Timeout \<or> e = NmtEvent.Error"
  then have "mn_state (mn_raise_nmt e ctx) \<in> {mn_state ctx, NmtPreOperational1, NmtBasicEthernet}"
    by (auto simp: mn_raise_state is_reset_event_def mn_next_def split: NmtState.splits if_splits)
  moreover have "mn_inv (mn_raise_nmt e ctx)" using a mn.nmt by (auto simp: quiet_mn_def)
  ultimately show "quiet_mn I (mn_raise_nmt e ctx)" using a(1) unfolding quiet_mn_def by auto
next
  fix ctx :: "(unit, 's) MnContext"
  show "quiet_mn I ctx \<Longrightarrow> quiet_mn I (check_bootup_state ctx)" by (rule quiet_boot)
next
  fix ctx :: "(unit, 's) MnContext" and n and g :: "CnInfo \<Rightarrow> CnInfo"
  assume "quiet_mn I ctx" "\<And>i. ci_state (g i) = ci_state i \<and> ci_communication_ok (g i) = ci_communication_ok i"
  then show "quiet_mn I (update_info n g ctx)" by (intro quiet_info) simp_all
next
  fix ctx :: "(unit, 's) MnContext" and f :: ASndFrame and m identity
  let ?n = "asnd_source f"
  assume a: "quiet_mn I ctx" "wf_mac m"
  then have "quiet_mn I (ctx\<lparr> mn_arp_cache := bt_insert (ip_from_node_id ?n) m (mn_arp_cache ctx) \<rparr>)"
    by (auto simp: quiet_mn_def mn_inv_def bt.inv_insert bt.get_insert)
  then show "quiet_mn I (update_info ?n (\<lambda>i. i\<lparr> ci_state := Identified, ci_identity := Some identity \<rparr>)
      (ctx\<lparr> mn_arp_cache := bt_insert (ip_from_node_id ?n) m (mn_arp_cache ctx) \<rparr>))"
    by (intro quiet_info) simp_all
next
  fix ctx :: "(unit, 's) MnContext" and f :: ASndFrame and g :: "CnInfo \<Rightarrow> CnInfo"
  assume "quiet_mn I ctx" "silent I (FASnd f)" "asnd_service_id f = StatusResponse"
  then show "quiet_mn I (update_info (asnd_source f) g ctx)" by (intro quiet_info) (simp_all add: silent_def)
next
  fix ctx :: "(unit, 's) MnContext"
  assume "quiet_mn I ctx" "0 < mn_multiplex_cycle_len ctx"
  then show "quiet_mn I (ctx\<lparr> mn_current_multiplex_cycle := (mn_current_multiplex_cycle ctx + 1) mod mn_multiplex_cycle_len ctx \<rparr>)"
    using mn.mux [of ctx] by (simp add: quiet_mn_def)
next
  fix ctx :: "(unit, 's) MnContext" and n
  assume "quiet_mn I ctx" "n \<in> set (mn_isochronous_nodes ctx)" "poll_due ctx (mn_current_multiplex_cycle ctx) n"
  then show "quiet_mn I (ctx\<lparr> mn_pending_timeout_event := Some PresTimeout \<rparr>)" using quiet_not_due by blast
next
  fix ctx ctx0 :: "(unit, 's) MnContext" and n
  assume "quiet_mn I ctx0" "mn_pending_timeout_event ctx0 = Some PresTimeout"
  then show "quiet_mn I (update_info n (\<lambda>i. i\<lparr> ci_state := Missing \<rparr>) ctx)" by (simp add: quiet_mn_def)
qed (auto simp: quiet_mn_def silent_def mn_inv_er dest: in_set_butlastD
    intro: mn.queued mn.pop_request mn.pop_status mn.push_frame mn.pop_frame mn.ident mn.event mn.macs)

lemma quiet_emits:
  assumes "quiet_mn I c" "mn_sends c f" "send f = SendFrame bs"
  shows "\<exists>g. deserialize_frame bs = Inr g \<and> no_poll I g"
proof -
  have "no_poll I (on_wire f)"
    using assms(1,2) quiet_not_due [OF assms(1)]
    by (cases f) (auto simp: no_poll_def on_wire_def mn_sends_def quiet_mn_def)
  with mn_sent_received [OF assms(2,3)] show ?thesis by blast
qed

text \<open>The controlled nodes answer polls only.\<close>

lemma silent_answer: "answers_poll n f g \<Longrightarrow> no_poll I f \<or> silent I f \<Longrightarrow> silent I g"
proof (cases f)
  case (FSoA s)
  assume a: "answers_poll n f g" "no_poll I f \<or> silent I f"
  from FSoA a show ?thesis
    by (cases "soa_req_service_id s") (auto simp: answers_poll_def no_poll_def silent_def split: PowerlinkFrame.splits)
qed (auto simp: answers_poll_def no_poll_def silent_def)

definition quiet_net :: "NodeId set \<Rightarrow> ('s, 'c) network \<Rightarrow> bool" where
  "quiet_net I net \<longleftrightarrow> quiet_mn I (net_mn net) \<and> list_all cn_inv (net_cns net) \<and>
     (\<forall>bs \<in> net_mn_frames net. \<exists>f. deserialize_frame bs = Inr f \<and> no_poll I f) \<and>
     (\<forall>bs \<in> net_cn_frames net. \<exists>f. deserialize_frame bs = Inr f \<and> silent I f)"

lemma quiet_start:
  assumes "ManagingNode_new od mac cfg = Inr mn" "od_sound od" "wf_mac mac"
    and "set (mn_isochronous_nodes mn) \<inter> set (mn_async_only_nodes mn) = {}"
  shows "quiet_mn (set (mn_isochronous_nodes mn)) mn"
proof -
  have "mn_pending_timeout_event mn = None \<and> mn_pending_er_requests mn = [] \<and> mn_pending_status_requests mn = []"
    using assms(1) by (auto simp: ManagingNode_new_def rbind_eq_Inr case_prod_unfold Let_def)
  moreover have "i = CnInfo_default" if "bt_get (mn_node_info mn) n = Some i" for n i
    using mn_new_info [OF assms(1) that] .
  then have "ci_state i = Unknown" if "bt_get (mn_node_info mn) n = Some i" for n i
    using that by (fastforce simp: CnInfo_default_def)
  ultimately show ?thesis
    using mn_new_inv [OF assms(1-3)] assms(4) by (auto simp: quiet_mn_def)
qed

lemma quiet_net_mn:
  assumes "quiet_net I net" "mn_run_cycle (net_mn net) eth dgram t = Some (a, mn)" "set_option eth \<subseteq> net_cn_frames net"
  shows "quiet_net I (net\<lparr> net_mn := mn, net_mn_frames := net_mn_frames net \<union> sent a \<rparr>)"
proof -
  have "quiet_mn I mn \<and> quiet.emits TYPE('a) I a"
    using quiet.cycle [OF assms(2)] assms(1,3) by (fastforce simp: quiet_net_def)
  then have q: "quiet_mn I mn" "quiet.emits TYPE('a) I a" by blast+
  have "\<exists>g. deserialize_frame bs = Inr g \<and> no_poll I g" if "bs \<in> sent a" for bs
    using q(2) that quiet_emits by (cases a) (auto simp: quiet.emits_def)
  with assms(1) q(1) show ?thesis by (auto simp: quiet_net_def)
qed

lemma quiet_net_cn:
  assumes "quiet_net I net" "i < length (net_cns net)" "run_cycle (net_cns net ! i) eth dgram t = Some (a, cn)"
    and "set_option eth \<subseteq> net_mn_frames net \<union> net_cn_frames net"
  shows "quiet_net I (net\<lparr> net_cns := (net_cns net)[i := cn], net_cn_frames := net_cn_frames net \<union> sent a \<rparr>)"
proof -
  have inv: "cn_inv (net_cns net ! i)" using assms(1,2) by (simp add: quiet_net_def list_all_length)
  have "\<exists>g. deserialize_frame bs = Inr g \<and> silent I g" if "a = SendFrame bs" for bs
  proof -
    obtain buf f g where g: "eth = Some buf" "deserialize_frame buf = Inr f" "deserialize_frame bs = Inr g"
      "answers_poll (cn_id (net_cns net ! i)) f g"
      using cn_cycle_answered [OF inv] assms(3) \<open>a = SendFrame bs\<close> by blast
    have "no_poll I f \<or> silent I f" using assms(1,4) g(1,2) by (fastforce simp: quiet_net_def)
    with g(3,4) silent_answer show ?thesis by blast
  qed
  then have "\<forall>bs \<in> sent a. \<exists>g. deserialize_frame bs = Inr g \<and> silent I g" by (cases a) simp_all
  moreover have "cn_inv cn" using cn.cycle [OF assms(3) inv] by simp
  ultimately show ?thesis
    using assms(1) by (auto simp: quiet_net_def list_all_iff dest: subsetD [OF set_update_subset_insert])
qed

lemma net_quiet:
  assumes "net_reachable net"
  shows "quiet_net (set (mn_isochronous_nodes (net_mn net))) net"
  using assms
proof induction
  case (start od mac cfg mn cns)
  then show ?case using quiet_start [OF start(1-4)] cn_new_inv by (fastforce simp: quiet_net_def list_all_iff)
next
  case (mn_cycle net eth dgram t a mn)
  note q = quiet_net_mn [OF mn_cycle.IH mn_cycle.hyps(2,3)]
  then have "set (mn_isochronous_nodes mn) = set (mn_isochronous_nodes (net_mn net))" by (simp add: quiet_net_def quiet_mn_def)
  with q show ?case by simp
next
  case (cn_cycle net i eth dgram t a cn)
  from quiet_net_cn [OF cn_cycle.IH cn_cycle.hyps(2-4)] show ?case by simp
next
  case (mn_app net mn)
  from mn_call_same [OF mn_app.hyps(2)] mn_app.IH quiet.keep show ?case by (auto simp: quiet_net_def mn_same_def)
next
  case (cn_app net i cn)
  then show ?case
    using cn_call_inv [OF cn_app.hyps(3)]
    by (auto simp: quiet_net_def list_all_iff dest: subsetD [OF set_update_subset_insert])
qed

text \<open>
  C5: the boot-up of a network deadlocks. In a network of the managing node and controlled nodes of this crate, whatever frames
  are lost, late or repeated, whatever the applications ask for and whatever datagrams arrive, the managing node
  never sends a PReq, and no isochronous node is ever asked for its status: the managing node polls a node only after it has
  reported its state, and an isochronous node reports its state only when it is polled. If one of the mandatory nodes is
  isochronous, the managing node never gets to ReadyToOperate.\<close>

theorem network_boot_deadlock:
  assumes "net_reachable net"
  shows "(\<forall>bs \<in> net_mn_frames net. \<exists>f. deserialize_frame bs = Inr f \<and> (\<forall>q. f \<noteq> FPReq q) \<and>
      (\<forall>s. f = FSoA s \<longrightarrow> soa_req_service_id s = RequestedServiceId.StatusRequest \<longrightarrow>
        soa_target_node_id s \<notin> set (mn_isochronous_nodes (net_mn net)))) \<and>
    (set (mn_mandatory_nodes (net_mn net)) \<inter> set (mn_isochronous_nodes (net_mn net)) \<noteq> {} \<longrightarrow>
      mn_state (net_mn net) \<notin> {NmtReadyToOperate, NmtOperational})"
proof -
  let ?I = "set (mn_isochronous_nodes (net_mn net))"
  have "no_poll ?I f \<Longrightarrow> (\<forall>q. f \<noteq> FPReq q) \<and>
      (\<forall>s. f = FSoA s \<longrightarrow> soa_req_service_id s = RequestedServiceId.StatusRequest \<longrightarrow> soa_target_node_id s \<notin> ?I)" for f
    by (auto simp: no_poll_def)
  with net_quiet [OF assms] show ?thesis unfolding quiet_net_def quiet_mn_def by blast
qed

lemma network_example_evaluated:
  "(case ManagingNode_new (mn_example_od [9]) mn_example_mac None of
      Inr ctx \<Rightarrow> mn_mandatory_nodes ctx = [1] \<and> mn_isochronous_nodes ctx = [1] \<and> mn_async_only_nodes ctx = [] | Inl _ \<Rightarrow> False)"
  by code_simp

theorem network_boot_deadlock_witness:
  "\<exists>net :: (unit, unit) network. net_reachable net \<and> length (net_cns net) = 1 \<and> mn_mandatory_nodes (net_mn net) = [1] \<and>
     mn_state (net_mn net) \<notin> {NmtReadyToOperate, NmtOperational}"
proof -
  obtain mn where mn: "ManagingNode_new (mn_example_od [9]) mn_example_mac None = Inr mn" "mn_mandatory_nodes mn = [1]"
    "mn_isochronous_nodes mn = [1]" "mn_async_only_nodes mn = []"
    using network_example_evaluated by (auto split: sum.splits)
  obtain cn where cn: "ControlledNode_new 10 cn_example_od [2, 0, 0, 0, 0, 7] = Inr cn"
    using cn_example_evaluated by (auto split: sum.splits)
  define net :: "(unit, unit) network" where
    "net = \<lparr> net_mn = mn, net_cns = [cn], net_mn_frames = {}, net_cn_frames = {} \<rparr>"
  have "net_reachable net"
    unfolding net_def
    by (rule net_reachable.start [OF mn(1) mn_example_sound])
      (use mn cn cn_example_sound in \<open>auto simp: wf_mac_def MAC_ADDRESS_SIZE_def
        intro!: exI [of _ 10] exI [of _ cn_example_od] exI [of _ "[2, 0, 0, 0, 0, 7]"]\<close>)
  with network_boot_deadlock [OF this] mn show ?thesis by (auto simp: net_def)
qed

end
