(* ===== verification/Mn_Handshake.thy ===== *)
theory Mn_Handshake
  imports Mn_Example
begin

section \<open>Identification of a controlled node\<close>

text \<open>
  The controlled node answers an ident request with its identity, and the managing node compares it with the identity that its
  dictionary expects.
\<close>

subsection \<open>What the checks depend on\<close>

text \<open>Two states that agree on what is known of the nodes and on all objects but the counters of telegrams and the NMT
  state.\<close>

definition mn_kept :: "('h, 's) MnContext \<Rightarrow> ('h, 's) MnContext \<Rightarrow> bool" where
  "mn_kept ctx ctx' \<longleftrightarrow> mn_node_info ctx' = mn_node_info ctx \<and> mn_arp_cache ctx' = mn_arp_cache ctx \<and>
     mn_configuration_interface ctx' = mn_configuration_interface ctx \<and>
     (\<forall>i. i \<noteq> 0x1101 \<longrightarrow> i \<noteq> 0x1F8C \<longrightarrow> bt_get (entries (mn_od ctx')) i = bt_get (entries (mn_od ctx)) i)"

lemma mn_kept_refl: "mn_kept ctx ctx"
  by (simp add: mn_kept_def)

lemma mn_kept_trans: "mn_kept a b \<Longrightarrow> mn_kept b c \<Longrightarrow> mn_kept a c"
  by (simp add: mn_kept_def)

lemma mn_inv_entries: "mn_inv ctx \<Longrightarrow> bt_inv (entries (mn_od ctx))"
  by (simp add: mn_inv_def od_sound_def od_inv_def)

lemma count_kept: "mn_inv ctx \<Longrightarrow> mn_kept ctx (mn_count_telegram s ctx)"
  using mn_inv_entries [of ctx]
  by (auto simp: mn_kept_def mn_map_od_def increment_counter_def split: option.split Object.split ObjectValue.split)

lemma update_od_state_kept:
  assumes "bt_inv (entries od)" "i \<noteq> 0x1F8C"
  shows "bt_get (entries (update_od_state cur m od)) i = bt_get (entries od) i"
proof -
  obtain r od' where w: "write_internal od 0x1F8C 0 (Unsigned8 (NmtState_u8 (cur m))) False = (r, od')" by fastforce
  then have "bt_get (entries od') i = bt_get (entries od) i"
    using assms by (cases rule: write_internal_cases) auto
  with w show ?thesis by (simp add: update_od_state_def)
qed

lemma raise_kept:
  assumes "mn_inv ctx" "\<not> is_reset_event e"
  shows "mn_kept ctx (mn_raise_nmt e ctx)"
proof -
  have "bt_get (entries (snd (snd (mn_process_event (mn_nmt_state_machine ctx) e (mn_od ctx))))) i = bt_get (entries (mn_od ctx)) i"
    if "i \<noteq> 0x1F8C" for i
    using assms that mn_inv_entries [OF assms(1)]
    by (simp add: mn_process_event_def Let_def case_prod_unfold update_od_state_kept)
  moreover have "mn_configuration_interface (mn_raise_nmt e ctx) = mn_configuration_interface ctx"
    by (simp add: mn_raise_nmt_def mn_map_od_def case_prod_unfold Let_def)
  ultimately show ?thesis by (simp add: mn_kept_def)
qed

lemma dll_error_kept:
  assumes "mn_inv ctx" "\<not> is_loss e"
  shows "mn_kept ctx (mn_handle_dll_error n e ctx)"
proof -
  define e' where "e' = (case e of LossOfPres _ \<Rightarrow> LossOfPres n | _ \<Rightarrow> e)"
  obtain act b m where h: "mn_log_handle e' (mn_dll_error_manager ctx) = ((act, b), m)" by (metis prod.collapse)
  have c: "mn_inv (ctx\<lparr> mn_dll_error_manager := m \<rparr>)" using mn.fields(2) [OF assms(1)] .
  have loss: "\<not> is_loss e'" using assms(2) by (cases e) (simp_all add: e'_def)
  have raised: "mn_kept (ctx\<lparr> mn_dll_error_manager := m \<rparr>) (mn_raise_nmt NmtEvent.Error (ctx\<lparr> mn_dll_error_manager := m \<rparr>))"
    by (rule raise_kept [OF c]) (simp add: is_reset_event_def)
  show ?thesis
  proof (cases act)
    case (ResetNode k)
    with h loss mn_reset_node_loss show ?thesis by blast
  qed (use h raised in \<open>simp_all add: mn_handle_dll_error_def e'_def [symmetric] mn_kept_def\<close>)
qed

lemma dll_event_kept:
  assumes "mn_inv ctx" "ev \<noteq> PresTimeout"
  shows "mn_kept ctx (mn_handle_dll_event ev f ctx)"
proof -
  have errors: "mn_kept c (fold (mn_handle_dll_error n) errs c)" if "mn_inv c" "\<forall>x \<in> set errs. \<not> is_loss x"
    for n errs and c :: "(unit, 'a) MnContext"
    using that
  proof (induction errs arbitrary: c)
    case (Cons x errs)
    have "mn_inv (mn_handle_dll_error n x c)" by (rule mn.dll_error [OF Cons.prems(1)]) (use Cons.prems(2) in simp)
    with Cons dll_error_kept [OF Cons.prems(1), of x n] mn_kept_trans show ?case by fastforce
  qed (simp add: mn_kept_refl)
  have m: "mn_kept ctx c" if "mn_kept (ctx\<lparr> mn_dll_state_machine := m \<rparr>) c" for m c
    using that by (simp add: mn_kept_def)
  have inv: "mn_inv (ctx\<lparr> mn_dll_state_machine := m \<rparr>)" for m using mn.fields(1) [OF assms(1)] .
  have loss: "\<forall>x \<in> set (unwrap_or (snd (ms_process_event m ev st fl)) []). \<not> is_loss x" for m st fl
    using ms_errors_no_loss [of m ev st fl, OF prod.collapse [symmetric] assms(2)] by blast
  show ?thesis
    unfolding mn_handle_dll_event_def Let_def case_prod_unfold by (rule m [OF errors [OF inv loss]])
qed

text \<open>The checks of the first boot step read the configured expectations only.\<close>

lemma checks_kept:
  assumes "mn_kept ctx ctx'"
  shows "fst (validate_boot_step1_checks ctx' n p t) = fst (validate_boot_step1_checks ctx n p t)"
proof -
  have r: "read_u32 (mn_od ctx') i s = read_u32 (mn_od ctx) i s" if "i \<noteq> 0x1101" "i \<noteq> 0x1F8C" for i s
    using assms that by (simp add: mn_kept_def read_u32_def od_read_def)
  have e: "expected_value (mn_od ctx') i n = expected_value (mn_od ctx) i n" if "i \<noteq> 0x1101" "i \<noteq> 0x1F8C" for i
    by (simp add: expected_value_def r that)
  have "mn_configuration_interface ctx' = mn_configuration_interface ctx" using assms by (simp add: mn_kept_def)
  then have "software_update_required ctx' n p = software_update_required ctx n p"
    by (cases "mn_configuration_interface ctx") (simp_all add: software_update_required_def e)
  then show ?thesis
    by (simp add: validate_boot_step1_checks_def check_identification_def config_mismatch_def r e Let_def)
qed

lemma remediate_kept:
  "mn_inv ctx \<Longrightarrow> node_state (mn_node_info (remediate n t ctx)) k = node_state (mn_node_info ctx) k \<and>
    get_cn_mac_address (remediate n t ctx) k = get_cn_mac_address ctx k"
  by (auto simp: remediate_def Let_def case_prod_unfold update_info_def node_state_def get_cn_mac_address_def mn_inv_def
      bt_update_get split: option.split sum.split)

lemma check_bootup_kept:
  "mn_node_info (check_bootup_state ctx) = mn_node_info ctx \<and> mn_arp_cache (check_bootup_state ctx) = mn_arp_cache ctx"
  by (rule check_bootup_cases [of ctx]) simp_all

subsection \<open>An IdentResponse\<close>

definition identified_as :: "IdentResponsePayload \<Rightarrow> CnInfo \<Rightarrow> bool" where
  "identified_as p i \<longleftrightarrow> ci_state i = Identified \<and> ci_identity i = Some
     \<lparr> id_device_type = ir_device_type p, id_vendor_id = ir_vendor_id p, id_product_code = ir_product_code p,
       id_revision_no = ir_revision_number p, id_serial_no = ir_serial_number p \<rparr>"

lemma handle_ident_ok:
  assumes "mn_inv ctx" "unidentified (mn_node_info ctx) (asnd_source f)"
    and "IdentResponsePayload_deserialize (asnd_payload f) = Inr p" "fst (validate_boot_step1_checks ctx (asnd_source f) p t)"
  shows "(\<exists>i. bt_get (mn_node_info (handle_ident_response f t ctx)) (asnd_source f) = Some i \<and> identified_as p i) \<and>
    get_cn_mac_address (handle_ident_response f t ctx) (asnd_source f) = Some (source_mac (asnd_eth_header f)) \<and>
    (\<forall>k. k \<noteq> asnd_source f \<longrightarrow> bt_get (mn_node_info (handle_ident_response f t ctx)) k = bt_get (mn_node_info ctx) k)"
proof -
  have v: "validate_boot_step1_checks ctx (asnd_source f) p t = (True, ctx)"
    using assms(4) by (auto simp: validate_boot_step1_checks_def Let_def split: if_splits)
  have inv: "bt_inv (mn_node_info ctx)" "bt_inv (mn_arp_cache ctx)" using assms(1) by (simp_all add: mn_inv_def)
  obtain i where i: "bt_get (mn_node_info ctx) (asnd_source f) = Some i"
    using assms(2) by (auto simp: unidentified_def split: option.splits)
  have h: "handle_ident_response f t ctx = identify_node (asnd_source f) (source_mac (asnd_eth_header f)) p ctx"
    using assms(2,3) v by (simp add: handle_ident_response_def Let_def)
  show ?thesis
    unfolding h identify_node_def get_cn_mac_address_def using i inv
    by (simp add: check_bootup_kept bt_update_get bt.get_insert identified_as_def update_info_def)
qed

text \<open>The frame on its way to the handler.\<close>

lemma ident_frame_processed:
  fixes ctx :: "(unit, 's) MnContext"
  assumes "mn_inv ctx" "deserialize_frame bs = Inr (FASnd a)" "asnd_service_id a = IdentResponse"
  obtains c ph where "mn_inv c" "mn_kept ctx c"
    "mn_process_ethernet_frame bs t ctx = Some (NoAction, (handle_ident_response a t c)\<lparr> mn_current_phase := ph \<rparr>)"
proof -
  define d where "d = mn_handle_dll_event DllMsEvent.Asnd (FASnd a) ctx"
  define e where "e = mn_count_telegram 4 d"
  have d: "mn_inv d" "mn_kept ctx d"
    unfolding d_def by (rule mn.dll_event [OF assms(1)], simp) (rule dll_event_kept [OF assms(1)], simp)
  have e: "mn_inv e" "mn_kept ctx e"
    unfolding e_def using mn.count [OF d(1)] count_kept [OF d(1)] mn_kept_trans [OF d(2)] by blast+
  have state: "mn_state ctx \<noteq> NmtGsResetCommunication" using assms(1) by (auto simp: mn_inv_def mn_states_def)
  have run: "mn_process_ethernet_frame bs t ctx = Some (NoAction, process_asnd a t d)"
    using state assms(2,3)
    by (simp add: mn_process_ethernet_frame_def process_powerlink_frame_def process_asnd_frame_def mn_process_frame_def Let_def d_def)
  show thesis
  proof (cases "mn_current_phase e = AsynchronousSoA")
    case True
    have "mn_inv (e\<lparr> mn_pending_timeout_event := None \<rparr>)" by (rule mn.event [OF e(1)]) simp
    moreover have "mn_kept ctx (e\<lparr> mn_pending_timeout_event := None \<rparr>)" using e(2) by (simp add: mn_kept_def)
    ultimately show ?thesis
      by (rule that [of _ CyclePhase.Idle])
        (simp add: run process_asnd_def Let_def e_def [symmetric] True handle_asnd_frame_def assms(3))
  next
    case False
    show ?thesis
      by (rule that [OF e, of "mn_current_phase (handle_ident_response a t e)"])
        (simp add: run process_asnd_def Let_def e_def [symmetric] False handle_asnd_frame_def assms(3))
  qed
qed

lemma ident_exchange:
  fixes ctx :: "(unit, 's) MnContext"
  assumes "mn_reachable h ctx" "unidentified (mn_node_info ctx) n"
    and "od_sound od" "wf_mac mac" "wf_mac (source_mac (soa_eth_header soa))"
    and "length (ir_host_name (IdentResponsePayload_new od)) \<le> 32" "0 \<notin> set (ir_host_name (IdentResponsePayload_new od))"
    and "fst (validate_boot_step1_checks ctx n ((IdentResponsePayload_new od)
      \<lparr> ir_pr := snd (request_flags pending client), ir_rs := RSFlag_new (fst (request_flags pending client)) \<rparr>) t)"
  shows "\<exists>bs ctx' i. serialize_frame_action (build_ident_response mac n od soa client pending) True = Inr (SendFrame bs) \<and>
    mn_process_ethernet_frame bs t ctx = Some (NoAction, ctx') \<and>
    bt_get (mn_node_info ctx') n = Some i \<and> identified_as (IdentResponsePayload_new od) i \<and>
    get_cn_mac_address ctx' n = Some mac \<and>
    (\<forall>k. k \<noteq> n \<longrightarrow> bt_get (mn_node_info ctx') k = bt_get (mn_node_info ctx) k)"
proof -
  define p where "p = (IdentResponsePayload_new od)
      \<lparr> ir_pr := snd (request_flags pending client), ir_rs := RSFlag_new (fst (request_flags pending client)) \<rparr>"
  obtain bs a where bs: "serialize_frame_action (build_ident_response mac n od soa client pending) True = Inr (SendFrame bs)"
    "deserialize_frame bs = Inr (FASnd a)" "asnd_service_id a = IdentResponse" "asnd_source a = n"
    "source_mac (asnd_eth_header a) = mac" "IdentResponsePayload_deserialize (asnd_payload a) = Inr p"
    using ident_response_sent [OF assms(3-7), of n client pending] unfolding p_def by blast
  obtain c ph where c: "mn_inv c" "mn_kept ctx c"
    "mn_process_ethernet_frame bs t ctx = Some (NoAction, (handle_ident_response a t c)\<lparr> mn_current_phase := ph \<rparr>)"
    using ident_frame_processed [OF mn_reachable_inv [OF assms(1)] bs(2,3)] .
  have k: "mn_node_info c = mn_node_info ctx" using c(2) by (simp add: mn_kept_def)
  have "fst (validate_boot_step1_checks c n p t)" using assms(8) checks_kept [OF c(2)] by (simp add: p_def)
  from handle_ident_ok [OF c(1) _ bs(6), of t] this assms(2) k bs(4,5)
  obtain i where "bt_get (mn_node_info (handle_ident_response a t c)) n = Some i" "identified_as p i"
    "get_cn_mac_address (handle_ident_response a t c) n = Some mac"
    "\<forall>k. k \<noteq> n \<longrightarrow> bt_get (mn_node_info (handle_ident_response a t c)) k = bt_get (mn_node_info ctx) k" by auto
  moreover have "identified_as p i \<longleftrightarrow> identified_as (IdentResponsePayload_new od) i" for i
    by (simp add: p_def identified_as_def)
  ultimately show ?thesis using bs(1) c(3) by (auto simp: get_cn_mac_address_def)
qed

text \<open>
  C10: identification works end to end. A controlled node with a sound dictionary builds an IdentResponse and sends it; a managing
  node, in whatever state of a run, that has this node configured and not identified, and whose expectations the identity in the
  controlled node's dictionary meets, decodes it, marks the node as identified, keeps exactly this identity and
  the MAC address of the controlled node for its later polls, and leaves what it knows of other nodes as it was.\<close>

theorem ident_handshake:
  fixes ctx :: "(unit, 's) MnContext"
  assumes "mn_reachable h ctx" "unidentified (mn_node_info ctx) n"
    and "od_sound od" "wf_mac mac" "wf_mac (source_mac (soa_eth_header soa))"
    and "length (ir_host_name (IdentResponsePayload_new od)) \<le> 32" "0 \<notin> set (ir_host_name (IdentResponsePayload_new od))"
    and "fst (validate_boot_step1_checks ctx n ((IdentResponsePayload_new od)
      \<lparr> ir_pr := snd (request_flags pending client), ir_rs := RSFlag_new (fst (request_flags pending client)) \<rparr>) t)"
  shows "\<exists>bs ctx' i. serialize_frame_action (build_ident_response mac n od soa client pending) True = Inr (SendFrame bs) \<and>
    mn_process_ethernet_frame bs t ctx = Some (NoAction, ctx') \<and>
    bt_get (mn_node_info ctx') n = Some i \<and> identified_as (IdentResponsePayload_new od) i \<and>
    get_cn_mac_address ctx' n = Some mac \<and>
    (\<forall>k. k \<noteq> n \<longrightarrow> bt_get (mn_node_info ctx') k = bt_get (mn_node_info ctx) k)"
  by (rule ident_exchange [OF assms])

lemma ident_example_evaluated:
  "case ManagingNode_new (mn_example_od [9]) mn_example_mac None of
     Inr ctx \<Rightarrow> unidentified (mn_node_info ctx) 1 \<and>
       fst (validate_boot_step1_checks ctx 1 ((IdentResponsePayload_new cn_example_od)
         \<lparr> ir_pr := snd (request_flags [] SdoClient_new), ir_rs := RSFlag_new (fst (request_flags [] SdoClient_new)) \<rparr>) 5)
   | Inl _ \<Rightarrow> False"
  by code_simp

theorem ident_handshake_witness:
  "\<exists>(ctx :: (unit, unit) MnContext) bs ctx' i. mn_process_ethernet_frame bs 5 ctx = Some (NoAction, ctx') \<and>
     bt_get (mn_node_info ctx') 1 = Some i \<and> ci_state i = Identified \<and> get_cn_mac_address ctx' 1 = Some [2, 0, 0, 0, 0, 1]"
proof -
  obtain ctx where c: "ManagingNode_new (mn_example_od [9]) mn_example_mac None = Inr ctx" "unidentified (mn_node_info ctx) 1"
    "fst (validate_boot_step1_checks ctx 1 ((IdentResponsePayload_new cn_example_od)
       \<lparr> ir_pr := snd (request_flags [] SdoClient_new), ir_rs := RSFlag_new (fst (request_flags [] SdoClient_new)) \<rparr>) 5)"
    using ident_example_evaluated by (auto split: sum.splits)
  have "mn_reachable [] ctx"
    by (rule mn_reachable.new [OF c(1) mn_example_sound]) (simp add: wf_mac_def MAC_ADDRESS_SIZE_def)
  moreover have "ir_host_name (IdentResponsePayload_new cn_example_od) = []"
    by (simp add: IdentResponsePayload_new_def Let_def cn_example_od_def od_insert_def od_new_def od_read_def bt_get_def)
  ultimately show ?thesis
    using ident_handshake [of "[]" ctx 1 cn_example_od "[2, 0, 0, 0, 0, 1]" example_soa "[]" SdoClient_new 5] c(2,3) cn_example_sound
    by (auto simp: wf_mac_def MAC_ADDRESS_SIZE_def example_soa_def SoAFrame_new_def EthernetHeader_new_def identified_as_def)
qed

end
