(* ===== verification/Od_Default.thy ===== *)
theory Od_Default
  imports Mn_Handshake
begin

section \<open>The default dictionaries\<close>

text \<open>
  \<^verbatim>\<open>od/utils.rs\<close>: the dictionaries that an application starts from. Each builder inserts literal entries, all of them without
  a value range, in the order of the code. A controlled node and a managing node that are created from them find each other.
\<close>

subsection \<open>The builders\<close>

definition insert_all :: "(u16 \<times> ObjectEntry) list \<Rightarrow> 's ObjectDictionary \<Rightarrow> 's ObjectDictionary" where
  "insert_all = fold (\<lambda>(index, entry). od_insert index entry)"

definition diagnostic_objects :: "(u16 \<times> ObjectEntry) list" where
  "diagnostic_objects =
     [(0x1101, mk_entry (Record [Unsigned32 0, Unsigned32 0, Unsigned32 0, Unsigned32 0, Unsigned32 0, Unsigned32 0,
           Unsigned32 0, Unsigned32 0])
         ''DIA_NMTTelegrCount_REC'' Optional (Some ReadOnly) None (Some PmNo)),
      (0x1102, mk_entry (Record [Unsigned32 0, Unsigned32 0, Unsigned32 0, Unsigned32 0, Unsigned32 0, Unsigned32 0,
           Unsigned32 0])
         ''DIA_ERRStatistics_REC'' Optional (Some ReadOnly) None (Some PmNo))]"

definition add_diagnostic_objects :: "'s ObjectDictionary \<Rightarrow> unit result \<times> 's ObjectDictionary" where
  "add_diagnostic_objects od = (Inr (), insert_all diagnostic_objects od)"

definition cn_default_objects :: "NodeId \<Rightarrow> (u16 \<times> ObjectEntry) list" where
  "cn_default_objects node_id =
     [(0x1000, mk_entry (Variable (Unsigned32 0x000F0191))
         ''NMT_DeviceType_U32'' Mandatory (Some Constant) None None),
      (0x1001, mk_entry (Variable (Unsigned8 0))
         ''NMT_ErrorRegister_U8'' Mandatory (Some ReadOnly) (Some (Unsigned8 0)) (Some PmOptional)),
      (0x1006, mk_entry (Variable (Unsigned32 20000))
         ''NMT_CycleLen_U32'' Mandatory (Some ReadWrite) None None),
      (0x1008, mk_entry (Variable (VisibleString (str ''powerlink-rs CN'')))
         ''NMT_ManufactDevName_VS'' Optional (Some Constant) None None),
      (0x1010, mk_entry (Record [Unsigned32 0, Unsigned32 0, Unsigned32 0, Unsigned32 0])
         ''NMT_StoreParam_REC'' Optional (Some ReadWrite) None None),
      (0x1011, mk_entry (Record [Unsigned32 0, Unsigned32 0, Unsigned32 0, Unsigned32 0])
         ''NMT_RestoreParam_REC'' Optional (Some ReadWrite) None None),
      (0x1018, mk_entry (Record [Unsigned32 0x12345678, Unsigned32 0x00000001, Unsigned32 0x00010000, Unsigned32 0xABCDEF01])
         ''NMT_IdentityObject_REC'' Mandatory (Some Constant) None None),
      (0x1F82, mk_entry (Variable (Unsigned32 (ISOCHRONOUS OR SDO_ASND)))
         ''NMT_FeatureFlags_U32'' Mandatory (Some Constant) None None),
      (0x1F93, mk_entry (Record [Unsigned8 node_id, Boolean 0])
         ''NMT_EPLNodeID_REC'' Mandatory (Some ReadWrite) None None),
      (0x1C14, mk_entry (Variable (Unsigned32 100000))
         ''DLL_CNLossOfSocTolerance_U32'' Mandatory (Some ReadWrite) None None),
      (0x1F99, mk_entry (Variable (Unsigned32 5000000))
         ''NMT_CNBasicEthernetTimeout_U32'' Mandatory (Some ReadWrite) None None)]"

definition new_cn_default :: "NodeId \<Rightarrow> 's ObjectDictionary result" where
  "new_cn_default node_id =
     (let od = insert_all (cn_default_objects node_id) (od_new None);
          (r, od) = add_diagnostic_objects od
      in rbind r (\<lambda>_. Inr od))"

text \<open>One element for each of the nodes 1 to 254.\<close>

definition node_array :: "ObjectValue \<Rightarrow> Object" where
  "node_array v = Array (replicate 254 v)"

definition mn_default_objects :: "(u16 \<times> ObjectEntry) list" where
  "mn_default_objects =
     [(0x1F82, mk_entry (Variable (Unsigned32 (ISOCHRONOUS OR SDO_ASND)))
         ''NMT_FeatureFlags_U32'' Mandatory (Some Constant) None None),
      (0x1F80, mk_entry (Variable (Unsigned32 0))
         ''NMT_StartUp_U32'' Mandatory (Some ReadWrite) None None),
      (0x1F81, mk_entry (node_array (Unsigned32 0))
         ''NMT_NodeAssignment_AU32'' Mandatory (Some ReadWrite) None None),
      (0x1F89, mk_entry (Record [Unsigned32 1000000, Unsigned32 500000, Unsigned32 500000, Unsigned32 500000,
           Unsigned32 500000, Unsigned32 500000, Unsigned32 500000, Unsigned32 500000, Unsigned32 500000])
         ''NMT_BootTime_REC'' Mandatory (Some ReadWrite) None None),
      (0x1F84, mk_entry (node_array (Unsigned32 0))
         ''NMT_MNNodeList_AU32'' Mandatory (Some ReadWrite) None None),
      (0x1F85, mk_entry (node_array (Unsigned32 0))
         ''NMT_MNVendorIdList_AU32'' Mandatory (Some ReadWrite) None None),
      (0x1F86, mk_entry (node_array (Unsigned32 0))
         ''NMT_MNProductCodeList_AU32'' Mandatory (Some ReadWrite) None None),
      (0x1F87, mk_entry (node_array (Unsigned32 0))
         ''NMT_MNRevisionNoList_AU32'' Mandatory (Some ReadWrite) None None),
      (0x1F8D, mk_entry (node_array (Unsigned16 0))
         ''DLL_MNPResPayloadLimitList_AU16'' Mandatory (Some ReadWrite) None None),
      (0x1F92, mk_entry (node_array (Unsigned32 100000))
         ''DLL_MNPResTimeOut_AU32'' Mandatory (Some ReadWrite) None None)]"

definition new_mn_default :: "NodeId \<Rightarrow> 's ObjectDictionary result" where
  "new_mn_default node_id = rbind (new_cn_default node_id) (\<lambda>od. Inr (insert_all mn_default_objects od))"

subsection \<open>What the dictionaries hold\<close>

lemma insert_all_get:
  assumes "bt_inv (entries od)"
  shows "bt_inv (entries (insert_all xs od))" "storage (insert_all xs od) = storage od"
    "bt_get (entries (insert_all xs od)) i =
      (case map_of (rev xs) i of Some e \<Rightarrow> Some e | None \<Rightarrow> bt_get (entries od) i)"
proof -
  show "bt_inv (entries (insert_all xs od))"
    using assms unfolding insert_all_def by (induction xs arbitrary: od) (auto simp: od_insert_def)
  show "storage (insert_all xs od) = storage od"
    unfolding insert_all_def by (induction xs arbitrary: od) (auto simp: od_insert_def)
  show "bt_get (entries (insert_all xs od)) i = (case map_of (rev xs) i of Some e \<Rightarrow> Some e | None \<Rightarrow> bt_get (entries od) i)"
    using assms unfolding insert_all_def
  proof (induction xs arbitrary: od)
    case (Cons x xs)
    have "bt_inv (entries (od_insert (fst x) (snd x) od))" using Cons.prems by (simp add: od_insert_def)
    from Cons.IH [OF this] Cons.prems show ?case
      by (simp add: case_prod_unfold od_insert_def map_add_def split: option.split)
  qed simp
qed

lemma insert_all_append: "insert_all ys (insert_all xs od) = insert_all (xs @ ys) od"
  by (simp add: insert_all_def)

text \<open>A dictionary of literal entries.\<close>

abbreviation literal_od :: "(u16 \<times> ObjectEntry) list \<Rightarrow> 's ObjectDictionary" where
  "literal_od xs \<equiv> insert_all xs (od_new None)"

lemma literal_od:
  shows "bt_inv (entries (literal_od xs))" "storage (literal_od xs) = None" "bt_get (entries (literal_od xs)) i = map_of (rev xs) i"
proof -
  have "bt_inv (entries (od_new None))" by (simp add: od_new_def bt_inv_def)
  note g = insert_all_get [OF this]
  show "bt_inv (entries (literal_od xs))" by (rule g)
  show "storage (literal_od xs) = None" unfolding g(2) by (simp add: od_new_def)
  show "bt_get (entries (literal_od xs)) i = map_of (rev xs) i"
    unfolding g(3) by (simp add: od_new_def split: option.split)
qed

lemma new_cn_default_literal: "new_cn_default n = Inr (literal_od (cn_default_objects n @ diagnostic_objects))"
  by (simp add: new_cn_default_def add_diagnostic_objects_def insert_all_append)

lemma new_mn_default_literal: "new_mn_default n = Inr (literal_od (cn_default_objects n @ diagnostic_objects @ mn_default_objects))"
  by (simp add: new_mn_default_def new_cn_default_literal insert_all_append)

definition sound_entry :: "ObjectEntry \<Rightarrow> bool" where
  "sound_entry e \<longleftrightarrow> list_all wf_value (obj_values (oe_object e)) \<and> pred_option wf_value (oe_default_value e)"

lemma literal_sound:
  assumes "list_all (sound_entry \<circ> snd) xs"
  shows "od_sound (literal_od xs)"
proof -
  have "sound_entry e" if "map_of (rev xs) i = Some e" for i e
    using assms map_of_SomeD [OF that] by (auto simp: list_all_iff)
  then show ?thesis by (auto simp: od_sound_def od_inv_def literal_od sound_entry_def)
qed

lemma default_name_valid: "utf8_valid (str ''powerlink-rs CN'')"
  by code_simp

lemma default_entries_sound: "list_all (sound_entry \<circ> snd) (cn_default_objects n @ diagnostic_objects @ mn_default_objects)"
  by (simp add: cn_default_objects_def diagnostic_objects_def mn_default_objects_def sound_entry_def mk_entry_def node_array_def
      default_name_valid list_all_iff)

text \<open>The initialisation of a node keeps every object that has no default value, but the NMT state, if nothing is stored.\<close>

lemma power_on_no_default: "oe_default_value e = None \<Longrightarrow> e\<lparr> oe_object := power_on_object None i e \<rparr> = e"
proof -
  assume d: "oe_default_value e = None"
  have "map (\<lambda>(k, v). power_on_elem None None i k v) (enumerate 0 vs) = vs" for vs
    by (rule nth_equalityI) (simp_all add: nth_enumerate_eq power_on_elem_def)
  with d have "power_on_object None i e = oe_object e" by (cases "oe_object e") (simp_all add: power_on_object_def)
  then show ?thesis by simp
qed

definition kept_object :: "'s ObjectDictionary \<Rightarrow> u16 \<Rightarrow> ObjectEntry option \<Rightarrow> bool" where
  "kept_object od i eo \<longleftrightarrow> bt_inv (entries od) \<and> storage od = None \<and> bt_get (entries od) i = eo \<and>
     i \<noteq> 0x1F8C \<and> (\<forall>e. eo = Some e \<longrightarrow> oe_default_value e = None)"

lemma kept_update: "kept_object od i eo \<Longrightarrow> kept_object (update_od_state cur m od) i eo"
  using update_od_state_kept [of od i cur m]
  by (auto simp: kept_object_def update_od_state_def write_internal_def split: option.split sum.split)

lemma kept_restore: "kept_object od i eo \<Longrightarrow> kept_object (restore_power_on_values od a b) i eo"
  by (cases eo) (auto simp: kept_object_def restore_get loaded_def power_on_no_default storage_restore)

lemma kept_init: "kept_object od i eo \<Longrightarrow> kept_object (snd (run_internal_initialisation cur set_st (m, od))) i eo"
  by (simp add: run_internal_initialisation_def nmt_reset_def reset_target_def enter_state_def Let_def case_prod_unfold
      kept_update kept_restore)

subsection \<open>The nodes start\<close>

lemma literal_init: "od_init (literal_od xs) = (Inr (), populate_protocol_objects (literal_od xs))"
  by (simp add: od_init_def literal_od)

lemma literal_get:
  "bt_get (entries (populate_protocol_objects (literal_od xs))) i =
     (case map_of (rev xs) i of Some e \<Rightarrow> Some e | None \<Rightarrow> map_of protocol_objects i)"
  by (simp add: populate_get literal_od)

lemma literal_contains:
  "bt_contains (entries (populate_protocol_objects (literal_od xs))) i \<longleftrightarrow> i \<in> fst ` set xs \<or> map_of protocol_objects i \<noteq> None"
  using map_of_eq_None_iff [of "rev xs" i] by (cases "map_of (rev xs) i") (auto simp: bt_contains_def literal_get)

lemma literal_started:
  fixes od :: "'s ObjectDictionary"
  assumes "run_internal_initialisation cur set_st (m, populate_protocol_objects (literal_od xs)) = (m', od)"
    and "case map_of (rev xs) i of Some e \<Rightarrow> oe_default_value e = None | None \<Rightarrow> map_of protocol_objects i = None" "i \<noteq> 0x1F8C"
  shows "bt_get (entries od) i = map_of (rev xs) i"
proof -
  let ?od = "populate_protocol_objects (literal_od xs) :: 's ObjectDictionary"
  have "bt_inv (entries ?od)" by (simp add: populate_protocol_objects_def fold_insert_missing literal_od)
  then have "kept_object ?od i (map_of (rev xs) i)"
    using assms(2,3) literal_od(2) by (auto simp: kept_object_def literal_get split: option.splits)
  from kept_init [OF this, of cur set_st m] assms(1) show ?thesis by (simp add: kept_object_def)
qed

lemmas default_objects = cn_default_objects_def diagnostic_objects_def mn_default_objects_def protocol_objects_def mk_entry_def

lemma default_cn_starts:
  fixes od :: "'s ObjectDictionary"
  assumes "valid_node_id n" "new_cn_default n = Inr od"
  obtains cn where "ControlledNode_new k od mac = Inr cn" "cn_id cn = n"
    "\<And>i. (case map_of (rev (cn_default_objects n @ diagnostic_objects)) i of Some e \<Rightarrow> oe_default_value e = None
        | None \<Rightarrow> map_of protocol_objects i = None) \<Longrightarrow> i \<noteq> 0x1F8C \<Longrightarrow>
      bt_get (entries (cn_od cn)) i = map_of (rev (cn_default_objects n @ diagnostic_objects)) i"
proof -
  define xs where "xs = cn_default_objects n @ diagnostic_objects"
  define od1 :: "'s ObjectDictionary" where "od1 = populate_protocol_objects (literal_od xs)"
  have v: "validate_mandatory_objects od1 False = Inr ()"
    by (simp add: od1_def validate_mandatory_objects_def literal_contains xs_def cn_default_objects_def)
  have "CnNmt_from_od od1 = Inr (CnNmt_new n (ISOCHRONOUS OR SDO_ASND) 5000000)"
    using assms(1) by (simp add: od1_def CnNmt_from_od_def od_read_def literal_get)
      (simp add: xs_def default_objects object_read_def vec_get_def expect_u32_def)
  moreover obtain nmt od2 where 2: "run_internal_initialisation cn_current_state cn_set_state
      (CnNmt_new n (ISOCHRONOUS OR SDO_ASND) 5000000, od1) = (nmt, od2)" by fastforce
  moreover have "od = literal_od xs" using assms(2) by (simp add: new_cn_default_literal xs_def)
  ultimately obtain cn where cn: "ControlledNode_new k od mac = Inr cn" "cn_od cn = od2" "cn_nmt_state_machine cn = nmt"
    using v by (simp add: ControlledNode_new_def literal_init od1_def [symmetric])
  have "cn_id cn = n"
    using 2 reset_keeps_id [of NmtEvent.SwReset "(CnNmt_new n (ISOCHRONOUS OR SDO_ASND) 5000000, od1)"]
    by (auto simp: cn(3) run_internal_initialisation_def CnNmt_new_def)
  with cn that show thesis using literal_started [OF 2 [unfolded od1_def]] by (auto simp: xs_def)
qed

lemma default_identity:
  assumes "valid_node_id n" "new_cn_default n = Inr od" "ControlledNode_new k od mac = Inr cn"
  shows "ir_device_type (IdentResponsePayload_new (cn_od cn)) = 0xF0191" "ir_vendor_id (IdentResponsePayload_new (cn_od cn)) = 0x12345678"
    "ir_product_code (IdentResponsePayload_new (cn_od cn)) = 1" "ir_revision_number (IdentResponsePayload_new (cn_od cn)) = 0x10000"
    "ir_serial_number (IdentResponsePayload_new (cn_od cn)) = 0xABCDEF01" "ir_host_name (IdentResponsePayload_new (cn_od cn)) = []"
proof -
  let ?m = "map_of (rev (cn_default_objects n @ diagnostic_objects))"
  have e: "bt_get (entries (cn_od cn)) i = ?m i"
    if "case ?m i of Some e \<Rightarrow> oe_default_value e = None | None \<Rightarrow> map_of protocol_objects i = None" "i \<noteq> 0x1F8C" for i
    using default_cn_starts [OF assms(1,2), of k mac] assms(3) that by (metis Inr_inject)
  have h: "bt_get (entries (cn_od cn)) 0x1F9A = None"
    by (subst e) (simp_all add: default_objects)
  have o: "bt_get (entries (cn_od cn)) 0x1000 = Some (mk_entry (Variable (Unsigned32 0xF0191)) ''NMT_DeviceType_U32'' Mandatory (Some Constant) None None)"
    by (subst e) (simp_all add: default_objects)
  have "bt_get (entries (cn_od cn)) 0x1018 = Some (mk_entry (Record [Unsigned32 0x12345678, Unsigned32 1, Unsigned32 0x10000, Unsigned32 0xABCDEF01])
      ''NMT_IdentityObject_REC'' Mandatory (Some Constant) None None)"
    by (subst e) (simp_all add: default_objects)
  with o h show "ir_device_type (IdentResponsePayload_new (cn_od cn)) = 0xF0191" "ir_vendor_id (IdentResponsePayload_new (cn_od cn)) = 0x12345678"
    "ir_product_code (IdentResponsePayload_new (cn_od cn)) = 1" "ir_revision_number (IdentResponsePayload_new (cn_od cn)) = 0x10000"
    "ir_serial_number (IdentResponsePayload_new (cn_od cn)) = 0xABCDEF01" "ir_host_name (IdentResponsePayload_new (cn_od cn)) = []"
    by (simp_all add: IdentResponsePayload_new_def Let_def read_u32_def od_read_def mk_entry_def object_read_def vec_get_def)
qed

text \<open>A node that is assigned is configured.\<close>

lemma parse_node_entry_mono:
  "bt_inv (nl_node_info l) \<Longrightarrow> bt_get (nl_node_info l) n \<noteq> None \<Longrightarrow> bt_get (nl_node_info (parse_node_entry od e l)) n \<noteq> None"
  by (auto simp: parse_node_entry_def add_node_def Let_def case_prod_unfold split: ObjectValue.split sum.split)

lemma assigned_configured:
  assumes "(k, Unsigned32 a) \<in> set es" "a AND 1 \<noteq> 0" "NodeId_try_from (of_nat k + 1) = Inr n" "bt_inv (nl_node_info l)"
  shows "bt_get (nl_node_info (fold (parse_node_entry od) es l)) n \<noteq> None"
proof -
  have mono: "bt_inv (nl_node_info l) \<Longrightarrow> bt_get (nl_node_info l) n \<noteq> None \<Longrightarrow>
      bt_get (nl_node_info (fold (parse_node_entry od) es l)) n \<noteq> None" for es l
    by (induction es arbitrary: l) (simp_all add: parse_node_entry_mono parse_node_entry_info del: not_None_eq)
  show ?thesis
    using assms(1,4)
  proof (induction es arbitrary: l)
    case (Cons x es)
    show ?case
    proof (cases "x = (k, Unsigned32 a)")
      case True
      have "bt_get (nl_node_info (parse_node_entry od x l)) n \<noteq> None"
        using assms(2,3) Cons.prems(2) by (auto simp: True parse_node_entry_def add_node_def Let_def)
      with mono Cons.prems(2) show ?thesis by (simp add: parse_node_entry_info)
    next
      case False
      with Cons show ?thesis by (simp add: parse_node_entry_info)
    qed
  qed simp
qed

text \<open>The dictionary of the managing node after the application has assigned a node.\<close>

definition assigned_entry :: "NodeId \<Rightarrow> u32 \<Rightarrow> ObjectEntry" where
  "assigned_entry n a = mk_entry (Array ((replicate 254 (Unsigned32 0))[unat n - 1 := Unsigned32 a]))
     ''NMT_NodeAssignment_AU32'' Mandatory (Some ReadWrite) None None"

definition assigned_objects :: "NodeId \<Rightarrow> NodeId \<Rightarrow> u32 \<Rightarrow> (u16 \<times> ObjectEntry) list" where
  "assigned_objects m n a = (cn_default_objects m @ diagnostic_objects @ mn_default_objects) @ [(0x1F81, assigned_entry n a)]"

lemma default_assign:
  assumes "new_mn_default m = Inr od" "1 \<le> unat n" "unat n \<le> 239"
  shows "od_write od 0x1F81 n (Unsigned32 a) = (Inr (), literal_od (assigned_objects m n a))"
proof -
  define xs where "xs = cn_default_objects m @ diagnostic_objects @ mn_default_objects"
  have od: "od = literal_od xs" using assms(1) by (simp add: new_mn_default_literal xs_def)
  have "bt_get (entries od) 0x1F81 =
      Some (mk_entry (node_array (Unsigned32 0)) ''NMT_NodeAssignment_AU32'' Mandatory (Some ReadWrite) None None)"
    by (simp add: od literal_od) (simp add: xs_def default_objects)
  moreover have "n \<noteq> 0" using assms(2) by auto
  ultimately have "od_write od 0x1F81 n (Unsigned32 a) = (Inr (), od_insert 0x1F81 (assigned_entry n a) od)"
    using assms(3) by (simp add: od_write_def is_pdo_mapping_index0_def write_internal_def mk_entry_def object_write_def node_array_def
        write_elems_def vec_get_def assigned_entry_def od_insert_def)
  then show ?thesis by (simp add: assigned_objects_def xs_def [symmetric] od insert_all_def)
qed

lemma assigned_sound: "od_sound (literal_od (assigned_objects m n a))"
proof (rule literal_sound)
  have "sound_entry (assigned_entry n a)"
    by (auto simp: sound_entry_def assigned_entry_def mk_entry_def list_all_iff dest: subsetD [OF set_update_subset_insert])
  with default_entries_sound show "list_all (sound_entry \<circ> snd) (assigned_objects m n a)" by (simp add: assigned_objects_def)
qed

lemma default_mn_starts:
  assumes "1 \<le> unat n" "unat n \<le> 239" "a AND 1 \<noteq> 0"
  obtains mn where "ManagingNode_new (literal_od (assigned_objects m n a) :: 's ObjectDictionary) mac None = Inr mn"
    "unidentified (mn_node_info mn) n" "\<And>p t. fst (validate_boot_step1_checks mn n p t)"
proof -
  define xs where "xs = assigned_objects m n a"
  define od1 :: "'s ObjectDictionary" where "od1 = populate_protocol_objects (literal_od xs)"
  define nmt where "nmt = MnNmt_new C_ADR_MN_DEF_NODE_ID (ISOCHRONOUS OR SDO_ASND) 1000000 0"
  have v: "validate_mandatory_objects od1 True = Inr ()"
    by (simp add: od1_def validate_mandatory_objects_def literal_contains xs_def assigned_objects_def cn_default_objects_def
        mn_default_objects_def)
  have nmt: "MnNmt_from_od od1 = Inr nmt"
    by (simp add: od1_def MnNmt_from_od_def od_read_def literal_get)
      (simp add: xs_def assigned_objects_def default_objects object_read_def vec_get_def expect_u32_def nmt_def)
  have len: "read_u32 od1 0x1006 0 = Some 20000"
    by (simp add: od1_def read_u32_def od_read_def literal_get) (simp add: xs_def assigned_objects_def default_objects object_read_def)
  define lists where "lists = fold (parse_node_entry od1) (enumerate 0 ((replicate 254 (Unsigned32 0))[unat n - 1 := Unsigned32 a]))
    \<lparr> nl_node_info = [], nl_mandatory_nodes = [], nl_isochronous_nodes = [], nl_async_only_nodes = [], nl_multiplex_assign = [] \<rparr>"
  have l: "parse_mn_node_lists od1 = Inr lists"
  proof -
    have "bt_get (entries od1) 0x1F81 = Some (assigned_entry n a)"
      by (simp add: od1_def literal_get) (simp add: xs_def assigned_objects_def)
    then show ?thesis by (simp add: parse_mn_node_lists_def read_object_def lists_def assigned_entry_def mk_entry_def)
  qed
  obtain nmt2 od2 where 2: "run_internal_initialisation mn_current_state mn_set_state (nmt, od1) = (nmt2, od2)" by fastforce
  obtain mn where mn: "ManagingNode_new (literal_od xs :: 's ObjectDictionary) mac None = Inr mn" "mn_node_info mn = nl_node_info lists" "mn_od mn = od2"
    "mn_configuration_interface mn = None"
    using v nmt len l 2 by (simp add: ManagingNode_new_def literal_init od1_def [symmetric])
  have expected: "expected_value od2 i n = 0" if "i \<in> {0x1F84, 0x1F85, 0x1F86, 0x1F87}" for i
  proof -
    have "\<exists>e. map_of (rev xs) i = Some e \<and> oe_object e = node_array (Unsigned32 0) \<and> oe_default_value e = None"
      using that by (auto simp: xs_def assigned_objects_def default_objects)
    then obtain e where e: "map_of (rev xs) i = Some e" "oe_object e = node_array (Unsigned32 0)" "oe_default_value e = None" by blast
    have "bt_get (entries od2) i = Some e"
      using literal_started [OF 2 [unfolded od1_def], of i] e that by auto
    moreover have "n \<noteq> 0" using assms(1) by auto
    ultimately show ?thesis
      using e(2) assms(2) by (simp add: expected_value_def read_u32_def od_read_def node_array_def object_read_def vec_get_def)
  qed
  have "bt_get (entries od2) 0x1F80 = Some (mk_entry (Variable (Unsigned32 0)) ''NMT_StartUp_U32'' Mandatory (Some ReadWrite) None None)"
    by (subst literal_started [OF 2 [unfolded od1_def]]) (simp_all add: xs_def assigned_objects_def default_objects)
  then have "read_u32 od2 0x1F80 0 = Some 0" by (simp add: read_u32_def od_read_def mk_entry_def object_read_def)
  then have checks: "fst (validate_boot_step1_checks mn n p t)" for p t
    using expected by (simp add: validate_boot_step1_checks_def check_identification_def mn(3))
  have "bt_get (nl_node_info lists) n \<noteq> None"
    unfolding lists_def
  proof (rule assigned_configured [OF _ assms(3)])
    show "(unat n - 1, Unsigned32 a) \<in> set (enumerate 0 ((replicate 254 (Unsigned32 0))[unat n - 1 := Unsigned32 a]))"
      using assms(2) by (simp add: in_set_enumerate_eq)
    have "n = of_nat (unat n - 1) + 1" using assms(1) by (simp add: of_nat_diff)
    moreover have "1 \<le> n" "n \<le> C_ADR_MN_DEF_NODE_ID"
      using assms(1,2) by (simp_all add: word_le_nat_alt C_ADR_MN_DEF_NODE_ID_def)
    ultimately show "NodeId_try_from (of_nat (unat n - 1) + 1) = Inr n" by (simp add: NodeId_try_from_def)
  qed (simp add: bt_inv_def)
  with mn(2) have "unidentified (mn_node_info mn) n"
    using mn_new_info [OF mn(1), of n] by (fastforce simp: unidentified_def CnInfo_default_def split: option.split)
  with mn(1) checks that show thesis by (simp add: xs_def)
qed

subsection \<open>Properties\<close>

text \<open>
  C11: the default dictionaries are enough for a network to form. For every node id of a controlled node, the default dictionary
  makes a controlled node of this id. The default dictionary of the managing node accepts the assignment of this node,
  for any assignment whose first bit is set, and makes a managing node. The answer of that controlled node to an
  ident request is then decoded and accepted by this managing node, which learns the identity that the default dictionary
  holds and the MAC address of the controlled node.\<close>

theorem default_nodes_identify:
  assumes "1 \<le> unat n" "unat n \<le> 239" "a AND 1 \<noteq> 0"
    and "wf_mac mac" "wf_mac mac'" "wf_mac (source_mac (soa_eth_header soa))"
  shows "\<exists>(od :: 's ObjectDictionary) (od0 :: 's ObjectDictionary) od1 cn mn bs mn' i.
    new_cn_default n = Inr od \<and> ControlledNode_new k od mac = Inr cn \<and> cn_id cn = n \<and>
    new_mn_default m = Inr od0 \<and> od_write od0 0x1F81 n (Unsigned32 a) = (Inr (), od1) \<and>
    ManagingNode_new od1 mac' None = Inr mn \<and>
    serialize_frame_action (build_ident_response mac n (cn_od cn) soa client pending) True = Inr (SendFrame bs) \<and>
    mn_process_ethernet_frame bs t mn = Some (NoAction, mn') \<and>
    get_cn_mac_address mn' n = Some mac \<and> bt_get (mn_node_info mn') n = Some i \<and> ci_state i = Identified \<and>
    ci_identity i = Some \<lparr> id_device_type = 0xF0191, id_vendor_id = 0x12345678, id_product_code = 1,
      id_revision_no = 0x10000, id_serial_no = 0xABCDEF01 \<rparr>"
proof -
  have "valid_node_id n" using assms(1,2) by (simp add: valid_node_id_def)
  obtain od od0 :: "'s ObjectDictionary" where od: "new_cn_default n = Inr od" "new_mn_default m = Inr od0"
    by (simp add: new_cn_default_literal new_mn_default_literal)
  obtain cn where cn: "ControlledNode_new k od mac = Inr cn" "cn_id cn = n"
    using default_cn_starts [OF \<open>valid_node_id n\<close> od(1)] by metis
  note ident = default_identity [OF \<open>valid_node_id n\<close> od(1) cn(1)]
  have "od_sound od"
    using od(1) default_entries_sound [of n] by (auto simp: new_cn_default_literal intro!: literal_sound)
  with cn_new_inv [OF cn(1) _ assms(4)] have sound: "od_sound (cn_od cn)" by (simp add: cn_inv_def)
  obtain mn where mn: "ManagingNode_new (literal_od (assigned_objects m n a) :: 's ObjectDictionary) mac' None = Inr mn"
    "unidentified (mn_node_info mn) n" "\<And>p t. fst (validate_boot_step1_checks mn n p t)"
    by (rule default_mn_starts [OF assms(1-3), where m = m and mac = mac']) (rule that)
  have "mn_reachable [] mn" by (rule mn_reachable.new [OF mn(1) assigned_sound assms(5)])
  from ident_exchange [OF this mn(2) sound assms(4,6) _ _ mn(3), where pending = pending and client = client and t = t] ident
  obtain bs mn' i where x: "serialize_frame_action (build_ident_response mac n (cn_od cn) soa client pending) True = Inr (SendFrame bs)"
    "mn_process_ethernet_frame bs t mn = Some (NoAction, mn')" "bt_get (mn_node_info mn') n = Some i"
    "identified_as (IdentResponsePayload_new (cn_od cn)) i" "get_cn_mac_address mn' n = Some mac" by auto
  from x(4) ident have "ci_state i = Identified" "ci_identity i = Some \<lparr> id_device_type = 0xF0191, id_vendor_id = 0x12345678,
      id_product_code = 1, id_revision_no = 0x10000, id_serial_no = 0xABCDEF01 \<rparr>"
    by (simp_all add: identified_as_def)
  with od cn mn(1) default_assign [OF od(2) assms(1,2), of a] x show ?thesis by blast
qed

theorem default_nodes_identify_witness:
  "\<exists>(od :: unit ObjectDictionary) (od0 :: unit ObjectDictionary) od1 cn mn bs mn' i.
    new_cn_default 17 = Inr od \<and> ControlledNode_new 10 od [2, 0, 0, 0, 0, 17] = Inr cn \<and>
    new_mn_default 240 = Inr od0 \<and> od_write od0 0x1F81 17 (Unsigned32 9) = (Inr (), od1) \<and>
    ManagingNode_new od1 mn_example_mac None = Inr mn \<and> mn_process_ethernet_frame bs 5 mn = Some (NoAction, mn') \<and>
    bt_get (mn_node_info mn') 17 = Some i \<and> ci_state i = Identified"
  using default_nodes_identify [of 17 9 "[2, 0, 0, 0, 0, 17]" mn_example_mac example_soa 10 240 SdoClient_new "[]" 5]
  by (fastforce simp: wf_mac_def MAC_ADDRESS_SIZE_def example_soa_def SoAFrame_new_def EthernetHeader_new_def)

end
