(* ===== verification/Xdc_Strings.thy ===== *)
theory Xdc_Strings
  imports Utf8
begin

section \<open>Numbers in strings\<close>

text \<open>
  What the crate \<^verbatim>\<open>powerlink-rs-xdc\<close> uses of the strings of the standard library: prefixes, \<^verbatim>\<open>trim\<close>, \<^verbatim>\<open>from_str_radix\<close> and
  \<^verbatim>\<open>parse\<close> of integers and floats, and the hexadecimal formats; and the helpers of \<^verbatim>\<open>parser.rs\<close> and \<^verbatim>\<open>builder/mod.rs\<close> on
  top of them. Strings are their UTF-8 bytes. The decoder of the crate \<^verbatim>\<open>hex\<close> is a parameter.
\<close>

unbundle bit_operations_syntax

subsection \<open>The standard library\<close>

definition strip_prefix :: "rust_string \<Rightarrow> rust_string \<Rightarrow> rust_string option" where
  "strip_prefix p s = (if take (length p) s = p then Some (drop (length p) s) else None)"

definition starts_with :: "rust_string \<Rightarrow> rust_string \<Rightarrow> bool" where
  "starts_with p s \<longleftrightarrow> take (length p) s = p"

text \<open>The characters with the property White_Space, as their UTF-8 bytes.\<close>

definition white_space :: "rust_string list" where
  "white_space = map (\<lambda>b. [b]) [9, 10, 11, 12, 13, 32] @ [[0xC2, 0x85], [0xC2, 0xA0], [0xE1, 0x9A, 0x80]] @
     map (\<lambda>b. [0xE2, 0x80, b]) [0x80, 0x81, 0x82, 0x83, 0x84, 0x85, 0x86, 0x87, 0x88, 0x89, 0x8A, 0xA8, 0xA9, 0xAF] @
     [[0xE2, 0x81, 0x9F], [0xE3, 0x80, 0x80]]"

text \<open>Removes the leading members of a list of nonempty words; the length of the string bounds the number of steps.\<close>

primrec trim_words :: "nat \<Rightarrow> rust_string list \<Rightarrow> rust_string \<Rightarrow> rust_string" where
  "trim_words 0 ws s = s"
| "trim_words (Suc n) ws s =
     (case find (\<lambda>w. starts_with w s) ws of Some w \<Rightarrow> trim_words n ws (drop (length w) s) | None \<Rightarrow> s)"

definition trim :: "rust_string \<Rightarrow> rust_string" where
  "trim s = (let s = trim_words (length s) white_space s
             in rev (trim_words (length s) (map rev white_space) (rev s)))"

text \<open>\<^verbatim>\<open>char::to_digit\<close> for one byte; no byte of a longer character is a digit.\<close>

definition to_digit :: "int \<Rightarrow> u8 \<Rightarrow> int option" where
  "to_digit radix b =
     (let d = (if 48 \<le> b \<and> b \<le> 57 then uint b - 48
               else if 97 \<le> b \<and> b \<le> 122 then uint b - 87
               else if 65 \<le> b \<and> b \<le> 90 then uint b - 55 else radix)
      in if d < radix then Some d else None)"

fun digits_value :: "int \<Rightarrow> int \<Rightarrow> bytes \<Rightarrow> int option" where
  "digits_value radix acc [] = Some acc"
| "digits_value radix acc (b # bs) =
     (case to_digit radix b of None \<Rightarrow> None | Some d \<Rightarrow> digits_value radix (acc * radix + d) bs)"

text \<open>\<^verbatim>\<open>from_str_radix\<close> of an integer type with the given bounds; all its errors are \<open>None\<close>.\<close>

definition from_str_radix :: "int \<Rightarrow> int \<Rightarrow> int \<Rightarrow> rust_string \<Rightarrow> int option" where
  "from_str_radix lo hi radix s =
     (if s = [] \<or> s = [43] \<or> s = [45] then None
      else let (negative, ds) = (if hd s = 43 then (False, tl s)
                                 else if hd s = 45 \<and> lo < 0 then (True, tl s) else (False, s))
           in case digits_value radix 0 ds of
                None \<Rightarrow> None
              | Some n \<Rightarrow> let v = (if negative then - n else n)
                          in if lo \<le> v \<and> v \<le> hi then Some v else None)"

definition unsigned_from_str :: "int \<Rightarrow> rust_string \<Rightarrow> 'a::len word option" where
  "unsigned_from_str radix s = map_option of_int (from_str_radix 0 (2 ^ LENGTH('a) - 1) radix s)"

text \<open>A signed integer is the word of its two's complement.\<close>

definition signed_from_str :: "int \<Rightarrow> rust_string \<Rightarrow> 'a::len word option" where
  "signed_from_str radix s =
     map_option of_int (from_str_radix (- (2 ^ (LENGTH('a) - 1))) (2 ^ (LENGTH('a) - 1) - 1) radix s)"

text \<open>The format \<^verbatim>\<open>X\<close>, with zeros in front up to a width.\<close>

definition upper_hex_digit :: "nat \<Rightarrow> u8" where
  "upper_hex_digit d = (if d < 10 then of_nat (48 + d) else of_nat (55 + d))"

fun upper_hex :: "nat \<Rightarrow> bytes" where
  "upper_hex n = (if n < 16 then [upper_hex_digit n] else upper_hex (n div 16) @ [upper_hex_digit (n mod 16)])"

declare upper_hex.simps [simp del]

definition upper_hex_padded :: "nat \<Rightarrow> nat \<Rightarrow> bytes" where
  "upper_hex_padded width n = (let ds = upper_hex n in replicate (width - length ds) 48 @ ds)"

subsection \<open>Floats\<close>

function bit_length :: "int \<Rightarrow> int" where
  "bit_length n = (if n \<le> 0 then 0 else bit_length (n div 2) + 1)"
  by auto
termination by (relation "measure nat") auto

declare bit_length.simps [simp del]

text \<open>The bits of the float that is nearest to the positive fraction \<open>n / d\<close>, ties to even, in a format with \<open>p\<close> bits of
  precision, the exponent \<open>e0\<close> of the least subnormal number and the bits \<open>infinity\<close>: a carry out of the significand
  counts up the exponent.\<close>

definition nearest_float :: "nat \<Rightarrow> int \<Rightarrow> int \<Rightarrow> int \<Rightarrow> int \<Rightarrow> int" where
  "nearest_float p e0 infinity n d =
     (let k = bit_length n - bit_length d;
          lg = (if d * 2 ^ nat k \<le> n * 2 ^ nat (- k) then k else k - 1);
          e = max e0 (lg - int (p - 1));
          n' = n * 2 ^ nat (- e); d' = d * 2 ^ nat e;
          q = n' div d'; r = n' mod d';
          m = (if d' < 2 * r \<or> (d' = 2 * r \<and> odd q) then q + 1 else q)
      in min infinity ((e - e0) * 2 ^ (p - 1) + m))"

definition lower :: "u8 \<Rightarrow> u8" where
  "lower b = (if 65 \<le> b \<and> b \<le> 90 then b + 32 else b)"

definition is_digit :: "u8 \<Rightarrow> bool" where
  "is_digit b \<longleftrightarrow> 48 \<le> b \<and> b \<le> 57"

definition split_sign :: "rust_string \<Rightarrow> bool \<times> rust_string" where
  "split_sign s = (if s \<noteq> [] \<and> hd s = 45 then (True, tl s) else if s \<noteq> [] \<and> hd s = 43 then (False, tl s) else (False, s))"

text \<open>The exponent behind the digits: nothing, or the letter e, a sign and digits.\<close>

definition parse_exponent :: "rust_string \<Rightarrow> int option" where
  "parse_exponent s =
     (if s = [] then Some 0
      else if lower (hd s) = 101 then
        (let (negative, ds) = split_sign (tl s)
         in if ds = [] then None else map_option (\<lambda>n. if negative then - n else n) (digits_value 10 0 ds))
      else None)"

text \<open>\<^verbatim>\<open>f32::from_str\<close> and \<^verbatim>\<open>f64::from_str\<close> by their documented grammar; the result is the bit pattern without the sign.\<close>

definition parse_magnitude :: "nat \<Rightarrow> int \<Rightarrow> int \<Rightarrow> int \<Rightarrow> rust_string \<Rightarrow> int option" where
  "parse_magnitude p e0 infinity nan s =
     (let w = map lower s
      in if w = str ''inf'' \<or> w = str ''infinity'' then Some infinity
         else if w = str ''nan'' then Some nan
         else
           let whole = takeWhile is_digit s; s = dropWhile is_digit s;
               (fraction, s) = (if s \<noteq> [] \<and> hd s = 46 then (takeWhile is_digit (tl s), dropWhile is_digit (tl s)) else ([], s))
           in if whole @ fraction = [] then None
              else case (digits_value 10 0 (whole @ fraction), parse_exponent s) of
                     (Some n, Some e) \<Rightarrow>
                       let e = e - int (length fraction)
                       in Some (if n = 0 then 0 else nearest_float p e0 infinity (n * 10 ^ nat e) (10 ^ nat (- e)))
                   | _ \<Rightarrow> None)"

definition parse_f32 :: "rust_string \<Rightarrow> u32 option" where
  "parse_f32 s =
     (let (negative, s) = split_sign s
      in map_option (\<lambda>b. of_int b OR (if negative then push_bit 31 1 else 0))
           (parse_magnitude 24 (- 149) 0x7F800000 0x7FC00000 s))"

definition parse_f64 :: "rust_string \<Rightarrow> u64 option" where
  "parse_f64 s =
     (let (negative, s) = split_sign s
      in map_option (\<lambda>b. of_int b OR (if negative then push_bit 63 1 else 0))
           (parse_magnitude 53 (- 1074) 0x7FF0000000000000 0x7FF8000000000000 s))"

lemma parse_f32_evaluated:
  "parse_f32 (str ''0.1'') = Some 0x3DCCCCCD" "parse_f32 (str ''-16777217'') = Some 0xCB800000"
  "parse_f32 (str ''1e39'') = Some 0x7F800000" "parse_f32 (str ''.8e-45'') = Some 1" "parse_f32 (str ''1.e'') = None"
  by code_simp+

subsection \<open>Helpers of the crate\<close>

definition no_0x :: "rust_string \<Rightarrow> rust_string" where
  "no_0x s = (case strip_prefix (str ''0x'') s of Some r \<Rightarrow> r | None \<Rightarrow> s)"

definition parse_hex_u32 :: "rust_string \<Rightarrow> u32 option" where
  "parse_hex_u32 s = unsigned_from_str 16 (no_0x s)"

definition parse_hex_u16 :: "rust_string \<Rightarrow> u16 option" where
  "parse_hex_u16 s = unsigned_from_str 16 (no_0x s)"

definition parse_hex_u8 :: "rust_string \<Rightarrow> u8 option" where
  "parse_hex_u8 s = unsigned_from_str 16 (no_0x s)"

definition parse_hex_string :: "(rust_string \<Rightarrow> 'e + bytes) \<Rightarrow> rust_string \<Rightarrow> 'e + bytes" where
  "parse_hex_string hex_decode s =
     (let s = no_0x s in if length s mod 2 \<noteq> 0 then hex_decode (48 # s) else hex_decode s)"

definition format_hex_u16 :: "u16 \<Rightarrow> rust_string" where
  "format_hex_u16 val = upper_hex_padded 4 (unat val)"

definition format_hex_u8 :: "u8 \<Rightarrow> rust_string" where
  "format_hex_u8 val = upper_hex_padded 2 (unat val)"

subsection \<open>Formats are read back\<close>

lemma upper_hex_digit_read: "d < 16 \<Longrightarrow> to_digit 16 (upper_hex_digit d) = Some (int d)"
proof -
  have "\<forall>d \<in> set [0..<16]. to_digit 16 (upper_hex_digit d) = Some (int d)" by code_simp
  then show "d < 16 \<Longrightarrow> ?thesis" by auto
qed

lemma upper_hex_digit_range: "d < 16 \<Longrightarrow> upper_hex_digit d \<notin> {43, 45, 120}"
proof -
  have "\<forall>d \<in> set [0..<16]. upper_hex_digit d \<notin> {43, 45, 120}" by code_simp
  then show "d < 16 \<Longrightarrow> ?thesis" by auto
qed

lemma digits_value_append:
  "digits_value r acc (xs @ ys) = Option.bind (digits_value r acc xs) (\<lambda>a. digits_value r a ys)"
  by (induction xs arbitrary: acc) (auto split: option.split)

lemma upper_hex_read: "digits_value 16 0 (upper_hex n) = Some (int n)"
proof (induction n rule: upper_hex.induct)
  case (1 n)
  show ?case
  proof (cases "n < 16")
    case True
    then show ?thesis by (simp add: upper_hex.simps [of n] upper_hex_digit_read)
  next
    case False
    have "int n div 16 * 16 + int n mod 16 = int n" by simp
    with 1 False show ?thesis
      by (simp add: upper_hex.simps [of n] digits_value_append upper_hex_digit_read zdiv_int zmod_int)
  qed
qed

lemma digits_value_zeros: "digits_value 16 0 (replicate k 48 @ xs) = digits_value 16 0 xs"
proof (induction k)
  case (Suc k)
  have "to_digit 16 48 = Some 0" by code_simp
  with Suc show ?case by simp
qed simp

lemma upper_hex_not_empty: "upper_hex n \<noteq> []"
  by (subst upper_hex.simps) simp

lemma upper_hex_range: "set (upper_hex n) \<inter> {43, 45, 120} = {}"
proof (induction n rule: upper_hex.induct)
  case (1 n)
  then show ?case
    using upper_hex_digit_range [of n] upper_hex_digit_range [of "n mod 16"]
    by (cases "n < 16") (auto simp: upper_hex.simps [of n])
qed

lemma upper_hex_padded_range: "set (upper_hex_padded w n) \<inter> {43, 45, 120} = {}" "upper_hex_padded w n \<noteq> []"
  using upper_hex_range [of n] upper_hex_not_empty [of n] by (auto simp: upper_hex_padded_def Let_def)

lemma no_0x_hex: "no_0x (upper_hex_padded w n) = upper_hex_padded w n" "no_0x (48 # 120 # s) = s"
proof -
  have "120 \<notin> set (upper_hex_padded w n)" using upper_hex_padded_range(1) by blast
  then have "take (Suc (Suc 0)) (upper_hex_padded w n) \<noteq> [48, 120]" by (metis in_set_takeD list.set_intros)
  then show "no_0x (upper_hex_padded w n) = upper_hex_padded w n" by (simp add: no_0x_def strip_prefix_def str_def)
  show "no_0x (48 # 120 # s) = s" by (simp add: no_0x_def strip_prefix_def str_def)
qed

lemma unsigned_from_hex:
  assumes "n < 2 ^ LENGTH('a)"
  shows "unsigned_from_str 16 (upper_hex_padded w n) = Some (of_nat n :: 'a::len word)"
proof -
  let ?s = "upper_hex_padded w n"
  have s: "?s \<noteq> []" "hd ?s \<noteq> 43" "hd ?s \<noteq> 45"
    using upper_hex_padded_range [of w n] hd_in_set [of ?s] by (force, force, force)
  moreover have "int n < 2 ^ LENGTH('a)" using assms by (metis of_nat_less_iff of_nat_power of_nat_numeral)
  moreover have "digits_value 16 0 ?s = Some (int n)"
    by (simp add: upper_hex_padded_def Let_def digits_value_zeros upper_hex_read)
  ultimately show ?thesis by (auto simp: unsigned_from_str_def from_str_radix_def)
qed

lemma hex_u16_roundtrip: "parse_hex_u16 (format_hex_u16 v) = Some v"
  using unsigned_from_hex [where 'a = 16, of "unat v" 4] unat_lt_2p [of v]
  by (simp add: parse_hex_u16_def format_hex_u16_def no_0x_hex)

lemma hex_u8_roundtrip: "parse_hex_u8 (format_hex_u8 v) = Some v"
  using unsigned_from_hex [where 'a = 8, of "unat v" 2] unat_lt_2p [of v]
  by (simp add: parse_hex_u8_def format_hex_u8_def no_0x_hex)

end
