(* ===== verification/Xdc_Converter.thy ===== *)
theory Xdc_Converter
  imports Xdc_Strings Od_Sound
begin

section \<open>From a configuration file to the object dictionary\<close>

text \<open>
  The crate \<^verbatim>\<open>powerlink-rs-xdc\<close>: the object dictionary and the features of \<^verbatim>\<open>types.rs\<close>, the errors of \<^verbatim>\<open>error.rs\<close>, the data
  types of \<^verbatim>\<open>resolver/utils.rs\<close>, and \<^verbatim>\<open>converter.rs\<close>. Each function takes the fields of the file that it reads. The errors of the XML
  library are constructors without their contents.
\<close>

subsection \<open>The parsed file\<close>

datatype 'e XdcError =
    XmlParsing
  | XmlSerializing
  | XmlWriting
  | HexParsing 'e
  | FmtError
  | MissingElement string
  | MissingAttribute string
  | InvalidAttributeFormat string
  | XValidationError string
  | TypeValidationError u16 u8 rust_string nat nat
  | NotImplemented

datatype ParameterAccess =
  PaConstant | PaReadOnly | PaWriteOnly | PaReadWrite | PaReadWriteInput | PaReadWriteOutput | PaNoAccess

datatype ParameterSupport = PsMandatory | PsOptional | PsConditional

datatype ObjectPdoMapping = OpNo | OpDefault | OpOptional | OpTpdo | OpRpdo

record XValue =
  xv_value :: rust_string
  xv_label :: "rust_string option"
  xv_offset :: "rust_string option"
  xv_multiplier :: "rust_string option"

record XValueRange =
  xr_min_value :: rust_string
  xr_max_value :: rust_string
  xr_step :: "rust_string option"

record XAllowedValues =
  av_template_id_ref :: "rust_string option"
  av_values :: "XValue list"
  av_ranges :: "XValueRange list"

record XSubObject =
  xs_sub_index :: u8
  xs_name :: rust_string
  xs_object_type :: rust_string
  xs_data_type :: "rust_string option"
  xs_low_limit :: "rust_string option"
  xs_high_limit :: "rust_string option"
  xs_access_type :: "ParameterAccess option"
  xs_pdo_mapping :: "ObjectPdoMapping option"
  xs_obj_flags :: "rust_string option"
  xs_support :: "ParameterSupport option"
  xs_persistent :: bool
  xs_allowed_values :: "XAllowedValues option"
  xs_data :: "rust_string option"

record XObject =
  xo_index :: u16
  xo_name :: rust_string
  xo_object_type :: rust_string
  xo_data_type :: "rust_string option"
  xo_low_limit :: "rust_string option"
  xo_high_limit :: "rust_string option"
  xo_access_type :: "ParameterAccess option"
  xo_pdo_mapping :: "ObjectPdoMapping option"
  xo_obj_flags :: "rust_string option"
  xo_support :: "ParameterSupport option"
  xo_persistent :: bool
  xo_allowed_values :: "XAllowedValues option"
  xo_data :: "rust_string option"
  xo_sub_objects :: "XSubObject list"

record GeneralFeatures =
  gf_dll_feature_mn :: bool
  gf_nmt_boot_time_not_active :: u32
  gf_nmt_cycle_time_max :: u32
  gf_nmt_cycle_time_min :: u32
  gf_nmt_error_entries :: u32
  gf_nmt_max_cn_number :: "u8 option"
  gf_pdo_dynamic_mapping :: "bool option"
  gf_sdo_client :: "bool option"
  gf_sdo_server :: "bool option"
  gf_sdo_support_asnd :: "bool option"
  gf_sdo_support_udp_ip :: "bool option"
  gf_nmt_isochronous :: "bool option"
  gf_sdo_support_pdo :: "bool option"
  gf_nmt_ext_nmt_cmds :: "bool option"
  gf_cfm_config_manager :: "bool option"
  gf_nmt_node_id_by_sw :: "bool option"
  gf_sdo_cmd_read_all_by_index :: "bool option"
  gf_sdo_cmd_write_all_by_index :: "bool option"
  gf_sdo_cmd_read_mult_param :: "bool option"
  gf_sdo_cmd_write_mult_param :: "bool option"
  gf_nmt_publish_active_nodes :: "bool option"
  gf_nmt_publish_config_nodes :: "bool option"

record MnFeatures =
  mnf_dll_mn_feature_multiplex :: "bool option"
  mnf_dll_mn_pres_chaining :: "bool option"
  mnf_nmt_simple_boot :: bool
  mnf_nmt_service_udp_ip :: "bool option"
  mnf_nmt_mn_basic_ethernet :: "bool option"

datatype NmtCnDna = DoNotClear | ClearOnPreOp1ToPreOp2 | ClearOnNmtResetNode

record CnFeatures =
  cnf_dll_cn_feature_multiplex :: "bool option"
  cnf_dll_cn_pres_chaining :: "bool option"
  cnf_nmt_cn_pre_op2_to_ready2_op :: "u32 option"
  cnf_nmt_cn_soc_2_preq :: u32
  cnf_nmt_cn_dna :: "NmtCnDna option"

record AddInfo =
  ai_name :: rust_string
  ai_bit_offset :: u8
  ai_len :: u8
  ai_description :: "rust_string option"

record ErrorDefinition =
  ed_name :: rust_string
  ed_value :: rust_string
  ed_add_info :: "AddInfo list"

record StaticErrorBit =
  sb_name :: rust_string
  sb_offset :: u8
  sb_label :: "rust_string option"
  sb_description :: "rust_string option"

record Diagnostic =
  dg_errors :: "ErrorDefinition list"
  dg_static_error_bit_field :: "StaticErrorBit list option"

record NetworkManagement =
  nm_general_features :: GeneralFeatures
  nm_mn_features :: "MnFeatures option"
  nm_cn_features :: "CnFeatures option"
  nm_diagnostic :: "Diagnostic option"

subsection \<open>Data types\<close>

datatype DataTypeName =
    DtBoolean | DtInteger8 | DtInteger16 | DtInteger32 | DtUnsigned8 | DtUnsigned16 | DtUnsigned32 | DtReal32
  | DtVisibleString | DtInteger24 | DtReal64 | DtInteger40 | DtInteger48 | DtInteger56 | DtInteger64 | DtOctetString
  | DtUnicodeString | DtTimeOfDay | DtTimeDiff | DtDomain | DtUnsigned24 | DtUnsigned40 | DtUnsigned48 | DtUnsigned56
  | DtUnsigned64 | DtMacAddress | DtIpAddress | DtNETTIME

definition standard_types :: "(rust_string \<times> DataTypeName) list" where
  "standard_types = map (\<lambda>(id, t). (str id, t))
     [(''0001'', DtBoolean), (''0002'', DtInteger8), (''0003'', DtInteger16), (''0004'', DtInteger32),
      (''0005'', DtUnsigned8), (''0006'', DtUnsigned16), (''0007'', DtUnsigned32), (''0008'', DtReal32),
      (''0009'', DtVisibleString), (''0010'', DtInteger24), (''0011'', DtReal64), (''0012'', DtInteger40),
      (''0013'', DtInteger48), (''0014'', DtInteger56), (''0015'', DtInteger64), (''000A'', DtOctetString),
      (''000B'', DtUnicodeString), (''000C'', DtTimeOfDay), (''000D'', DtTimeDiff), (''000F'', DtDomain),
      (''0016'', DtUnsigned24), (''0018'', DtUnsigned40), (''0019'', DtUnsigned48), (''001A'', DtUnsigned56),
      (''001B'', DtUnsigned64), (''0401'', DtMacAddress), (''0402'', DtIpAddress), (''0403'', DtNETTIME)]"

definition get_standard_type_from_hex :: "rust_string \<Rightarrow> DataTypeName option" where
  "get_standard_type_from_hex type_id = map_of standard_types (no_0x type_id)"

subsection \<open>Values\<close>

text \<open>The macro \<^verbatim>\<open>parse_num\<close>, with the variant and the conversion of the integer type.\<close>

definition parse_num ::
  "(int \<Rightarrow> rust_string \<Rightarrow> 'a::len word option) \<Rightarrow> ('a word \<Rightarrow> ObjectValue) \<Rightarrow> rust_string \<Rightarrow>
     'e XdcError + ObjectValue option" where
  "parse_num from_str variant value_str =
     (let s = trim value_str;
          val = (if starts_with (str ''0x'') s \<or> starts_with (str ''0X'') s
                 then from_str 16 (drop 2 s) else from_str 10 s)
      in case val of
           Some v \<Rightarrow> Inr (Some (variant v))
         | None \<Rightarrow> Inl (InvalidAttributeFormat ''defaultValue or actualValue (numeric)''))"

definition parse_boolean :: "rust_string \<Rightarrow> 'e XdcError + ObjectValue option" where
  "parse_boolean value_str =
     (let s = trim value_str
      in if s = str ''true'' \<or> s = str ''1'' then Inr (Some (Boolean 1))
         else if s = str ''false'' \<or> s = str ''0'' then Inr (Some (Boolean 0))
         else Inl (InvalidAttributeFormat ''boolean value''))"

definition hex_bytes :: "(rust_string \<Rightarrow> 'e + bytes) \<Rightarrow> rust_string \<Rightarrow> 'e XdcError + bytes" where
  "hex_bytes hex_decode s = map_sum HexParsing id (parse_hex_string hex_decode s)"

definition map_data_to_value ::
  "(rust_string \<Rightarrow> 'e + bytes) \<Rightarrow> rust_string \<Rightarrow> rust_string option \<Rightarrow> 'e XdcError + ObjectValue option" where
  "map_data_to_value hex_decode value_str data_type_id =
     (case Option.bind data_type_id get_standard_type_from_hex of
        None \<Rightarrow> Inr None
      | Some type_name \<Rightarrow>
          (case type_name of
             DtBoolean \<Rightarrow> parse_boolean value_str
           | DtInteger8 \<Rightarrow> parse_num signed_from_str Integer8 value_str
           | DtInteger16 \<Rightarrow> parse_num signed_from_str Integer16 value_str
           | DtInteger32 \<Rightarrow> parse_num signed_from_str Integer32 value_str
           | DtUnsigned8 \<Rightarrow> parse_num unsigned_from_str Unsigned8 value_str
           | DtUnsigned16 \<Rightarrow> parse_num unsigned_from_str Unsigned16 value_str
           | DtUnsigned32 \<Rightarrow> parse_num unsigned_from_str Unsigned32 value_str
           | DtReal32 \<Rightarrow>
               (case parse_f32 value_str of
                  Some v \<Rightarrow> Inr (Some (Real32 v)) | None \<Rightarrow> Inl (InvalidAttributeFormat ''real32''))
           | DtVisibleString \<Rightarrow> Inr (Some (VisibleString value_str))
           | DtOctetString \<Rightarrow> rbind (hex_bytes hex_decode value_str) (\<lambda>bs. Inr (Some (OctetString bs)))
           | DtDomain \<Rightarrow> rbind (hex_bytes hex_decode value_str) (\<lambda>bs. Inr (Some (Domain bs)))
           | DtReal64 \<Rightarrow>
               (case parse_f64 value_str of
                  Some v \<Rightarrow> Inr (Some (Real64 v)) | None \<Rightarrow> Inl (InvalidAttributeFormat ''real64''))
           | DtInteger64 \<Rightarrow> parse_num signed_from_str Integer64 value_str
           | DtUnsigned64 \<Rightarrow> parse_num unsigned_from_str Unsigned64 value_str
           | DtMacAddress \<Rightarrow>
               rbind (hex_bytes hex_decode value_str) (\<lambda>bs.
                 if length bs \<noteq> 6 then Inl (XValidationError ''Invalid MAC address length'')
                 else Inr (Some (MacAddressV bs)))
           | DtIpAddress \<Rightarrow>
               rbind (hex_bytes hex_decode value_str) (\<lambda>bs.
                 if length bs \<noteq> 4 then Inl (XValidationError ''Invalid IP address length'')
                 else Inr (Some (IpAddressV bs)))
           | _ \<Rightarrow> Inr None))"

text \<open>\<^verbatim>\<open>data.map(map_data_to_value).transpose()?.flatten()\<close>.\<close>

definition data_value ::
  "(rust_string \<Rightarrow> 'e + bytes) \<Rightarrow> rust_string option \<Rightarrow> rust_string option \<Rightarrow> 'e XdcError + ObjectValue option" where
  "data_value hex_decode data data_type =
     (case data of None \<Rightarrow> Inr None | Some d \<Rightarrow> map_data_to_value hex_decode d data_type)"

subsection \<open>Objects\<close>

definition map_access_type :: "ParameterAccess \<Rightarrow> AccessType" where
  "map_access_type access =
     (case access of
        PaConstant \<Rightarrow> Constant | PaReadOnly \<Rightarrow> ReadOnly | PaWriteOnly \<Rightarrow> WriteOnly | PaReadWrite \<Rightarrow> ReadWrite
      | PaReadWriteInput \<Rightarrow> ReadWrite | PaReadWriteOutput \<Rightarrow> ReadWrite | PaNoAccess \<Rightarrow> ReadOnly)"

definition map_pdo_mapping :: "ObjectPdoMapping \<Rightarrow> PdoMapping" where
  "map_pdo_mapping mapping =
     (case mapping of OpNo \<Rightarrow> PmNo | OpDefault \<Rightarrow> PmDefault | OpOptional \<Rightarrow> PmOptional | OpTpdo \<Rightarrow> PmOptional | OpRpdo \<Rightarrow> PmOptional)"

definition map_support_to_category :: "ParameterSupport option \<Rightarrow> Category" where
  "map_support_to_category support =
     (case support of
        Some PsMandatory \<Rightarrow> Mandatory | Some PsOptional \<Rightarrow> Optional | Some PsConditional \<Rightarrow> CatConditional
      | None \<Rightarrow> Optional)"

text \<open>The number of elements: the value of sub-index 0 if it is a number, else the greatest sub-index.\<close>

definition sub_count :: "XSubObject list \<Rightarrow> nat" where
  "sub_count subs =
     (case Option.bind (Option.bind (find (\<lambda>s. xs_sub_index s = 0) subs) xs_data) (from_str_radix 0 (2 ^ 64 - 1) 10) of
        Some c \<Rightarrow> nat c
      | None \<Rightarrow> foldr (\<lambda>s m. max (unat (xs_sub_index s)) m) subs 0)"

fun fill_sub_values ::
  "(rust_string \<Rightarrow> 'e + bytes) \<Rightarrow> string \<Rightarrow> XSubObject list \<Rightarrow> ObjectValue list \<Rightarrow> 'e XdcError + ObjectValue list" where
  "fill_sub_values hex_decode msg [] sub_values = Inr sub_values"
| "fill_sub_values hex_decode msg (sub_obj # subs) sub_values =
     (if xs_sub_index sub_obj = 0 then fill_sub_values hex_decode msg subs sub_values
      else
        rbind (data_value hex_decode (xs_data sub_obj) (xs_data_type sub_obj)) (\<lambda>v.
        rbind (ok_or v (XValidationError msg)) (\<lambda>value.
          let idx = unat (xs_sub_index sub_obj) - 1
          in fill_sub_values hex_decode msg subs
               (if idx < length sub_values then sub_values[idx := value] else sub_values))))"

definition map_sub_values ::
  "(rust_string \<Rightarrow> 'e + bytes) \<Rightarrow> string \<Rightarrow> XSubObject list \<Rightarrow> 'e XdcError + ObjectValue list" where
  "map_sub_values hex_decode msg subs =
     fill_sub_values hex_decode msg subs (replicate (sub_count subs) (Unsigned8 0))"

definition map_object :: "(rust_string \<Rightarrow> 'e + bytes) \<Rightarrow> XObject \<Rightarrow> 'e XdcError + Object" where
  "map_object hex_decode obj =
     (if xo_object_type obj = str ''7'' then
        rbind (data_value hex_decode (xo_data obj) (xo_data_type obj)) (\<lambda>v.
        rbind (ok_or v (XValidationError ''VAR object (7) missing data or dataType'')) (\<lambda>value. Inr (Variable value)))
      else if xo_object_type obj = str ''8'' then
        rbind (map_sub_values hex_decode ''Array sub-object missing data'' (xo_sub_objects obj)) (\<lambda>vs. Inr (Array vs))
      else if xo_object_type obj = str ''9'' then
        rbind (map_sub_values hex_decode ''Record sub-object missing data'' (xo_sub_objects obj)) (\<lambda>vs. Inr (Record vs))
      else Inl (XValidationError ''Unknown objectType''))"

definition parse_string_to_value ::
  "(rust_string \<Rightarrow> 'e + bytes) \<Rightarrow> rust_string \<Rightarrow> rust_string \<Rightarrow> ObjectValue option" where
  "parse_string_to_value hex_decode s data_type_id =
     (case map_data_to_value hex_decode s (Some data_type_id) of Inr v \<Rightarrow> v | Inl _ \<Rightarrow> None)"

definition parse_range ::
  "(rust_string \<Rightarrow> 'e + bytes) \<Rightarrow> rust_string \<Rightarrow> rust_string \<Rightarrow> rust_string \<Rightarrow> ValueRange option" where
  "parse_range hex_decode low high dt_id =
     (case (parse_string_to_value hex_decode low dt_id, parse_string_to_value hex_decode high dt_id) of
        (Some min_val, Some max_val) \<Rightarrow> Some \<lparr> vr_min = min_val, vr_max = max_val \<rparr>
      | _ \<Rightarrow> None)"

definition resolve_value_range ::
  "(rust_string \<Rightarrow> 'e + bytes) \<Rightarrow> rust_string option \<Rightarrow> rust_string option \<Rightarrow> XAllowedValues option \<Rightarrow>
     rust_string option \<Rightarrow> ValueRange option" where
  "resolve_value_range hex_decode low_limit_str high_limit_str allowed_values data_type_id =
     (case data_type_id of
        None \<Rightarrow> None
      | Some dt_id \<Rightarrow>
          let explicit = (case (low_limit_str, high_limit_str) of
                            (Some low_str, Some high_str) \<Rightarrow> parse_range hex_decode low_str high_str dt_id
                          | _ \<Rightarrow> None)
          in case explicit of
               Some r \<Rightarrow> Some r
             | None \<Rightarrow>
                 (case allowed_values of
                    Some av \<Rightarrow>
                      (case av_ranges av of
                         r # _ \<Rightarrow> parse_range hex_decode (xr_min_value r) (xr_max_value r) dt_id
                       | [] \<Rightarrow> None)
                  | None \<Rightarrow> None))"

definition core_entry :: "(rust_string \<Rightarrow> 'e + bytes) \<Rightarrow> XObject \<Rightarrow> 'e XdcError + ObjectEntry" where
  "core_entry hex_decode obj =
     rbind (map_object hex_decode obj) (\<lambda>core_object.
     rbind (data_value hex_decode (xo_data obj) (xo_data_type obj)) (\<lambda>default_value.
       Inr \<lparr> oe_object = core_object, oe_name = map (char_of \<circ> unat) (xo_name obj),
             oe_category = map_support_to_category (xo_support obj),
             oe_access = map_option map_access_type (xo_access_type obj), oe_default_value = default_value,
             oe_value_range = resolve_value_range hex_decode (xo_low_limit obj) (xo_high_limit obj)
               (xo_allowed_values obj) (xo_data_type obj),
             oe_pdo_mapping = map_option map_pdo_mapping (xo_pdo_mapping obj) \<rparr>))"

fun insert_objects ::
  "(rust_string \<Rightarrow> 'e + bytes) \<Rightarrow> XObject list \<Rightarrow> 's ObjectDictionary \<Rightarrow> 'e XdcError + 's ObjectDictionary" where
  "insert_objects hex_decode [] core_od = Inr core_od"
| "insert_objects hex_decode (obj # objs) core_od =
     rbind (core_entry hex_decode obj) (\<lambda>entry.
       insert_objects hex_decode objs (od_insert (xo_index obj) entry core_od))"

definition to_core_od :: "(rust_string \<Rightarrow> 'e + bytes) \<Rightarrow> XObject list \<Rightarrow> 'e XdcError + 's ObjectDictionary" where
  "to_core_od hex_decode objects = insert_objects hex_decode objects (od_new None)"

subsection \<open>The storage map\<close>

definition store_value ::
  "(rust_string \<Rightarrow> 'e + bytes) \<Rightarrow> u16 \<times> u8 \<Rightarrow> rust_string option \<Rightarrow> rust_string option \<Rightarrow> stored_params \<Rightarrow>
     'e XdcError + stored_params" where
  "store_value hex_decode key data data_type m =
     (case (data, data_type) of
        (Some d, Some t) \<Rightarrow>
          rbind (map_data_to_value hex_decode d (Some t)) (\<lambda>v.
            Inr (case v of Some value \<Rightarrow> bt_insert key value m | None \<Rightarrow> m))
      | _ \<Rightarrow> Inr m)"

fun store_sub_values ::
  "(rust_string \<Rightarrow> 'e + bytes) \<Rightarrow> u16 \<Rightarrow> XSubObject list \<Rightarrow> stored_params \<Rightarrow> 'e XdcError + stored_params" where
  "store_sub_values hex_decode index [] m = Inr m"
| "store_sub_values hex_decode index (s # subs) m =
     rbind (store_value hex_decode (index, xs_sub_index s) (xs_data s) (xs_data_type s) m)
       (store_sub_values hex_decode index subs)"

fun store_objects :: "(rust_string \<Rightarrow> 'e + bytes) \<Rightarrow> XObject list \<Rightarrow> stored_params \<Rightarrow> 'e XdcError + stored_params" where
  "store_objects hex_decode [] m = Inr m"
| "store_objects hex_decode (obj # objs) m =
     rbind (if xo_object_type obj = str ''7''
            then store_value hex_decode (xo_index obj, 0) (xo_data obj) (xo_data_type obj) m
            else store_sub_values hex_decode (xo_index obj) (xo_sub_objects obj) m)
       (store_objects hex_decode objs)"

definition xdc_to_storage_map :: "(rust_string \<Rightarrow> 'e + bytes) \<Rightarrow> XObject list \<Rightarrow> 'e XdcError + stored_params" where
  "xdc_to_storage_map hex_decode objects = store_objects hex_decode objects []"

subsection \<open>NMT settings\<close>

definition NMT_SERVICE_UDP :: FeatureFlags where "NMT_SERVICE_UDP = push_bit 7 1"
definition CONFIG_MANAGER :: FeatureFlags where "CONFIG_MANAGER = push_bit 8 1"
definition MULTIPLEXED_ACCESS :: FeatureFlags where "MULTIPLEXED_ACCESS = push_bit 9 1"
definition NODE_ID_BY_SW :: FeatureFlags where "NODE_ID_BY_SW = push_bit 10 1"
definition MN_BASIC_ETHERNET :: FeatureFlags where "MN_BASIC_ETHERNET = push_bit 11 1"
definition SDO_RW_ALL_BY_INDEX :: FeatureFlags where "SDO_RW_ALL_BY_INDEX = push_bit 14 1"
definition SDO_RW_MULTIPLE_BY_INDEX :: FeatureFlags where "SDO_RW_MULTIPLE_BY_INDEX = push_bit 15 1"

record NmtSettings =
  ns_feature_flags :: FeatureFlags
  ns_boot_time_not_active :: u32
  ns_cycle_time_min :: u32
  ns_cycle_time_max :: u32

text \<open>The flags with the conditions under which they are inserted, in the order of the code.\<close>

definition general_flags :: "GeneralFeatures \<Rightarrow> (bool \<times> FeatureFlags) list" where
  "general_flags gf =
     [(unwrap_or (gf_nmt_isochronous gf) True, ISOCHRONOUS),
      (unwrap_or (gf_sdo_support_udp_ip gf) False, SDO_UDP),
      (unwrap_or (gf_sdo_support_asnd gf) False, SDO_ASND),
      (unwrap_or (gf_sdo_support_pdo gf) False, SDO_PDO),
      (unwrap_or (gf_nmt_ext_nmt_cmds gf) False, EXTENDED_NMT_CMDS),
      (unwrap_or (gf_pdo_dynamic_mapping gf) True, DYNAMIC_PDO_MAPPING),
      (unwrap_or (gf_cfm_config_manager gf) False, CONFIG_MANAGER),
      (unwrap_or (gf_nmt_node_id_by_sw gf) False, NODE_ID_BY_SW),
      (unwrap_or (gf_sdo_cmd_read_all_by_index gf) False \<or> unwrap_or (gf_sdo_cmd_write_all_by_index gf) False,
       SDO_RW_ALL_BY_INDEX),
      (unwrap_or (gf_sdo_cmd_read_mult_param gf) False \<or> unwrap_or (gf_sdo_cmd_write_mult_param gf) False,
       SDO_RW_MULTIPLE_BY_INDEX)]"

definition mn_flags :: "GeneralFeatures \<Rightarrow> MnFeatures \<Rightarrow> (bool \<times> FeatureFlags) list" where
  "mn_flags gf mnf =
     [(unwrap_or (mnf_nmt_service_udp_ip mnf) False, NMT_SERVICE_UDP),
      (unwrap_or (mnf_dll_mn_feature_multiplex mnf) True, MULTIPLEXED_ACCESS),
      (unwrap_or (mnf_nmt_mn_basic_ethernet mnf) False, MN_BASIC_ETHERNET),
      (unwrap_or (gf_nmt_publish_active_nodes gf) False \<or> unwrap_or (gf_nmt_publish_config_nodes gf) False,
       NMT_INFO_SERVICES)]"

definition cn_flags :: "CnFeatures \<Rightarrow> (bool \<times> FeatureFlags) list" where
  "cn_flags cnf = [(unwrap_or (cnf_dll_cn_feature_multiplex cnf) False, MULTIPLEXED_ACCESS)]"

definition insert_flags :: "(bool \<times> FeatureFlags) list \<Rightarrow> FeatureFlags \<Rightarrow> FeatureFlags" where
  "insert_flags = fold (\<lambda>(b, f) flags. if b then FeatureFlags_insert flags f else flags)"

definition extract_nmt_settings :: "NetworkManagement option \<Rightarrow> 'e XdcError + NmtSettings" where
  "extract_nmt_settings network_management =
     rbind (ok_or network_management (XValidationError ''XDC file missing required <NetworkManagement> block'')) (\<lambda>nm.
       let gf = nm_general_features nm;
           flags = insert_flags (general_flags gf) 0;
           flags = (case nm_mn_features nm of Some mnf \<Rightarrow> insert_flags (mn_flags gf mnf) flags | None \<Rightarrow> flags);
           flags = (case nm_cn_features nm of Some cnf \<Rightarrow> insert_flags (cn_flags cnf) flags | None \<Rightarrow> flags)
       in Inr \<lparr> ns_feature_flags = flags, ns_boot_time_not_active = gf_nmt_boot_time_not_active gf,
                ns_cycle_time_min = gf_nmt_cycle_time_min gf, ns_cycle_time_max = gf_nmt_cycle_time_max gf \<rparr>)"

subsection \<open>The feature flags are the conditions of the file\<close>

lemma insert_flags_bit:
  "bit (insert_flags fs flags) n \<longleftrightarrow> bit flags n \<or> (\<exists>(b, f) \<in> set fs. b \<and> bit f n)"
proof (induction fs arbitrary: flags)
  case (Cons x fs)
  have "insert_flags (x # fs) flags = insert_flags fs (if fst x then flags OR snd x else flags)"
    by (simp add: insert_flags_def FeatureFlags_insert_def case_prod_beta)
  moreover have "bit (if fst x then flags OR snd x else flags) n \<longleftrightarrow> bit flags n \<or> (fst x \<and> bit (snd x) n)"
    by (simp add: bit_or_iff)
  ultimately show ?case by (simp add: Cons.IH case_prod_beta)
qed (simp add: insert_flags_def)

definition file_flags :: "NetworkManagement \<Rightarrow> (bool \<times> FeatureFlags) list" where
  "file_flags nm = general_flags (nm_general_features nm) @
     (case nm_mn_features nm of Some mnf \<Rightarrow> mn_flags (nm_general_features nm) mnf | None \<Rightarrow> []) @
     (case nm_cn_features nm of Some cnf \<Rightarrow> cn_flags cnf | None \<Rightarrow> [])"

lemma extract_nmt_settings_flags:
  assumes "extract_nmt_settings (Some nm) = (Inr settings :: 'e XdcError + NmtSettings)"
  shows "bit (ns_feature_flags settings) n \<longleftrightarrow> (\<exists>(b, f) \<in> set (file_flags nm). b \<and> bit f n)"
proof -
  have flags: "insert_flags (xs @ ys) f = insert_flags ys (insert_flags xs f)" "insert_flags [] f = f" for xs ys f
    by (simp_all add: insert_flags_def)
  have "ns_feature_flags settings = insert_flags (file_flags nm) 0"
    using assms by (cases "nm_mn_features nm"; cases "nm_cn_features nm")
      (auto simp: extract_nmt_settings_def file_flags_def Let_def flags)
  then show ?thesis by (simp add: insert_flags_bit)
qed

subsection \<open>Values and entries are well formed\<close>

lemma parse_num_Inr: "parse_num from_str variant s = Inr x \<Longrightarrow> \<exists>w. x = Some (variant w)"
  by (auto simp: parse_num_def Let_def split: option.splits)

lemma map_data_to_value_wf:
  assumes "map_data_to_value h s t = Inr (Some v)" "utf8_valid s"
  shows "wf_value v"
  using assms
  by (auto simp: map_data_to_value_def parse_boolean_def Let_def rbind_eq_Inr dest!: parse_num_Inr
      split: option.splits DataTypeName.splits if_splits)

definition valid_data :: "rust_string option \<Rightarrow> bool" where
  "valid_data d \<longleftrightarrow> pred_option utf8_valid d"

lemma data_value_wf: "data_value h d t = Inr (Some v) \<Longrightarrow> valid_data d \<Longrightarrow> wf_value v"
  by (auto simp: data_value_def valid_data_def map_data_to_value_wf split: option.splits)

text \<open>The strings of a file are Rust strings.\<close>

definition valid_object :: "XObject \<Rightarrow> bool" where
  "valid_object obj \<longleftrightarrow> valid_data (xo_data obj) \<and> list_all (\<lambda>s. valid_data (xs_data s)) (xo_sub_objects obj)"

lemma fill_sub_values_wf:
  "fill_sub_values h msg subs vs = Inr vs' \<Longrightarrow> list_all (\<lambda>s. valid_data (xs_data s)) subs \<Longrightarrow> list_all wf_value vs \<Longrightarrow>
    list_all wf_value vs'"
proof (induction subs arbitrary: vs)
  case (Cons s subs)
  then show ?case
    by (auto simp: rbind_eq_Inr ok_or_def Let_def list_all_update dest: data_value_wf split: if_splits option.splits)
qed simp

lemma map_object_cases:
  assumes "map_object h obj = Inr x"
  obtains (variable) v where "x = Variable v" "xo_object_type obj = str ''7''"
      "data_value h (xo_data obj) (xo_data_type obj) = Inr (Some v)"
    | (elements) vs msg where "x = Array vs \<or> x = Record vs" "xo_object_type obj \<noteq> str ''7''"
      "map_sub_values h msg (xo_sub_objects obj) = Inr vs"
  using assms by (auto simp: map_object_def rbind_eq_Inr ok_or_def split: if_splits option.splits)

lemma core_entry_wf:
  assumes "core_entry h obj = Inr e" "valid_object obj"
  shows "list_all wf_value (obj_values (oe_object e))" "pred_option wf_value (oe_default_value e)"
proof -
  have e: "map_object h obj = Inr (oe_object e)" "data_value h (xo_data obj) (xo_data_type obj) = Inr (oe_default_value e)"
    using assms(1) by (auto simp: core_entry_def rbind_eq_Inr)
  from e(1) show "list_all wf_value (obj_values (oe_object e))"
  proof (cases rule: map_object_cases)
    case (variable v)
    with assms(2) data_value_wf show ?thesis by (auto simp: valid_object_def)
  next
    case (elements vs msg)
    have "list_all wf_value vs"
      using fill_sub_values_wf [OF elements(3) [unfolded map_sub_values_def]] assms(2)
      by (simp add: valid_object_def list_all_iff)
    with elements(1) show ?thesis by auto
  qed
  from e(2) assms(2) data_value_wf show "pred_option wf_value (oe_default_value e)"
    by (cases "oe_default_value e") (auto simp: valid_object_def)
qed

lemma insert_objects_get:
  assumes "insert_objects h objs od = Inr od'" "bt_inv (entries od)"
  shows "bt_inv (entries od') \<and> storage od' = storage od \<and>
    (\<forall>i. case find (\<lambda>x. xo_index x = i) (rev objs) of
           Some obj \<Rightarrow> (\<exists>e. core_entry h obj = Inr e \<and> bt_get (entries od') i = Some e)
         | None \<Rightarrow> bt_get (entries od') i = bt_get (entries od) i)"
  using assms
proof (induction objs arbitrary: od)
  case (Cons obj objs)
  obtain e where e: "core_entry h obj = Inr e" "insert_objects h objs (od_insert (xo_index obj) e od) = Inr od'"
    using Cons.prems(1) by (auto simp: rbind_eq_Inr)
  have "bt_inv (entries (od_insert (xo_index obj) e od))" using Cons.prems(2) by (simp add: od_insert_def)
  note IH = Cons.IH [OF e(2) this]
  have f: "find P (xs @ [x]) = (case find P xs of Some y \<Rightarrow> Some y | None \<Rightarrow> if P x then Some x else None)" for P xs and x :: XObject
    by (induction xs) auto
  have "case find (\<lambda>x. xo_index x = i) (rev (obj # objs)) of
      Some obj \<Rightarrow> (\<exists>e. core_entry h obj = Inr e \<and> bt_get (entries od') i = Some e)
    | None \<Rightarrow> bt_get (entries od') i = bt_get (entries od) i" for i
    using IH [THEN conjunct2, THEN conjunct2, THEN spec, of i] e(1) Cons.prems(2)
    by (cases "find (\<lambda>x. xo_index x = i) (rev objs)") (auto simp: f od_insert_def)
  with IH show ?case by (simp add: od_insert_def)
qed simp

end
