(* ===== verification/Xdc_Props.thy ===== *)
theory Xdc_Props
  imports Xdc_Converter
begin

section \<open>Properties of the conversion\<close>

text \<open>
  The dictionary that is made from a configuration file against the file, against its storage map and against the store
  command.
\<close>

subsection \<open>The elements of arrays and records\<close>

lemma find_snoc: "find P (xs @ [x]) = (case find P xs of Some y \<Rightarrow> Some y | None \<Rightarrow> if P x then Some x else None)"
  by (induction xs) auto

lemma find_in_set: "find P xs = Some x \<Longrightarrow> x \<in> set xs \<and> P x"
  by (induction xs) (auto split: if_splits)

lemma find_distinct: "distinct (map f xs) \<Longrightarrow> x \<in> set xs \<Longrightarrow> find (\<lambda>y. f y = f x) (rev xs) = Some x"
proof (induction xs)
  case (Cons y ys)
  show ?case
  proof (cases "x = y")
    case True
    have "find (\<lambda>z. f z = f y) (rev ys) = None" using Cons.prems(1) by (auto simp: find_None_iff image_iff)
    with True show ?thesis by (simp add: find_snoc)
  next
    case False
    with Cons show ?thesis by (simp add: find_snoc)
  qed
qed simp

lemma fill_sub_values_get:
  assumes "fill_sub_values h msg subs vs = Inr vs'" "1 \<le> unat s" "unat s \<le> length vs"
  shows "length vs' = length vs \<and>
    (case find (\<lambda>x. xs_sub_index x = s) (rev subs) of
       Some x \<Rightarrow> data_value h (xs_data x) (xs_data_type x) = Inr (Some (vs' ! (unat s - 1)))
     | None \<Rightarrow> vs' ! (unat s - 1) = vs ! (unat s - 1))"
  using assms
proof (induction subs arbitrary: vs)
  case (Cons x subs)
  show ?case
  proof (cases "xs_sub_index x = 0")
    case True
    moreover have "s \<noteq> 0" using Cons.prems(2) by auto
    ultimately show ?thesis
      using Cons.IH [of vs] Cons.prems by (auto simp: find_snoc split: option.splits)
  next
    case False
    let ?k = "unat (xs_sub_index x) - Suc 0"
    obtain v where v: "data_value h (xs_data x) (xs_data_type x) = Inr (Some v)"
      "fill_sub_values h msg subs (if ?k < length vs then vs[?k := v] else vs) = Inr vs'"
      using Cons.prems(1) False by (auto simp: rbind_eq_Inr ok_or_def Let_def split: option.splits)
    define ws where "ws = (if ?k < length vs then vs[?k := v] else vs)"
    have len: "length ws = length vs" by (simp add: ws_def)
    have "ws ! (unat s - 1) = (if xs_sub_index x = s then v else vs ! (unat s - 1))"
    proof (cases "xs_sub_index x = s")
      case True
      with Cons.prems(2,3) show ?thesis by (auto simp: ws_def)
    next
      case neq: False
      moreover have "unat (xs_sub_index x) \<noteq> 0" using False by (metis unat_0 word_unat_eq_iff)
      moreover have "unat (xs_sub_index x) \<noteq> unat s" using neq by (metis word_unat_eq_iff)
      ultimately have "?k \<noteq> unat s - 1" using Cons.prems(2) by linarith
      with neq show ?thesis by (simp add: ws_def)
    qed
    with Cons.IH [OF v(2) [folded ws_def] Cons.prems(2)] Cons.prems(3) len v(1) show ?thesis
      by (auto simp: find_snoc split: option.splits)
  qed
qed simp

lemma elements_read:
  assumes "map_sub_values h msg subs = Inr vs"
  shows "length vs = sub_count subs" "x \<in> set subs \<Longrightarrow> distinct (map xs_sub_index subs) \<Longrightarrow> xs_sub_index x \<noteq> 0 \<Longrightarrow>
    unat (xs_sub_index x) \<le> length vs \<Longrightarrow> data_value h (xs_data x) (xs_data_type x) = Inr (Some (vs ! (unat (xs_sub_index x) - 1)))"
proof -
  have len: "fill_sub_values h msg subs ws = Inr ws' \<Longrightarrow> length ws' = length ws" for ws ws'
    by (induction subs arbitrary: ws) (auto simp: rbind_eq_Inr Let_def split: if_splits)
  from len [OF assms [unfolded map_sub_values_def]] show "length vs = sub_count subs" by simp
  assume x: "x \<in> set subs" "distinct (map xs_sub_index subs)" "xs_sub_index x \<noteq> 0" "unat (xs_sub_index x) \<le> length vs"
  have "unat (xs_sub_index x) \<noteq> 0" using x(3) by (metis unat_0 word_unat_eq_iff)
  then have "1 \<le> unat (xs_sub_index x)" by linarith
  from fill_sub_values_get [OF assms [unfolded map_sub_values_def] this] x find_distinct [OF x(2,1)]
  show "data_value h (xs_data x) (xs_data_type x) = Inr (Some (vs ! (unat (xs_sub_index x) - 1)))"
    using \<open>length vs = sub_count subs\<close> by simp
qed

subsection \<open>The entries\<close>

lemma to_core_od_get:
  assumes "to_core_od h objs = Inr od"
  shows "bt_inv (entries od)" "storage od = None"
    "distinct (map xo_index objs) \<Longrightarrow> obj \<in> set objs \<Longrightarrow> \<exists>e. core_entry h obj = Inr e \<and> bt_get (entries od) (xo_index obj) = Some e"
    "bt_get (entries od) i = Some e \<Longrightarrow> \<exists>obj \<in> set objs. xo_index obj = i \<and> core_entry h obj = Inr e"
    "obj \<in> set objs \<Longrightarrow> bt_get (entries od) (xo_index obj) \<noteq> None"
proof -
  have b: "bt_inv (entries (od_new None))" by (simp add: od_new_def bt_inv_def)
  note g = insert_objects_get [OF assms [unfolded to_core_od_def] b]
  from g show "bt_inv (entries od)" "storage od = None" by (auto simp: od_new_def)
  show "\<exists>e. core_entry h obj = Inr e \<and> bt_get (entries od) (xo_index obj) = Some e"
    if "distinct (map xo_index objs)" "obj \<in> set objs"
    using g [THEN conjunct2, THEN conjunct2, THEN spec, of "xo_index obj"] find_distinct [OF that] by simp
  show "\<exists>obj \<in> set objs. xo_index obj = i \<and> core_entry h obj = Inr e" if "bt_get (entries od) i = Some e"
    using g [THEN conjunct2, THEN conjunct2, THEN spec, of i] that
    by (cases "find (\<lambda>x. xo_index x = i) (rev objs)") (fastforce simp: od_new_def dest: find_in_set)+
  show "bt_get (entries od) (xo_index obj) \<noteq> None" if "obj \<in> set objs"
    using g [THEN conjunct2, THEN conjunct2, THEN spec, of "xo_index obj"] that
    by (cases "find (\<lambda>x. xo_index x = xo_index obj) (rev objs)") (auto simp: find_None_iff)
qed

lemma core_entry_object: "core_entry h obj = Inr e \<Longrightarrow> map_object h obj = Inr (oe_object e)"
  by (auto simp: core_entry_def rbind_eq_Inr)

subsection \<open>The storage map\<close>

text \<open>Where a stored value comes from.\<close>

definition stored_from :: "(rust_string \<Rightarrow> 'e + bytes) \<Rightarrow> XObject \<Rightarrow> u8 \<Rightarrow> ObjectValue \<Rightarrow> bool" where
  "stored_from h obj s v \<longleftrightarrow>
     (if xo_object_type obj = str ''7'' then s = 0 \<and> data_value h (xo_data obj) (xo_data_type obj) = Inr (Some v)
      else \<exists>x \<in> set (xo_sub_objects obj). xs_sub_index x = s \<and> data_value h (xs_data x) (xs_data_type x) = Inr (Some v))"

lemma set_bt_insert_subset: "set (bt_insert k v m) \<subseteq> insert (k, v) (set m)"
  by (induction m) (auto split: if_splits)

lemma store_value_from:
  "store_value h k d t m = Inr m' \<Longrightarrow> (k', v) \<in> set m' \<Longrightarrow> (k', v) \<in> set m \<or> k' = k \<and> data_value h d t = Inr (Some v)"
  using set_bt_insert_subset [of k _ m]
  by (fastforce simp: store_value_def data_value_def rbind_eq_Inr split: option.splits)

lemma store_sub_values_from:
  "store_sub_values h i subs m = Inr m' \<Longrightarrow> (k, v) \<in> set m' \<Longrightarrow>
    (k, v) \<in> set m \<or> (\<exists>x \<in> set subs. k = (i, xs_sub_index x) \<and> data_value h (xs_data x) (xs_data_type x) = Inr (Some v))"
proof (induction subs arbitrary: m)
  case (Cons x subs)
  obtain m1 where m1: "store_value h (i, xs_sub_index x) (xs_data x) (xs_data_type x) m = Inr m1"
    "store_sub_values h i subs m1 = Inr m'" using Cons.prems(1) by (auto simp: rbind_eq_Inr)
  from Cons.IH [OF m1(2) Cons.prems(2)] store_value_from [OF m1(1), of k v] show ?case by auto
qed simp

lemma store_objects_from:
  "store_objects h objs m = Inr m' \<Longrightarrow> ((i, s), v) \<in> set m' \<Longrightarrow>
    ((i, s), v) \<in> set m \<or> (\<exists>obj \<in> set objs. xo_index obj = i \<and> stored_from h obj s v)"
proof (induction objs arbitrary: m)
  case (Cons obj objs)
  obtain m1 where m1: "(if xo_object_type obj = str ''7''
        then store_value h (xo_index obj, 0) (xo_data obj) (xo_data_type obj) m
        else store_sub_values h (xo_index obj) (xo_sub_objects obj) m) = Inr m1"
    "store_objects h objs m1 = Inr m'" using Cons.prems(1) by (auto simp: rbind_eq_Inr)
  have "((i, s), v) \<in> set m \<or> (xo_index obj = i \<and> stored_from h obj s v)" if "((i, s), v) \<in> set m1"
    using m1(1) that store_value_from [of h "(xo_index obj, 0)" "xo_data obj" "xo_data_type obj" m m1 "(i, s)" v]
      store_sub_values_from [of h "xo_index obj" "xo_sub_objects obj" m m1 "(i, s)" v]
    by (auto simp: stored_from_def split: if_splits)
  with Cons.IH [OF m1(2) Cons.prems(2)] show ?case by auto
qed simp

text \<open>Writing a stored value changes nothing, whether it succeeds or not.\<close>

lemma stored_write_neutral:
  assumes "map_object h obj = Inr x" "stored_from h obj s v" "distinct (map xs_sub_index (xo_sub_objects obj))"
    and "object_write i s v x = Inr y"
  shows "y = x"
  using assms(1)
proof (cases rule: map_object_cases)
  case (variable w)
  with assms(2,4) show ?thesis by (auto simp: stored_from_def object_write_def split: if_splits)
next
  case (elements vs msg)
  obtain mk where mk: "x = mk vs" "write_elems mk i s v vs = Inr y" using elements(1) assms(4) by (auto simp: object_write_def)
  show ?thesis
  proof (cases "s = 0")
    case True
    with mk show ?thesis by (auto simp: write_elems_def split: if_splits ObjectValue.splits)
  next
    case False
    then have y: "unat s - 1 < length vs" "y = mk (vs[unat s - 1 := v])"
      using mk(2) by (auto simp: write_elems_def vec_get_def split: if_splits)
    obtain z where z: "z \<in> set (xo_sub_objects obj)" "xs_sub_index z = s" "data_value h (xs_data z) (xs_data_type z) = Inr (Some v)"
      using assms(2) elements(2) by (auto simp: stored_from_def)
    from elements_read(2) [OF elements(3) z(1) assms(3)] z False y(1) have "v = vs ! (unat s - 1)" by auto
    with y mk(1) show ?thesis by simp
  qed
qed

lemma overlay_neutral:
  assumes "\<And>i s v e x. ((i, s), v) \<in> set m \<Longrightarrow> bt_get (entries od) i = Some e \<Longrightarrow> object_write i s v (oe_object e) = Inr x \<Longrightarrow> x = oe_object e"
    and "bt_inv (entries od)"
  shows "bt_inv (entries (overlay m od)) \<and> (\<forall>j. bt_get (entries (overlay m od)) j = bt_get (entries od) j)"
  using assms
proof (induction m arbitrary: od)
  case (Cons p m)
  obtain i s v where p: "p = ((i, s), v)" by (metis prod.collapse)
  obtain r od1 where w: "write_internal od i s v False = (r, od1)" by fastforce
  have same: "bt_inv (entries od1) \<and> (\<forall>j. bt_get (entries od1) j = bt_get (entries od) j)"
    using w
  proof (cases rule: write_internal_cases)
    case (ok entry obj)
    with Cons.prems(1) [of i s v entry obj] Cons.prems(2) show ?thesis by (simp add: p)
  qed (use Cons.prems(2) in simp)
  have "overlay (p # m) od = overlay m od1" using w by (simp add: overlay_def p)
  moreover have "bt_inv (entries (overlay m od1)) \<and> (\<forall>j. bt_get (entries (overlay m od1)) j = bt_get (entries od1) j)"
  proof (rule Cons.IH)
    fix i s v e x
    assume "((i, s), v) \<in> set m" "bt_get (entries od1) i = Some e" "object_write i s v (oe_object e) = Inr x"
    with same show "x = oe_object e" by (intro Cons.prems(1) [of i s v]) simp_all
  qed (use same in blast)
  ultimately show ?case using same by simp
qed (simp add: overlay_def)

subsection \<open>The store command\<close>

lemma bt_insert_keys: "fst ` set (bt_insert k v m) = insert k (fst ` set m)"
  by (rule set_bt_insert)

lemma fold_insert_keys: "fst ` set (fold (\<lambda>(n, v). bt_insert (i, g n) v) xs m) \<subseteq> fst ` set m \<union> {k. fst k = i}"
proof (induction xs arbitrary: m)
  case (Cons x xs)
  from Cons [of "bt_insert (i, g (fst x)) (snd x) m"] show ?case by (auto simp: case_prod_unfold bt_insert_keys)
qed simp

definition stored_access :: "ObjectEntry \<Rightarrow> bool" where
  "stored_access e \<longleftrightarrow> oe_access e \<in> {Some ReadWriteStore, Some WriteOnlyStore}"

lemma store_entry_keys:
  "fst ` set (store_entry l ie m) \<subseteq> fst ` set m \<union> {k. fst k = fst ie \<and> stored_access (snd ie)}"
  using fold_insert_keys [of "fst ie" "\<lambda>n. of_nat (n + 1)"]
  by (cases "oe_object (snd ie)")
    (auto simp: store_entry_def case_prod_unfold bt_insert_keys stored_access_def split: if_splits dest!: subsetD)

lemma fold_store_keys:
  "k \<in> fst ` set (fold (store_entry l) es m) \<Longrightarrow> k \<in> fst ` set m \<or> (\<exists>e. (fst k, e) \<in> set es \<and> stored_access e)"
proof (induction es arbitrary: m)
  case (Cons ie es)
  then consider "k \<in> fst ` set (store_entry l ie m)" | "\<exists>e. (fst k, e) \<in> set es \<and> stored_access e" by auto
  then show ?case
  proof cases
    case 1
    with store_entry_keys [of l ie m] show ?thesis by (cases ie) auto
  qed auto
qed simp

lemma converted_access: "core_entry h obj = Inr e \<Longrightarrow> \<not> stored_access e"
proof -
  have "map_access_type a \<notin> {ReadWriteStore, WriteOnlyStore}" for a by (cases a) (simp_all add: map_access_type_def)
  then show "core_entry h obj = Inr e \<Longrightarrow> \<not> stored_access e"
    by (auto simp: core_entry_def rbind_eq_Inr stored_access_def)
qed

subsection \<open>Properties\<close>

text \<open>
  C14: the dictionary of a configuration file holds what the file says. If a file with valid strings and no index or
  sub-index twice converts, the dictionary is sound; a variable reads as the value that its string denotes in its data type,
  sub-index 0 of an array or record reads as the number of its elements, and each element up to this
  number as the value of its sub-object; indices that the file does not have are free.\<close>

theorem xdc_od_faithful:
  fixes od :: "'s ObjectDictionary"
  assumes "to_core_od h objs = Inr od" "list_all valid_object objs" "distinct (map xo_index objs)"
    and "\<And>obj. obj \<in> set objs \<Longrightarrow> distinct (map xs_sub_index (xo_sub_objects obj))"
  shows "od_sound od \<and> (\<forall>i. i \<notin> xo_index ` set objs \<longrightarrow> bt_get (entries od) i = None) \<and>
    (\<forall>obj \<in> set objs.
       if xo_object_type obj = str ''7''
       then data_value h (xo_data obj) (xo_data_type obj) = Inr (od_read od (xo_index obj) 0)
       else od_read od (xo_index obj) 0 = Some (Unsigned8 (of_nat (min (sub_count (xo_sub_objects obj)) 254))) \<and>
         (\<forall>x \<in> set (xo_sub_objects obj). xs_sub_index x \<noteq> 0 \<longrightarrow> unat (xs_sub_index x) \<le> sub_count (xo_sub_objects obj) \<longrightarrow>
            data_value h (xs_data x) (xs_data_type x) = Inr (od_read od (xo_index obj) (xs_sub_index x))))"
proof (intro conjI ballI allI impI)
  note g = to_core_od_get [OF assms(1)]
  have "valid_object obj" if "obj \<in> set objs" for obj using assms(2) that by (simp add: list_all_iff)
  then show "od_sound od"
    using g(1,2,4) core_entry_wf unfolding od_sound_def od_inv_def by (fastforce simp: option.pred_inject)
  show "bt_get (entries od) i = None" if "i \<notin> xo_index ` set objs" for i
    using g(4) [of i] that by (cases "bt_get (entries od) i") auto
next
  fix obj assume obj: "obj \<in> set objs"
  obtain e where e: "core_entry h obj = Inr e" "bt_get (entries od) (xo_index obj) = Some e"
    using to_core_od_get(3) [OF assms(1,3) obj] by blast
  from core_entry_object [OF e(1)]
  show "if xo_object_type obj = str ''7''
      then data_value h (xo_data obj) (xo_data_type obj) = Inr (od_read od (xo_index obj) 0)
      else od_read od (xo_index obj) 0 = Some (Unsigned8 (of_nat (min (sub_count (xo_sub_objects obj)) 254))) \<and>
         (\<forall>x \<in> set (xo_sub_objects obj). xs_sub_index x \<noteq> 0 \<longrightarrow> unat (xs_sub_index x) \<le> sub_count (xo_sub_objects obj) \<longrightarrow>
            data_value h (xs_data x) (xs_data_type x) = Inr (od_read od (xo_index obj) (xs_sub_index x)))"
  proof (cases rule: map_object_cases)
    case (variable v)
    with e(2) show ?thesis by (simp add: od_read_def object_read_def)
  next
    case (elements vs msg)
    note r = elements_read [OF elements(3)]
    have "data_value h (xs_data x) (xs_data_type x) = Inr (od_read od (xo_index obj) (xs_sub_index x))"
      if "x \<in> set (xo_sub_objects obj)" "xs_sub_index x \<noteq> 0" "unat (xs_sub_index x) \<le> sub_count (xo_sub_objects obj)" for x
      using r(2) [OF that(1) assms(4) [OF obj] that(2)] that(3) r(1) e(2) elements(1) sub_index_pos [OF that(2)]
      by (auto simp: od_read_def object_read_def vec_get_def that(2))
    with r(1) e(2) elements show ?thesis by (auto simp: od_read_def object_read_def)
  qed
qed

text \<open>
  C16: the storage map of a file agrees with its dictionary. If both can be made from a file with no index or
  sub-index twice, then a node that boots with this dictionary and a back end that loads this map has exactly the objects
  that it would have without the back end, whatever of the map can be written.\<close>

theorem xdc_storage_map_neutral:
  assumes "to_core_od h objs = Inr od" "xdc_to_storage_map h objs = Inr m" "distinct (map xo_index objs)"
    and "\<And>obj. obj \<in> set objs \<Longrightarrow> distinct (map xs_sub_index (xo_sub_objects obj))"
    and "\<not> so_restore_defaults_requested ops st" "so_load ops st = (Inr m, st')"
  shows "\<exists>booted. od_init (od\<lparr> storage := Some (ops, st) \<rparr>) = (Inr (), booted) \<and>
    (\<forall>i. bt_get (entries booted) i = bt_get (entries (populate_protocol_objects od)) i)"
proof -
  define od1 where "od1 = (populate_protocol_objects (od\<lparr> storage := Some (ops, st) \<rparr>))\<lparr> storage := Some (ops, st') \<rparr>"
  have b: "bt_inv (entries od)" by (rule to_core_od_get [OF assms(1)])
  have e1: "bt_inv (entries od1)" "bt_get (entries od1) j = bt_get (entries (populate_protocol_objects od)) j" for j
    using b by (simp_all add: od1_def populate_get) (simp add: populate_protocol_objects_def fold_insert_missing(1))
  have "x = oe_object e"
    if w: "((i, s), v) \<in> set m" "bt_get (entries od1) i = Some e" "object_write i s v (oe_object e) = Inr x" for i s v e x
  proof -
    obtain obj where obj: "obj \<in> set objs" "xo_index obj = i" "stored_from h obj s v"
      using store_objects_from [OF assms(2) [unfolded xdc_to_storage_map_def] w(1)] by auto
    obtain e' where e': "core_entry h obj = Inr e'" "bt_get (entries od) i = Some e'"
      using to_core_od_get(3) [OF assms(1,3) obj(1)] obj(2) by auto
    then have "e' = e" using w(2) b by (simp add: e1(2) populate_get)
    with stored_write_neutral [OF core_entry_object [OF e'(1)] obj(3) assms(4) [OF obj(1)]] w(3) show ?thesis by simp
  qed
  then have "\<forall>j. bt_get (entries (overlay m od1)) j = bt_get (entries od1) j"
    by (intro overlay_neutral [THEN conjunct2] e1(1)) blast
  moreover have "od_init (od\<lparr> storage := Some (ops, st) \<rparr>) = (Inr (), overlay m od1)"
    using assms(5,6) by (simp add: od_init_def Let_def od1_def)
  ultimately show ?thesis using e1(2) by auto
qed

text \<open>
  C17: a file's request for persistence has no effect. After a dictionary was made from a file and completed with the objects of
  the protocol, the store command saves no object of the file, whatever the file declares persistent: the conversion makes
  no entry with an access type that is stored.\<close>

theorem xdc_persistence_lost:
  assumes "to_core_od h objs = Inr od"
  shows "(index, sub) \<in> fst ` set (fold (store_entry l) (entries (populate_protocol_objects od)) []) \<Longrightarrow>
    index \<in> {0x1300, 0x1302} \<and> index \<notin> xo_index ` set objs"
proof -
  let ?od = "populate_protocol_objects od"
  note g = to_core_od_get [OF assms]
  assume "(index, sub) \<in> fst ` set (fold (store_entry l) (entries ?od) [])"
  then obtain e where e: "(index, e) \<in> set (entries ?od)" "stored_access e" using fold_store_keys by fastforce
  have "bt_inv (entries ?od)" using g(1) by (simp add: populate_protocol_objects_def fold_insert_missing(1))
  then have "bt_get (entries ?od) index = Some e" using e(1) by (simp add: bt_get_def bt_inv_def strict_sorted_iff map_of_is_SomeI)
  with g(1) e(2) g(4) [of index e] converted_access have "bt_get (entries od) index = None" "map_of protocol_objects index = Some e"
    by (auto simp: populate_get split: option.splits)
  moreover from this(1) g(5) have "index \<notin> xo_index ` set objs" by force
  ultimately show ?thesis using e(2) by (auto simp: protocol_objects_def mk_entry_def stored_access_def split: if_splits)
qed

subsection \<open>An example\<close>

definition no_hex :: "rust_string \<Rightarrow> unit + bytes" where
  "no_hex s = (if s = [] then Inr [] else Inl ())"

definition plain_sub :: "u8 \<Rightarrow> string \<Rightarrow> string \<Rightarrow> XSubObject" where
  "plain_sub s t d = \<lparr> xs_sub_index = s, xs_name = [], xs_object_type = str ''7'', xs_data_type = Some (str t), xs_low_limit = None,
     xs_high_limit = None, xs_access_type = None, xs_pdo_mapping = None, xs_obj_flags = None, xs_support = None,
     xs_persistent = True, xs_allowed_values = None, xs_data = Some (str d) \<rparr>"

definition plain_object :: "u16 \<Rightarrow> string \<Rightarrow> (string \<times> string) option \<Rightarrow> XSubObject list \<Rightarrow> XObject" where
  "plain_object i ty td subs = \<lparr> xo_index = i, xo_name = [], xo_object_type = str ty, xo_data_type = map_option (str \<circ> fst) td,
     xo_low_limit = None, xo_high_limit = None, xo_access_type = Some PaReadWrite, xo_pdo_mapping = None, xo_obj_flags = None,
     xo_support = None, xo_persistent = True, xo_allowed_values = None, xo_data = map_option (str \<circ> snd) td, xo_sub_objects = subs \<rparr>"

definition example_objects :: "XObject list" where
  "example_objects =
     [plain_object 0x6000 ''7'' (Some (''0003'', '' -2'')) [],
      plain_object 0x6001 ''9'' None [plain_sub 0 ''0005'' ''2'', plain_sub 1 ''0007'' ''0x12345678'', plain_sub 2 ''0001'' ''true'']]"

lemma example_objects_evaluated:
  "case to_core_od no_hex example_objects of Inr (od :: (stored_params \<times> bool) ObjectDictionary) \<Rightarrow> od_read od 0x6000 0 = Some (Integer16 0xFFFE) | Inl _ \<Rightarrow> False"
  "case xdc_to_storage_map no_hex example_objects of Inr m \<Rightarrow> map fst m = [(0x6000, 0), (0x6001, 0), (0x6001, 1), (0x6001, 2)] | Inl _ \<Rightarrow> False"
  by code_simp+

lemma example_objects_valid:
  "list_all valid_object example_objects" "distinct (map xo_index example_objects)"
  "list_all (\<lambda>obj. distinct (map xs_sub_index (xo_sub_objects obj))) example_objects"
  by (simp_all add: example_objects_def plain_object_def plain_sub_def valid_object_def valid_data_def str_def utf8_next_def utf8_width_def)

theorem xdc_od_faithful_witness:
  "\<exists>od :: (stored_params \<times> bool) ObjectDictionary. to_core_od no_hex example_objects = Inr od \<and> od_sound od \<and>
     od_read od 0x6001 0 = Some (Unsigned8 2)"
proof -
  obtain od :: "(stored_params \<times> bool) ObjectDictionary" where od: "to_core_od no_hex example_objects = Inr od"
    using example_objects_evaluated(1) by (auto split: sum.splits)
  note f = xdc_od_faithful [OF od example_objects_valid(1,2)]
  define obj where "obj = plain_object 0x6001 ''9'' None [plain_sub 0 ''0005'' ''2'', plain_sub 1 ''0007'' ''0x12345678'', plain_sub 2 ''0001'' ''true'']"
  have obj: "obj \<in> set example_objects" "xo_index obj = 0x6001" by (simp_all add: example_objects_def obj_def plain_object_def)
  have "xo_object_type obj \<noteq> str ''7''" "sub_count (xo_sub_objects obj) = 2" unfolding obj_def by code_simp+
  with f obj example_objects_valid(3) od show ?thesis by (fastforce simp: list_all_iff)
qed

theorem xdc_storage_map_neutral_witness:
  "\<exists>od m booted. to_core_od no_hex example_objects = Inr od \<and> xdc_to_storage_map no_hex example_objects = Inr m \<and>
     od_init (od\<lparr> storage := Some (ram_ops, (m, False)) \<rparr>) = (Inr (), booted) \<and>
     (\<forall>i. bt_get (entries booted) i = bt_get (entries (populate_protocol_objects od)) i)"
proof -
  obtain od :: "(stored_params \<times> bool) ObjectDictionary" and m
    where od: "to_core_od no_hex example_objects = Inr od" "xdc_to_storage_map no_hex example_objects = Inr m"
    using example_objects_evaluated(1,2) by (auto split: sum.splits)
  from xdc_storage_map_neutral [OF od example_objects_valid(2), of ram_ops "(m, False)" "(m, False)"] od
    example_objects_valid(3) show ?thesis by (fastforce simp: list_all_iff ram_ops_def)
qed

definition timeout_stored :: "(u16 \<times> u8) list" where
  "timeout_stored = (case to_core_od no_hex example_objects of
     Inr (od :: (stored_params \<times> bool) ObjectDictionary) \<Rightarrow> map fst (fold (store_entry 1) (entries (populate_protocol_objects od)) []) | Inl _ \<Rightarrow> [])"

lemma timeout_stored_evaluated: "timeout_stored = [(0x1300, 0), (0x1302, 0)]"
  by code_simp

theorem xdc_persistence_lost_witness:
  "(0x1300, 0) \<in> set timeout_stored \<and> 0x1300 \<notin> xo_index ` set example_objects"
proof -
  obtain od :: "(stored_params \<times> bool) ObjectDictionary" where od: "to_core_od no_hex example_objects = Inr od"
    using example_objects_evaluated(1) by (auto split: sum.splits)
  have "(0x1300, 0) \<in> set timeout_stored" by (simp add: timeout_stored_evaluated)
  moreover from this have "(0x1300, 0) \<in> fst ` set (fold (store_entry 1) (entries (populate_protocol_objects od)) [])"
    by (simp add: timeout_stored_def od)
  ultimately show ?thesis using xdc_persistence_lost [OF od] by blast
qed

end
