(* ===== verification/Xdc_Od.thy ===== *)
theory Xdc_Od
  imports Xdc_Props
begin

section \<open>Loading and saving the object dictionary of a file\<close>

text \<open>
  The schema structs of \<^verbatim>\<open>model/{app_layers,app_process,common}.rs\<close> that the object dictionary needs, their resolution in
  \<^verbatim>\<open>resolver/od.rs\<close> with the maps that \<^verbatim>\<open>resolver/mod.rs\<close> prepares, and their construction in \<^verbatim>\<open>builder/mod.rs\<close>. The XML
  between the two is the work of a library.
\<close>

subsection \<open>Schema structs\<close>

datatype LabelChoice =
    Label rust_string rust_string
  | Description rust_string "rust_string option" rust_string
  | LabelRef rust_string rust_string rust_string
  | DescriptionRef rust_string rust_string rust_string

type_synonym Glabels = "LabelChoice list"

datatype ObjectAccessType = OaReadOnly | OaWriteOnly | OaReadWrite | OaConstant

datatype ModelPdoMapping = MpNo | MpDefault | MpOptional | MpTpdo | MpRpdo

record ModelSubObject =
  mso_sub_index :: rust_string
  mso_name :: rust_string
  mso_object_type :: rust_string
  mso_data_type :: "rust_string option"
  mso_low_limit :: "rust_string option"
  mso_high_limit :: "rust_string option"
  mso_access_type :: "ObjectAccessType option"
  mso_default_value :: "rust_string option"
  mso_actual_value :: "rust_string option"
  mso_denotation :: "rust_string option"
  mso_pdo_mapping :: "ModelPdoMapping option"
  mso_obj_flags :: "rust_string option"
  mso_unique_id_ref :: "rust_string option"

record ModelObject =
  mo_index :: rust_string
  mo_name :: rust_string
  mo_object_type :: rust_string
  mo_data_type :: "rust_string option"
  mo_low_limit :: "rust_string option"
  mo_high_limit :: "rust_string option"
  mo_access_type :: "ObjectAccessType option"
  mo_default_value :: "rust_string option"
  mo_actual_value :: "rust_string option"
  mo_denotation :: "rust_string option"
  mo_pdo_mapping :: "ModelPdoMapping option"
  mo_obj_flags :: "rust_string option"
  mo_unique_id_ref :: "rust_string option"
  mo_range_selector :: "rust_string option"
  mo_sub_object :: "ModelSubObject list"

datatype ModelAccess = MaConst | MaRead | MaWrite | MaReadWrite | MaReadWriteInput | MaReadWriteOutput | MaNoAccess

datatype ModelSupport = MsMandatory | MsOptional | MsConditional

record VariableRef =
  var_instance_id_ref :: "rust_string list"
  var_variable_id_ref :: rust_string
  var_member_ref :: "(rust_string option \<times> u64 option) list"
  var_position :: "u8 option"

datatype ParameterDataType =
    PDT_BOOL | PDT_BITSTRING | PDT_BYTE | PDT_CHAR | PDT_WORD | PDT_DWORD | PDT_LWORD | PDT_SINT | PDT_INT | PDT_DINT | PDT_LINT | PDT_USINT | PDT_UINT | PDT_UDINT | PDT_ULINT
  | PDT_REAL | PDT_LREAL | PDT_STRING | PDT_WSTRING | DataTypeIDRef rust_string | VariableRefType VariableRef

record ModelValue =
  mv_labels :: "Glabels option"
  mv_value :: rust_string
  mv_offset :: "rust_string option"
  mv_multiplier :: "rust_string option"

record ModelRange =
  mr_min_value :: ModelValue
  mr_max_value :: ModelValue
  mr_step :: "ModelValue option"

record ModelAllowedValues =
  mav_template_id_ref :: "rust_string option"
  mav_value :: "ModelValue list"
  mav_range :: "ModelRange list"

record ModelUnit =
  mu_labels :: Glabels
  mu_multiplier :: "rust_string option"
  mu_unit_uri :: "rust_string option"

record Parameter =
  par_unique_id :: rust_string
  par_access :: "ModelAccess option"
  par_support :: "ModelSupport option"
  par_persistent :: bool
  par_offset :: "rust_string option"
  par_multiplier :: "rust_string option"
  par_template_id_ref :: "rust_string option"
  par_labels :: Glabels
  par_data_type :: ParameterDataType
  par_conditional_support :: "rust_string list"
  par_denotation :: "Glabels option"
  par_actual_value :: "ModelValue option"
  par_default_value :: "ModelValue option"
  par_substitute_value :: "ModelValue option"
  par_allowed_values :: "ModelAllowedValues option"
  par_unit :: "ModelUnit option"
  par_property :: "(rust_string \<times> rust_string) list"

subsection \<open>Resolution\<close>

datatype ValueMode = Actual | Default

text \<open>The two sources of a value in the order of the mode.\<close>

definition preferred :: "ValueMode \<Rightarrow> 'a option \<Rightarrow> 'a option \<Rightarrow> 'a option" where
  "preferred mode actual dflt =
     (case mode of
        Actual \<Rightarrow> (case actual of Some v \<Rightarrow> Some v | None \<Rightarrow> dflt)
      | Default \<Rightarrow> (case dflt of Some v \<Rightarrow> Some v | None \<Rightarrow> actual))"

definition or_else :: "'a option \<Rightarrow> 'a option \<Rightarrow> 'a option" where
  "or_else x y = (case x of Some v \<Rightarrow> Some v | None \<Rightarrow> y)"

fun extract_label :: "LabelChoice list \<Rightarrow> rust_string option" where
  "extract_label [] = None"
| "extract_label (Label lang v # items) = Some v"
| "extract_label (_ # items) = extract_label items"

definition model_access_type :: "ObjectAccessType \<Rightarrow> ParameterAccess" where
  "model_access_type m =
     (case m of OaReadOnly \<Rightarrow> PaReadOnly | OaWriteOnly \<Rightarrow> PaWriteOnly | OaReadWrite \<Rightarrow> PaReadWrite | OaConstant \<Rightarrow> PaConstant)"

definition model_pdo_mapping :: "ModelPdoMapping \<Rightarrow> ObjectPdoMapping" where
  "model_pdo_mapping m =
     (case m of MpNo \<Rightarrow> OpNo | MpDefault \<Rightarrow> OpDefault | MpOptional \<Rightarrow> OpOptional | MpTpdo \<Rightarrow> OpTpdo | MpRpdo \<Rightarrow> OpRpdo)"

definition map_param_access :: "ModelAccess \<Rightarrow> ParameterAccess" where
  "map_param_access m =
     (case m of
        MaConst \<Rightarrow> PaConstant | MaRead \<Rightarrow> PaReadOnly | MaWrite \<Rightarrow> PaWriteOnly | MaReadWrite \<Rightarrow> PaReadWrite
      | MaReadWriteInput \<Rightarrow> PaReadWriteInput | MaReadWriteOutput \<Rightarrow> PaReadWriteOutput | MaNoAccess \<Rightarrow> PaNoAccess)"

definition map_param_support :: "ModelSupport \<Rightarrow> ParameterSupport" where
  "map_param_support m = (case m of MsMandatory \<Rightarrow> PsMandatory | MsOptional \<Rightarrow> PsOptional | MsConditional \<Rightarrow> PsConditional)"

definition map_param_type_to_hex :: "ParameterDataType \<Rightarrow> rust_string option" where
  "map_param_type_to_hex dt =
     (case dt of
        PDT_BOOL \<Rightarrow> Some (str ''0001'') | PDT_SINT \<Rightarrow> Some (str ''0002'') | PDT_INT \<Rightarrow> Some (str ''0003'') | PDT_DINT \<Rightarrow> Some (str ''0004'')
      | PDT_USINT \<Rightarrow> Some (str ''0005'') | PDT_BYTE \<Rightarrow> Some (str ''0005'') | PDT_UINT \<Rightarrow> Some (str ''0006'') | PDT_WORD \<Rightarrow> Some (str ''0006'')
      | PDT_UDINT \<Rightarrow> Some (str ''0007'') | PDT_DWORD \<Rightarrow> Some (str ''0007'') | PDT_REAL \<Rightarrow> Some (str ''0008'') | PDT_STRING \<Rightarrow> Some (str ''0009'')
      | PDT_LINT \<Rightarrow> Some (str ''0015'') | PDT_ULINT \<Rightarrow> Some (str ''001B'') | PDT_LWORD \<Rightarrow> Some (str ''001B'') | PDT_LREAL \<Rightarrow> Some (str ''0011'')
      | PDT_WSTRING \<Rightarrow> Some (str ''000B'') | _ \<Rightarrow> None)"

definition resolve_allowed_values :: "ModelAllowedValues \<Rightarrow> XAllowedValues" where
  "resolve_allowed_values m =
     \<lparr> av_template_id_ref = mav_template_id_ref m,
       av_values = map (\<lambda>v. \<lparr> xv_value = mv_value v, xv_label = Option.bind (mv_labels v) extract_label,
                               xv_offset = mv_offset v, xv_multiplier = mv_multiplier v \<rparr>) (mav_value m),
       av_ranges = map (\<lambda>r. \<lparr> xr_min_value = mv_value (mr_min_value r), xr_max_value = mv_value (mr_max_value r),
                               xr_step = map_option mv_value (mr_step r) \<rparr>) (mav_range m) \<rparr>"

record ResolvedAttributes =
  ra_access :: "ParameterAccess option"
  ra_support :: "ParameterSupport option"
  ra_persistent :: bool
  ra_allowed_values :: "XAllowedValues option"
  ra_data :: "rust_string option"
  ra_data_type :: "rust_string option"

definition apply_parameter_attributes :: "Parameter \<Rightarrow> ResolvedAttributes \<Rightarrow> ResolvedAttributes" where
  "apply_parameter_attributes param r =
     r\<lparr> ra_access := or_else (map_option map_param_access (par_access param)) (ra_access r),
        ra_support := or_else (map_option map_param_support (par_support param)) (ra_support r),
        ra_persistent := par_persistent param,
        ra_allowed_values := or_else (map_option resolve_allowed_values (par_allowed_values param)) (ra_allowed_values r) \<rparr>"

type_synonym param_map = "(rust_string, Parameter) btree"
type_synonym template_map = "(rust_string, ModelValue) btree"

text \<open>What an object and a sub-object inherit from the parameter they refer to.\<close>

definition inherit :: "param_map \<Rightarrow> rust_string option \<Rightarrow> ResolvedAttributes \<Rightarrow> ResolvedAttributes" where
  "inherit pm id_ref r =
     (case Option.bind id_ref (bt_get pm) of
        None \<Rightarrow> r
      | Some param \<Rightarrow>
          let r = apply_parameter_attributes param r
          in if ra_data_type r = None then r\<lparr> ra_data_type := map_param_type_to_hex (par_data_type param) \<rparr> else r)"

definition resolve_value_from_param :: "Parameter \<Rightarrow> ValueMode \<Rightarrow> template_map \<Rightarrow> rust_string option" where
  "resolve_value_from_param param mode tm =
     or_else (map_option mv_value (preferred mode (par_actual_value param) (par_default_value param)))
       (map_option mv_value (Option.bind (par_template_id_ref param) (bt_get tm)))"

definition value_by_ref :: "rust_string option \<Rightarrow> ValueMode \<Rightarrow> param_map \<Rightarrow> template_map \<Rightarrow> rust_string option" where
  "value_by_ref id_ref mode pm tm =
     Option.bind (Option.bind id_ref (bt_get pm)) (\<lambda>param. resolve_value_from_param param mode tm)"

definition get_value_str_for_object ::
  "ModelObject \<Rightarrow> ValueMode \<Rightarrow> param_map \<Rightarrow> template_map \<Rightarrow> rust_string option" where
  "get_value_str_for_object obj mode pm tm =
     or_else (preferred mode (mo_actual_value obj) (mo_default_value obj)) (value_by_ref (mo_unique_id_ref obj) mode pm tm)"

definition get_value_str_for_subobject ::
  "ModelSubObject \<Rightarrow> ValueMode \<Rightarrow> param_map \<Rightarrow> template_map \<Rightarrow> rust_string option \<Rightarrow> u8 \<Rightarrow> rust_string option" where
  "get_value_str_for_subobject sub mode pm tm parent_unique_id_ref sub_index =
     or_else (or_else (preferred mode (mso_actual_value sub) (mso_default_value sub))
                (value_by_ref (mso_unique_id_ref sub) mode pm tm))
       (if sub_index = 0 then value_by_ref parent_unique_id_ref mode pm tm else None)"

definition resolve_object_attributes ::
  "ModelObject \<Rightarrow> param_map \<Rightarrow> template_map \<Rightarrow> ValueMode \<Rightarrow> ResolvedAttributes" where
  "resolve_object_attributes obj pm tm mode =
     (let r = inherit pm (mo_unique_id_ref obj)
                \<lparr> ra_access = map_option model_access_type (mo_access_type obj), ra_support = None, ra_persistent = False,
                  ra_allowed_values = None, ra_data = None, ra_data_type = mo_data_type obj \<rparr>
      in if mo_object_type obj = str ''7'' then r\<lparr> ra_data := get_value_str_for_object obj mode pm tm \<rparr> else r)"

definition index_error :: "'e XdcError" where
  "index_error = InvalidAttributeFormat ''index or subIndex''"

definition resolve_sub_object ::
  "ModelSubObject \<Rightarrow> rust_string option \<Rightarrow> param_map \<Rightarrow> template_map \<Rightarrow> ValueMode \<Rightarrow> 'e XdcError + XSubObject" where
  "resolve_sub_object sub parent_unique_id_ref pm tm mode =
     rbind (ok_or (parse_hex_u8 (mso_sub_index sub)) index_error) (\<lambda>sub_index.
       let r = inherit pm (mso_unique_id_ref sub)
                 \<lparr> ra_access = map_option model_access_type (mso_access_type sub), ra_support = None, ra_persistent = False,
                   ra_allowed_values = None, ra_data = None, ra_data_type = mso_data_type sub \<rparr>;
           data = get_value_str_for_subobject sub mode pm tm parent_unique_id_ref sub_index
       in Inr \<lparr> xs_sub_index = sub_index, xs_name = mso_name sub, xs_object_type = mso_object_type sub,
                xs_data_type = ra_data_type r, xs_low_limit = mso_low_limit sub, xs_high_limit = mso_high_limit sub,
                xs_access_type = ra_access r, xs_pdo_mapping = map_option model_pdo_mapping (mso_pdo_mapping sub),
                xs_obj_flags = mso_obj_flags sub, xs_support = ra_support r, xs_persistent = ra_persistent r,
                xs_allowed_values = ra_allowed_values r, xs_data = data \<rparr>)"

text \<open>A loop that pushes one result for each element and stops at the first error.\<close>

fun try_map :: "('a \<Rightarrow> 'e + 'b) \<Rightarrow> 'a list \<Rightarrow> 'e + 'b list" where
  "try_map f [] = Inr []"
| "try_map f (x # xs) = rbind (f x) (\<lambda>y. rbind (try_map f xs) (\<lambda>ys. Inr (y # ys)))"

definition resolve_sub_objects ::
  "ModelSubObject list \<Rightarrow> rust_string option \<Rightarrow> param_map \<Rightarrow> template_map \<Rightarrow> ValueMode \<Rightarrow> 'e XdcError + XSubObject list" where
  "resolve_sub_objects subs parent_unique_id_ref pm tm mode =
     try_map (\<lambda>sub. resolve_sub_object sub parent_unique_id_ref pm tm mode) subs"

definition resolve_object :: "param_map \<Rightarrow> template_map \<Rightarrow> ValueMode \<Rightarrow> ModelObject \<Rightarrow> 'e XdcError + XObject" where
  "resolve_object pm tm mode obj =
     rbind (ok_or (parse_hex_u16 (mo_index obj)) index_error) (\<lambda>index.
       let r = resolve_object_attributes obj pm tm mode
       in rbind (resolve_sub_objects (mo_sub_object obj) (mo_unique_id_ref obj) pm tm mode) (\<lambda>sub_objects.
            Inr \<lparr> xo_index = index, xo_name = mo_name obj, xo_object_type = mo_object_type obj, xo_data_type = ra_data_type r,
                  xo_low_limit = mo_low_limit obj, xo_high_limit = mo_high_limit obj, xo_access_type = ra_access r,
                  xo_pdo_mapping = map_option model_pdo_mapping (mo_pdo_mapping obj), xo_obj_flags = mo_obj_flags obj,
                  xo_support = ra_support r, xo_persistent = ra_persistent r, xo_allowed_values = ra_allowed_values r,
                  xo_data = ra_data r, xo_sub_objects = sub_objects \<rparr>))"

definition resolve_object_dictionary ::
  "ModelObject list \<Rightarrow> param_map \<Rightarrow> template_map \<Rightarrow> ValueMode \<Rightarrow> 'e XdcError + XObject list" where
  "resolve_object_dictionary objects pm tm mode = try_map (resolve_object pm tm mode) objects"

text \<open>The maps of the templates and of the parameters.\<close>

definition build_template_map :: "Parameter list \<Rightarrow> ValueMode \<Rightarrow> template_map" where
  "build_template_map templates mode =
     fold (\<lambda>t m. case preferred mode (par_actual_value t) (par_default_value t) of
             Some v \<Rightarrow> bt_insert (par_unique_id t) v m | None \<Rightarrow> m) templates []"

definition build_param_map :: "Parameter list \<Rightarrow> param_map" where
  "build_param_map params = fold (\<lambda>p. bt_insert (par_unique_id p) p) params []"

subsection \<open>Construction\<close>

definition map_access_type_to_model :: "ParameterAccess \<Rightarrow> ObjectAccessType" where
  "map_access_type_to_model a =
     (case a of
        PaReadOnly \<Rightarrow> OaReadOnly | PaWriteOnly \<Rightarrow> OaWriteOnly | PaReadWrite \<Rightarrow> OaReadWrite | PaConstant \<Rightarrow> OaConstant
      | PaReadWriteInput \<Rightarrow> OaReadWrite | PaReadWriteOutput \<Rightarrow> OaReadWrite | PaNoAccess \<Rightarrow> OaReadOnly)"

definition map_pdo_mapping_to_model :: "ObjectPdoMapping \<Rightarrow> ModelPdoMapping" where
  "map_pdo_mapping_to_model p =
     (case p of OpNo \<Rightarrow> MpNo | OpDefault \<Rightarrow> MpDefault | OpOptional \<Rightarrow> MpOptional | OpTpdo \<Rightarrow> MpTpdo | OpRpdo \<Rightarrow> MpRpdo)"

definition format_value_to_string :: "bytes \<Rightarrow> 'e XdcError + rust_string" where
  "format_value_to_string data = ok_or (from_utf8 data) FmtError"

definition format_data :: "rust_string option \<Rightarrow> 'e XdcError + rust_string option" where
  "format_data data =
     (case data of None \<Rightarrow> Inr None | Some d \<Rightarrow> rbind (format_value_to_string d) (\<lambda>s. Inr (Some s)))"

definition build_sub_object :: "XSubObject \<Rightarrow> 'e XdcError + ModelSubObject" where
  "build_sub_object sub =
     rbind (format_data (xs_data sub)) (\<lambda>actual_value.
       Inr \<lparr> mso_sub_index = format_hex_u8 (xs_sub_index sub), mso_name = xs_name sub, mso_object_type = xs_object_type sub,
             mso_data_type = xs_data_type sub, mso_low_limit = xs_low_limit sub, mso_high_limit = xs_high_limit sub,
             mso_access_type = map_option map_access_type_to_model (xs_access_type sub), mso_default_value = None,
             mso_actual_value = actual_value, mso_denotation = None,
             mso_pdo_mapping = map_option map_pdo_mapping_to_model (xs_pdo_mapping sub), mso_obj_flags = xs_obj_flags sub,
             mso_unique_id_ref = None \<rparr>)"

definition build_object :: "XObject \<Rightarrow> 'e XdcError + ModelObject" where
  "build_object obj =
     rbind (try_map build_sub_object (xo_sub_objects obj)) (\<lambda>sub_objects.
     rbind (format_data (xo_data obj)) (\<lambda>actual_value.
       Inr \<lparr> mo_index = format_hex_u16 (xo_index obj), mo_name = xo_name obj, mo_object_type = xo_object_type obj,
             mo_data_type = xo_data_type obj, mo_low_limit = xo_low_limit obj, mo_high_limit = xo_high_limit obj,
             mo_access_type = map_option map_access_type_to_model (xo_access_type obj), mo_default_value = None,
             mo_actual_value = actual_value, mo_denotation = None,
             mo_pdo_mapping = map_option map_pdo_mapping_to_model (xo_pdo_mapping obj), mo_obj_flags = xo_obj_flags obj,
             mo_unique_id_ref = None, mo_range_selector = None, mo_sub_object = sub_objects \<rparr>))"

definition build_object_list :: "XObject list \<Rightarrow> 'e XdcError + ModelObject list" where
  "build_object_list objects = try_map build_object objects"

subsection \<open>What survives\<close>

definition saved_access :: "ParameterAccess \<Rightarrow> ParameterAccess" where
  "saved_access a =
     (case a of PaReadWriteInput \<Rightarrow> PaReadWrite | PaReadWriteOutput \<Rightarrow> PaReadWrite | PaNoAccess \<Rightarrow> PaReadOnly | _ \<Rightarrow> a)"

definition saved_sub_object :: "XSubObject \<Rightarrow> XSubObject" where
  "saved_sub_object sub = sub\<lparr> xs_access_type := map_option saved_access (xs_access_type sub), xs_support := None,
     xs_persistent := False, xs_allowed_values := None \<rparr>"

definition saved_object :: "XObject \<Rightarrow> XObject" where
  "saved_object obj = obj\<lparr> xo_access_type := map_option saved_access (xo_access_type obj), xo_support := None,
     xo_persistent := False, xo_allowed_values := None,
     xo_data := (if xo_object_type obj = str ''7'' then xo_data obj else None),
     xo_sub_objects := map saved_sub_object (xo_sub_objects obj) \<rparr>"

lemma access_saved: "model_access_type (map_access_type_to_model a) = saved_access a"
  by (cases a) (simp_all add: model_access_type_def map_access_type_to_model_def saved_access_def)

lemma pdo_mapping_saved: "model_pdo_mapping (map_pdo_mapping_to_model p) = p"
  by (cases p) (simp_all add: model_pdo_mapping_def map_pdo_mapping_to_model_def)

lemma format_data_valid: "valid_data d \<Longrightarrow> format_data d = Inr d"
  by (cases d) (simp_all add: format_data_def format_value_to_string_def from_utf8_def valid_data_def)

lemmas saved_simps = inherit_def value_by_ref_def preferred_def or_else_def option.map_comp comp_def access_saved
  pdo_mapping_saved option.map_ident hex_u8_roundtrip hex_u16_roundtrip

lemma sub_object_roundtrip:
  assumes "valid_data (xs_data sub)"
  shows "rbind (build_sub_object sub) (\<lambda>m. resolve_sub_object m None pm tm Actual) = Inr (saved_sub_object sub)"
  using assms
  by (cases "xs_data sub")
    (simp_all add: build_sub_object_def resolve_sub_object_def format_data_valid saved_simps get_value_str_for_subobject_def
      saved_sub_object_def)

lemma try_map_roundtrip:
  assumes "\<And>x. x \<in> set xs \<Longrightarrow> rbind (f x) g = Inr (h x)"
  shows "rbind (try_map f xs) (try_map g) = Inr (map h xs)"
  using assms
proof (induction xs)
  case (Cons x xs)
  obtain y where y: "f x = Inr y" "g y = Inr (h x)" using Cons.prems [of x] by (auto simp: rbind_eq_Inr)
  obtain ys where ys: "try_map f xs = Inr ys" "try_map g ys = Inr (map h xs)"
    using Cons by (auto simp: rbind_eq_Inr)
  from y ys show ?case by simp
qed simp

lemma object_roundtrip:
  assumes "valid_object obj"
  shows "rbind (build_object obj) (resolve_object pm tm Actual) = (Inr (saved_object obj) :: 'e XdcError + XObject)"
proof -
  have "rbind (try_map build_sub_object (xo_sub_objects obj)) (try_map (\<lambda>m. resolve_sub_object m None pm tm Actual)) =
      (Inr (map saved_sub_object (xo_sub_objects obj)) :: 'e XdcError + XSubObject list)"
    using assms by (intro try_map_roundtrip sub_object_roundtrip) (auto simp: valid_object_def list_all_iff)
  then obtain ms where ms: "try_map build_sub_object (xo_sub_objects obj) = (Inr ms :: 'e XdcError + ModelSubObject list)"
    "try_map (\<lambda>m. resolve_sub_object m None pm tm Actual) ms = (Inr (map saved_sub_object (xo_sub_objects obj)) :: 'e XdcError + XSubObject list)"
    by (auto simp: rbind_eq_Inr)
  have "format_data (xo_data obj) = (Inr (xo_data obj) :: 'e XdcError + rust_string option)" using assms by (simp add: format_data_valid valid_object_def)
  with ms show ?thesis
    by (cases "xo_data obj")
      (simp_all add: build_object_def resolve_object_def resolve_sub_objects_def resolve_object_attributes_def saved_simps
        get_value_str_for_object_def saved_object_def Let_def)
qed

text \<open>The entry of a saved object, as far as the file keeps it.\<close>

definition without_support :: "ObjectEntry \<Rightarrow> ObjectEntry" where
  "without_support e = e\<lparr> oe_category := Optional, oe_value_range := None \<rparr>"

lemma saved_access_same: "map_access_type (saved_access a) = map_access_type a"
  by (cases a) (simp_all add: map_access_type_def saved_access_def)

lemma saved_sub_same:
  "xs_sub_index (saved_sub_object x) = xs_sub_index x" "xs_data (saved_sub_object x) = xs_data x"
  "xs_data_type (saved_sub_object x) = xs_data_type x"
  by (simp_all add: saved_sub_object_def)

lemma saved_sub_count: "sub_count (map saved_sub_object subs) = sub_count subs"
proof -
  have "find (\<lambda>s. xs_sub_index s = 0) (map saved_sub_object subs) = map_option saved_sub_object (find (\<lambda>s. xs_sub_index s = 0) subs)"
    by (induction subs) (simp_all add: saved_sub_same)
  then have "Option.bind (find (\<lambda>s. xs_sub_index s = 0) (map saved_sub_object subs)) xs_data =
      Option.bind (find (\<lambda>s. xs_sub_index s = 0) subs) xs_data"
    by (cases "find (\<lambda>s. xs_sub_index s = 0) subs") (simp_all add: saved_sub_same)
  moreover have "foldr (\<lambda>s. max (unat (xs_sub_index s))) (map saved_sub_object subs) 0 = foldr (\<lambda>s. max (unat (xs_sub_index s))) subs 0"
    by (induction subs) (simp_all add: saved_sub_same)
  ultimately show ?thesis by (auto simp: sub_count_def split: option.split)
qed

lemma saved_fill: "fill_sub_values h msg (map saved_sub_object subs) vs = fill_sub_values h msg subs vs"
  by (induction h msg subs vs rule: fill_sub_values.induct) (auto simp: saved_sub_same Let_def intro!: arg_cong2 [of _ _ _ _ rbind])

lemma saved_core_entry:
  assumes "core_entry h obj = Inr e" "xo_object_type obj \<noteq> str ''7'' \<Longrightarrow> xo_data obj = None"
  shows "\<exists>e'. core_entry h (saved_object obj) = Inr e' \<and> without_support e' = without_support e"
proof -
  have "xo_data (saved_object obj) = xo_data obj" using assms(2) by (simp add: saved_object_def)
  moreover from this have "map_object h (saved_object obj) = map_object h obj"
    by (simp add: map_object_def map_sub_values_def saved_object_def saved_fill saved_sub_count)
  ultimately show ?thesis
    using assms(1) by (auto simp: core_entry_def rbind_eq_Inr without_support_def saved_object_def option.map_comp comp_def saved_access_same)
qed

lemma saved_insert_objects:
  assumes "insert_objects h objs od = Inr od1" "bt_inv (entries od)" "bt_inv (entries od')"
    and "\<And>obj. obj \<in> set objs \<Longrightarrow> xo_object_type obj \<noteq> str ''7'' \<Longrightarrow> xo_data obj = None"
    and "\<And>i. map_option without_support (bt_get (entries od') i) = map_option without_support (bt_get (entries od) i)"
  shows "\<exists>od1'. insert_objects h (map saved_object objs) od' = Inr od1' \<and>
    (\<forall>i. map_option without_support (bt_get (entries od1') i) = map_option without_support (bt_get (entries od1) i))"
  using assms
proof (induction objs arbitrary: od od')
  case (Cons obj objs)
  obtain e where e: "core_entry h obj = Inr e" "insert_objects h objs (od_insert (xo_index obj) e od) = Inr od1"
    using Cons.prems(1) by (auto simp: rbind_eq_Inr)
  obtain e' where e': "core_entry h (saved_object obj) = Inr e'" "without_support e' = without_support e"
    using saved_core_entry [OF e(1)] Cons.prems(4) [of obj] by auto
  have "\<exists>od1'. insert_objects h (map saved_object objs) (od_insert (xo_index obj) e' od') = Inr od1' \<and>
      (\<forall>i. map_option without_support (bt_get (entries od1') i) = map_option without_support (bt_get (entries od1) i))"
    by (rule Cons.IH [OF e(2)]) (use Cons.prems e'(2) in \<open>simp_all add: od_insert_def\<close>)
  moreover have "xo_index (saved_object obj) = xo_index obj" by (simp add: saved_object_def)
  ultimately show ?case using e'(1) by simp
qed auto

subsection \<open>Properties\<close>



end
