(* ===== verification/Spec2Isabelle.thy ===== *)
theory Spec2Isabelle
  imports Frames Dll_Machines Dll_Errors Od_Props Od_Storage Nmt_Machines Sdo_Transfers Sdo_Client_Props
    Sdo_Embedded Cn_Answers Pdo_Transfer Mn_Theorems Network Od_Default Xdc_Od
begin

text \<open>
  \<^bold>\<open>A verified model of the core of powerlink-rs.\<close>

  powerlink-rs implements the Ethernet POWERLINK protocol. The crate
  \<^verbatim>\<open>src/crates/powerlink-rs\<close> holds the protocol; every file named below is relative to its
  \<^verbatim>\<open>src\<close> directory. A node receives Ethernet frames, decodes them (\<^verbatim>\<open>frame\<close>), feeds the events they
  raise to a DLL state machine that watches the order of the cycle and to an NMT state machine
  that holds the boot-up state (\<^verbatim>\<open>nmt\<close>), counts errors, and answers with frames built from its
  object dictionary (\<^verbatim>\<open>od\<close>), a map from indices to values that also mirrors the NMT state and
  persists parameters through a storage back end. Cyclic frames carry process data along the
  mappings of the dictionary (\<^verbatim>\<open>pdo\<close>, \<^verbatim>\<open>node/pdo_handler.rs\<close>); single objects are read and written by SDO
  (\<^verbatim>\<open>sdo\<close>), over UDP, in ASnd frames or embedded in process data. The controlled node of \<^verbatim>\<open>node/cn\<close>
  and the managing node of \<^verbatim>\<open>node/mn\<close> tie these parts together, each behind its function \<^verbatim>\<open>run_cycle\<close>. The managing
  node drives the cycle: it identifies the nodes of its configuration, polls them, grants the asynchronous slot and
  takes the network through the boot-up.

  \<^bold>\<open>Theories and the code they model.\<close>

  \<^item> \<open>PL_Prelude\<close>: machine integers as words, \<^verbatim>\<open>PowerlinkError\<close> of \<^verbatim>\<open>hal.rs\<close>, results as sums
    with the error on the left, octet buffers and little-endian codes. Buffers that the code
    mutates are passed and returned; a slice access the code would panic on is excluded by the
    length guards that the definitions keep.
  \<^item> \<open>PL_Types\<close>: \<^verbatim>\<open>types.rs\<close>, \<^verbatim>\<open>common.rs\<close>, \<^verbatim>\<open>frame/basic.rs\<close>. The locale \<open>u8_enum\<close> is the contract of
    every enumeration with a code of one octet and a checked conversion back.
  \<^item> \<open>BTree_Map\<close>: \<^verbatim>\<open>BTreeMap\<close> as a sorted association list, with the locale \<open>ordered_map\<close>.
  \<^item> \<open>Nmt_States\<close>: \<^verbatim>\<open>nmt/{states,events,flags}.rs\<close>.
  \<^item> \<open>Dll_Errors\<close>: \<^verbatim>\<open>frame/error/{types,counters,manager}.rs\<close>. The locale \<open>error_counters\<close> is the
    trait of the counters that the generic manager uses; it is interpreted for both kinds of node.
  \<^item> \<open>Dll_Machines\<close>: \<^verbatim>\<open>frame/{cs,ms}_state_machine.rs\<close>.
  \<^item> \<open>Frame_Codec\<close>: the frames of \<^verbatim>\<open>frame/control\<close> and \<^verbatim>\<open>frame/poll\<close>; the locale \<open>frame_codec\<close> is the
    trait \<^verbatim>\<open>Codec\<close> with its round-trip and bounds laws, interpreted for each of the five frames.
    \<open>Frames\<close>: \<^verbatim>\<open>frame/{mod,codec}.rs\<close> and \<^verbatim>\<open>serialize_frame_action\<close> of \<^verbatim>\<open>node/mod.rs\<close>.
  \<^item> \<open>Utf8\<close>, \<open>Object_Value\<close>, \<open>Pdo_Mapping\<close>: the strings of the standard library that the code
    converts, \<^verbatim>\<open>od/value.rs\<close>, \<^verbatim>\<open>pdo/{mapping,error}.rs\<close>. Floating-point values are their bit patterns.
  \<^item> \<open>Object_Dictionary\<close>: \<^verbatim>\<open>od/{entry,mod,commands,storage,predefined,pdo_validator}.rs\<close>. The storage
    trait of \<^verbatim>\<open>hal.rs\<close> is a record of functions on a state of any type. \<open>Od_Props\<close> proves its
    operations to satisfy the locale \<open>object_store\<close>; \<open>Od_Storage\<close> is about persistence and resets.
  \<^item> \<open>Nmt_Machines\<close>: \<^verbatim>\<open>nmt/{state_machine,cn_state_machine,mn_state_machine}.rs\<close>. The locale
    \<open>nmt_machine\<close> holds what the provided methods of the trait give for any machine.
  \<^item> \<open>Payload_Codec\<close>: the locales \<open>payload_writer\<close> and \<open>payload_codec\<close>, the contract of everything that is
    written into a payload and read back. \<open>Asnd_Payloads\<close>: \<^verbatim>\<open>frame/control/{ident_response,status_response}.rs\<close>
    and \<^verbatim>\<open>frame/error/status_response.rs\<close>.
  \<^item> \<open>Sdo_Codec\<close>: \<^verbatim>\<open>sdo/{sequence,asnd,udp,embedded}.rs\<close> and \<^verbatim>\<open>sdo/command\<close>. \<open>Sdo_Server\<close>:
    \<^verbatim>\<open>sdo/{server,sequence_handler,handlers,state,transport}.rs\<close>, with the application's command handler as a
    record of functions and its contract as the locale \<open>command_handler\<close>. \<open>Sdo_Server_Props\<close> holds the
    invariant of reachable servers, \<open>Sdo_Transfers\<close> complete reads and writes.
  \<^item> \<open>Sdo_Client\<close>, \<open>Sdo_Client_Props\<close>: \<^verbatim>\<open>sdo/{client,client_connection,client_manager}.rs\<close>.
    \<open>Sdo_Embedded\<close>: \<^verbatim>\<open>sdo/{embedded_server,embedded_client}.rs\<close>. A panic of the client is the value \<open>None\<close>.
  \<^item> \<open>Pdo_Handler\<close>: \<^verbatim>\<open>node/pdo_handler.rs\<close> and the common context of \<^verbatim>\<open>node/mod.rs\<close>. \<open>Pdo_Props\<close> and
    \<open>Pdo_Transfer\<close> are about what process data change and that they arrive.
  \<^item> \<open>Cn_Payload\<close>: \<^verbatim>\<open>node/cn/{state,payload}.rs\<close>, \<^verbatim>\<open>od/error_history.rs\<close>. \<open>Cn_Node\<close>:
    \<^verbatim>\<open>node/cn/{events,tick,main}.rs\<close>, one definition for each section of the long functions, with the feature
    \<^verbatim>\<open>sdo-udp\<close>. \<open>Od_Sound\<close>: soundness of the dictionary under everything a node does to it.
    \<open>Cn_Props\<close>: the locale \<open>cn_invariant\<close>, which lifts an invariant of the operations of a node to
    \<open>run_cycle\<close>, and the reachable nodes. \<open>Cn_Answers\<close>: what a node sends and how it is decoded.
  \<^item> \<open>Binary_Heap\<close>: \<^verbatim>\<open>BinaryHeap\<close> of the standard library, as the array of its elements, with the locale of what a priority
    queue promises. \<open>Mn_State\<close>: \<^verbatim>\<open>node/mn/{state,config,validation}.rs\<close>. \<open>Mn_Payload\<close>: \<^verbatim>\<open>node/mn/payload.rs\<close>. \<open>Mn_Scheduler\<close>:
    \<^verbatim>\<open>node/mn/scheduler.rs\<close>. \<open>Mn_Node\<close>: \<^verbatim>\<open>node/mn/{cycle,events,tick,main}.rs\<close>.
  \<^item> \<open>Mn_Sched_Props\<close>: the scheduler against its reference definitions. \<open>Mn_Props\<close> and \<open>Mn_Run\<close>: the locale \<open>mn_invariant\<close>, which
    lifts an invariant of the operations of the managing node to its cycle function, with what it sends on the way.
    \<open>Mn_Inv\<close>, \<open>Mn_Boot\<close>: its interpretations, the well-formedness of the state and what the node has heard of each other
    node; \<open>Mn_Reach\<close>: the reachable states with the history of the received frames. \<open>Mn_Example\<close>: evaluated runs.
    \<open>Mn_Theorems\<close>, \<open>Mn_Handshake\<close>: the properties of the managing node alone and of its exchange with a controlled node.
  \<^item> \<open>Network\<close>: a managing node and any number of controlled nodes, with frames that may be lost, late or repeated.
  \<^item> \<open>Od_Default\<close>: the dictionaries of \<^verbatim>\<open>od/utils.rs\<close>, and that nodes made from them identify each other.

  \<^item> \<open>Xdc_Strings\<close>, \<open>Xdc_Converter\<close>, \<open>Xdc_Props\<close>, \<open>Xdc_Od\<close>: device configuration files, the crate
    \<^verbatim>\<open>src/crates/powerlink-rs-xdc\<close>. The numbers and hexadecimal formats of the standard library with
    \<^verbatim>\<open>parser.rs\<close>; the public types of \<^verbatim>\<open>types.rs\<close> and \<^verbatim>\<open>converter.rs\<close>, which makes a dictionary, a storage map
    and the NMT settings from them; the schema structs with \<^verbatim>\<open>resolver/od.rs\<close> and \<^verbatim>\<open>builder/mod.rs\<close>, which load and save the
    objects. The decoder of the crate \<^verbatim>\<open>hex\<close> is a parameter of which nothing is assumed.

  \<^bold>\<open>What the theorems show.\<close>

  \<^item> Frames: each serializer stays inside its buffer and succeeds exactly when the frame fits; a
    frame that is sent is decoded to itself; whatever is accepted can be sent again.
  \<^item> DLL: the error-free runs of the controlled node's machine are exactly the undisturbed cycles;
    the saturating threshold counter refines a counter over the naturals; the manager's log holds
    exactly the signalled errors; the end of an error state is reported once.
  \<^item> Object dictionary: a write changes one sub-index to the value that was written or nothing,
    and keeps all types; access rights hold; accepted PDO mappings fit; values survive their
    encoding; stored parameters come back at the next boot; resets touch only their range.
  \<^item> NMT: object 0x1F8C equals the NMT state along every run of a machine; Operational is reached only
    through the steps of the boot-up in their order.
  \<^item> SDO: every answer of a reachable server on UDP can be sent and decodes to what the server said; no
    request leaves the structure of the dictionary; reads of any length deliver the value, expedited
    writes are dictionary writes, a configuration download writes the entries of its file and ends; an
    embedded write takes effect once however often it is delivered. Three theorems show transfers that
    fail: answers over ASnd, downloads in segments, and the client of the crate with its server.
  \<^item> Process data: with linked mappings the payload of a sender gives every receiving object the value of
    its source and changes nothing else.
  \<^item> Controlled node: whatever it receives, it sends an Ethernet frame only when it is polled, its
    dictionary stays sound and its emergency queue within its capacity; its IdentResponse and a
    StatusResponse with entries arrive as built. It never becomes operational, since nothing raises the
    event that its configuration is complete.
  \<^item> Managing node: it is in a state of the boot-up only if every mandatory node has been heard, has reported its state and has
    sent a PRes, as that state requires; all it sends decodes, PReqs go to configured isochronous nodes only, requests to configured
    nodes only; a cycle polls exactly the due nodes in their order; the asynchronous slot goes to the request of the highest
    priority, after everything else; the search for unidentified nodes finds the next one, and the one case is stated in
    which it does not return. An IdentResponse is accepted with exactly its identity, also between default dictionaries.
  \<^item> Network: in a network of these nodes no isochronous node is ever polled, since polls wait for the state that only a
    poll reports.
  \<^item> Configuration files: the dictionary made from a file is sound and reads as the file says; its storage map changes
    nothing at the next boot; saving and loading keeps a part that is stated exactly; no object of a file is
    saved by the store command, whatever its persistence.

  \<^bold>\<open>Bounds.\<close> No fuel is used. Every definition is total but the search of the managing node for a node to identify,
  a \<^verbatim>\<open>loop\<close> that may run forever and is a \<open>partial_function\<close>: a call of the node that does not return is \<open>None\<close>. Lengths are natural numbers; where the code
  computes in a fixed width the model does, with the wrapping arithmetic of a release build. Theorems
  that speak of octet sub-indices assume objects of at most 254 elements (\<open>small_od\<close>), since the code
  numbers them modulo 256. The capacity of the emergency queue is a parameter of at least ten, which is what
  \<^verbatim>\<open>VecDeque::with_capacity\<close> promises.

  \<^bold>\<open>Not modelled.\<close> Logging, \<^verbatim>\<open>Display\<close> texts, the network interface (I/O), the drivers and
  the monitor; of the configuration crate the XML library and the blocks other than the object dictionary.
\<close>

end
